(* ===== verification/Quicer_Prelude.thy ===== *)
theory Quicer_Prelude
  imports Main "HOL-Library.Word"
begin

section \<open>Prelude: names, effects and shared lemmas\<close>

text \<open>
  The vocabulary every component of the NIF library shares: machine words and C
  pointers, Erlang terms, the resources and mutexes the library owns, the calls it makes
  into the QUIC stack, and the ordered list of effects a NIF or a callback performs.

  A C function is modelled as a HOL function from its arguments (and the context record it
  was handed) to its return value, the updated record and the effects in the order the C
  code performs them. An outcome \<open>None\<close> is a run that stops in undefined behaviour
  (a NULL dereference, a failed \<open>assert\<close>): see \<open>c_assert\<close>.
\<close>

unbundle bit_operations_syntax

named_theorems eff_simps \<open>projections over effect lists\<close>
named_theorems nif_defs \<open>definitions of the small helper functions of the NIF library\<close>

subsection \<open>Machine integers and pointers\<close>

type_synonym u8 = "8 word"
type_synonym u16 = "16 word"
type_synonym u32 = "32 word"
type_synonym u64 = "64 word"

text \<open>An MsQuic handle; a C variable that holds one is \<open>hquic option\<close>, NULL is \<open>None\<close>.\<close>
type_synonym hquic = nat
type_synonym pid = nat
type_synonym bytes = "u8 list"

abbreviation INT16_MAX :: int where "INT16_MAX \<equiv> 32767"
abbreviation INT16_MIN :: int where "INT16_MIN \<equiv> - 32768"
abbreviation UINT8_MAX :: int where "UINT8_MAX \<equiv> 255"
abbreviation UINT16_MAX :: int where "UINT16_MAX \<equiv> 65535"
abbreviation UINT32_MAX :: int where "UINT32_MAX \<equiv> 4294967295"

subsection \<open>Resources, mutexes and heap blocks\<close>

text \<open>The five resource types opened in \<open>on_load\<close>; the number is the address of the block.\<close>
datatype rsrc = RReg nat | RConfig nat | RListener nat | RConn nat | RStream nat

text \<open>The \<open>lock\<close> field of each context, and the \<open>Lock\<close> of its acceptor queue.\<close>
datatype mutex = LockOf rsrc | QueueLockOf rsrc

text \<open>Process-independent environments: \<open>env\<close> and \<open>imm_env\<close> of a context, and of a send context.\<close>
datatype nifenv = EnvOf rsrc | ImmEnvOf rsrc | EnvSend nat | EnvDgramSend nat

text \<open>Heap blocks obtained from \<open>CXPLAT_ALLOC_NONPAGED\<close>, \<open>malloc\<close> or OpenSSL.\<close>
datatype mem =
    MAcceptor nat
  | MAcceptorQueue rsrc
  | MSendCtx nat
  | MDgramSendCtx nat
  | MResumptionTicket bytes
  | MTlsSecrets
  | MKeylogFile string
  | MCacertFile string
  | MOptBuff
  | MString string
  | MCertFile
  | MX509 nat
  | MX509Store nat

subsection \<open>Erlang terms\<close>

text \<open>
  \<open>EInvalid\<close> is the value of an \<open>ERL_NIF_TERM\<close> variable that was never assigned
  (a zero word), which is no Erlang term. An Erlang string is a list of integers.
\<close>

datatype eterm =
    Atom string
  | EInt int
  | EBin bytes
  | EList "eterm list"
  | ETuple "eterm list"
  | EMap "(eterm \<times> eterm) list"
  | EPid pid
  | ERes rsrc
  | EInvalid

abbreviation EStr :: "string \<Rightarrow> eterm" where
  "EStr s \<equiv> EList (map (\<lambda>c. EInt (of_char c)) s)"

subsection \<open>Calls into the QUIC stack\<close>

datatype quic_callback =
    ClientConnectionCb | ServerConnectionCb | ClientStreamCb | ServerStreamCb | ServerListenerCb

text \<open>The parameters the library reads or writes, and the 0 a \<open>uint32_t Param\<close> starts with.\<close>

datatype quic_param =
    QUIC_PARAM_NONE
  | QUIC_PARAM_CONFIGURATION_SETTINGS
  | QUIC_PARAM_CONN_CLOSE_REASON_PHRASE
  | QUIC_PARAM_CONN_DATAGRAM_RECEIVE_ENABLED
  | QUIC_PARAM_CONN_DATAGRAM_SEND_ENABLED
  | QUIC_PARAM_CONN_DISABLE_1RTT_ENCRYPTION
  | QUIC_PARAM_CONN_IDEAL_PROCESSOR
  | QUIC_PARAM_CONN_LOCAL_ADDRESS
  | QUIC_PARAM_CONN_LOCAL_BIDI_STREAM_COUNT
  | QUIC_PARAM_CONN_LOCAL_INTERFACE
  | QUIC_PARAM_CONN_LOCAL_UNIDI_STREAM_COUNT
  | QUIC_PARAM_CONN_MAX_STREAM_IDS
  | QUIC_PARAM_CONN_PEER_CERTIFICATE_VALID
  | QUIC_PARAM_CONN_QUIC_VERSION
  | QUIC_PARAM_CONN_REMOTE_ADDRESS
  | QUIC_PARAM_CONN_RESUMPTION_TICKET
  | QUIC_PARAM_CONN_SETTINGS
  | QUIC_PARAM_CONN_SHARE_UDP_BINDING
  | QUIC_PARAM_CONN_STATISTICS
  | QUIC_PARAM_CONN_STATISTICS_PLAT
  | QUIC_PARAM_CONN_STREAM_SCHEDULING_SCHEME
  | QUIC_PARAM_CONN_TLS_SECRETS
  | QUIC_PARAM_GLOBAL_LIBRARY_GIT_HASH
  | QUIC_PARAM_GLOBAL_LOAD_BALACING_MODE
  | QUIC_PARAM_GLOBAL_PERF_COUNTERS
  | QUIC_PARAM_GLOBAL_RETRY_MEMORY_PERCENT
  | QUIC_PARAM_GLOBAL_SETTINGS
  | QUIC_PARAM_GLOBAL_SUPPORTED_VERSIONS
  | QUIC_PARAM_GLOBAL_VERSION_SETTINGS
  | QUIC_PARAM_LISTENER_CIBIR_ID
  | QUIC_PARAM_LISTENER_LOCAL_ADDRESS
  | QUIC_PARAM_LISTENER_STATS
  | QUIC_PARAM_STREAM_0RTT_LENGTH
  | QUIC_PARAM_STREAM_ID
  | QUIC_PARAM_STREAM_IDEAL_SEND_BUFFER_SIZE
  | QUIC_PARAM_STREAM_PRIORITY
  | QUIC_PARAM_TLS_HANDSHAKE_INFO
  | QUIC_PARAM_TLS_NEGOTIATED_ALPN

text \<open>
  The fields of \<open>QUIC_SETTINGS\<close> the library touches. A settings block is its
  \<open>IsSet\<close> bits and its values.
\<close>

datatype setting =
    S_MaxBytesPerKey
  | S_HandshakeIdleTimeoutMs
  | S_IdleTimeoutMs
  | S_TlsClientMaxSendBuffer
  | S_TlsServerMaxSendBuffer
  | S_StreamRecvWindowDefault
  | S_StreamRecvBufferDefault
  | S_ConnFlowControlWindow
  | S_MaxWorkerQueueDelayUs
  | S_MaxStatelessOperations
  | S_InitialWindowPackets
  | S_SendIdleTimeoutMs
  | S_InitialRttMs
  | S_MaxAckDelayMs
  | S_DisconnectTimeoutMs
  | S_KeepAliveIntervalMs
  | S_PeerBidiStreamCount
  | S_PeerUnidiStreamCount
  | S_MaxOperationsPerDrain
  | S_SendBufferingEnabled
  | S_PacingEnabled
  | S_MigrationEnabled
  | S_DatagramReceiveEnabled
  | S_ServerResumptionLevel
  | S_MtuDiscoverySearchCompleteTimeoutUs
  | S_MinimumMtu
  | S_MaximumMtu
  | S_MtuDiscoveryMissingProbeCount
  | S_MaxBindingStatelessOperations
  | S_StatelessOperationExpirationMs

record QUIC_SETTINGS =
  IsSet :: "setting \<Rightarrow> bool"
  Val :: "setting \<Rightarrow> u64"

text \<open>
  A \<open>QUIC_ADDR\<close>: the family, and the bytes of port and address in memory order
  (network byte order, as the socket structures hold them).
\<close>

datatype addr_family = AF_UNSPEC | AF_INET | AF_INET6

record QUIC_ADDR =
  sa_family :: addr_family
  sin_port :: "u8 \<times> u8"
  sin_addr :: bytes

text \<open>What the stack reports of a TLS handshake; enumerations keep a case for other numbers.\<close>

datatype QUIC_TLS_PROTOCOL_VERSION = QUIC_TLS_PROTOCOL_UNKNOWN | QUIC_TLS_PROTOCOL_1_3 | QUIC_TLS_PROTOCOL_OTHER int

datatype QUIC_CIPHER_ALGORITHM =
    QUIC_CIPHER_ALGORITHM_NONE
  | QUIC_CIPHER_ALGORITHM_AES_128
  | QUIC_CIPHER_ALGORITHM_AES_256
  | QUIC_CIPHER_ALGORITHM_CHACHA20
  | QUIC_CIPHER_ALGORITHM_OTHER int

datatype QUIC_HASH_ALGORITHM =
    QUIC_HASH_ALGORITHM_NONE
  | QUIC_HASH_ALGORITHM_SHA_256
  | QUIC_HASH_ALGORITHM_SHA_384
  | QUIC_HASH_ALGORITHM_OTHER int

datatype QUIC_KEY_EXCHANGE_ALGORITHM = QUIC_KEY_EXCHANGE_ALGORITHM_NONE | QUIC_KEY_EXCHANGE_ALGORITHM_OTHER int

datatype QUIC_CIPHER_SUITE =
    QUIC_CIPHER_SUITE_TLS_AES_128_GCM_SHA256
  | QUIC_CIPHER_SUITE_TLS_AES_256_GCM_SHA384
  | QUIC_CIPHER_SUITE_TLS_CHACHA20_POLY1305_SHA256
  | QUIC_CIPHER_SUITE_OTHER int

record QUIC_HANDSHAKE_INFO =
  TlsProtocolVersion :: QUIC_TLS_PROTOCOL_VERSION
  CipherAlgorithm :: QUIC_CIPHER_ALGORITHM
  CipherStrength :: int
  HashAlgorithm :: QUIC_HASH_ALGORITHM
  HashStrength :: int
  KeyExchangeAlgorithm :: QUIC_KEY_EXCHANGE_ALGORITHM
  KeyExchangeStrength :: int
  CipherSuite :: QUIC_CIPHER_SUITE

text \<open>
  Credentials for the stack: the certificate file, the key file, and the password of a
  protected key.
\<close>

datatype QUIC_CREDENTIAL_TYPE =
    QUIC_CREDENTIAL_TYPE_NONE
  | QUIC_CREDENTIAL_TYPE_CERTIFICATE_FILE string string
  | QUIC_CREDENTIAL_TYPE_CERTIFICATE_FILE_PROTECTED string string string

record QUIC_CREDENTIAL_CONFIG =
  cred_Type :: QUIC_CREDENTIAL_TYPE
  cred_Flags :: u32

datatype QUIC_EXECUTION_PROFILE =
    QUIC_EXECUTION_PROFILE_LOW_LATENCY
  | QUIC_EXECUTION_PROFILE_TYPE_MAX_THROUGHPUT
  | QUIC_EXECUTION_PROFILE_TYPE_SCAVENGER
  | QUIC_EXECUTION_PROFILE_TYPE_REAL_TIME

text \<open>What a parameter buffer can hold.\<close>

datatype quic_buf =
    BufU8 u8
  | BufU16 u16
  | BufU32 u32
  | BufU64 u64
  | BufBool bool
  | BufBytes bytes
  | BufSettings QUIC_SETTINGS
  | BufAddr QUIC_ADDR
  | BufTlsSecrets
  | BufStatistics "u64 list"
  | BufListenerStats u64 u64 u64
  | BufStreamIds "u64 list"
  | BufCounters "string \<Rightarrow> u64"
  | BufHandshakeInfo QUIC_HANDSHAKE_INFO

datatype qcall =
    StreamOpen "hquic option" u32 quic_callback rsrc
  | StreamStart "hquic option" u32
  | StreamSend "hquic option" bytes u32 nat
  | StreamShutdown "hquic option" u32 u64
  | StreamClose "hquic option"
  | StreamReceiveComplete "hquic option" u64
  | StreamReceiveSetEnabled "hquic option" bool
  | SetCallbackHandler "hquic option" quic_callback rsrc
  | ConnectionOpen "hquic option" quic_callback rsrc
  | ConnectionClose "hquic option"
  | ConnectionShutdown "hquic option" u32 u64
  | ConnectionStart "hquic option" "hquic option" string int
  | ConnectionSetConfiguration "hquic option" "hquic option"
  | ConnectionSendResumptionTicket "hquic option"
  | DatagramSend "hquic option" bytes nat
  | ListenerOpen "hquic option" quic_callback rsrc
  | ListenerStart "hquic option" "string list" QUIC_ADDR
  | ListenerStop "hquic option"
  | ListenerClose "hquic option"
  | ConfigurationOpen "hquic option" "string list" QUIC_SETTINGS
  | ConfigurationLoadCredential "hquic option" QUIC_CREDENTIAL_CONFIG
  | ConfigurationClose "hquic option"
  | RegistrationOpen string QUIC_EXECUTION_PROFILE
  | RegistrationShutdown "hquic option" bool u64
  | RegistrationClose "hquic option"
  | SetParam "hquic option" quic_param u32 quic_buf
  | GetParam "hquic option" quic_param u32
  | MsQuicOpen
  | MsQuicClose

subsection \<open>Effects\<close>

datatype eff =
    Lock mutex
  | Unlock mutex
  | Send pid eterm
  | Quic qcall
  | Keep rsrc
  | Release rsrc
  | Monitor rsrc pid
  | Demonitor rsrc
  | ClearEnv nifenv
  | FreeEnv nifenv
  | Free mem
  | MutexDestroy mutex
  | UpRef mem
  | AppendFile string string

text \<open>
  The messages a run sends, and the calls it makes, each in order. \<open>Send p t\<close> is a call of
  \<open>enif_send\<close>; whether the process is there to receive it is \<open>enif_send E p t\<close>.
\<close>

fun msgs :: "eff list \<Rightarrow> (pid \<times> eterm) list" where
  "msgs [] = []"
| "msgs (Send p t # es) = (p, t) # msgs es"
| "msgs (_ # es) = msgs es"

fun quic_calls :: "eff list \<Rightarrow> qcall list" where
  "quic_calls [] = []"
| "quic_calls (Quic q # es) = q # quic_calls es"
| "quic_calls (_ # es) = quic_calls es"

fun frees :: "eff list \<Rightarrow> mem list" where
  "frees [] = []"
| "frees (Free m # es) = m # frees es"
| "frees (_ # es) = frees es"

fun releases :: "eff list \<Rightarrow> rsrc list" where
  "releases [] = []"
| "releases (Release r # es) = r # releases es"
| "releases (_ # es) = releases es"

fun keeps :: "eff list \<Rightarrow> rsrc list" where
  "keeps [] = []"
| "keeps (Keep r # es) = r # keeps es"
| "keeps (_ # es) = keeps es"

lemma msgs_append [simp, eff_simps]: "msgs (xs @ ys) = msgs xs @ msgs ys"
  by (induction xs rule: msgs.induct) auto

lemma quic_calls_append [simp, eff_simps]: "quic_calls (xs @ ys) = quic_calls xs @ quic_calls ys"
  by (induction xs rule: quic_calls.induct) auto

lemma frees_append [simp, eff_simps]: "frees (xs @ ys) = frees xs @ frees ys"
  by (induction xs rule: frees.induct) auto

lemma releases_append [simp, eff_simps]: "releases (xs @ ys) = releases xs @ releases ys"
  by (induction xs rule: releases.induct) auto

lemma keeps_append [simp, eff_simps]: "keeps (xs @ ys) = keeps xs @ keeps ys"
  by (induction xs rule: keeps.induct) auto

text \<open>
  The lock discipline of a run: \<open>locked es held\<close> is the list of mutexes held after
  \<open>es\<close>, \<open>None\<close> if a mutex is unlocked that is not held or locked again while it is
  (the mutexes of the Erlang runtime are not recursive).
\<close>

fun lock_run :: "mutex list \<Rightarrow> eff list \<Rightarrow> mutex list option" where
  "lock_run held [] = Some held"
| "lock_run held (Lock m # es) = (if m \<in> set held then None else lock_run (m # held) es)"
| "lock_run held (Unlock m # es) = (if m \<in> set held then lock_run (remove1 m held) es else None)"
| "lock_run held (_ # es) = lock_run held es"

definition balanced :: "eff list \<Rightarrow> bool" where
  "balanced es \<longleftrightarrow> lock_run [] es = Some []"

lemma lock_run_append [eff_simps]:
  "lock_run held (xs @ ys) = (case lock_run held xs of None \<Rightarrow> None | Some h \<Rightarrow> lock_run h ys)"
  by (induction held xs rule: lock_run.induct) auto

text \<open>An effect that touches no mutex leaves the set of held mutexes alone.\<close>

fun is_lock_eff :: "eff \<Rightarrow> bool" where
  "is_lock_eff (Lock m) = True"
| "is_lock_eff (Unlock m) = True"
| "is_lock_eff _ = False"

lemma lock_run_no_lock: "\<forall>e \<in> set es. \<not> is_lock_eff e \<Longrightarrow> lock_run held es = Some held"
  by (induction held es rule: lock_run.induct) auto

definition no_locks :: "eff list \<Rightarrow> bool" where
  "no_locks es \<longleftrightarrow> (\<forall>e \<in> set es. \<not> is_lock_eff e)"

lemma no_locks_simps [simp]:
  "no_locks []" "no_locks (e # es) \<longleftrightarrow> \<not> is_lock_eff e \<and> no_locks es"
  "no_locks (xs @ ys) \<longleftrightarrow> no_locks xs \<and> no_locks ys"
  by (auto simp: no_locks_def)

lemma lock_run_no_locks: "no_locks es \<Longrightarrow> lock_run h es = Some h"
  by (simp add: no_locks_def lock_run_no_lock)

lemma balanced_append: "balanced xs \<Longrightarrow> balanced ys \<Longrightarrow> balanced (xs @ ys)"
  by (simp add: balanced_def lock_run_append)

lemma balanced_no_locks: "no_locks es \<Longrightarrow> balanced es"
  by (simp add: balanced_def lock_run_no_locks)

lemma balanced_section:
  "no_locks es \<Longrightarrow> balanced (Lock m # es @ [Unlock m])"
  by (simp add: balanced_def lock_run_append lock_run_no_locks)

subsection \<open>The return codes of the QUIC stack\<close>

text \<open>
  The status codes the library names, and every other code by its number. Their numeric
  values are a matter of the platform (\<open>msquic_linux.h\<close>), not of this code.
\<close>

datatype quic_status =
    QUIC_STATUS_SUCCESS
  | QUIC_STATUS_PENDING
  | QUIC_STATUS_CONTINUE
  | QUIC_STATUS_OUT_OF_MEMORY
  | QUIC_STATUS_INVALID_PARAMETER
  | QUIC_STATUS_INVALID_STATE
  | QUIC_STATUS_NOT_SUPPORTED
  | QUIC_STATUS_NOT_FOUND
  | QUIC_STATUS_BUFFER_TOO_SMALL
  | QUIC_STATUS_HANDSHAKE_FAILURE
  | QUIC_STATUS_ABORTED
  | QUIC_STATUS_ADDRESS_IN_USE
  | QUIC_STATUS_CONNECTION_TIMEOUT
  | QUIC_STATUS_CONNECTION_IDLE
  | QUIC_STATUS_INTERNAL_ERROR
  | QUIC_STATUS_CONNECTION_REFUSED
  | QUIC_STATUS_PROTOCOL_ERROR
  | QUIC_STATUS_VER_NEG_ERROR
  | QUIC_STATUS_UNREACHABLE
  | QUIC_STATUS_TLS_ERROR
  | QUIC_STATUS_BAD_CERTIFICATE
  | QUIC_STATUS_USER_CANCELED
  | QUIC_STATUS_ALPN_NEG_FAILURE
  | QUIC_STATUS_STREAM_LIMIT_REACHED
  | QUIC_STATUS_CERT_EXPIRED
  | QUIC_STATUS_CERT_UNTRUSTED_ROOT
  | QUIC_STATUS_CODE u32

subsection \<open>The Erlang runtime and the QUIC stack as parameters\<close>

text \<open>
  What the NIF interface of the runtime system answers. Each field is named after the
  \<open>enif\<close> function it stands for; an out-parameter filled on success is an option.
  \<open>ndebug\<close> says whether the library is compiled with \<open>NDEBUG\<close>, and \<open>alloc_ok\<close>
  whether the named allocation returns memory. \<open>stale_reads\<close> says whether a read through a
  pointer to memory whose lifetime has ended, a local variable of a block that was left or
  a buffer that was handed back, still finds what was there; C promises nothing of the kind.
  \<open>enif_get_string\<close> gives the number the
  function returns (0 for a term that is no string, negative for one that was cut off) and
  the characters it wrote.
\<close>

record enif =
  ndebug :: bool
  stale_reads :: bool
  alloc_ok :: "string \<Rightarrow> bool"
  enif_get_int :: "eterm \<Rightarrow> int option"
  enif_get_uint :: "eterm \<Rightarrow> u32 option"
  enif_get_uint64 :: "eterm \<Rightarrow> u64 option"
  enif_get_string :: "eterm \<Rightarrow> nat \<Rightarrow> int \<times> string"
  enif_get_map_value :: "eterm \<Rightarrow> eterm \<Rightarrow> eterm option"
  enif_get_list :: "eterm \<Rightarrow> eterm list option"
  enif_is_map :: "eterm \<Rightarrow> bool"
  enif_is_list :: "eterm \<Rightarrow> bool"
  enif_is_integer :: "eterm \<Rightarrow> bool"
  enif_is_atom :: "eterm \<Rightarrow> bool"
  enif_inspect_binary :: "eterm \<Rightarrow> bytes option"
  enif_inspect_iolist_as_binary :: "eterm \<Rightarrow> bytes option"
  enif_get_reg :: "eterm \<Rightarrow> nat option"
  enif_get_local_pid :: "eterm \<Rightarrow> pid option"
  enif_self :: "pid option"
  enif_is_process_alive :: "pid \<Rightarrow> bool"
  enif_send :: "pid \<Rightarrow> eterm \<Rightarrow> bool"
  enif_monitor_process :: "rsrc \<Rightarrow> pid \<Rightarrow> int"

text \<open>
  What the QUIC stack answers, and the constants of its headers. \<open>status_of_code\<close>
  reads a number as a status, \<open>code_of_status\<close> gives the number of a status.
\<close>

record msquic =
  quic_failed :: "quic_status \<Rightarrow> bool"
  status_of_code :: "u32 \<Rightarrow> quic_status"
  code_of_status :: "quic_status \<Rightarrow> u64"
  TLS_ERROR_BASE :: u32
  TLS1_AD_UNKNOWN_CA :: int
  TLS13_AD_CERTIFICATE_REQUIRED :: int
  TLS1_AD_CERTIFICATE_UNOBTAINABLE :: int
  TLS1_AD_UNRECOGNIZED_NAME :: int
  TLS1_AD_BAD_CERTIFICATE_STATUS_RESPONSE :: int
  TLS1_AD_BAD_CERTIFICATE_HASH_VALUE :: int
  QUIC_STREAM_OPEN_FLAG_NONE :: u32
  QUIC_STREAM_START_FLAG_NONE :: u32
  QUIC_SEND_FLAG_START :: u32
  QUIC_RECEIVE_FLAG_FIN :: u32
  QUIC_STREAM_SHUTDOWN_FLAG_GRACEFUL :: u32
  QUIC_STREAM_SHUTDOWN_FLAG_ABORT_SEND :: u32
  QUIC_STREAM_SHUTDOWN_FLAG_ABORT_RECEIVE :: u32
  QUIC_STREAM_SHUTDOWN_FLAG_IMMEDIATE :: u32
  QUIC_CONNECTION_SHUTDOWN_FLAG_NONE :: u32
  quic_status_of :: "qcall \<Rightarrow> quic_status"
  quic_handle_of :: "qcall \<Rightarrow> hquic"
  bitfield_width :: "setting \<Rightarrow> nat"
  quic_value_of :: "qcall \<Rightarrow> quic_buf"
  QuicAddr4FromString :: "string \<Rightarrow> QUIC_ADDR option"
  QuicAddr6FromString :: "string \<Rightarrow> QUIC_ADDR option"
  QUIC_CREDENTIAL_FLAG_NONE :: u32
  QUIC_CREDENTIAL_FLAG_CLIENT :: u32
  QUIC_CREDENTIAL_FLAG_NO_CERTIFICATE_VALIDATION :: u32
  QUIC_CREDENTIAL_FLAG_INDICATE_CERTIFICATE_RECEIVED :: u32
  QUIC_CREDENTIAL_FLAG_REQUIRE_CLIENT_AUTHENTICATION :: u32
  QUIC_CREDENTIAL_FLAG_USE_TLS_BUILTIN_CERTIFICATE_VALIDATION :: u32
  QUIC_LOAD_BALANCING_COUNT :: u32
  sizeof_settings :: u32
  sizeof_statistics :: u32
  sizeof_listener_stats :: u32
  sizeof_handshake_info :: u32
  sizeof_perf_counters :: u32
  sizeof_tls_secrets :: u32

text \<open>
  The secrets the stack records for a key log: which of them it has, their bytes, and the
  length of all but the client random.
\<close>

datatype tls_secret =
    ClientRandom
  | ClientEarlyTrafficSecret
  | ClientHandshakeTrafficSecret
  | ServerHandshakeTrafficSecret
  | ClientTrafficSecret0
  | ServerTrafficSecret0

record QUIC_TLS_SECRETS =
  SecretLength :: nat
  SecretIsSet :: "tls_secret \<Rightarrow> bool"
  SecretBytes :: "tls_secret \<Rightarrow> bytes"

text \<open>
  OpenSSL and the platform: certificates, stores, store contexts and stacks of certificates are
  numbered, NULL is \<open>None\<close>.
  \<open>fopen_ab\<close> opens a file for appending and says whether it is empty, \<open>tls_secrets_of\<close>
  reads the secrets block registered for a connection.
\<close>

record openssl =
  X509_dup :: "nat \<Rightarrow> nat option"
  X509_STORE_CTX_get0_untrusted :: "nat \<Rightarrow> nat option"
  X509_verify_cert :: "nat option \<Rightarrow> nat \<Rightarrow> nat option \<Rightarrow> int"
  i2d_X509 :: "nat \<Rightarrow> bytes option"
  X509_STORE_new :: "nat option"
  X509_STORE_add_lookup :: "nat \<Rightarrow> bool"
  X509_LOOKUP_load_file :: "nat \<Rightarrow> string \<Rightarrow> bool"
  EncodeHexBuffer :: "bytes \<Rightarrow> string"
  fopen_ab :: "string \<Rightarrow> bool option"
  dlopen :: "string \<Rightarrow> bool"
  tls_secrets_of :: "rsrc \<Rightarrow> QUIC_TLS_SECRETS"

subsection \<open>Undefined behaviour\<close>

text \<open>
  \<open>c_assert E b r\<close> is \<open>assert(b)\<close> followed by \<open>r\<close>: with \<open>NDEBUG\<close> the
  macro expands to nothing, otherwise a false condition aborts.
\<close>

definition c_assert :: "enif \<Rightarrow> bool \<Rightarrow> 'a option \<Rightarrow> 'a option" where
  "c_assert E b r = (if ndebug E \<or> b then r else None)"

lemma c_assert_True [simp]: "c_assert E True r = r"
  by (simp add: c_assert_def)

lemma c_assert_Some [simp]:
  "(c_assert E b r = Some x) \<longleftrightarrow> (ndebug E \<or> b) \<and> r = Some x"
  by (simp add: c_assert_def)

text \<open>
  \<open>stale_read E r\<close>: going on with \<open>r\<close> needs a read of memory whose lifetime has ended.
\<close>

definition stale_read :: "enif \<Rightarrow> 'a option \<Rightarrow> 'a option" where
  "stale_read E r = (if stale_reads E then r else None)"

lemma stale_read_kept [simp]: "stale_reads E \<Longrightarrow> stale_read E r = r"
  by (simp add: stale_read_def)

lemma stale_read_Some [simp]: "(stale_read E r = Some x) \<longleftrightarrow> stale_reads E \<and> r = Some x"
  by (simp add: stale_read_def)

text \<open>Reading through a pointer that may be NULL.\<close>

definition deref :: "'p option \<Rightarrow> ('p \<Rightarrow> 'a option) \<Rightarrow> 'a option" where
  "deref p k = (case p of None \<Rightarrow> None | Some x \<Rightarrow> k x)"

lemma deref_simps [simp]: "deref None k = None" "deref (Some x) k = k x"
  by (simp_all add: deref_def)

lemma deref_eq_Some [simp]: "(deref p k = Some y) \<longleftrightarrow> (\<exists>x. p = Some x \<and> k x = Some y)"
  by (cases p) auto

subsection \<open>Postconditions\<close>

text \<open>
  \<open>post r P\<close>: whatever a run that may stop in undefined behaviour yields satisfies \<open>P\<close>;
  \<open>holds r P\<close> is the same for a run that always yields a result. The rules of \<open>wp\<close> take a
  body apart along its control flow, one goal per path.
\<close>

named_theorems wp \<open>rules that take a body apart along its control flow\<close>

definition post :: "'a option \<Rightarrow> ('a \<Rightarrow> bool) \<Rightarrow> bool" where
  "post r P \<longleftrightarrow> (\<forall>x. r = Some x \<longrightarrow> P x)"

definition holds :: "'a \<Rightarrow> ('a \<Rightarrow> bool) \<Rightarrow> bool" where
  "holds r P \<longleftrightarrow> P r"

lemma postD: "post r P \<Longrightarrow> r = Some x \<Longrightarrow> P x"
  by (simp add: post_def)

lemma holdsD: "holds r P \<Longrightarrow> r = x \<Longrightarrow> P x"
  by (simp add: holds_def)

lemma post_None [wp]: "post None P"
  by (simp add: post_def)

lemma post_Some [wp]: "P x \<Longrightarrow> post (Some x) P"
  by (simp add: post_def)

lemma post_if [wp]:
  "(b \<Longrightarrow> post r P) \<Longrightarrow> (\<not> b \<Longrightarrow> post r' P) \<Longrightarrow> post (if b then r else r') P"
  by simp

lemma post_c_assert [wp]:
  "(ndebug E \<or> b \<Longrightarrow> post r P) \<Longrightarrow> post (c_assert E b r) P"
  by (simp add: post_def)

lemma post_stale_read [wp]: "(stale_reads E \<Longrightarrow> post r P) \<Longrightarrow> post (stale_read E r) P"
  by (simp add: post_def)

lemma post_deref [wp]:
  "(\<And>x. p = Some x \<Longrightarrow> post (k x) P) \<Longrightarrow> post (deref p k) P"
  by (cases p) (simp_all add: post_def)

lemma post_option [wp]:
  "(p = None \<Longrightarrow> post r P) \<Longrightarrow> (\<And>x. p = Some x \<Longrightarrow> post (k x) P) \<Longrightarrow>
     post (case p of None \<Rightarrow> r | Some x \<Rightarrow> k x) P"
  by (cases p) simp_all

lemma post_prod [wp]:
  "(\<And>a b. p = (a, b) \<Longrightarrow> post (k a b) P) \<Longrightarrow> post (case p of (a, b) \<Rightarrow> k a b) P"
  by (cases p) simp

lemma post_let [wp]: "(\<And>x. x = a \<Longrightarrow> post (k x) P) \<Longrightarrow> post (let x = a in k x) P"
  by simp

lemma post_map_option [wp]: "post r (\<lambda>x. P (f x)) \<Longrightarrow> post (map_option f r) P"
  by (cases r) (simp_all add: post_def)

lemma holds_if [wp]:
  "(b \<Longrightarrow> holds r P) \<Longrightarrow> (\<not> b \<Longrightarrow> holds r' P) \<Longrightarrow> holds (if b then r else r') P"
  by simp

lemma holds_option [wp]:
  "(p = None \<Longrightarrow> holds r P) \<Longrightarrow> (\<And>x. p = Some x \<Longrightarrow> holds (k x) P) \<Longrightarrow>
     holds (case p of None \<Rightarrow> r | Some x \<Rightarrow> k x) P"
  by (cases p) simp_all

lemma holds_prod [wp]:
  "(\<And>a b. p = (a, b) \<Longrightarrow> holds (k a b) P) \<Longrightarrow> holds (case p of (a, b) \<Rightarrow> k a b) P"
  by (cases p) simp

lemma holds_let [wp]: "(\<And>x. x = a \<Longrightarrow> holds (k x) P) \<Longrightarrow> holds (let x = a in k x) P"
  by simp

lemma holds_Pair [wp]: "P (a, b) \<Longrightarrow> holds (a, b) P"
  by (simp add: holds_def)

text \<open>\<open>defined r\<close>: the run does not stop in undefined behaviour.\<close>

named_theorems dwp \<open>rules that show a body defined along its control flow\<close>

definition defined :: "'a option \<Rightarrow> bool" where
  "defined r \<longleftrightarrow> r \<noteq> None"

lemma definedD: "defined r \<Longrightarrow> \<exists>x. r = Some x"
  by (simp add: defined_def)

lemma defined_Some [dwp]: "defined (Some x)"
  by (simp add: defined_def)

lemma defined_None [dwp]: "False \<Longrightarrow> defined None"
  by simp

lemma defined_if [dwp]:
  "(b \<Longrightarrow> defined r) \<Longrightarrow> (\<not> b \<Longrightarrow> defined r') \<Longrightarrow> defined (if b then r else r')"
  by simp

lemma defined_c_assert [dwp]: "ndebug E \<or> b \<Longrightarrow> defined r \<Longrightarrow> defined (c_assert E b r)"
  by (auto simp: c_assert_def)

lemma defined_stale_read [dwp]: "stale_reads E \<Longrightarrow> defined r \<Longrightarrow> defined (stale_read E r)"
  by (simp add: stale_read_def)

lemma defined_deref [dwp]:
  "p \<noteq> None \<Longrightarrow> (\<And>x. p = Some x \<Longrightarrow> defined (k x)) \<Longrightarrow> defined (deref p k)"
  by (cases p) simp_all

lemma defined_option [dwp]:
  "(p = None \<Longrightarrow> defined r) \<Longrightarrow> (\<And>x. p = Some x \<Longrightarrow> defined (k x)) \<Longrightarrow>
     defined (case p of None \<Rightarrow> r | Some x \<Rightarrow> k x)"
  by (cases p) simp_all

lemma defined_prod [dwp]:
  "(\<And>a b. p = (a, b) \<Longrightarrow> defined (k a b)) \<Longrightarrow> defined (case p of (a, b) \<Rightarrow> k a b)"
  by (cases p) simp

lemma defined_let [dwp]: "(\<And>x. x = a \<Longrightarrow> defined (k x)) \<Longrightarrow> defined (let x = a in k x)"
  by simp

end
