(* ===== verification/Quicer_Atoms.thy ===== *)
theory Quicer_Atoms
  imports Quicer_Prelude
begin

section \<open>The atoms of the library\<close>

text \<open>
  The global \<open>ERL_NIF_TERM ATOM_\<dots>\<close> variables of \<open>quicer_nif.c\<close>: the list of their
  declarations, an abbreviation for the atom each holds once \<open>on_load\<close> has run, and the
  table the macro \<open>INIT_ATOMS\<close> walks there, variable by variable. A variable the table
  leaves out keeps the zero word of a C global (\<open>EInvalid\<close>).
\<close>

subsection \<open>Declarations\<close>

definition declared_atoms_1 :: "string list" where
  "declared_atoms_1 =
    [''ATOM_TRUE'',
     ''ATOM_FALSE'',
     ''ATOM_OK'',
     ''ATOM_ERROR'',
     ''ATOM_REG_FAILED'',
     ''ATOM_OPEN_FAILED'',
     ''ATOM_CTX_INIT_FAILED'',
     ''ATOM_BAD_PID'',
     ''ATOM_CONFIG_ERROR'',
     ''ATOM_PARAM_ERROR'',
     ''ATOM_CERT_ERROR'',
     ''ATOM_BAD_MON'',
     ''ATOM_LISTENER_OPEN_ERROR'',
     ''ATOM_LISTENER_START_ERROR'',
     ''ATOM_BADARG'',
     ''ATOM_CONN_OPEN_ERROR'',
     ''ATOM_CONN_START_ERROR'',
     ''ATOM_STREAM_OPEN_ERROR'',
     ''ATOM_STREAM_START_ERROR'',
     ''ATOM_STREAM_SEND_ERROR'',
     ''ATOM_DGRAM_SEND_ERROR'',
     ''ATOM_SOCKNAME_ERROR'',
     ''ATOM_OWNER_DEAD'',
     ''ATOM_NOT_OWNER'',
     ''ATOM_NO_PEERCERT'',
     ''ATOM_ERROR_NO_ERROR'',
     ''ATOM_ERROR_CONTINUE'',
     ''ATOM_ERROR_NOT_READY'',
     ''ATOM_ERROR_NOT_ENOUGH_MEMORY'',
     ''ATOM_ERROR_INVALID_STATE'',
     ''ATOM_ERROR_INVALID_PARAMETER'',
     ''ATOM_ERROR_NOT_SUPPORTED'',
     ''ATOM_ERROR_NOT_FOUND'',
     ''ATOM_ERROR_BUFFER_OVERFLOW'',
     ''ATOM_ERROR_CONNECTION_REFUSED'',
     ''ATOM_ERROR_OPERATION_ABORTED'',
     ''ATOM_ERROR_HANDSHAKE_FAILURE'',
     ''ATOM_ERROR_NETWORK_UNREACHABLE'',
     ''ATOM_ERROR_CONNECTION_IDLE'',
     ''ATOM_ERROR_INTERNAL_ERROR'',
     ''ATOM_ERROR_PROTOCOL_ERROR'',
     ''ATOM_ERROR_VER_NEG_ERROR'',
     ''ATOM_ERROR_EPOLL_ERROR'',
     ''ATOM_ERROR_DNS_RESOLUTION_ERROR'',
     ''ATOM_ERROR_SOCKET_ERROR'',
     ''ATOM_ERROR_SSL_ERROR'',
     ''ATOM_ERROR_USER_CANCELED'',
     ''ATOM_ERROR_ALPN_NEG_FAILURE'',
     ''ATOM_UNKNOWN_STATUS_CODE'',
     ''ATOM_UNKNOWN_TLS_STATUS_CODE'',
     ''ATOM_QUIC_STATUS_SUCCESS'',
     ''ATOM_QUIC_STATUS_PENDING'',
     ''ATOM_QUIC_STATUS_CONTINUE'',
     ''ATOM_QUIC_STATUS_OUT_OF_MEMORY'',
     ''ATOM_QUIC_STATUS_INVALID_PARAMETER'',
     ''ATOM_QUIC_STATUS_INVALID_STATE'',
     ''ATOM_QUIC_STATUS_NOT_SUPPORTED'',
     ''ATOM_QUIC_STATUS_NOT_FOUND'',
     ''ATOM_QUIC_STATUS_BUFFER_TOO_SMALL'',
     ''ATOM_QUIC_STATUS_HANDSHAKE_FAILURE'',
     ''ATOM_QUIC_STATUS_ABORTED'',
     ''ATOM_QUIC_STATUS_ADDRESS_IN_USE'',
     ''ATOM_QUIC_STATUS_CONNECTION_TIMEOUT'',
     ''ATOM_QUIC_STATUS_CONNECTION_IDLE'',
     ''ATOM_QUIC_STATUS_INTERNAL_ERROR'',
     ''ATOM_QUIC_STATUS_CONNECTION_REFUSED'',
     ''ATOM_QUIC_STATUS_PROTOCOL_ERROR'',
     ''ATOM_QUIC_STATUS_VER_NEG_ERROR'',
     ''ATOM_QUIC_STATUS_UNREACHABLE'',
     ''ATOM_QUIC_STATUS_TLS_ERROR'',
     ''ATOM_QUIC_STATUS_USER_CANCELED'',
     ''ATOM_QUIC_STATUS_ALPN_NEG_FAILURE'',
     ''ATOM_QUIC_STATUS_STREAM_LIMIT_REACHED'',
     ''ATOM_QUIC_STATUS_CLOSE_NOTIFY'',
     ''ATOM_QUIC_STATUS_BAD_CERTIFICATE'',
     ''ATOM_QUIC_STATUS_UNSUPPORTED_CERTIFICATE'',
     ''ATOM_QUIC_STATUS_REVOKED_CERTIFICATE'',
     ''ATOM_QUIC_STATUS_EXPIRED_CERTIFICATE'',
     ''ATOM_QUIC_STATUS_UNKNOWN_CERTIFICATE'',
     ''ATOM_QUIC_STATUS_CERT_EXPIRED'',
     ''ATOM_QUIC_STATUS_CERT_UNTRUSTED_ROOT'',
     ''ATOM_QUIC_STATUS_CERT_NO_CERT'',
     ''ATOM_QUIC_STATUS_CERT_REQUIRED'',
     ''ATOM_QUIC_STATUS_CERT_UNOBTAINABLE'',
     ''ATOM_CERT'',
     ''ATOM_CERTFILE'',
     ''ATOM_KEY'',
     ''ATOM_KEYFILE'',
     ''ATOM_PASSWORD'',
     ''ATOM_ALPN'',
     ''ATOM_HANDLE'',
     ''ATOM_VERIFY'',
     ''ATOM_PEER'',
     ''ATOM_NONE'',
     ''ATOM_CACERTFILE'',
     ''ATOM_QUIC_EXECUTION_PROFILE_LOW_LATENCY'',
     ''ATOM_QUIC_EXECUTION_PROFILE_TYPE_MAX_THROUGHPUT'',
     ''ATOM_QUIC_EXECUTION_PROFILE_TYPE_SCAVENGER'',
     ''ATOM_QUIC_EXECUTION_PROFILE_TYPE_REAL_TIME'',
     ''ATOM_QUIC_GLOBAL'',
     ''ATOM_QUIC_PARAM_GLOBAL_RETRY_MEMORY_PERCENT'',
     ''ATOM_QUIC_PARAM_GLOBAL_SUPPORTED_VERSIONS'',
     ''ATOM_QUIC_PARAM_GLOBAL_LOAD_BALACING_MODE'',
     ''ATOM_QUIC_PARAM_GLOBAL_PERF_COUNTERS'',
     ''ATOM_QUIC_PARAM_GLOBAL_SETTINGS'',
     ''ATOM_QUIC_PARAM_GLOBAL_VERSION'',
     ''ATOM_QUIC_PARAM_GLOBAL_LIBRARY_GIT_HASH'',
     ''ATOM_QUIC_REGISTRATION'',
     ''ATOM_QUIC_PARAM_REGISTRATION_CID_PREFIX'',
     ''ATOM_QUIC_CONFIGURATION'',
     ''ATOM_QUIC_PARAM_CONFIGURATION_SETTINGS'',
     ''ATOM_QUIC_PARAM_LISTENER_LOCAL_ADDRESS'',
     ''ATOM_QUIC_PARAM_LISTENER_STATS'',
     ''ATOM_QUIC_PARAM_LISTENER_CIBIR_ID'',
     ''ATOM_QUIC_PARAM_CONN_QUIC_VERSION'']"

definition declared_atoms_2 :: "string list" where
  "declared_atoms_2 =
    [''ATOM_QUIC_PARAM_CONN_LOCAL_ADDRESS'',
     ''ATOM_QUIC_PARAM_CONN_REMOTE_ADDRESS'',
     ''ATOM_QUIC_PARAM_CONN_IDEAL_PROCESSOR'',
     ''ATOM_QUIC_PARAM_CONN_SETTINGS'',
     ''ATOM_QUIC_PARAM_CONN_STATISTICS'',
     ''ATOM_QUIC_PARAM_CONN_STATISTICS_PLAT'',
     ''ATOM_QUIC_PARAM_CONN_SHARE_UDP_BINDING'',
     ''ATOM_QUIC_PARAM_CONN_LOCAL_BIDI_STREAM_COUNT'',
     ''ATOM_QUIC_PARAM_CONN_LOCAL_UNIDI_STREAM_COUNT'',
     ''ATOM_QUIC_PARAM_CONN_MAX_STREAM_IDS'',
     ''ATOM_QUIC_PARAM_CONN_CLOSE_REASON_PHRASE'',
     ''ATOM_QUIC_PARAM_CONN_STREAM_SCHEDULING_SCHEME'',
     ''ATOM_QUIC_PARAM_CONN_DATAGRAM_RECEIVE_ENABLED'',
     ''ATOM_QUIC_PARAM_CONN_DATAGRAM_SEND_ENABLED'',
     ''ATOM_QUIC_PARAM_CONN_DISABLE_1RTT_ENCRYPTION'',
     ''ATOM_QUIC_PARAM_CONN_RESUMPTION_TICKET'',
     ''ATOM_QUIC_PARAM_CONN_PEER_CERTIFICATE_VALID'',
     ''ATOM_QUIC_PARAM_CONN_LOCAL_INTERFACE'',
     ''ATOM_QUIC_TLS'',
     ''ATOM_TLS_PROTOCOL_VERSION'',
     ''ATOM_CIPHER_ALGORITHM'',
     ''ATOM_CIPHER_STRENGTH'',
     ''ATOM_HASH_ALGORITHM'',
     ''ATOM_HASH_STRENGTH'',
     ''ATOM_KEY_EXCHANGE_ALGORITHM'',
     ''ATOM_KEY_EXCHANGE_STRENGTH'',
     ''ATOM_CIPHER_SUITE'',
     ''ATOM_TLS_VSN_1_3'',
     ''ATOM_AES_128'',
     ''ATOM_AES_256'',
     ''ATOM_CHACHA20'',
     ''ATOM_SHA_256'',
     ''ATOM_SHA_384'',
     ''ATOM_AES_128_GCM_SHA256'',
     ''ATOM_AES_128_GCM_SHA256'',
     ''ATOM_AES_256_GCM_SHA384'',
     ''ATOM_CHACHA20_POLY1305_SHA256'',
     ''ATOM_QUIC_PARAM_TLS_SCHANNEL_CONTEXT_ATTRIBUTE_W'',
     ''ATOM_QUIC_PARAM_TLS_HANDSHAKE_INFO'',
     ''ATOM_QUIC_PARAM_TLS_NEGOTIATED_ALPN'',
     ''ATOM_QUIC_PARAM_STREAM_ID'',
     ''ATOM_QUIC_PARAM_STREAM_0RTT_LENGTH'',
     ''ATOM_QUIC_PARAM_STREAM_IDEAL_SEND_BUFFER_SIZE'',
     ''ATOM_QUIC_PARAM_STREAM_PRIORITY'',
     ''ATOM_QUIC_SETTINGS_MaxBytesPerKey'',
     ''ATOM_QUIC_SETTINGS_HandshakeIdleTimeoutMs'',
     ''ATOM_QUIC_SETTINGS_IdleTimeoutMs'',
     ''ATOM_QUIC_SETTINGS_TlsClientMaxSendBuffer'',
     ''ATOM_QUIC_SETTINGS_TlsServerMaxSendBuffer'',
     ''ATOM_QUIC_SETTINGS_StreamRecvWindowDefault'',
     ''ATOM_QUIC_SETTINGS_StreamRecvBufferDefault'',
     ''ATOM_QUIC_SETTINGS_ConnFlowControlWindow'',
     ''ATOM_QUIC_SETTINGS_MaxWorkerQueueDelayUs'',
     ''ATOM_QUIC_SETTINGS_MaxStatelessOperations'',
     ''ATOM_QUIC_SETTINGS_InitialWindowPackets'',
     ''ATOM_QUIC_SETTINGS_SendIdleTimeoutMs'',
     ''ATOM_QUIC_SETTINGS_InitialRttMs'',
     ''ATOM_QUIC_SETTINGS_MaxAckDelayMs'',
     ''ATOM_QUIC_SETTINGS_DisconnectTimeoutMs'',
     ''ATOM_QUIC_SETTINGS_KeepAliveIntervalMs'',
     ''ATOM_QUIC_SETTINGS_PeerBidiStreamCount'',
     ''ATOM_QUIC_SETTINGS_PeerUnidiStreamCount'',
     ''ATOM_QUIC_SETTINGS_RetryMemoryLimit'',
     ''ATOM_QUIC_SETTINGS_LoadBalancingMode'',
     ''ATOM_QUIC_SETTINGS_MaxOperationsPerDrain'',
     ''ATOM_QUIC_SETTINGS_SendBufferingEnabled'',
     ''ATOM_QUIC_SETTINGS_PacingEnabled'',
     ''ATOM_QUIC_SETTINGS_MigrationEnabled'',
     ''ATOM_QUIC_SETTINGS_DatagramReceiveEnabled'',
     ''ATOM_QUIC_SETTINGS_ServerResumptionLevel'',
     ''ATOM_QUIC_SETTINGS_VersionNegotiationExtEnabled'',
     ''ATOM_QUIC_SETTINGS_DesiredVersionsList'',
     ''ATOM_QUIC_SETTINGS_DesiredVersionsListLength'',
     ''ATOM_QUIC_SETTINGS_MinimumMtu'',
     ''ATOM_QUIC_SETTINGS_MaximumMtu'',
     ''ATOM_QUIC_SETTINGS_MtuDiscoverySearchCompleteTimeoutUs'',
     ''ATOM_QUIC_SETTINGS_MtuDiscoveryMissingProbeCount'',
     ''ATOM_QUIC_SETTINGS_MaxBindingStatelessOperations'',
     ''ATOM_QUIC_SETTINGS_StatelessOperationExpirationMs'',
     ''ATOM_QUIC_STREAM_OPTS_ACTIVE'',
     ''ATOM_QUIC_STREAM_OPTS_OPEN_FLAG'',
     ''ATOM_QUIC_STREAM_OPTS_START_FLAG'',
     ''ATOM_CLOSED'',
     ''ATOM_STREAM_CLOSED'',
     ''ATOM_LISTENER_STOPPED'',
     ''ATOM_TRANS_SHUTDOWN'',
     ''ATOM_SHUTDOWN'',
     ''ATOM_PEER_SEND_SHUTDOWN'',
     ''ATOM_PEER_SEND_ABORTED'',
     ''ATOM_PEER_RECEIVE_ABORTED'',
     ''ATOM_PEER_ADDRESS_CHANGED'',
     ''ATOM_SEND_SHUTDOWN_COMPLETE'',
     ''ATOM_PEER_ACCEPTED'',
     ''ATOM_LOCAL_ADDRESS_CHANGED'',
     ''ATOM_STREAMS_AVAILABLE'',
     ''ATOM_PEER_NEEDS_STREAMS'',
     ''ATOM_START_COMPLETE'',
     ''ATOM_SEND_COMPLETE'',
     ''ATOM_DGRAM_SEND_STATE'',
     ''ATOM_SEND_DGRAM_COMPLETE'',
     ''ATOM_EINVAL'',
     ''ATOM_QUIC'',
     ''ATOM_PASSIVE'',
     ''ATOM_QUIC_EVENT_MASK'',
     ''ATOM_NST_RECEIVED'',
     ''ATOM_NST'',
     ''ATOM_DGRAM'',
     ''ATOM_DGRAM_STATE_CHANGED'',
     ''ATOM_DGRAM_MAX_LEN'',
     ''ATOM_DGRAM_SEND_ENABLED'',
     ''ATOM_DEBUG'',
     ''ATOM_ONCE'',
     ''ATOM_NEW_CONN'',
     ''ATOM_CONNECTED'']"

definition declared_atoms_3 :: "string list" where
  "declared_atoms_3 =
    [''ATOM_CONN_RESUMED'',
     ''ATOM_NEW_STREAM'',
     ''ATOM_SNABBKAFFE_COLLECTOR'',
     ''ATOM_TRACE'',
     ''ATOM_CONTEXT'',
     ''ATOM_NIF'',
     ''ATOM_CALLBACK'',
     ''ATOM_TAG'',
     ''ATOM_RESOURCE_ID'',
     ''ATOM_MARK'',
     ''ATOM_KIND'',
     ''ATOM_SNK_KIND'',
     ''ATOM_SNK_META'',
     ''ATOM_GEN_CAST'',
     ''ATOM_FUNCTION'',
     ''ATOM_SNABBKAFFE_NEMESIS'',
     ''ATOM_SSL_KEYLOGFILE_NAME'',
     ''ATOM_ALLOW_INSECURE'',
     ''ATOM_VERIFY'',
     ''ATOM_VERIFY_NONE'',
     ''ATOM_VERIFY_PEER'',
     ''ATOM_IS_RESUMED'',
     ''ATOM_ALPNS'',
     ''ATOM_IS_HANDSHAKE_COMPLETED'',
     ''ATOM_IS_PEER_ACKED'',
     ''ATOM_IS_APP_CLOSING'',
     ''ATOM_IS_SHUTDOWN_BY_APP'',
     ''ATOM_IS_CLOSED_REMOTELY'',
     ''ATOM_IS_ORPHAN'',
     ''ATOM_BIDI_STREAMS'',
     ''ATOM_UNIDI_STREAMS'',
     ''ATOM_STATUS'',
     ''ATOM_STATE'',
     ''ATOM_STREAM_ID'',
     ''ATOM_IS_PEER_ACCEPTED'',
     ''ATOM_IS_CONN_SHUTDOWN'',
     ''ATOM_ABS_OFFSET'',
     ''ATOM_LEN'',
     ''ATOM_FLAGS'',
     ''ATOM_VER'',
     ''ATOM_LOCAL_ADDR'',
     ''ATOM_REMOTE_ADDR'',
     ''ATOM_SERVER_NAME'',
     ''ATOM_CLIENT_ALPNS'',
     ''ATOM_CRYPTO_BUFFER'',
     ''ATOM_UNDEFINED'',
     ''ATOM_QUIC_DATAGRAM_SEND_UNKNOWN'',
     ''ATOM_QUIC_DATAGRAM_SEND_SENT'',
     ''ATOM_QUIC_DATAGRAM_SEND_LOST_SUSPECT'',
     ''ATOM_QUIC_DATAGRAM_SEND_LOST_DISCARDED'',
     ''ATOM_QUIC_DATAGRAM_SEND_ACKNOWLEDGED'',
     ''ATOM_QUIC_DATAGRAM_SEND_ACKNOWLEDGED_SPURIOUS'',
     ''ATOM_QUIC_DATAGRAM_SEND_CANCELED'']"

definition declared_atoms :: "string list" where
  "declared_atoms = declared_atoms_1 @ declared_atoms_2 @ declared_atoms_3"

subsection \<open>The atom of each variable\<close>

abbreviation ATOM_TRUE :: eterm where "ATOM_TRUE \<equiv> Atom ''true''"

abbreviation ATOM_FALSE :: eterm where "ATOM_FALSE \<equiv> Atom ''false''"

abbreviation ATOM_OK :: eterm where "ATOM_OK \<equiv> Atom ''ok''"

abbreviation ATOM_ERROR :: eterm where "ATOM_ERROR \<equiv> Atom ''error''"

abbreviation ATOM_REG_FAILED :: eterm where "ATOM_REG_FAILED \<equiv> Atom ''reg_failed''"

abbreviation ATOM_OPEN_FAILED :: eterm where "ATOM_OPEN_FAILED \<equiv> Atom ''open_failed''"

abbreviation ATOM_CTX_INIT_FAILED :: eterm where "ATOM_CTX_INIT_FAILED \<equiv> Atom ''ctx_init_failed''"

abbreviation ATOM_BAD_PID :: eterm where "ATOM_BAD_PID \<equiv> Atom ''bad_pid''"

abbreviation ATOM_CONFIG_ERROR :: eterm where "ATOM_CONFIG_ERROR \<equiv> Atom ''config_error''"

abbreviation ATOM_PARAM_ERROR :: eterm where "ATOM_PARAM_ERROR \<equiv> Atom ''param_error''"

abbreviation ATOM_CERT_ERROR :: eterm where "ATOM_CERT_ERROR \<equiv> Atom ''cert_error''"

abbreviation ATOM_BAD_MON :: eterm where "ATOM_BAD_MON \<equiv> Atom ''bad_mon''"

abbreviation ATOM_LISTENER_OPEN_ERROR :: eterm where "ATOM_LISTENER_OPEN_ERROR \<equiv> Atom ''listener_open_error''"

abbreviation ATOM_LISTENER_START_ERROR :: eterm where "ATOM_LISTENER_START_ERROR \<equiv> Atom ''listener_start_error''"

abbreviation ATOM_BADARG :: eterm where "ATOM_BADARG \<equiv> Atom ''badarg''"

abbreviation ATOM_CONN_OPEN_ERROR :: eterm where "ATOM_CONN_OPEN_ERROR \<equiv> Atom ''conn_open_error''"

abbreviation ATOM_CONN_START_ERROR :: eterm where "ATOM_CONN_START_ERROR \<equiv> Atom ''conn_start_error''"

abbreviation ATOM_STREAM_OPEN_ERROR :: eterm where "ATOM_STREAM_OPEN_ERROR \<equiv> Atom ''stm_open_error''"

abbreviation ATOM_STREAM_START_ERROR :: eterm where "ATOM_STREAM_START_ERROR \<equiv> Atom ''stm_start_error''"

abbreviation ATOM_STREAM_SEND_ERROR :: eterm where "ATOM_STREAM_SEND_ERROR \<equiv> Atom ''stm_send_error''"

abbreviation ATOM_DGRAM_SEND_ERROR :: eterm where "ATOM_DGRAM_SEND_ERROR \<equiv> Atom ''dgram_send_error''"

abbreviation ATOM_OWNER_DEAD :: eterm where "ATOM_OWNER_DEAD \<equiv> Atom ''owner_dead''"

abbreviation ATOM_NOT_OWNER :: eterm where "ATOM_NOT_OWNER \<equiv> Atom ''not_owner''"

abbreviation ATOM_NO_PEERCERT :: eterm where "ATOM_NO_PEERCERT \<equiv> Atom ''no_peercert''"

abbreviation ATOM_ERROR_NO_ERROR :: eterm where "ATOM_ERROR_NO_ERROR \<equiv> Atom ''no_error''"

abbreviation ATOM_ERROR_CONTINUE :: eterm where "ATOM_ERROR_CONTINUE \<equiv> Atom ''continue''"

abbreviation ATOM_ERROR_NOT_READY :: eterm where "ATOM_ERROR_NOT_READY \<equiv> Atom ''not_ready''"

abbreviation ATOM_ERROR_NOT_ENOUGH_MEMORY :: eterm where "ATOM_ERROR_NOT_ENOUGH_MEMORY \<equiv> Atom ''not_enough_mem''"

abbreviation ATOM_ERROR_INVALID_STATE :: eterm where "ATOM_ERROR_INVALID_STATE \<equiv> Atom ''invalid_state''"

abbreviation ATOM_ERROR_INVALID_PARAMETER :: eterm where "ATOM_ERROR_INVALID_PARAMETER \<equiv> Atom ''invalid_parm''"

abbreviation ATOM_ERROR_NOT_SUPPORTED :: eterm where "ATOM_ERROR_NOT_SUPPORTED \<equiv> Atom ''not_supported''"

abbreviation ATOM_ERROR_NOT_FOUND :: eterm where "ATOM_ERROR_NOT_FOUND \<equiv> Atom ''not_found''"

abbreviation ATOM_ERROR_BUFFER_OVERFLOW :: eterm where "ATOM_ERROR_BUFFER_OVERFLOW \<equiv> Atom ''buffer_overflow''"

abbreviation ATOM_ERROR_CONNECTION_REFUSED :: eterm where "ATOM_ERROR_CONNECTION_REFUSED \<equiv> Atom ''connection_refused''"

abbreviation ATOM_ERROR_OPERATION_ABORTED :: eterm where "ATOM_ERROR_OPERATION_ABORTED \<equiv> Atom ''operation_aborted''"

abbreviation ATOM_ERROR_HANDSHAKE_FAILURE :: eterm where "ATOM_ERROR_HANDSHAKE_FAILURE \<equiv> Atom ''handshake_failure''"

abbreviation ATOM_ERROR_NETWORK_UNREACHABLE :: eterm where "ATOM_ERROR_NETWORK_UNREACHABLE \<equiv> Atom ''network_unreachable''"

abbreviation ATOM_ERROR_CONNECTION_IDLE :: eterm where "ATOM_ERROR_CONNECTION_IDLE \<equiv> Atom ''connection_idle''"

abbreviation ATOM_ERROR_INTERNAL_ERROR :: eterm where "ATOM_ERROR_INTERNAL_ERROR \<equiv> Atom ''internal_error''"

abbreviation ATOM_ERROR_PROTOCOL_ERROR :: eterm where "ATOM_ERROR_PROTOCOL_ERROR \<equiv> Atom ''protocol_error''"

abbreviation ATOM_ERROR_VER_NEG_ERROR :: eterm where "ATOM_ERROR_VER_NEG_ERROR \<equiv> Atom ''vsn_neg_error''"

abbreviation ATOM_ERROR_EPOLL_ERROR :: eterm where "ATOM_ERROR_EPOLL_ERROR \<equiv> Atom ''epoll_error''"

abbreviation ATOM_ERROR_DNS_RESOLUTION_ERROR :: eterm where "ATOM_ERROR_DNS_RESOLUTION_ERROR \<equiv> Atom ''dns_resolution_error''"

abbreviation ATOM_ERROR_SOCKET_ERROR :: eterm where "ATOM_ERROR_SOCKET_ERROR \<equiv> Atom ''socket_error''"

abbreviation ATOM_ERROR_SSL_ERROR :: eterm where "ATOM_ERROR_SSL_ERROR \<equiv> Atom ''ssl_error''"

abbreviation ATOM_ERROR_USER_CANCELED :: eterm where "ATOM_ERROR_USER_CANCELED \<equiv> Atom ''user_canceled''"

abbreviation ATOM_ERROR_ALPN_NEG_FAILURE :: eterm where "ATOM_ERROR_ALPN_NEG_FAILURE \<equiv> Atom ''alpn_neg_failure''"

abbreviation ATOM_UNKNOWN_STATUS_CODE :: eterm where "ATOM_UNKNOWN_STATUS_CODE \<equiv> Atom ''unknown_quic_status''"

abbreviation ATOM_UNKNOWN_TLS_STATUS_CODE :: eterm where "ATOM_UNKNOWN_TLS_STATUS_CODE \<equiv> Atom ''unknown_quic_tls_status''"

abbreviation ATOM_QUIC_STATUS_SUCCESS :: eterm where "ATOM_QUIC_STATUS_SUCCESS \<equiv> Atom ''success''"

abbreviation ATOM_QUIC_STATUS_PENDING :: eterm where "ATOM_QUIC_STATUS_PENDING \<equiv> Atom ''pending''"

abbreviation ATOM_QUIC_STATUS_CONTINUE :: eterm where "ATOM_QUIC_STATUS_CONTINUE \<equiv> Atom ''continue''"

abbreviation ATOM_QUIC_STATUS_OUT_OF_MEMORY :: eterm where "ATOM_QUIC_STATUS_OUT_OF_MEMORY \<equiv> Atom ''out_of_memory''"

abbreviation ATOM_QUIC_STATUS_INVALID_PARAMETER :: eterm where "ATOM_QUIC_STATUS_INVALID_PARAMETER \<equiv> Atom ''invalid_parameter''"

abbreviation ATOM_QUIC_STATUS_INVALID_STATE :: eterm where "ATOM_QUIC_STATUS_INVALID_STATE \<equiv> Atom ''invalid_state''"

abbreviation ATOM_QUIC_STATUS_NOT_SUPPORTED :: eterm where "ATOM_QUIC_STATUS_NOT_SUPPORTED \<equiv> Atom ''not_supported''"

abbreviation ATOM_QUIC_STATUS_NOT_FOUND :: eterm where "ATOM_QUIC_STATUS_NOT_FOUND \<equiv> Atom ''not_found''"

abbreviation ATOM_QUIC_STATUS_BUFFER_TOO_SMALL :: eterm where "ATOM_QUIC_STATUS_BUFFER_TOO_SMALL \<equiv> Atom ''buffer_too_small''"

abbreviation ATOM_QUIC_STATUS_HANDSHAKE_FAILURE :: eterm where "ATOM_QUIC_STATUS_HANDSHAKE_FAILURE \<equiv> Atom ''handshake_failure''"

abbreviation ATOM_QUIC_STATUS_ABORTED :: eterm where "ATOM_QUIC_STATUS_ABORTED \<equiv> Atom ''aborted''"

abbreviation ATOM_QUIC_STATUS_ADDRESS_IN_USE :: eterm where "ATOM_QUIC_STATUS_ADDRESS_IN_USE \<equiv> Atom ''address_in_use''"

abbreviation ATOM_QUIC_STATUS_CONNECTION_TIMEOUT :: eterm where "ATOM_QUIC_STATUS_CONNECTION_TIMEOUT \<equiv> Atom ''connection_timeout''"

abbreviation ATOM_QUIC_STATUS_CONNECTION_IDLE :: eterm where "ATOM_QUIC_STATUS_CONNECTION_IDLE \<equiv> Atom ''connection_idle''"

abbreviation ATOM_QUIC_STATUS_INTERNAL_ERROR :: eterm where "ATOM_QUIC_STATUS_INTERNAL_ERROR \<equiv> Atom ''internal_error''"

abbreviation ATOM_QUIC_STATUS_CONNECTION_REFUSED :: eterm where "ATOM_QUIC_STATUS_CONNECTION_REFUSED \<equiv> Atom ''connection_refused''"

abbreviation ATOM_QUIC_STATUS_PROTOCOL_ERROR :: eterm where "ATOM_QUIC_STATUS_PROTOCOL_ERROR \<equiv> Atom ''protocol_error''"

abbreviation ATOM_QUIC_STATUS_VER_NEG_ERROR :: eterm where "ATOM_QUIC_STATUS_VER_NEG_ERROR \<equiv> Atom ''ver_neg_error''"

abbreviation ATOM_QUIC_STATUS_UNREACHABLE :: eterm where "ATOM_QUIC_STATUS_UNREACHABLE \<equiv> Atom ''unreachable''"

abbreviation ATOM_QUIC_STATUS_TLS_ERROR :: eterm where "ATOM_QUIC_STATUS_TLS_ERROR \<equiv> Atom ''tls_error''"

abbreviation ATOM_QUIC_STATUS_USER_CANCELED :: eterm where "ATOM_QUIC_STATUS_USER_CANCELED \<equiv> Atom ''user_canceled''"

abbreviation ATOM_QUIC_STATUS_ALPN_NEG_FAILURE :: eterm where "ATOM_QUIC_STATUS_ALPN_NEG_FAILURE \<equiv> Atom ''alpn_neg_failure''"

abbreviation ATOM_QUIC_STATUS_STREAM_LIMIT_REACHED :: eterm where "ATOM_QUIC_STATUS_STREAM_LIMIT_REACHED \<equiv> Atom ''stream_limit_reached''"

abbreviation ATOM_QUIC_STATUS_CLOSE_NOTIFY :: eterm where "ATOM_QUIC_STATUS_CLOSE_NOTIFY \<equiv> Atom ''close_notify''"

abbreviation ATOM_QUIC_STATUS_BAD_CERTIFICATE :: eterm where "ATOM_QUIC_STATUS_BAD_CERTIFICATE \<equiv> Atom ''bad_certificate''"

abbreviation ATOM_QUIC_STATUS_UNSUPPORTED_CERTIFICATE :: eterm where "ATOM_QUIC_STATUS_UNSUPPORTED_CERTIFICATE \<equiv> Atom ''unsupported_certificate''"

abbreviation ATOM_QUIC_STATUS_REVOKED_CERTIFICATE :: eterm where "ATOM_QUIC_STATUS_REVOKED_CERTIFICATE \<equiv> Atom ''revoked_certificate''"

abbreviation ATOM_QUIC_STATUS_EXPIRED_CERTIFICATE :: eterm where "ATOM_QUIC_STATUS_EXPIRED_CERTIFICATE \<equiv> Atom ''expired_certificate''"

abbreviation ATOM_QUIC_STATUS_UNKNOWN_CERTIFICATE :: eterm where "ATOM_QUIC_STATUS_UNKNOWN_CERTIFICATE \<equiv> Atom ''unknown_certificate''"

abbreviation ATOM_QUIC_STATUS_CERT_EXPIRED :: eterm where "ATOM_QUIC_STATUS_CERT_EXPIRED \<equiv> Atom ''cert_expired''"

abbreviation ATOM_QUIC_STATUS_CERT_UNTRUSTED_ROOT :: eterm where "ATOM_QUIC_STATUS_CERT_UNTRUSTED_ROOT \<equiv> Atom ''cert_untrusted_root''"

abbreviation ATOM_QUIC_STATUS_CERT_NO_CERT :: eterm where "ATOM_QUIC_STATUS_CERT_NO_CERT \<equiv> Atom ''cert_no_cert''"

abbreviation ATOM_QUIC_STATUS_CERT_REQUIRED :: eterm where "ATOM_QUIC_STATUS_CERT_REQUIRED \<equiv> Atom ''cert_required''"

abbreviation ATOM_QUIC_STATUS_CERT_UNOBTAINABLE :: eterm where "ATOM_QUIC_STATUS_CERT_UNOBTAINABLE \<equiv> Atom ''cert_unobtainable''"

abbreviation ATOM_QUIC_EXECUTION_PROFILE_LOW_LATENCY :: eterm where "ATOM_QUIC_EXECUTION_PROFILE_LOW_LATENCY \<equiv> Atom ''quic_execution_profile_low_latency''"

abbreviation ATOM_QUIC_EXECUTION_PROFILE_TYPE_MAX_THROUGHPUT :: eterm where "ATOM_QUIC_EXECUTION_PROFILE_TYPE_MAX_THROUGHPUT \<equiv> Atom ''quic_execution_profile_max_throughput''"

abbreviation ATOM_QUIC_EXECUTION_PROFILE_TYPE_SCAVENGER :: eterm where "ATOM_QUIC_EXECUTION_PROFILE_TYPE_SCAVENGER \<equiv> Atom ''quic_execution_profile_scavenger''"

abbreviation ATOM_QUIC_EXECUTION_PROFILE_TYPE_REAL_TIME :: eterm where "ATOM_QUIC_EXECUTION_PROFILE_TYPE_REAL_TIME \<equiv> Atom ''quic_execution_profile_real_time''"

abbreviation ATOM_QUIC_GLOBAL :: eterm where "ATOM_QUIC_GLOBAL \<equiv> Atom ''quic_global''"

abbreviation ATOM_QUIC_PARAM_GLOBAL_RETRY_MEMORY_PERCENT :: eterm where "ATOM_QUIC_PARAM_GLOBAL_RETRY_MEMORY_PERCENT \<equiv> Atom ''param_global_retry_memory_percent''"

abbreviation ATOM_QUIC_PARAM_GLOBAL_SUPPORTED_VERSIONS :: eterm where "ATOM_QUIC_PARAM_GLOBAL_SUPPORTED_VERSIONS \<equiv> Atom ''param_global_supported_versions''"

abbreviation ATOM_QUIC_PARAM_GLOBAL_LOAD_BALACING_MODE :: eterm where "ATOM_QUIC_PARAM_GLOBAL_LOAD_BALACING_MODE \<equiv> Atom ''param_global_load_balacing_mode''"

abbreviation ATOM_QUIC_PARAM_GLOBAL_PERF_COUNTERS :: eterm where "ATOM_QUIC_PARAM_GLOBAL_PERF_COUNTERS \<equiv> Atom ''param_global_perf_counters''"

abbreviation ATOM_QUIC_PARAM_GLOBAL_SETTINGS :: eterm where "ATOM_QUIC_PARAM_GLOBAL_SETTINGS \<equiv> Atom ''param_global_settings''"

abbreviation ATOM_QUIC_PARAM_GLOBAL_VERSION :: eterm where "ATOM_QUIC_PARAM_GLOBAL_VERSION \<equiv> Atom ''param_global_version''"

abbreviation ATOM_QUIC_PARAM_GLOBAL_LIBRARY_GIT_HASH :: eterm where "ATOM_QUIC_PARAM_GLOBAL_LIBRARY_GIT_HASH \<equiv> Atom ''param_global_library_git_hash''"

abbreviation ATOM_QUIC_REGISTRATION :: eterm where "ATOM_QUIC_REGISTRATION \<equiv> Atom ''quic_registration''"

abbreviation ATOM_QUIC_PARAM_REGISTRATION_CID_PREFIX :: eterm where "ATOM_QUIC_PARAM_REGISTRATION_CID_PREFIX \<equiv> Atom ''param_registration_cid_prefix''"

abbreviation ATOM_QUIC_CONFIGURATION :: eterm where "ATOM_QUIC_CONFIGURATION \<equiv> Atom ''quic_configuration''"

abbreviation ATOM_QUIC_PARAM_CONFIGURATION_SETTINGS :: eterm where "ATOM_QUIC_PARAM_CONFIGURATION_SETTINGS \<equiv> Atom ''param_configuration_settings''"

abbreviation ATOM_QUIC_PARAM_LISTENER_LOCAL_ADDRESS :: eterm where "ATOM_QUIC_PARAM_LISTENER_LOCAL_ADDRESS \<equiv> Atom ''param_listener_local_address''"

abbreviation ATOM_QUIC_PARAM_LISTENER_STATS :: eterm where "ATOM_QUIC_PARAM_LISTENER_STATS \<equiv> Atom ''param_listener_stats''"

abbreviation ATOM_QUIC_PARAM_LISTENER_CIBIR_ID :: eterm where "ATOM_QUIC_PARAM_LISTENER_CIBIR_ID \<equiv> Atom ''param_listener_cibir_id''"

abbreviation ATOM_QUIC_PARAM_CONN_QUIC_VERSION :: eterm where "ATOM_QUIC_PARAM_CONN_QUIC_VERSION \<equiv> Atom ''param_conn_quic_version''"

abbreviation ATOM_QUIC_PARAM_CONN_LOCAL_ADDRESS :: eterm where "ATOM_QUIC_PARAM_CONN_LOCAL_ADDRESS \<equiv> Atom ''param_conn_local_address''"

abbreviation ATOM_QUIC_PARAM_CONN_REMOTE_ADDRESS :: eterm where "ATOM_QUIC_PARAM_CONN_REMOTE_ADDRESS \<equiv> Atom ''param_conn_remote_address''"

abbreviation ATOM_QUIC_PARAM_CONN_IDEAL_PROCESSOR :: eterm where "ATOM_QUIC_PARAM_CONN_IDEAL_PROCESSOR \<equiv> Atom ''param_conn_ideal_processor''"

abbreviation ATOM_QUIC_PARAM_CONN_SETTINGS :: eterm where "ATOM_QUIC_PARAM_CONN_SETTINGS \<equiv> Atom ''param_conn_settings''"

abbreviation ATOM_QUIC_PARAM_CONN_STATISTICS :: eterm where "ATOM_QUIC_PARAM_CONN_STATISTICS \<equiv> Atom ''param_conn_statistics''"

abbreviation ATOM_QUIC_PARAM_CONN_STATISTICS_PLAT :: eterm where "ATOM_QUIC_PARAM_CONN_STATISTICS_PLAT \<equiv> Atom ''param_conn_statistics_plat''"

abbreviation ATOM_QUIC_PARAM_CONN_SHARE_UDP_BINDING :: eterm where "ATOM_QUIC_PARAM_CONN_SHARE_UDP_BINDING \<equiv> Atom ''param_conn_share_udp_binding''"

abbreviation ATOM_QUIC_PARAM_CONN_LOCAL_BIDI_STREAM_COUNT :: eterm where "ATOM_QUIC_PARAM_CONN_LOCAL_BIDI_STREAM_COUNT \<equiv> Atom ''param_conn_local_bidi_stream_count''"

abbreviation ATOM_QUIC_PARAM_CONN_LOCAL_UNIDI_STREAM_COUNT :: eterm where "ATOM_QUIC_PARAM_CONN_LOCAL_UNIDI_STREAM_COUNT \<equiv> Atom ''param_conn_local_unidi_stream_count''"

abbreviation ATOM_QUIC_PARAM_CONN_MAX_STREAM_IDS :: eterm where "ATOM_QUIC_PARAM_CONN_MAX_STREAM_IDS \<equiv> Atom ''param_conn_max_stream_ids''"

abbreviation ATOM_QUIC_PARAM_CONN_CLOSE_REASON_PHRASE :: eterm where "ATOM_QUIC_PARAM_CONN_CLOSE_REASON_PHRASE \<equiv> Atom ''param_conn_close_reason_phrase''"

abbreviation ATOM_QUIC_PARAM_CONN_STREAM_SCHEDULING_SCHEME :: eterm where "ATOM_QUIC_PARAM_CONN_STREAM_SCHEDULING_SCHEME \<equiv> Atom ''param_conn_stream_scheduling_scheme''"

abbreviation ATOM_QUIC_PARAM_CONN_DATAGRAM_RECEIVE_ENABLED :: eterm where "ATOM_QUIC_PARAM_CONN_DATAGRAM_RECEIVE_ENABLED \<equiv> Atom ''param_conn_datagram_receive_enabled''"

abbreviation ATOM_QUIC_PARAM_CONN_DATAGRAM_SEND_ENABLED :: eterm where "ATOM_QUIC_PARAM_CONN_DATAGRAM_SEND_ENABLED \<equiv> Atom ''param_conn_datagram_send_enabled''"

abbreviation ATOM_QUIC_PARAM_CONN_DISABLE_1RTT_ENCRYPTION :: eterm where "ATOM_QUIC_PARAM_CONN_DISABLE_1RTT_ENCRYPTION \<equiv> Atom ''param_conn_disable_1rtt_encryption''"

abbreviation ATOM_QUIC_PARAM_CONN_RESUMPTION_TICKET :: eterm where "ATOM_QUIC_PARAM_CONN_RESUMPTION_TICKET \<equiv> Atom ''param_conn_resumption_ticket''"

abbreviation ATOM_QUIC_PARAM_CONN_PEER_CERTIFICATE_VALID :: eterm where "ATOM_QUIC_PARAM_CONN_PEER_CERTIFICATE_VALID \<equiv> Atom ''param_conn_peer_certificate_valid''"

abbreviation ATOM_QUIC_PARAM_CONN_LOCAL_INTERFACE :: eterm where "ATOM_QUIC_PARAM_CONN_LOCAL_INTERFACE \<equiv> Atom ''param_conn_local_interface''"

abbreviation ATOM_QUIC_TLS :: eterm where "ATOM_QUIC_TLS \<equiv> Atom ''quic_tls''"

abbreviation ATOM_TLS_PROTOCOL_VERSION :: eterm where "ATOM_TLS_PROTOCOL_VERSION \<equiv> Atom ''tls_protocol_version''"

abbreviation ATOM_CIPHER_ALGORITHM :: eterm where "ATOM_CIPHER_ALGORITHM \<equiv> Atom ''cipher_algorithm''"

abbreviation ATOM_CIPHER_STRENGTH :: eterm where "ATOM_CIPHER_STRENGTH \<equiv> Atom ''cipher_strength''"

abbreviation ATOM_HASH_ALGORITHM :: eterm where "ATOM_HASH_ALGORITHM \<equiv> Atom ''hash_algorithm''"

abbreviation ATOM_HASH_STRENGTH :: eterm where "ATOM_HASH_STRENGTH \<equiv> Atom ''hash_strength''"

abbreviation ATOM_KEY_EXCHANGE_ALGORITHM :: eterm where "ATOM_KEY_EXCHANGE_ALGORITHM \<equiv> Atom ''key_exchange_algorithm''"

abbreviation ATOM_KEY_EXCHANGE_STRENGTH :: eterm where "ATOM_KEY_EXCHANGE_STRENGTH \<equiv> Atom ''key_exchange_strength''"

abbreviation ATOM_CIPHER_SUITE :: eterm where "ATOM_CIPHER_SUITE \<equiv> Atom ''cipher_suite''"

abbreviation ATOM_TLS_VSN_1_3 :: eterm where "ATOM_TLS_VSN_1_3 \<equiv> Atom ''tlsv1_3''"

abbreviation ATOM_AES_128 :: eterm where "ATOM_AES_128 \<equiv> Atom ''aes_128''"

abbreviation ATOM_AES_256 :: eterm where "ATOM_AES_256 \<equiv> Atom ''aes_256''"

abbreviation ATOM_CHACHA20 :: eterm where "ATOM_CHACHA20 \<equiv> Atom ''chacha20''"

abbreviation ATOM_SHA_256 :: eterm where "ATOM_SHA_256 \<equiv> Atom ''sha_256''"

abbreviation ATOM_SHA_384 :: eterm where "ATOM_SHA_384 \<equiv> Atom ''sha_384''"

abbreviation ATOM_AES_128_GCM_SHA256 :: eterm where "ATOM_AES_128_GCM_SHA256 \<equiv> Atom ''aes_128_gcm_sha256''"

abbreviation ATOM_AES_256_GCM_SHA384 :: eterm where "ATOM_AES_256_GCM_SHA384 \<equiv> Atom ''aes_256_gcm_sha384''"

abbreviation ATOM_CHACHA20_POLY1305_SHA256 :: eterm where "ATOM_CHACHA20_POLY1305_SHA256 \<equiv> Atom ''chacha20_poly1305_sha256''"

abbreviation ATOM_QUIC_PARAM_TLS_SCHANNEL_CONTEXT_ATTRIBUTE_W :: eterm where "ATOM_QUIC_PARAM_TLS_SCHANNEL_CONTEXT_ATTRIBUTE_W \<equiv> Atom ''param_tls_schannel_context_attribute_w''"

abbreviation ATOM_QUIC_PARAM_TLS_HANDSHAKE_INFO :: eterm where "ATOM_QUIC_PARAM_TLS_HANDSHAKE_INFO \<equiv> Atom ''param_tls_handshake_info''"

abbreviation ATOM_QUIC_PARAM_TLS_NEGOTIATED_ALPN :: eterm where "ATOM_QUIC_PARAM_TLS_NEGOTIATED_ALPN \<equiv> Atom ''param_tls_negotiated_alpn''"

abbreviation ATOM_QUIC_PARAM_STREAM_ID :: eterm where "ATOM_QUIC_PARAM_STREAM_ID \<equiv> Atom ''param_stream_id''"

abbreviation ATOM_QUIC_PARAM_STREAM_0RTT_LENGTH :: eterm where "ATOM_QUIC_PARAM_STREAM_0RTT_LENGTH \<equiv> Atom ''param_stream_0rtt_length''"

abbreviation ATOM_QUIC_PARAM_STREAM_IDEAL_SEND_BUFFER_SIZE :: eterm where "ATOM_QUIC_PARAM_STREAM_IDEAL_SEND_BUFFER_SIZE \<equiv> Atom ''param_stream_ideal_send_buffer_size''"

abbreviation ATOM_QUIC_PARAM_STREAM_PRIORITY :: eterm where "ATOM_QUIC_PARAM_STREAM_PRIORITY \<equiv> Atom ''param_stream_priority''"

abbreviation ATOM_QUIC_SETTINGS_MaxBytesPerKey :: eterm where "ATOM_QUIC_SETTINGS_MaxBytesPerKey \<equiv> Atom ''max_bytes_per_key''"

abbreviation ATOM_QUIC_SETTINGS_HandshakeIdleTimeoutMs :: eterm where "ATOM_QUIC_SETTINGS_HandshakeIdleTimeoutMs \<equiv> Atom ''handshake_idle_timeout_ms''"

abbreviation ATOM_QUIC_SETTINGS_IdleTimeoutMs :: eterm where "ATOM_QUIC_SETTINGS_IdleTimeoutMs \<equiv> Atom ''idle_timeout_ms''"

abbreviation ATOM_QUIC_SETTINGS_TlsClientMaxSendBuffer :: eterm where "ATOM_QUIC_SETTINGS_TlsClientMaxSendBuffer \<equiv> Atom ''tls_client_max_send_buffer''"

abbreviation ATOM_QUIC_SETTINGS_TlsServerMaxSendBuffer :: eterm where "ATOM_QUIC_SETTINGS_TlsServerMaxSendBuffer \<equiv> Atom ''tls_server_max_send_buffer''"

abbreviation ATOM_QUIC_SETTINGS_StreamRecvWindowDefault :: eterm where "ATOM_QUIC_SETTINGS_StreamRecvWindowDefault \<equiv> Atom ''stream_recv_window_default''"

abbreviation ATOM_QUIC_SETTINGS_StreamRecvBufferDefault :: eterm where "ATOM_QUIC_SETTINGS_StreamRecvBufferDefault \<equiv> Atom ''stream_recv_buffer_default''"

abbreviation ATOM_QUIC_SETTINGS_ConnFlowControlWindow :: eterm where "ATOM_QUIC_SETTINGS_ConnFlowControlWindow \<equiv> Atom ''conn_flow_control_window''"

abbreviation ATOM_QUIC_SETTINGS_MaxWorkerQueueDelayUs :: eterm where "ATOM_QUIC_SETTINGS_MaxWorkerQueueDelayUs \<equiv> Atom ''max_worker_queue_delay_us''"

abbreviation ATOM_QUIC_SETTINGS_MaxStatelessOperations :: eterm where "ATOM_QUIC_SETTINGS_MaxStatelessOperations \<equiv> Atom ''max_stateless_operations''"

abbreviation ATOM_QUIC_SETTINGS_InitialWindowPackets :: eterm where "ATOM_QUIC_SETTINGS_InitialWindowPackets \<equiv> Atom ''initial_window_packets''"

abbreviation ATOM_QUIC_SETTINGS_SendIdleTimeoutMs :: eterm where "ATOM_QUIC_SETTINGS_SendIdleTimeoutMs \<equiv> Atom ''send_idle_timeout_ms''"

abbreviation ATOM_QUIC_SETTINGS_InitialRttMs :: eterm where "ATOM_QUIC_SETTINGS_InitialRttMs \<equiv> Atom ''initial_rtt_ms''"

abbreviation ATOM_QUIC_SETTINGS_MaxAckDelayMs :: eterm where "ATOM_QUIC_SETTINGS_MaxAckDelayMs \<equiv> Atom ''max_ack_delay_ms''"

abbreviation ATOM_QUIC_SETTINGS_DisconnectTimeoutMs :: eterm where "ATOM_QUIC_SETTINGS_DisconnectTimeoutMs \<equiv> Atom ''disconnect_timeout_ms''"

abbreviation ATOM_QUIC_SETTINGS_KeepAliveIntervalMs :: eterm where "ATOM_QUIC_SETTINGS_KeepAliveIntervalMs \<equiv> Atom ''keep_alive_interval_ms''"

abbreviation ATOM_QUIC_SETTINGS_PeerBidiStreamCount :: eterm where "ATOM_QUIC_SETTINGS_PeerBidiStreamCount \<equiv> Atom ''peer_bidi_stream_count''"

abbreviation ATOM_QUIC_SETTINGS_PeerUnidiStreamCount :: eterm where "ATOM_QUIC_SETTINGS_PeerUnidiStreamCount \<equiv> Atom ''peer_unidi_stream_count''"

abbreviation ATOM_QUIC_SETTINGS_RetryMemoryLimit :: eterm where "ATOM_QUIC_SETTINGS_RetryMemoryLimit \<equiv> Atom ''retry_memory_limit''"

abbreviation ATOM_QUIC_SETTINGS_LoadBalancingMode :: eterm where "ATOM_QUIC_SETTINGS_LoadBalancingMode \<equiv> Atom ''load_balancing_mode''"

abbreviation ATOM_QUIC_SETTINGS_MaxOperationsPerDrain :: eterm where "ATOM_QUIC_SETTINGS_MaxOperationsPerDrain \<equiv> Atom ''max_operations_per_drain''"

abbreviation ATOM_QUIC_SETTINGS_SendBufferingEnabled :: eterm where "ATOM_QUIC_SETTINGS_SendBufferingEnabled \<equiv> Atom ''send_buffering_enabled''"

abbreviation ATOM_QUIC_SETTINGS_PacingEnabled :: eterm where "ATOM_QUIC_SETTINGS_PacingEnabled \<equiv> Atom ''pacing_enabled''"

abbreviation ATOM_QUIC_SETTINGS_MigrationEnabled :: eterm where "ATOM_QUIC_SETTINGS_MigrationEnabled \<equiv> Atom ''migration_enabled''"

abbreviation ATOM_QUIC_SETTINGS_DatagramReceiveEnabled :: eterm where "ATOM_QUIC_SETTINGS_DatagramReceiveEnabled \<equiv> Atom ''datagram_receive_enabled''"

abbreviation ATOM_QUIC_SETTINGS_ServerResumptionLevel :: eterm where "ATOM_QUIC_SETTINGS_ServerResumptionLevel \<equiv> Atom ''server_resumption_level''"

abbreviation ATOM_QUIC_SETTINGS_VersionNegotiationExtEnabled :: eterm where "ATOM_QUIC_SETTINGS_VersionNegotiationExtEnabled \<equiv> Atom ''version_negotiation_ext_enabled''"

abbreviation ATOM_QUIC_SETTINGS_DesiredVersionsList :: eterm where "ATOM_QUIC_SETTINGS_DesiredVersionsList \<equiv> Atom ''desired_versions_list''"

abbreviation ATOM_QUIC_SETTINGS_DesiredVersionsListLength :: eterm where "ATOM_QUIC_SETTINGS_DesiredVersionsListLength \<equiv> Atom ''desired_versions_list_length''"

abbreviation ATOM_QUIC_SETTINGS_MinimumMtu :: eterm where "ATOM_QUIC_SETTINGS_MinimumMtu \<equiv> Atom ''minimum_mtu''"

abbreviation ATOM_QUIC_SETTINGS_MaximumMtu :: eterm where "ATOM_QUIC_SETTINGS_MaximumMtu \<equiv> Atom ''maximum_mtu''"

abbreviation ATOM_QUIC_SETTINGS_MtuDiscoverySearchCompleteTimeoutUs :: eterm where "ATOM_QUIC_SETTINGS_MtuDiscoverySearchCompleteTimeoutUs \<equiv> Atom ''mtu_discovery_search_complete_timeout_us''"

abbreviation ATOM_QUIC_SETTINGS_MtuDiscoveryMissingProbeCount :: eterm where "ATOM_QUIC_SETTINGS_MtuDiscoveryMissingProbeCount \<equiv> Atom ''mtu_discovery_missing_probe_count''"

abbreviation ATOM_QUIC_SETTINGS_MaxBindingStatelessOperations :: eterm where "ATOM_QUIC_SETTINGS_MaxBindingStatelessOperations \<equiv> Atom ''max_binding_stateless_operations''"

abbreviation ATOM_QUIC_SETTINGS_StatelessOperationExpirationMs :: eterm where "ATOM_QUIC_SETTINGS_StatelessOperationExpirationMs \<equiv> Atom ''stateless_operation_expiration_ms''"

abbreviation ATOM_QUIC_STREAM_OPTS_ACTIVE :: eterm where "ATOM_QUIC_STREAM_OPTS_ACTIVE \<equiv> Atom ''active''"

abbreviation ATOM_QUIC_STREAM_OPTS_OPEN_FLAG :: eterm where "ATOM_QUIC_STREAM_OPTS_OPEN_FLAG \<equiv> Atom ''open_flag''"

abbreviation ATOM_QUIC_STREAM_OPTS_START_FLAG :: eterm where "ATOM_QUIC_STREAM_OPTS_START_FLAG \<equiv> Atom ''start_flag''"

abbreviation ATOM_CERT :: eterm where "ATOM_CERT \<equiv> Atom ''cert''"

abbreviation ATOM_CERTFILE :: eterm where "ATOM_CERTFILE \<equiv> Atom ''certfile''"

abbreviation ATOM_KEY :: eterm where "ATOM_KEY \<equiv> Atom ''key''"

abbreviation ATOM_KEYFILE :: eterm where "ATOM_KEYFILE \<equiv> Atom ''keyfile''"

abbreviation ATOM_PASSWORD :: eterm where "ATOM_PASSWORD \<equiv> Atom ''password''"

abbreviation ATOM_ALPN :: eterm where "ATOM_ALPN \<equiv> Atom ''alpn''"

abbreviation ATOM_HANDLE :: eterm where "ATOM_HANDLE \<equiv> Atom ''handle''"

abbreviation ATOM_VERIFY :: eterm where "ATOM_VERIFY \<equiv> Atom ''verify''"

abbreviation ATOM_CACERTFILE :: eterm where "ATOM_CACERTFILE \<equiv> Atom ''cacertfile''"

abbreviation ATOM_PEER :: eterm where "ATOM_PEER \<equiv> Atom ''peer''"

abbreviation ATOM_NONE :: eterm where "ATOM_NONE \<equiv> Atom ''none''"

abbreviation ATOM_CLOSED :: eterm where "ATOM_CLOSED \<equiv> Atom ''closed''"

abbreviation ATOM_STREAM_CLOSED :: eterm where "ATOM_STREAM_CLOSED \<equiv> Atom ''stream_closed''"

abbreviation ATOM_LISTENER_STOPPED :: eterm where "ATOM_LISTENER_STOPPED \<equiv> Atom ''listener_stopped''"

abbreviation ATOM_TRANS_SHUTDOWN :: eterm where "ATOM_TRANS_SHUTDOWN \<equiv> Atom ''transport_shutdown''"

abbreviation ATOM_SHUTDOWN :: eterm where "ATOM_SHUTDOWN \<equiv> Atom ''shutdown''"

abbreviation ATOM_PEER_SEND_SHUTDOWN :: eterm where "ATOM_PEER_SEND_SHUTDOWN \<equiv> Atom ''peer_send_shutdown''"

abbreviation ATOM_PEER_SEND_ABORTED :: eterm where "ATOM_PEER_SEND_ABORTED \<equiv> Atom ''peer_send_aborted''"

abbreviation ATOM_PEER_RECEIVE_ABORTED :: eterm where "ATOM_PEER_RECEIVE_ABORTED \<equiv> Atom ''peer_receive_aborted''"

abbreviation ATOM_PEER_ADDRESS_CHANGED :: eterm where "ATOM_PEER_ADDRESS_CHANGED \<equiv> Atom ''peer_address_changed''"

abbreviation ATOM_SEND_SHUTDOWN_COMPLETE :: eterm where "ATOM_SEND_SHUTDOWN_COMPLETE \<equiv> Atom ''send_shutdown_complete''"

abbreviation ATOM_PEER_ACCEPTED :: eterm where "ATOM_PEER_ACCEPTED \<equiv> Atom ''peer_accepted''"

abbreviation ATOM_LOCAL_ADDRESS_CHANGED :: eterm where "ATOM_LOCAL_ADDRESS_CHANGED \<equiv> Atom ''local_address_changed''"

abbreviation ATOM_STREAMS_AVAILABLE :: eterm where "ATOM_STREAMS_AVAILABLE \<equiv> Atom ''streams_available''"

abbreviation ATOM_PEER_NEEDS_STREAMS :: eterm where "ATOM_PEER_NEEDS_STREAMS \<equiv> Atom ''peer_needs_streams''"

abbreviation ATOM_START_COMPLETE :: eterm where "ATOM_START_COMPLETE \<equiv> Atom ''start_completed''"

abbreviation ATOM_SEND_COMPLETE :: eterm where "ATOM_SEND_COMPLETE \<equiv> Atom ''send_complete''"

abbreviation ATOM_DGRAM_SEND_STATE :: eterm where "ATOM_DGRAM_SEND_STATE \<equiv> Atom ''dgram_send_state''"

abbreviation ATOM_SEND_DGRAM_COMPLETE :: eterm where "ATOM_SEND_DGRAM_COMPLETE \<equiv> Atom ''send_dgram_completed''"

abbreviation ATOM_EINVAL :: eterm where "ATOM_EINVAL \<equiv> Atom ''einval''"

abbreviation ATOM_QUIC :: eterm where "ATOM_QUIC \<equiv> Atom ''quic''"

abbreviation ATOM_PASSIVE :: eterm where "ATOM_PASSIVE \<equiv> Atom ''passive''"

abbreviation ATOM_QUIC_EVENT_MASK :: eterm where "ATOM_QUIC_EVENT_MASK \<equiv> Atom ''quic_event_mask''"

abbreviation ATOM_NST_RECEIVED :: eterm where "ATOM_NST_RECEIVED \<equiv> Atom ''nst_received''"

abbreviation ATOM_NST :: eterm where "ATOM_NST \<equiv> Atom ''nst''"

abbreviation ATOM_DGRAM :: eterm where "ATOM_DGRAM \<equiv> Atom ''dgram''"

abbreviation ATOM_DGRAM_STATE_CHANGED :: eterm where "ATOM_DGRAM_STATE_CHANGED \<equiv> Atom ''dgram_state_changed''"

abbreviation ATOM_DGRAM_MAX_LEN :: eterm where "ATOM_DGRAM_MAX_LEN \<equiv> Atom ''dgram_max_len''"

abbreviation ATOM_DGRAM_SEND_ENABLED :: eterm where "ATOM_DGRAM_SEND_ENABLED \<equiv> Atom ''dgram_send_enabled''"

abbreviation ATOM_DEBUG :: eterm where "ATOM_DEBUG \<equiv> Atom ''debug''"

abbreviation ATOM_ONCE :: eterm where "ATOM_ONCE \<equiv> Atom ''once''"

abbreviation ATOM_NEW_CONN :: eterm where "ATOM_NEW_CONN \<equiv> Atom ''new_conn''"

abbreviation ATOM_CONNECTED :: eterm where "ATOM_CONNECTED \<equiv> Atom ''connected''"

abbreviation ATOM_CONN_RESUMED :: eterm where "ATOM_CONN_RESUMED \<equiv> Atom ''connection_resumed''"

abbreviation ATOM_NEW_STREAM :: eterm where "ATOM_NEW_STREAM \<equiv> Atom ''new_stream''"

abbreviation ATOM_SNABBKAFFE_COLLECTOR :: eterm where "ATOM_SNABBKAFFE_COLLECTOR \<equiv> Atom ''snabbkaffe_collector''"

abbreviation ATOM_TRACE :: eterm where "ATOM_TRACE \<equiv> Atom ''trace''"

abbreviation ATOM_CONTEXT :: eterm where "ATOM_CONTEXT \<equiv> Atom ''context''"

abbreviation ATOM_NIF :: eterm where "ATOM_NIF \<equiv> Atom ''nif''"

abbreviation ATOM_CALLBACK :: eterm where "ATOM_CALLBACK \<equiv> Atom ''callback''"

abbreviation ATOM_TAG :: eterm where "ATOM_TAG \<equiv> Atom ''tag''"

abbreviation ATOM_RESOURCE_ID :: eterm where "ATOM_RESOURCE_ID \<equiv> Atom ''resource_id''"

abbreviation ATOM_MARK :: eterm where "ATOM_MARK \<equiv> Atom ''mark''"

abbreviation ATOM_KIND :: eterm where "ATOM_KIND \<equiv> Atom ''kind''"

abbreviation ATOM_SNK_KIND :: eterm where "ATOM_SNK_KIND \<equiv> Atom ''$kind''"

abbreviation ATOM_SNK_META :: eterm where "ATOM_SNK_META \<equiv> Atom ''~meta''"

abbreviation ATOM_GEN_CAST :: eterm where "ATOM_GEN_CAST \<equiv> Atom ''$gen_cast''"

abbreviation ATOM_FUNCTION :: eterm where "ATOM_FUNCTION \<equiv> Atom ''function''"

abbreviation ATOM_SNABBKAFFE_NEMESIS :: eterm where "ATOM_SNABBKAFFE_NEMESIS \<equiv> Atom ''snabbkaffe_nemesis''"

abbreviation ATOM_SSL_KEYLOGFILE_NAME :: eterm where "ATOM_SSL_KEYLOGFILE_NAME \<equiv> Atom ''sslkeylogfile''"

abbreviation ATOM_ALLOW_INSECURE :: eterm where "ATOM_ALLOW_INSECURE \<equiv> Atom ''allow_insecure''"

abbreviation ATOM_IS_RESUMED :: eterm where "ATOM_IS_RESUMED \<equiv> Atom ''is_resumed''"

abbreviation ATOM_VERIFY_NONE :: eterm where "ATOM_VERIFY_NONE \<equiv> Atom ''verify_none''"

abbreviation ATOM_VERIFY_PEER :: eterm where "ATOM_VERIFY_PEER \<equiv> Atom ''verify_peer''"

abbreviation ATOM_ALPNS :: eterm where "ATOM_ALPNS \<equiv> Atom ''alpns''"

abbreviation ATOM_IS_HANDSHAKE_COMPLETED :: eterm where "ATOM_IS_HANDSHAKE_COMPLETED \<equiv> Atom ''is_handshake_completed''"

abbreviation ATOM_IS_PEER_ACKED :: eterm where "ATOM_IS_PEER_ACKED \<equiv> Atom ''is_peer_acked''"

abbreviation ATOM_IS_APP_CLOSING :: eterm where "ATOM_IS_APP_CLOSING \<equiv> Atom ''is_app_closing''"

abbreviation ATOM_IS_SHUTDOWN_BY_APP :: eterm where "ATOM_IS_SHUTDOWN_BY_APP \<equiv> Atom ''is_shutdown_by_app''"

abbreviation ATOM_IS_CLOSED_REMOTELY :: eterm where "ATOM_IS_CLOSED_REMOTELY \<equiv> Atom ''is_closed_remotely''"

abbreviation ATOM_IS_ORPHAN :: eterm where "ATOM_IS_ORPHAN \<equiv> Atom ''is_orphan''"

abbreviation ATOM_BIDI_STREAMS :: eterm where "ATOM_BIDI_STREAMS \<equiv> Atom ''bidi_streams''"

abbreviation ATOM_UNIDI_STREAMS :: eterm where "ATOM_UNIDI_STREAMS \<equiv> Atom ''unidi_streams''"

abbreviation ATOM_STATUS :: eterm where "ATOM_STATUS \<equiv> Atom ''status''"

abbreviation ATOM_STATE :: eterm where "ATOM_STATE \<equiv> Atom ''state''"

abbreviation ATOM_STREAM_ID :: eterm where "ATOM_STREAM_ID \<equiv> Atom ''stream_id''"

abbreviation ATOM_IS_PEER_ACCEPTED :: eterm where "ATOM_IS_PEER_ACCEPTED \<equiv> Atom ''is_peer_accepted''"

abbreviation ATOM_IS_CONN_SHUTDOWN :: eterm where "ATOM_IS_CONN_SHUTDOWN \<equiv> Atom ''is_conn_shutdown''"

abbreviation ATOM_ABS_OFFSET :: eterm where "ATOM_ABS_OFFSET \<equiv> Atom ''absolute_offset''"

abbreviation ATOM_LEN :: eterm where "ATOM_LEN \<equiv> Atom ''len''"

abbreviation ATOM_FLAGS :: eterm where "ATOM_FLAGS \<equiv> Atom ''flags''"

abbreviation ATOM_VER :: eterm where "ATOM_VER \<equiv> Atom ''version''"

abbreviation ATOM_LOCAL_ADDR :: eterm where "ATOM_LOCAL_ADDR \<equiv> Atom ''local_addr''"

abbreviation ATOM_REMOTE_ADDR :: eterm where "ATOM_REMOTE_ADDR \<equiv> Atom ''remote_addr''"

abbreviation ATOM_SERVER_NAME :: eterm where "ATOM_SERVER_NAME \<equiv> Atom ''server_name''"

abbreviation ATOM_CLIENT_ALPNS :: eterm where "ATOM_CLIENT_ALPNS \<equiv> Atom ''client_alpns''"

abbreviation ATOM_CRYPTO_BUFFER :: eterm where "ATOM_CRYPTO_BUFFER \<equiv> Atom ''crypto_buffer''"

abbreviation ATOM_QUIC_DATAGRAM_SEND_UNKNOWN :: eterm where "ATOM_QUIC_DATAGRAM_SEND_UNKNOWN \<equiv> Atom ''dgram_send_unknown''"

abbreviation ATOM_QUIC_DATAGRAM_SEND_SENT :: eterm where "ATOM_QUIC_DATAGRAM_SEND_SENT \<equiv> Atom ''dgram_send_sent''"

abbreviation ATOM_QUIC_DATAGRAM_SEND_LOST_SUSPECT :: eterm where "ATOM_QUIC_DATAGRAM_SEND_LOST_SUSPECT \<equiv> Atom ''dgram_send_lost_suspect''"

abbreviation ATOM_QUIC_DATAGRAM_SEND_LOST_DISCARDED :: eterm where "ATOM_QUIC_DATAGRAM_SEND_LOST_DISCARDED \<equiv> Atom ''dgram_send_lost_discarded''"

abbreviation ATOM_QUIC_DATAGRAM_SEND_ACKNOWLEDGED :: eterm where "ATOM_QUIC_DATAGRAM_SEND_ACKNOWLEDGED \<equiv> Atom ''dgram_send_acknowledged''"

abbreviation ATOM_QUIC_DATAGRAM_SEND_ACKNOWLEDGED_SPURIOUS :: eterm where "ATOM_QUIC_DATAGRAM_SEND_ACKNOWLEDGED_SPURIOUS \<equiv> Atom ''dgram_send_acknowledged_spurious''"

abbreviation ATOM_QUIC_DATAGRAM_SEND_CANCELED :: eterm where "ATOM_QUIC_DATAGRAM_SEND_CANCELED \<equiv> Atom ''dgram_send_canceled''"

abbreviation ATOM_UNDEFINED :: eterm where "ATOM_UNDEFINED \<equiv> Atom ''undefined''"

subsection \<open>The initialisation table\<close>

definition init_atoms_1 :: "(string \<times> eterm) list" where
  "init_atoms_1 =
    [(''ATOM_TRUE'', ATOM_TRUE),
     (''ATOM_FALSE'', ATOM_FALSE),
     (''ATOM_OK'', ATOM_OK),
     (''ATOM_ERROR'', ATOM_ERROR),
     (''ATOM_REG_FAILED'', ATOM_REG_FAILED),
     (''ATOM_OPEN_FAILED'', ATOM_OPEN_FAILED),
     (''ATOM_CTX_INIT_FAILED'', ATOM_CTX_INIT_FAILED),
     (''ATOM_BAD_PID'', ATOM_BAD_PID),
     (''ATOM_CONFIG_ERROR'', ATOM_CONFIG_ERROR),
     (''ATOM_PARAM_ERROR'', ATOM_PARAM_ERROR),
     (''ATOM_CERT_ERROR'', ATOM_CERT_ERROR),
     (''ATOM_BAD_MON'', ATOM_BAD_MON),
     (''ATOM_LISTENER_OPEN_ERROR'', ATOM_LISTENER_OPEN_ERROR),
     (''ATOM_LISTENER_START_ERROR'', ATOM_LISTENER_START_ERROR),
     (''ATOM_BADARG'', ATOM_BADARG),
     (''ATOM_CONN_OPEN_ERROR'', ATOM_CONN_OPEN_ERROR),
     (''ATOM_CONN_START_ERROR'', ATOM_CONN_START_ERROR),
     (''ATOM_STREAM_OPEN_ERROR'', ATOM_STREAM_OPEN_ERROR),
     (''ATOM_STREAM_START_ERROR'', ATOM_STREAM_START_ERROR),
     (''ATOM_STREAM_SEND_ERROR'', ATOM_STREAM_SEND_ERROR),
     (''ATOM_DGRAM_SEND_ERROR'', ATOM_DGRAM_SEND_ERROR),
     (''ATOM_OWNER_DEAD'', ATOM_OWNER_DEAD),
     (''ATOM_NOT_OWNER'', ATOM_NOT_OWNER),
     (''ATOM_NO_PEERCERT'', ATOM_NO_PEERCERT),
     (''ATOM_ERROR_NO_ERROR'', ATOM_ERROR_NO_ERROR),
     (''ATOM_ERROR_CONTINUE'', ATOM_ERROR_CONTINUE),
     (''ATOM_ERROR_NOT_READY'', ATOM_ERROR_NOT_READY),
     (''ATOM_ERROR_NOT_ENOUGH_MEMORY'', ATOM_ERROR_NOT_ENOUGH_MEMORY),
     (''ATOM_ERROR_INVALID_STATE'', ATOM_ERROR_INVALID_STATE),
     (''ATOM_ERROR_INVALID_PARAMETER'', ATOM_ERROR_INVALID_PARAMETER),
     (''ATOM_ERROR_NOT_SUPPORTED'', ATOM_ERROR_NOT_SUPPORTED),
     (''ATOM_ERROR_NOT_FOUND'', ATOM_ERROR_NOT_FOUND),
     (''ATOM_ERROR_BUFFER_OVERFLOW'', ATOM_ERROR_BUFFER_OVERFLOW),
     (''ATOM_ERROR_CONNECTION_REFUSED'', ATOM_ERROR_CONNECTION_REFUSED),
     (''ATOM_ERROR_OPERATION_ABORTED'', ATOM_ERROR_OPERATION_ABORTED),
     (''ATOM_ERROR_HANDSHAKE_FAILURE'', ATOM_ERROR_HANDSHAKE_FAILURE),
     (''ATOM_ERROR_NETWORK_UNREACHABLE'', ATOM_ERROR_NETWORK_UNREACHABLE),
     (''ATOM_ERROR_CONNECTION_IDLE'', ATOM_ERROR_CONNECTION_IDLE),
     (''ATOM_ERROR_INTERNAL_ERROR'', ATOM_ERROR_INTERNAL_ERROR),
     (''ATOM_ERROR_PROTOCOL_ERROR'', ATOM_ERROR_PROTOCOL_ERROR),
     (''ATOM_ERROR_VER_NEG_ERROR'', ATOM_ERROR_VER_NEG_ERROR),
     (''ATOM_ERROR_EPOLL_ERROR'', ATOM_ERROR_EPOLL_ERROR),
     (''ATOM_ERROR_DNS_RESOLUTION_ERROR'', ATOM_ERROR_DNS_RESOLUTION_ERROR),
     (''ATOM_ERROR_SOCKET_ERROR'', ATOM_ERROR_SOCKET_ERROR),
     (''ATOM_ERROR_SSL_ERROR'', ATOM_ERROR_SSL_ERROR),
     (''ATOM_ERROR_USER_CANCELED'', ATOM_ERROR_USER_CANCELED),
     (''ATOM_ERROR_ALPN_NEG_FAILURE'', ATOM_ERROR_ALPN_NEG_FAILURE),
     (''ATOM_UNKNOWN_STATUS_CODE'', ATOM_UNKNOWN_STATUS_CODE),
     (''ATOM_UNKNOWN_TLS_STATUS_CODE'', ATOM_UNKNOWN_TLS_STATUS_CODE),
     (''ATOM_QUIC_STATUS_SUCCESS'', ATOM_QUIC_STATUS_SUCCESS),
     (''ATOM_QUIC_STATUS_PENDING'', ATOM_QUIC_STATUS_PENDING),
     (''ATOM_QUIC_STATUS_CONTINUE'', ATOM_QUIC_STATUS_CONTINUE),
     (''ATOM_QUIC_STATUS_OUT_OF_MEMORY'', ATOM_QUIC_STATUS_OUT_OF_MEMORY),
     (''ATOM_QUIC_STATUS_INVALID_PARAMETER'', ATOM_QUIC_STATUS_INVALID_PARAMETER),
     (''ATOM_QUIC_STATUS_INVALID_STATE'', ATOM_QUIC_STATUS_INVALID_STATE),
     (''ATOM_QUIC_STATUS_NOT_SUPPORTED'', ATOM_QUIC_STATUS_NOT_SUPPORTED),
     (''ATOM_QUIC_STATUS_NOT_FOUND'', ATOM_QUIC_STATUS_NOT_FOUND),
     (''ATOM_QUIC_STATUS_BUFFER_TOO_SMALL'', ATOM_QUIC_STATUS_BUFFER_TOO_SMALL),
     (''ATOM_QUIC_STATUS_HANDSHAKE_FAILURE'', ATOM_QUIC_STATUS_HANDSHAKE_FAILURE),
     (''ATOM_QUIC_STATUS_ABORTED'', ATOM_QUIC_STATUS_ABORTED),
     (''ATOM_QUIC_STATUS_ADDRESS_IN_USE'', ATOM_QUIC_STATUS_ADDRESS_IN_USE),
     (''ATOM_QUIC_STATUS_CONNECTION_TIMEOUT'', ATOM_QUIC_STATUS_CONNECTION_TIMEOUT),
     (''ATOM_QUIC_STATUS_CONNECTION_IDLE'', ATOM_QUIC_STATUS_CONNECTION_IDLE),
     (''ATOM_QUIC_STATUS_INTERNAL_ERROR'', ATOM_QUIC_STATUS_INTERNAL_ERROR),
     (''ATOM_QUIC_STATUS_CONNECTION_REFUSED'', ATOM_QUIC_STATUS_CONNECTION_REFUSED),
     (''ATOM_QUIC_STATUS_PROTOCOL_ERROR'', ATOM_QUIC_STATUS_PROTOCOL_ERROR),
     (''ATOM_QUIC_STATUS_VER_NEG_ERROR'', ATOM_QUIC_STATUS_VER_NEG_ERROR),
     (''ATOM_QUIC_STATUS_UNREACHABLE'', ATOM_QUIC_STATUS_UNREACHABLE),
     (''ATOM_QUIC_STATUS_TLS_ERROR'', ATOM_QUIC_STATUS_TLS_ERROR),
     (''ATOM_QUIC_STATUS_USER_CANCELED'', ATOM_QUIC_STATUS_USER_CANCELED),
     (''ATOM_QUIC_STATUS_ALPN_NEG_FAILURE'', ATOM_QUIC_STATUS_ALPN_NEG_FAILURE),
     (''ATOM_QUIC_STATUS_STREAM_LIMIT_REACHED'', ATOM_QUIC_STATUS_STREAM_LIMIT_REACHED),
     (''ATOM_QUIC_STATUS_CLOSE_NOTIFY'', ATOM_QUIC_STATUS_CLOSE_NOTIFY),
     (''ATOM_QUIC_STATUS_BAD_CERTIFICATE'', ATOM_QUIC_STATUS_BAD_CERTIFICATE),
     (''ATOM_QUIC_STATUS_UNSUPPORTED_CERTIFICATE'', ATOM_QUIC_STATUS_UNSUPPORTED_CERTIFICATE),
     (''ATOM_QUIC_STATUS_REVOKED_CERTIFICATE'', ATOM_QUIC_STATUS_REVOKED_CERTIFICATE),
     (''ATOM_QUIC_STATUS_EXPIRED_CERTIFICATE'', ATOM_QUIC_STATUS_EXPIRED_CERTIFICATE),
     (''ATOM_QUIC_STATUS_UNKNOWN_CERTIFICATE'', ATOM_QUIC_STATUS_UNKNOWN_CERTIFICATE),
     (''ATOM_QUIC_STATUS_CERT_EXPIRED'', ATOM_QUIC_STATUS_CERT_EXPIRED),
     (''ATOM_QUIC_STATUS_CERT_UNTRUSTED_ROOT'', ATOM_QUIC_STATUS_CERT_UNTRUSTED_ROOT),
     (''ATOM_QUIC_STATUS_CERT_NO_CERT'', ATOM_QUIC_STATUS_CERT_NO_CERT),
     (''ATOM_QUIC_STATUS_CERT_REQUIRED'', ATOM_QUIC_STATUS_CERT_REQUIRED),
     (''ATOM_QUIC_STATUS_CERT_UNOBTAINABLE'', ATOM_QUIC_STATUS_CERT_UNOBTAINABLE),
     (''ATOM_QUIC_EXECUTION_PROFILE_LOW_LATENCY'', ATOM_QUIC_EXECUTION_PROFILE_LOW_LATENCY),
     (''ATOM_QUIC_EXECUTION_PROFILE_TYPE_MAX_THROUGHPUT'', ATOM_QUIC_EXECUTION_PROFILE_TYPE_MAX_THROUGHPUT),
     (''ATOM_QUIC_EXECUTION_PROFILE_TYPE_SCAVENGER'', ATOM_QUIC_EXECUTION_PROFILE_TYPE_SCAVENGER),
     (''ATOM_QUIC_EXECUTION_PROFILE_TYPE_REAL_TIME'', ATOM_QUIC_EXECUTION_PROFILE_TYPE_REAL_TIME),
     (''ATOM_QUIC_GLOBAL'', ATOM_QUIC_GLOBAL),
     (''ATOM_QUIC_PARAM_GLOBAL_RETRY_MEMORY_PERCENT'', ATOM_QUIC_PARAM_GLOBAL_RETRY_MEMORY_PERCENT),
     (''ATOM_QUIC_PARAM_GLOBAL_SUPPORTED_VERSIONS'', ATOM_QUIC_PARAM_GLOBAL_SUPPORTED_VERSIONS),
     (''ATOM_QUIC_PARAM_GLOBAL_LOAD_BALACING_MODE'', ATOM_QUIC_PARAM_GLOBAL_LOAD_BALACING_MODE),
     (''ATOM_QUIC_PARAM_GLOBAL_PERF_COUNTERS'', ATOM_QUIC_PARAM_GLOBAL_PERF_COUNTERS),
     (''ATOM_QUIC_PARAM_GLOBAL_SETTINGS'', ATOM_QUIC_PARAM_GLOBAL_SETTINGS),
     (''ATOM_QUIC_PARAM_GLOBAL_VERSION'', ATOM_QUIC_PARAM_GLOBAL_VERSION),
     (''ATOM_QUIC_PARAM_GLOBAL_LIBRARY_GIT_HASH'', ATOM_QUIC_PARAM_GLOBAL_LIBRARY_GIT_HASH),
     (''ATOM_QUIC_REGISTRATION'', ATOM_QUIC_REGISTRATION),
     (''ATOM_QUIC_PARAM_REGISTRATION_CID_PREFIX'', ATOM_QUIC_PARAM_REGISTRATION_CID_PREFIX),
     (''ATOM_QUIC_CONFIGURATION'', ATOM_QUIC_CONFIGURATION),
     (''ATOM_QUIC_PARAM_CONFIGURATION_SETTINGS'', ATOM_QUIC_PARAM_CONFIGURATION_SETTINGS),
     (''ATOM_QUIC_PARAM_LISTENER_LOCAL_ADDRESS'', ATOM_QUIC_PARAM_LISTENER_LOCAL_ADDRESS),
     (''ATOM_QUIC_PARAM_LISTENER_STATS'', ATOM_QUIC_PARAM_LISTENER_STATS),
     (''ATOM_QUIC_PARAM_LISTENER_CIBIR_ID'', ATOM_QUIC_PARAM_LISTENER_CIBIR_ID),
     (''ATOM_QUIC_PARAM_CONN_QUIC_VERSION'', ATOM_QUIC_PARAM_CONN_QUIC_VERSION),
     (''ATOM_QUIC_PARAM_CONN_LOCAL_ADDRESS'', ATOM_QUIC_PARAM_CONN_LOCAL_ADDRESS),
     (''ATOM_QUIC_PARAM_CONN_REMOTE_ADDRESS'', ATOM_QUIC_PARAM_CONN_REMOTE_ADDRESS),
     (''ATOM_QUIC_PARAM_CONN_IDEAL_PROCESSOR'', ATOM_QUIC_PARAM_CONN_IDEAL_PROCESSOR),
     (''ATOM_QUIC_PARAM_CONN_SETTINGS'', ATOM_QUIC_PARAM_CONN_SETTINGS),
     (''ATOM_QUIC_PARAM_CONN_STATISTICS'', ATOM_QUIC_PARAM_CONN_STATISTICS),
     (''ATOM_QUIC_PARAM_CONN_STATISTICS_PLAT'', ATOM_QUIC_PARAM_CONN_STATISTICS_PLAT),
     (''ATOM_QUIC_PARAM_CONN_SHARE_UDP_BINDING'', ATOM_QUIC_PARAM_CONN_SHARE_UDP_BINDING),
     (''ATOM_QUIC_PARAM_CONN_LOCAL_BIDI_STREAM_COUNT'', ATOM_QUIC_PARAM_CONN_LOCAL_BIDI_STREAM_COUNT),
     (''ATOM_QUIC_PARAM_CONN_LOCAL_UNIDI_STREAM_COUNT'', ATOM_QUIC_PARAM_CONN_LOCAL_UNIDI_STREAM_COUNT),
     (''ATOM_QUIC_PARAM_CONN_MAX_STREAM_IDS'', ATOM_QUIC_PARAM_CONN_MAX_STREAM_IDS),
     (''ATOM_QUIC_PARAM_CONN_CLOSE_REASON_PHRASE'', ATOM_QUIC_PARAM_CONN_CLOSE_REASON_PHRASE),
     (''ATOM_QUIC_PARAM_CONN_STREAM_SCHEDULING_SCHEME'', ATOM_QUIC_PARAM_CONN_STREAM_SCHEDULING_SCHEME)]"

definition init_atoms_2 :: "(string \<times> eterm) list" where
  "init_atoms_2 =
    [(''ATOM_QUIC_PARAM_CONN_DATAGRAM_RECEIVE_ENABLED'', ATOM_QUIC_PARAM_CONN_DATAGRAM_RECEIVE_ENABLED),
     (''ATOM_QUIC_PARAM_CONN_DATAGRAM_SEND_ENABLED'', ATOM_QUIC_PARAM_CONN_DATAGRAM_SEND_ENABLED),
     (''ATOM_QUIC_PARAM_CONN_DISABLE_1RTT_ENCRYPTION'', ATOM_QUIC_PARAM_CONN_DISABLE_1RTT_ENCRYPTION),
     (''ATOM_QUIC_PARAM_CONN_RESUMPTION_TICKET'', ATOM_QUIC_PARAM_CONN_RESUMPTION_TICKET),
     (''ATOM_QUIC_PARAM_CONN_PEER_CERTIFICATE_VALID'', ATOM_QUIC_PARAM_CONN_PEER_CERTIFICATE_VALID),
     (''ATOM_QUIC_PARAM_CONN_LOCAL_INTERFACE'', ATOM_QUIC_PARAM_CONN_LOCAL_INTERFACE),
     (''ATOM_QUIC_TLS'', ATOM_QUIC_TLS),
     (''ATOM_TLS_PROTOCOL_VERSION'', ATOM_TLS_PROTOCOL_VERSION),
     (''ATOM_CIPHER_ALGORITHM'', ATOM_CIPHER_ALGORITHM),
     (''ATOM_CIPHER_STRENGTH'', ATOM_CIPHER_STRENGTH),
     (''ATOM_HASH_ALGORITHM'', ATOM_HASH_ALGORITHM),
     (''ATOM_HASH_STRENGTH'', ATOM_HASH_STRENGTH),
     (''ATOM_KEY_EXCHANGE_ALGORITHM'', ATOM_KEY_EXCHANGE_ALGORITHM),
     (''ATOM_KEY_EXCHANGE_STRENGTH'', ATOM_KEY_EXCHANGE_STRENGTH),
     (''ATOM_CIPHER_SUITE'', ATOM_CIPHER_SUITE),
     (''ATOM_TLS_VSN_1_3'', ATOM_TLS_VSN_1_3),
     (''ATOM_AES_128'', ATOM_AES_128),
     (''ATOM_AES_256'', ATOM_AES_256),
     (''ATOM_CHACHA20'', ATOM_CHACHA20),
     (''ATOM_SHA_256'', ATOM_SHA_256),
     (''ATOM_SHA_384'', ATOM_SHA_384),
     (''ATOM_AES_128_GCM_SHA256'', ATOM_AES_128_GCM_SHA256),
     (''ATOM_AES_256_GCM_SHA384'', ATOM_AES_256_GCM_SHA384),
     (''ATOM_CHACHA20_POLY1305_SHA256'', ATOM_CHACHA20_POLY1305_SHA256),
     (''ATOM_QUIC_PARAM_TLS_SCHANNEL_CONTEXT_ATTRIBUTE_W'', ATOM_QUIC_PARAM_TLS_SCHANNEL_CONTEXT_ATTRIBUTE_W),
     (''ATOM_QUIC_PARAM_TLS_HANDSHAKE_INFO'', ATOM_QUIC_PARAM_TLS_HANDSHAKE_INFO),
     (''ATOM_QUIC_PARAM_TLS_NEGOTIATED_ALPN'', ATOM_QUIC_PARAM_TLS_NEGOTIATED_ALPN),
     (''ATOM_QUIC_PARAM_STREAM_ID'', ATOM_QUIC_PARAM_STREAM_ID),
     (''ATOM_QUIC_PARAM_STREAM_0RTT_LENGTH'', ATOM_QUIC_PARAM_STREAM_0RTT_LENGTH),
     (''ATOM_QUIC_PARAM_STREAM_IDEAL_SEND_BUFFER_SIZE'', ATOM_QUIC_PARAM_STREAM_IDEAL_SEND_BUFFER_SIZE),
     (''ATOM_QUIC_PARAM_STREAM_PRIORITY'', ATOM_QUIC_PARAM_STREAM_PRIORITY),
     (''ATOM_QUIC_SETTINGS_MaxBytesPerKey'', ATOM_QUIC_SETTINGS_MaxBytesPerKey),
     (''ATOM_QUIC_SETTINGS_HandshakeIdleTimeoutMs'', ATOM_QUIC_SETTINGS_HandshakeIdleTimeoutMs),
     (''ATOM_QUIC_SETTINGS_IdleTimeoutMs'', ATOM_QUIC_SETTINGS_IdleTimeoutMs),
     (''ATOM_QUIC_SETTINGS_TlsClientMaxSendBuffer'', ATOM_QUIC_SETTINGS_TlsClientMaxSendBuffer),
     (''ATOM_QUIC_SETTINGS_TlsServerMaxSendBuffer'', ATOM_QUIC_SETTINGS_TlsServerMaxSendBuffer),
     (''ATOM_QUIC_SETTINGS_StreamRecvWindowDefault'', ATOM_QUIC_SETTINGS_StreamRecvWindowDefault),
     (''ATOM_QUIC_SETTINGS_StreamRecvBufferDefault'', ATOM_QUIC_SETTINGS_StreamRecvBufferDefault),
     (''ATOM_QUIC_SETTINGS_ConnFlowControlWindow'', ATOM_QUIC_SETTINGS_ConnFlowControlWindow),
     (''ATOM_QUIC_SETTINGS_MaxWorkerQueueDelayUs'', ATOM_QUIC_SETTINGS_MaxWorkerQueueDelayUs),
     (''ATOM_QUIC_SETTINGS_MaxStatelessOperations'', ATOM_QUIC_SETTINGS_MaxStatelessOperations),
     (''ATOM_QUIC_SETTINGS_InitialWindowPackets'', ATOM_QUIC_SETTINGS_InitialWindowPackets),
     (''ATOM_QUIC_SETTINGS_SendIdleTimeoutMs'', ATOM_QUIC_SETTINGS_SendIdleTimeoutMs),
     (''ATOM_QUIC_SETTINGS_InitialRttMs'', ATOM_QUIC_SETTINGS_InitialRttMs),
     (''ATOM_QUIC_SETTINGS_MaxAckDelayMs'', ATOM_QUIC_SETTINGS_MaxAckDelayMs),
     (''ATOM_QUIC_SETTINGS_DisconnectTimeoutMs'', ATOM_QUIC_SETTINGS_DisconnectTimeoutMs),
     (''ATOM_QUIC_SETTINGS_KeepAliveIntervalMs'', ATOM_QUIC_SETTINGS_KeepAliveIntervalMs),
     (''ATOM_QUIC_SETTINGS_PeerBidiStreamCount'', ATOM_QUIC_SETTINGS_PeerBidiStreamCount),
     (''ATOM_QUIC_SETTINGS_PeerUnidiStreamCount'', ATOM_QUIC_SETTINGS_PeerUnidiStreamCount),
     (''ATOM_QUIC_SETTINGS_RetryMemoryLimit'', ATOM_QUIC_SETTINGS_RetryMemoryLimit),
     (''ATOM_QUIC_SETTINGS_LoadBalancingMode'', ATOM_QUIC_SETTINGS_LoadBalancingMode),
     (''ATOM_QUIC_SETTINGS_MaxOperationsPerDrain'', ATOM_QUIC_SETTINGS_MaxOperationsPerDrain),
     (''ATOM_QUIC_SETTINGS_SendBufferingEnabled'', ATOM_QUIC_SETTINGS_SendBufferingEnabled),
     (''ATOM_QUIC_SETTINGS_PacingEnabled'', ATOM_QUIC_SETTINGS_PacingEnabled),
     (''ATOM_QUIC_SETTINGS_MigrationEnabled'', ATOM_QUIC_SETTINGS_MigrationEnabled),
     (''ATOM_QUIC_SETTINGS_DatagramReceiveEnabled'', ATOM_QUIC_SETTINGS_DatagramReceiveEnabled),
     (''ATOM_QUIC_SETTINGS_ServerResumptionLevel'', ATOM_QUIC_SETTINGS_ServerResumptionLevel),
     (''ATOM_QUIC_SETTINGS_VersionNegotiationExtEnabled'', ATOM_QUIC_SETTINGS_VersionNegotiationExtEnabled),
     (''ATOM_QUIC_SETTINGS_DesiredVersionsList'', ATOM_QUIC_SETTINGS_DesiredVersionsList),
     (''ATOM_QUIC_SETTINGS_DesiredVersionsListLength'', ATOM_QUIC_SETTINGS_DesiredVersionsListLength),
     (''ATOM_QUIC_SETTINGS_MinimumMtu'', ATOM_QUIC_SETTINGS_MinimumMtu),
     (''ATOM_QUIC_SETTINGS_MaximumMtu'', ATOM_QUIC_SETTINGS_MaximumMtu),
     (''ATOM_QUIC_SETTINGS_MtuDiscoverySearchCompleteTimeoutUs'', ATOM_QUIC_SETTINGS_MtuDiscoverySearchCompleteTimeoutUs),
     (''ATOM_QUIC_SETTINGS_MtuDiscoveryMissingProbeCount'', ATOM_QUIC_SETTINGS_MtuDiscoveryMissingProbeCount),
     (''ATOM_QUIC_SETTINGS_MaxBindingStatelessOperations'', ATOM_QUIC_SETTINGS_MaxBindingStatelessOperations),
     (''ATOM_QUIC_SETTINGS_StatelessOperationExpirationMs'', ATOM_QUIC_SETTINGS_StatelessOperationExpirationMs),
     (''ATOM_QUIC_STREAM_OPTS_ACTIVE'', ATOM_QUIC_STREAM_OPTS_ACTIVE),
     (''ATOM_QUIC_STREAM_OPTS_OPEN_FLAG'', ATOM_QUIC_STREAM_OPTS_OPEN_FLAG),
     (''ATOM_QUIC_STREAM_OPTS_START_FLAG'', ATOM_QUIC_STREAM_OPTS_START_FLAG),
     (''ATOM_CERT'', ATOM_CERT),
     (''ATOM_CERTFILE'', ATOM_CERTFILE),
     (''ATOM_KEY'', ATOM_KEY),
     (''ATOM_KEYFILE'', ATOM_KEYFILE),
     (''ATOM_PASSWORD'', ATOM_PASSWORD),
     (''ATOM_ALPN'', ATOM_ALPN),
     (''ATOM_HANDLE'', ATOM_HANDLE),
     (''ATOM_VERIFY'', ATOM_VERIFY),
     (''ATOM_CACERTFILE'', ATOM_CACERTFILE),
     (''ATOM_PEER'', ATOM_PEER),
     (''ATOM_NONE'', ATOM_NONE),
     (''ATOM_CLOSED'', ATOM_CLOSED),
     (''ATOM_STREAM_CLOSED'', ATOM_STREAM_CLOSED),
     (''ATOM_LISTENER_STOPPED'', ATOM_LISTENER_STOPPED),
     (''ATOM_TRANS_SHUTDOWN'', ATOM_TRANS_SHUTDOWN),
     (''ATOM_SHUTDOWN'', ATOM_SHUTDOWN),
     (''ATOM_PEER_SEND_SHUTDOWN'', ATOM_PEER_SEND_SHUTDOWN),
     (''ATOM_PEER_SEND_ABORTED'', ATOM_PEER_SEND_ABORTED),
     (''ATOM_PEER_RECEIVE_ABORTED'', ATOM_PEER_RECEIVE_ABORTED),
     (''ATOM_PEER_ADDRESS_CHANGED'', ATOM_PEER_ADDRESS_CHANGED),
     (''ATOM_SEND_SHUTDOWN_COMPLETE'', ATOM_SEND_SHUTDOWN_COMPLETE),
     (''ATOM_PEER_ACCEPTED'', ATOM_PEER_ACCEPTED),
     (''ATOM_LOCAL_ADDRESS_CHANGED'', ATOM_LOCAL_ADDRESS_CHANGED),
     (''ATOM_STREAMS_AVAILABLE'', ATOM_STREAMS_AVAILABLE),
     (''ATOM_PEER_NEEDS_STREAMS'', ATOM_PEER_NEEDS_STREAMS),
     (''ATOM_START_COMPLETE'', ATOM_START_COMPLETE),
     (''ATOM_SEND_COMPLETE'', ATOM_SEND_COMPLETE),
     (''ATOM_DGRAM_SEND_STATE'', ATOM_DGRAM_SEND_STATE),
     (''ATOM_SEND_DGRAM_COMPLETE'', ATOM_SEND_DGRAM_COMPLETE),
     (''ATOM_EINVAL'', ATOM_EINVAL),
     (''ATOM_QUIC'', ATOM_QUIC),
     (''ATOM_PASSIVE'', ATOM_PASSIVE),
     (''ATOM_QUIC_EVENT_MASK'', ATOM_QUIC_EVENT_MASK),
     (''ATOM_NST_RECEIVED'', ATOM_NST_RECEIVED),
     (''ATOM_NST'', ATOM_NST),
     (''ATOM_DGRAM'', ATOM_DGRAM),
     (''ATOM_DGRAM_STATE_CHANGED'', ATOM_DGRAM_STATE_CHANGED),
     (''ATOM_DGRAM_MAX_LEN'', ATOM_DGRAM_MAX_LEN),
     (''ATOM_DGRAM_SEND_ENABLED'', ATOM_DGRAM_SEND_ENABLED),
     (''ATOM_DEBUG'', ATOM_DEBUG),
     (''ATOM_ONCE'', ATOM_ONCE),
     (''ATOM_NEW_CONN'', ATOM_NEW_CONN),
     (''ATOM_CONNECTED'', ATOM_CONNECTED),
     (''ATOM_CONN_RESUMED'', ATOM_CONN_RESUMED)]"

definition init_atoms_3 :: "(string \<times> eterm) list" where
  "init_atoms_3 =
    [(''ATOM_NEW_STREAM'', ATOM_NEW_STREAM),
     (''ATOM_SNABBKAFFE_COLLECTOR'', ATOM_SNABBKAFFE_COLLECTOR),
     (''ATOM_TRACE'', ATOM_TRACE),
     (''ATOM_CONTEXT'', ATOM_CONTEXT),
     (''ATOM_NIF'', ATOM_NIF),
     (''ATOM_CALLBACK'', ATOM_CALLBACK),
     (''ATOM_TAG'', ATOM_TAG),
     (''ATOM_RESOURCE_ID'', ATOM_RESOURCE_ID),
     (''ATOM_MARK'', ATOM_MARK),
     (''ATOM_KIND'', ATOM_KIND),
     (''ATOM_SNK_KIND'', ATOM_SNK_KIND),
     (''ATOM_SNK_META'', ATOM_SNK_META),
     (''ATOM_GEN_CAST'', ATOM_GEN_CAST),
     (''ATOM_FUNCTION'', ATOM_FUNCTION),
     (''ATOM_SNABBKAFFE_NEMESIS'', ATOM_SNABBKAFFE_NEMESIS),
     (''ATOM_SSL_KEYLOGFILE_NAME'', ATOM_SSL_KEYLOGFILE_NAME),
     (''ATOM_ALLOW_INSECURE'', ATOM_ALLOW_INSECURE),
     (''ATOM_IS_RESUMED'', ATOM_IS_RESUMED),
     (''ATOM_VERIFY'', ATOM_VERIFY),
     (''ATOM_VERIFY_NONE'', ATOM_VERIFY_NONE),
     (''ATOM_VERIFY_PEER'', ATOM_VERIFY_PEER),
     (''ATOM_ALPNS'', ATOM_ALPNS),
     (''ATOM_IS_HANDSHAKE_COMPLETED'', ATOM_IS_HANDSHAKE_COMPLETED),
     (''ATOM_IS_PEER_ACKED'', ATOM_IS_PEER_ACKED),
     (''ATOM_IS_APP_CLOSING'', ATOM_IS_APP_CLOSING),
     (''ATOM_IS_SHUTDOWN_BY_APP'', ATOM_IS_SHUTDOWN_BY_APP),
     (''ATOM_IS_CLOSED_REMOTELY'', ATOM_IS_CLOSED_REMOTELY),
     (''ATOM_IS_ORPHAN'', ATOM_IS_ORPHAN),
     (''ATOM_BIDI_STREAMS'', ATOM_BIDI_STREAMS),
     (''ATOM_UNIDI_STREAMS'', ATOM_UNIDI_STREAMS),
     (''ATOM_STATUS'', ATOM_STATUS),
     (''ATOM_STATE'', ATOM_STATE),
     (''ATOM_STREAM_ID'', ATOM_STREAM_ID),
     (''ATOM_IS_PEER_ACCEPTED'', ATOM_IS_PEER_ACCEPTED),
     (''ATOM_IS_CONN_SHUTDOWN'', ATOM_IS_CONN_SHUTDOWN),
     (''ATOM_ABS_OFFSET'', ATOM_ABS_OFFSET),
     (''ATOM_LEN'', ATOM_LEN),
     (''ATOM_FLAGS'', ATOM_FLAGS),
     (''ATOM_VER'', ATOM_VER),
     (''ATOM_LOCAL_ADDR'', ATOM_LOCAL_ADDR),
     (''ATOM_REMOTE_ADDR'', ATOM_REMOTE_ADDR),
     (''ATOM_SERVER_NAME'', ATOM_SERVER_NAME),
     (''ATOM_CLIENT_ALPNS'', ATOM_CLIENT_ALPNS),
     (''ATOM_CRYPTO_BUFFER'', ATOM_CRYPTO_BUFFER),
     (''ATOM_QUIC_DATAGRAM_SEND_UNKNOWN'', ATOM_QUIC_DATAGRAM_SEND_UNKNOWN),
     (''ATOM_QUIC_DATAGRAM_SEND_SENT'', ATOM_QUIC_DATAGRAM_SEND_SENT),
     (''ATOM_QUIC_DATAGRAM_SEND_LOST_SUSPECT'', ATOM_QUIC_DATAGRAM_SEND_LOST_SUSPECT),
     (''ATOM_QUIC_DATAGRAM_SEND_LOST_DISCARDED'', ATOM_QUIC_DATAGRAM_SEND_LOST_DISCARDED),
     (''ATOM_QUIC_DATAGRAM_SEND_ACKNOWLEDGED'', ATOM_QUIC_DATAGRAM_SEND_ACKNOWLEDGED),
     (''ATOM_QUIC_DATAGRAM_SEND_ACKNOWLEDGED_SPURIOUS'', ATOM_QUIC_DATAGRAM_SEND_ACKNOWLEDGED_SPURIOUS),
     (''ATOM_QUIC_DATAGRAM_SEND_CANCELED'', ATOM_QUIC_DATAGRAM_SEND_CANCELED),
     (''ATOM_UNDEFINED'', ATOM_UNDEFINED)]"

definition INIT_ATOMS :: "(string \<times> eterm) list" where
  "INIT_ATOMS = init_atoms_1 @ init_atoms_2 @ init_atoms_3"

text \<open>What the named variable holds after \<open>on_load\<close>.\<close>

definition atom_var :: "string \<Rightarrow> eterm" where
  "atom_var n = (case map_of INIT_ATOMS n of None \<Rightarrow> EInvalid | Some v \<Rightarrow> v)"

lemmas atom_tables =
  declared_atoms_def declared_atoms_1_def declared_atoms_2_def declared_atoms_3_def
  INIT_ATOMS_def init_atoms_1_def init_atoms_2_def init_atoms_3_def

lemma map_of_None_list_all: "list_all (\<lambda>t. fst t \<noteq> n) xs \<Longrightarrow> map_of xs n = None"
  by (induction xs) auto

lemma sockname_not_in_tables:
  "list_all (\<lambda>t. fst t \<noteq> ''ATOM_SOCKNAME_ERROR'') init_atoms_1"
  "list_all (\<lambda>t. fst t \<noteq> ''ATOM_SOCKNAME_ERROR'') init_atoms_2"
  "list_all (\<lambda>t. fst t \<noteq> ''ATOM_SOCKNAME_ERROR'') init_atoms_3"
  by (simp_all add: atom_tables)

lemma sockname_not_in_table: "map_of INIT_ATOMS ''ATOM_SOCKNAME_ERROR'' = None"
  by (rule map_of_None_list_all) (simp add: INIT_ATOMS_def sockname_not_in_tables)

lemma sockname_declared: "''ATOM_SOCKNAME_ERROR'' \<in> set declared_atoms"
  by (simp add: declared_atoms_def declared_atoms_1_def)

lemma atom_var_sockname [simp]: "atom_var ''ATOM_SOCKNAME_ERROR'' = EInvalid"
  by (simp add: atom_var_def sockname_not_in_table)

end
