(* ===== verification/Quicer_Terms.thy ===== *)
theory Quicer_Terms
  imports Quicer_Atoms
begin

section \<open>Building Erlang terms\<close>

text \<open>
  The macros of \<open>quicer_eterms.h\<close>, the two message builders of \<open>quicer_nif.c\<close> and the
  translation of status codes into terms.
\<close>

subsection \<open>Return values (\<open>quicer_eterms.h\<close>)\<close>

definition SUCCESS :: "eterm \<Rightarrow> eterm" where
  "SUCCESS t = ETuple [ATOM_OK, t]"

definition OK_TUPLE_2 :: "eterm \<Rightarrow> eterm" where
  "OK_TUPLE_2 t = ETuple [ATOM_OK, t]"

definition ERROR_TUPLE_2 :: "eterm \<Rightarrow> eterm" where
  "ERROR_TUPLE_2 err = ETuple [ATOM_ERROR, err]"

definition ERROR_TUPLE_3 :: "eterm \<Rightarrow> eterm \<Rightarrow> eterm" where
  "ERROR_TUPLE_3 err1 err2 = ETuple [ATOM_ERROR, err1, err2]"

text \<open>\<open>enif_make_int\<close> takes a C \<open>int\<close>: the argument is converted to 32 signed bits.\<close>

definition enif_make_int :: "int \<Rightarrow> eterm" where
  "enif_make_int i = EInt (signed_take_bit 31 i)"

definition ETERM_INT :: "int \<Rightarrow> eterm" where
  "ETERM_INT i = enif_make_int i"

text \<open>The cast to \<open>uint64_t\<close> happens first, then the conversion to \<open>int\<close> of the call.\<close>

definition ETERM_UINT_64 :: "int \<Rightarrow> eterm" where
  "ETERM_UINT_64 i = enif_make_int (uint (word_of_int i :: u64))"

definition enif_make_uint64 :: "u64 \<Rightarrow> eterm" where
  "enif_make_uint64 w = EInt (uint w)"

definition enif_make_uint :: "u32 \<Rightarrow> eterm" where
  "enif_make_uint w = EInt (uint w)"

definition ETERM_BOOL :: "u8 \<Rightarrow> eterm" where
  "ETERM_BOOL i = (if 0 < i then ATOM_TRUE else ATOM_FALSE)"

definition ATOM_BOOLEAN :: "bool \<Rightarrow> eterm" where
  "ATOM_BOOLEAN b = (if b then ATOM_TRUE else ATOM_FALSE)"

lemmas ret_defs = SUCCESS_def OK_TUPLE_2_def ERROR_TUPLE_2_def ERROR_TUPLE_3_def

lemma ret_inject [simp]:
  "SUCCESS s = SUCCESS t \<longleftrightarrow> s = t"
  "ERROR_TUPLE_2 s = ERROR_TUPLE_2 t \<longleftrightarrow> s = t"
  "ERROR_TUPLE_3 s s' = ERROR_TUPLE_3 t t' \<longleftrightarrow> s = t \<and> s' = t'"
  by (simp_all add: ret_defs)

lemma ret_distinct [simp]:
  "SUCCESS s \<noteq> ERROR_TUPLE_2 t" "ERROR_TUPLE_2 t \<noteq> SUCCESS s"
  "SUCCESS s \<noteq> ERROR_TUPLE_3 t t'" "ERROR_TUPLE_3 t t' \<noteq> SUCCESS s"
  "ERROR_TUPLE_2 s \<noteq> ERROR_TUPLE_3 t t'" "ERROR_TUPLE_3 t t' \<noteq> ERROR_TUPLE_2 s"
  "SUCCESS s \<noteq> Atom a" "Atom a \<noteq> SUCCESS s"
  "ERROR_TUPLE_2 s \<noteq> Atom a" "Atom a \<noteq> ERROR_TUPLE_2 s"
  "ERROR_TUPLE_3 s s' \<noteq> Atom a" "Atom a \<noteq> ERROR_TUPLE_3 s s'"
  by (simp_all add: ret_defs)

lemma ATOM_BOOLEAN_inject [simp]: "ATOM_BOOLEAN a = ATOM_BOOLEAN b \<longleftrightarrow> a = b"
  by (auto simp: ATOM_BOOLEAN_def)

text \<open>Counts below \<open>2^31\<close> survive \<open>ETERM_UINT_64\<close>.\<close>

lemma ETERM_UINT_64_small:
  "0 \<le> i \<Longrightarrow> i < 2 ^ 31 \<Longrightarrow> ETERM_UINT_64 i = EInt i"
  by (simp add: ETERM_UINT_64_def enif_make_int_def uint_word_of_int take_bit_int_eq_self
      signed_take_bit_int_eq_self)

subsection \<open>Messages (\<open>make_event\<close>)\<close>

definition make_event :: "eterm \<Rightarrow> eterm \<Rightarrow> eterm \<Rightarrow> eterm" where
  "make_event event_name resource prop = ETuple [ATOM_QUIC, event_name, resource, prop]"

text \<open>\<open>enif_make_map_from_arrays\<close> fails on duplicate keys and then leaves \<open>prop\<close> alone.\<close>

definition make_event_with_props :: "eterm \<Rightarrow> eterm \<Rightarrow> eterm list \<Rightarrow> eterm list \<Rightarrow> eterm" where
  "make_event_with_props event_name resource keys vals =
     (let prop = (if keys = [] \<or> \<not> distinct keys then ATOM_UNDEFINED else EMap (zip keys vals))
      in make_event event_name resource prop)"

subsection \<open>Status codes (\<open>atom_status\<close>)\<close>

fun atom_status :: "msquic \<Rightarrow> quic_status \<Rightarrow> eterm" where
  "atom_status M QUIC_STATUS_SUCCESS = ATOM_QUIC_STATUS_SUCCESS"
| "atom_status M QUIC_STATUS_PENDING = ATOM_QUIC_STATUS_PENDING"
| "atom_status M QUIC_STATUS_CONTINUE = ATOM_QUIC_STATUS_CONTINUE"
| "atom_status M QUIC_STATUS_OUT_OF_MEMORY = ATOM_QUIC_STATUS_OUT_OF_MEMORY"
| "atom_status M QUIC_STATUS_INVALID_PARAMETER = ATOM_QUIC_STATUS_INVALID_PARAMETER"
| "atom_status M QUIC_STATUS_INVALID_STATE = ATOM_QUIC_STATUS_INVALID_STATE"
| "atom_status M QUIC_STATUS_NOT_SUPPORTED = ATOM_QUIC_STATUS_NOT_SUPPORTED"
| "atom_status M QUIC_STATUS_NOT_FOUND = ATOM_QUIC_STATUS_NOT_FOUND"
| "atom_status M QUIC_STATUS_BUFFER_TOO_SMALL = ATOM_QUIC_STATUS_BUFFER_TOO_SMALL"
| "atom_status M QUIC_STATUS_HANDSHAKE_FAILURE = ATOM_QUIC_STATUS_HANDSHAKE_FAILURE"
| "atom_status M QUIC_STATUS_ABORTED = ATOM_QUIC_STATUS_ABORTED"
| "atom_status M QUIC_STATUS_ADDRESS_IN_USE = ATOM_QUIC_STATUS_ADDRESS_IN_USE"
| "atom_status M QUIC_STATUS_CONNECTION_TIMEOUT = ATOM_QUIC_STATUS_CONNECTION_TIMEOUT"
| "atom_status M QUIC_STATUS_CONNECTION_IDLE = ATOM_QUIC_STATUS_CONNECTION_IDLE"
| "atom_status M QUIC_STATUS_INTERNAL_ERROR = ATOM_QUIC_STATUS_INTERNAL_ERROR"
| "atom_status M QUIC_STATUS_CONNECTION_REFUSED = ATOM_QUIC_STATUS_CONNECTION_REFUSED"
| "atom_status M QUIC_STATUS_PROTOCOL_ERROR = ATOM_QUIC_STATUS_PROTOCOL_ERROR"
| "atom_status M QUIC_STATUS_VER_NEG_ERROR = ATOM_QUIC_STATUS_VER_NEG_ERROR"
| "atom_status M QUIC_STATUS_UNREACHABLE = ATOM_QUIC_STATUS_UNREACHABLE"
| "atom_status M QUIC_STATUS_TLS_ERROR = ATOM_QUIC_STATUS_TLS_ERROR"
| "atom_status M QUIC_STATUS_BAD_CERTIFICATE = ATOM_QUIC_STATUS_BAD_CERTIFICATE"
| "atom_status M QUIC_STATUS_USER_CANCELED = ATOM_QUIC_STATUS_USER_CANCELED"
| "atom_status M QUIC_STATUS_ALPN_NEG_FAILURE = ATOM_QUIC_STATUS_ALPN_NEG_FAILURE"
| "atom_status M QUIC_STATUS_STREAM_LIMIT_REACHED = ATOM_QUIC_STATUS_STREAM_LIMIT_REACHED"
| "atom_status M QUIC_STATUS_CERT_EXPIRED = ATOM_QUIC_STATUS_CERT_EXPIRED"
| "atom_status M QUIC_STATUS_CERT_UNTRUSTED_ROOT = ATOM_QUIC_STATUS_CERT_UNTRUSTED_ROOT"
| "atom_status M (QUIC_STATUS_CODE status) =
    (if (status AND TLS_ERROR_BASE M) = TLS_ERROR_BASE M
     then (let tlserror = sint (status - TLS_ERROR_BASE M) in
       if tlserror = TLS1_AD_UNKNOWN_CA M then ATOM_QUIC_STATUS_CERT_UNTRUSTED_ROOT
       else if tlserror = TLS13_AD_CERTIFICATE_REQUIRED M then ATOM_QUIC_STATUS_CERT_REQUIRED
       else if tlserror = TLS1_AD_CERTIFICATE_UNOBTAINABLE M then ATOM_QUIC_STATUS_CERT_UNOBTAINABLE
       else if tlserror = TLS1_AD_UNRECOGNIZED_NAME M then ATOM_QUIC_STATUS_BAD_CERTIFICATE
       else if tlserror = TLS1_AD_BAD_CERTIFICATE_STATUS_RESPONSE M then ATOM_QUIC_STATUS_BAD_CERTIFICATE
       else if tlserror = TLS1_AD_BAD_CERTIFICATE_HASH_VALUE M then ATOM_QUIC_STATUS_BAD_CERTIFICATE
       else ETuple [ATOM_UNKNOWN_TLS_STATUS_CODE, ETERM_UINT_64 tlserror])
     else ETuple [ATOM_UNKNOWN_STATUS_CODE, ETERM_UINT_64 (uint status)])"

text \<open>
  Status codes the library names keep apart: two of them give the same atom only when they
  are the same code.
\<close>

definition named_status :: "quic_status \<Rightarrow> bool" where
  "named_status s \<longleftrightarrow> (\<forall>c. s \<noteq> QUIC_STATUS_CODE c)"

end
