(* ===== verification/Quicer_Runtime.thy ===== *)
theory Quicer_Runtime
  imports Quicer_Terms
begin

section \<open>A runtime and a QUIC stack to evaluate with\<close>

text \<open>
  Every operation is stated over any runtime \<open>E\<close> and any stack \<open>M\<close>. This theory gives
  one concrete instance of each, so that operations can be evaluated on concrete inputs:
  \<open>beam\<close> answers as the \<open>erl_nif\<close> documentation says (a debug build, memory never runs
  out, dead memory is not reused, process 7 calls), \<open>msquic0\<close> accepts every call and uses the flag values of the
  headers of the stack.
\<close>

definition opt_append :: "bytes option \<Rightarrow> bytes option \<Rightarrow> bytes option" where
  "opt_append a b = (case a of None \<Rightarrow> None | Some x \<Rightarrow> map_option ((@) x) b)"

fun iolist_elems :: "eterm list \<Rightarrow> bytes option" where
  "iolist_elems [] = Some []"
| "iolist_elems (EInt i # ts) =
     (if 0 \<le> i \<and> i \<le> 255 then opt_append (Some [word_of_int i]) (iolist_elems ts) else None)"
| "iolist_elems (EBin b # ts) = opt_append (Some b) (iolist_elems ts)"
| "iolist_elems (EList us # ts) = opt_append (iolist_elems us) (iolist_elems ts)"
| "iolist_elems (t # ts) = None"

fun iolist_bytes :: "eterm \<Rightarrow> bytes option" where
  "iolist_bytes (EBin b) = Some b"
| "iolist_bytes (EList ts) = iolist_elems ts"
| "iolist_bytes _ = None"

fun term_int :: "int \<Rightarrow> int \<Rightarrow> eterm \<Rightarrow> int option" where
  "term_int lo hi (EInt i) = (if lo \<le> i \<and> i \<le> hi then Some i else None)"
| "term_int lo hi _ = None"

fun term_map :: "eterm \<Rightarrow> eterm \<Rightarrow> eterm option" where
  "term_map (EMap kvs) k = map_of kvs k"
| "term_map _ k = None"

fun term_list :: "eterm \<Rightarrow> eterm list option" where
  "term_list (EList ts) = Some ts"
| "term_list _ = None"

fun term_bin :: "eterm \<Rightarrow> bytes option" where
  "term_bin (EBin b) = Some b"
| "term_bin _ = None"

fun term_pid :: "eterm \<Rightarrow> pid option" where
  "term_pid (EPid p) = Some p"
| "term_pid _ = None"

fun term_reg :: "eterm \<Rightarrow> nat option" where
  "term_reg (ERes (RReg a)) = Some a"
| "term_reg _ = None"

fun term_chars :: "eterm list \<Rightarrow> string option" where
  "term_chars [] = Some []"
| "term_chars (EInt i # ts) =
     (if 0 \<le> i \<and> i \<le> 255 then map_option ((#) (char_of (nat i))) (term_chars ts) else None)"
| "term_chars _ = None"

text \<open>\<open>enif_get_string\<close> counts the terminating zero, and cuts off at \<open>n - 1\<close> characters.\<close>

definition term_string :: "eterm \<Rightarrow> nat \<Rightarrow> int \<times> string" where
  "term_string t n =
     (case term_list t of
        None \<Rightarrow> (0, [])
      | Some ts \<Rightarrow>
          (case term_chars ts of
             None \<Rightarrow> (0, [])
           | Some s \<Rightarrow>
               if length s < n then (int (length s) + 1, s) else (- int n, take (n - 1) s)))"

definition beam :: enif where
  "beam = \<lparr>ndebug = False, stale_reads = True, alloc_ok = (\<lambda>_. True),
     enif_get_int = term_int (- (2 ^ 31)) (2 ^ 31 - 1),
     enif_get_uint = (\<lambda>t. map_option word_of_int (term_int 0 (2 ^ 32 - 1) t)),
     enif_get_uint64 = (\<lambda>t. map_option word_of_int (term_int 0 (2 ^ 64 - 1) t)),
     enif_get_string = term_string, enif_get_map_value = term_map, enif_get_list = term_list,
     enif_is_map = (\<lambda>t. case t of EMap _ \<Rightarrow> True | _ \<Rightarrow> False),
     enif_is_list = (\<lambda>t. case t of EList _ \<Rightarrow> True | _ \<Rightarrow> False),
     enif_is_integer = (\<lambda>t. case t of EInt _ \<Rightarrow> True | _ \<Rightarrow> False),
     enif_is_atom = (\<lambda>t. case t of Atom _ \<Rightarrow> True | _ \<Rightarrow> False),
     enif_inspect_binary = term_bin, enif_inspect_iolist_as_binary = iolist_bytes,
     enif_get_reg = term_reg, enif_get_local_pid = term_pid, enif_self = Some 7,
     enif_is_process_alive = (\<lambda>_. True), enif_send = (\<lambda>_ _. True),
     enif_monitor_process = (\<lambda>_ _. 0)\<rparr>"

lemma beam_stale [simp]: "stale_reads beam"
  by (simp add: beam_def)

definition msquic0 :: msquic where
  "msquic0 = \<lparr>
     quic_failed = (\<lambda>s. s \<notin> {QUIC_STATUS_SUCCESS, QUIC_STATUS_PENDING, QUIC_STATUS_CONTINUE}),
     status_of_code = (\<lambda>c. if c = 0 then QUIC_STATUS_SUCCESS else QUIC_STATUS_CODE c),
     code_of_status = (\<lambda>s. if s = QUIC_STATUS_SUCCESS then 0 else 113),
     TLS_ERROR_BASE = 200000256, TLS1_AD_UNKNOWN_CA = 48, TLS13_AD_CERTIFICATE_REQUIRED = 116,
     TLS1_AD_CERTIFICATE_UNOBTAINABLE = 111, TLS1_AD_UNRECOGNIZED_NAME = 112,
     TLS1_AD_BAD_CERTIFICATE_STATUS_RESPONSE = 113, TLS1_AD_BAD_CERTIFICATE_HASH_VALUE = 114,
     QUIC_STREAM_OPEN_FLAG_NONE = 0, QUIC_STREAM_START_FLAG_NONE = 0, QUIC_SEND_FLAG_START = 2,
     QUIC_RECEIVE_FLAG_FIN = 2, QUIC_STREAM_SHUTDOWN_FLAG_GRACEFUL = 1,
     QUIC_STREAM_SHUTDOWN_FLAG_ABORT_SEND = 2, QUIC_STREAM_SHUTDOWN_FLAG_ABORT_RECEIVE = 4,
     QUIC_STREAM_SHUTDOWN_FLAG_IMMEDIATE = 8, QUIC_CONNECTION_SHUTDOWN_FLAG_NONE = 0,
     quic_status_of = (\<lambda>_. QUIC_STATUS_SUCCESS), quic_handle_of = (\<lambda>_. 42),
     bitfield_width = (\<lambda>s. if s = S_ServerResumptionLevel then 2 else 1),
     quic_value_of = (\<lambda>_. BufU64 0),
     QuicAddr4FromString = (\<lambda>s. if s = ''127.0.0.1:443''
       then Some \<lparr>sa_family = AF_INET, sin_port = (1, 187), sin_addr = [127, 0, 0, 1]\<rparr> else None),
     QuicAddr6FromString = (\<lambda>s. if s = ''[::1]:443''
       then Some \<lparr>sa_family = AF_INET6, sin_port = (1, 187), sin_addr = replicate 15 0 @ [1]\<rparr> else None),
     QUIC_CREDENTIAL_FLAG_NONE = 0, QUIC_CREDENTIAL_FLAG_CLIENT = 1,
     QUIC_CREDENTIAL_FLAG_NO_CERTIFICATE_VALIDATION = 4,
     QUIC_CREDENTIAL_FLAG_INDICATE_CERTIFICATE_RECEIVED = 16,
     QUIC_CREDENTIAL_FLAG_REQUIRE_CLIENT_AUTHENTICATION = 128,
     QUIC_CREDENTIAL_FLAG_USE_TLS_BUILTIN_CERTIFICATE_VALIDATION = 256,
     QUIC_LOAD_BALANCING_COUNT = 3,
     sizeof_settings = 144, sizeof_statistics = 176, sizeof_listener_stats = 24,
     sizeof_handshake_info = 36, sizeof_perf_counters = 240, sizeof_tls_secrets = 360\<rparr>"

text \<open>An OpenSSL that accepts certificate 1 only, and a host whose files are empty.\<close>

definition hex_digit :: "nat \<Rightarrow> char" where
  "hex_digit n = ''0123456789abcdef'' ! (n mod 16)"

definition openssl0 :: openssl where
  "openssl0 = \<lparr>X509_dup = Some, X509_STORE_CTX_get0_untrusted = Some, X509_verify_cert = (\<lambda>_ c _. if c = 1 then 1 else 0),
     i2d_X509 = (\<lambda>c. Some [word_of_nat c]), X509_STORE_new = Some 8,
     X509_STORE_add_lookup = (\<lambda>_. True), X509_LOOKUP_load_file = (\<lambda>_ _. True),
     EncodeHexBuffer = concat \<circ> map (\<lambda>b. [hex_digit (unat b div 16), hex_digit (unat b)]),
     fopen_ab = (\<lambda>_. Some True), dlopen = (\<lambda>_. False),
     tls_secrets_of = (\<lambda>_. \<lparr>SecretLength = 1, SecretIsSet = (\<lambda>s. s = ClientTrafficSecret0),
                           SecretBytes = (\<lambda>_. [0xab])\<rparr>)\<rparr>"

end
