(* ===== verification/Quicer_Settings.thy ===== *)
theory Quicer_Settings
  imports Quicer_Runtime
begin

section \<open>QUIC settings from an option map (\<open>quicer_config.c\<close>)\<close>

text \<open>
  The readers \<open>get_uint<n>_from_map\<close> and \<open>create_settings\<close>, which fills a
  \<open>QUIC_SETTINGS\<close> block from an Erlang map. The block of \<open>if\<close> statements of
  \<open>create_settings\<close> is a table in source order: the reader, the key and the field.
  \<open>create_settings_IsSet\<close> and \<open>create_settings_Val\<close> say what it computes, field by
  field, over the independent description \<open>setting_key\<close>.
\<close>

subsection \<open>Integers from terms and maps\<close>

definition get_uint16 :: "enif \<Rightarrow> eterm \<Rightarrow> u16 option" where
  "get_uint16 E term =
     (case enif_get_uint E term of
        None \<Rightarrow> None
      | Some value0 \<Rightarrow> if uint value0 > UINT16_MAX then None else Some (ucast value0))"

definition get_uint8_from_map :: "enif \<Rightarrow> eterm \<Rightarrow> eterm \<Rightarrow> u8 option" where
  "get_uint8_from_map E m key =
     (case enif_get_map_value E m key of
        None \<Rightarrow> None
      | Some evalue \<Rightarrow> (case enif_get_uint E evalue of
          None \<Rightarrow> None
        | Some value0 \<Rightarrow> if uint value0 > UINT8_MAX then None else Some (ucast value0)))"

definition get_uint16_from_map :: "enif \<Rightarrow> eterm \<Rightarrow> eterm \<Rightarrow> u16 option" where
  "get_uint16_from_map E m key =
     (case enif_get_map_value E m key of
        None \<Rightarrow> None
      | Some evalue \<Rightarrow> (case enif_get_uint E evalue of
          None \<Rightarrow> None
        | Some value0 \<Rightarrow> if uint value0 > UINT16_MAX then None else Some (ucast value0)))"

definition get_uint32_from_map :: "enif \<Rightarrow> eterm \<Rightarrow> eterm \<Rightarrow> u32 option" where
  "get_uint32_from_map E m key =
     (case enif_get_map_value E m key of
        None \<Rightarrow> None
      | Some evalue \<Rightarrow> enif_get_uint E evalue)"

definition get_uint64_from_map :: "enif \<Rightarrow> eterm \<Rightarrow> eterm \<Rightarrow> u64 option" where
  "get_uint64_from_map E m key =
     (case enif_get_map_value E m key of
        None \<Rightarrow> None
      | Some evalue \<Rightarrow> enif_get_uint64 E evalue)"

text \<open>Which reader a row of the table uses; the value is widened to 64 bits.\<close>

datatype reader = W8 | W16 | W32 | W64

fun read_setting :: "enif \<Rightarrow> eterm \<Rightarrow> reader \<Rightarrow> eterm \<Rightarrow> u64 option" where
  "read_setting E m W8 key = map_option ucast (get_uint8_from_map E m key)"
| "read_setting E m W16 key = map_option ucast (get_uint16_from_map E m key)"
| "read_setting E m W32 key = map_option ucast (get_uint32_from_map E m key)"
| "read_setting E m W64 key = get_uint64_from_map E m key"

subsection \<open>The settings block\<close>

text \<open>\<open>CxPlatZeroMemory\<close>, and the assignment of one field with its \<open>IsSet\<close> bit.\<close>

definition zero_settings :: QUIC_SETTINGS where
  "zero_settings = \<lparr>IsSet = (\<lambda>_. False), Val = (\<lambda>_. 0)\<rparr>"

definition put_setting :: "setting \<Rightarrow> u64 \<Rightarrow> QUIC_SETTINGS \<Rightarrow> QUIC_SETTINGS" where
  "put_setting s v S = \<lparr>IsSet = (IsSet S)(s := True), Val = (Val S)(s := v)\<rparr>"

fun store_setting :: "enif \<Rightarrow> eterm \<Rightarrow> reader \<times> eterm \<times> setting \<Rightarrow> QUIC_SETTINGS \<Rightarrow> QUIC_SETTINGS" where
  "store_setting E m (w, key, s) S =
     (case read_setting E m w key of None \<Rightarrow> S | Some v \<Rightarrow> put_setting s v S)"

text \<open>A bit field keeps the low bits of the value assigned to it.\<close>

fun store_bitfield :: "enif \<Rightarrow> msquic \<Rightarrow> eterm \<Rightarrow> reader \<times> eterm \<times> setting \<Rightarrow> QUIC_SETTINGS \<Rightarrow> QUIC_SETTINGS" where
  "store_bitfield E M m (w, key, s) S =
     (case read_setting E m w key of
        None \<Rightarrow> S
      | Some v \<Rightarrow> put_setting s (take_bit (bitfield_width M s) v) S)"

definition settings_words :: "(reader \<times> eterm \<times> setting) list" where
  "settings_words =
    [(W64, ATOM_QUIC_SETTINGS_MaxBytesPerKey, S_MaxBytesPerKey),
     (W64, ATOM_QUIC_SETTINGS_HandshakeIdleTimeoutMs, S_HandshakeIdleTimeoutMs),
     (W64, ATOM_QUIC_SETTINGS_IdleTimeoutMs, S_IdleTimeoutMs),
     (W64, ATOM_QUIC_SETTINGS_MtuDiscoverySearchCompleteTimeoutUs, S_MtuDiscoverySearchCompleteTimeoutUs),
     (W32, ATOM_QUIC_SETTINGS_TlsClientMaxSendBuffer, S_TlsClientMaxSendBuffer),
     (W32, ATOM_QUIC_SETTINGS_TlsServerMaxSendBuffer, S_TlsServerMaxSendBuffer),
     (W32, ATOM_QUIC_SETTINGS_StreamRecvWindowDefault, S_StreamRecvWindowDefault),
     (W32, ATOM_QUIC_SETTINGS_StreamRecvBufferDefault, S_StreamRecvBufferDefault),
     (W32, ATOM_QUIC_SETTINGS_ConnFlowControlWindow, S_ConnFlowControlWindow),
     (W32, ATOM_QUIC_SETTINGS_MaxWorkerQueueDelayUs, S_MaxWorkerQueueDelayUs),
     (W32, ATOM_QUIC_SETTINGS_MaxStatelessOperations, S_MaxStatelessOperations),
     (W32, ATOM_QUIC_SETTINGS_InitialWindowPackets, S_InitialWindowPackets),
     (W32, ATOM_QUIC_SETTINGS_SendIdleTimeoutMs, S_SendIdleTimeoutMs),
     (W32, ATOM_QUIC_SETTINGS_InitialRttMs, S_InitialRttMs),
     (W32, ATOM_QUIC_SETTINGS_MaxAckDelayMs, S_MaxAckDelayMs),
     (W32, ATOM_QUIC_SETTINGS_DisconnectTimeoutMs, S_DisconnectTimeoutMs),
     (W32, ATOM_QUIC_SETTINGS_KeepAliveIntervalMs, S_KeepAliveIntervalMs),
     (W16, ATOM_QUIC_SETTINGS_PeerBidiStreamCount, S_PeerBidiStreamCount),
     (W16, ATOM_QUIC_SETTINGS_PeerUnidiStreamCount, S_PeerUnidiStreamCount)]"

definition settings_bits :: "(reader \<times> eterm \<times> setting) list" where
  "settings_bits =
    [(W8, ATOM_QUIC_SETTINGS_MaxOperationsPerDrain, S_MaxOperationsPerDrain),
     (W8, ATOM_QUIC_SETTINGS_SendBufferingEnabled, S_SendBufferingEnabled),
     (W8, ATOM_QUIC_SETTINGS_PacingEnabled, S_PacingEnabled),
     (W8, ATOM_QUIC_SETTINGS_MigrationEnabled, S_MigrationEnabled),
     (W8, ATOM_QUIC_SETTINGS_DatagramReceiveEnabled, S_DatagramReceiveEnabled),
     (W8, ATOM_QUIC_SETTINGS_ServerResumptionLevel, S_ServerResumptionLevel)]"

definition settings_tail :: "(reader \<times> eterm \<times> setting) list" where
  "settings_tail =
    [(W16, ATOM_QUIC_SETTINGS_MinimumMtu, S_MinimumMtu),
     (W16, ATOM_QUIC_SETTINGS_MaximumMtu, S_MaximumMtu),
     (W64, ATOM_QUIC_SETTINGS_MtuDiscoverySearchCompleteTimeoutUs, S_MtuDiscoverySearchCompleteTimeoutUs),
     (W8, ATOM_QUIC_SETTINGS_MtuDiscoveryMissingProbeCount, S_MtuDiscoveryMissingProbeCount),
     (W16, ATOM_QUIC_SETTINGS_MaxBindingStatelessOperations, S_MaxBindingStatelessOperations),
     (W16, ATOM_QUIC_SETTINGS_StatelessOperationExpirationMs, S_StatelessOperationExpirationMs),
     (W16, ATOM_QUIC_SETTINGS_PeerBidiStreamCount, S_PeerBidiStreamCount)]"

definition create_settings :: "enif \<Rightarrow> msquic \<Rightarrow> eterm \<Rightarrow> QUIC_SETTINGS option" where
  "create_settings E M emap =
     (if \<not> enif_is_map E emap then None
      else
        let S = zero_settings;
            S = fold (store_setting E emap) settings_words S;
            S = fold (store_bitfield E M emap) settings_bits S;
            S = fold (store_setting E emap) settings_tail S
        in Some S)"

subsection \<open>What a settings block holds\<close>

text \<open>The key and the integer width of each field, and which fields are bit fields.\<close>

fun setting_key :: "setting \<Rightarrow> reader \<times> eterm" where
  "setting_key S_MaxBytesPerKey = (W64, ATOM_QUIC_SETTINGS_MaxBytesPerKey)"
| "setting_key S_HandshakeIdleTimeoutMs = (W64, ATOM_QUIC_SETTINGS_HandshakeIdleTimeoutMs)"
| "setting_key S_IdleTimeoutMs = (W64, ATOM_QUIC_SETTINGS_IdleTimeoutMs)"
| "setting_key S_MtuDiscoverySearchCompleteTimeoutUs = (W64, ATOM_QUIC_SETTINGS_MtuDiscoverySearchCompleteTimeoutUs)"
| "setting_key S_TlsClientMaxSendBuffer = (W32, ATOM_QUIC_SETTINGS_TlsClientMaxSendBuffer)"
| "setting_key S_TlsServerMaxSendBuffer = (W32, ATOM_QUIC_SETTINGS_TlsServerMaxSendBuffer)"
| "setting_key S_StreamRecvWindowDefault = (W32, ATOM_QUIC_SETTINGS_StreamRecvWindowDefault)"
| "setting_key S_StreamRecvBufferDefault = (W32, ATOM_QUIC_SETTINGS_StreamRecvBufferDefault)"
| "setting_key S_ConnFlowControlWindow = (W32, ATOM_QUIC_SETTINGS_ConnFlowControlWindow)"
| "setting_key S_MaxWorkerQueueDelayUs = (W32, ATOM_QUIC_SETTINGS_MaxWorkerQueueDelayUs)"
| "setting_key S_MaxStatelessOperations = (W32, ATOM_QUIC_SETTINGS_MaxStatelessOperations)"
| "setting_key S_InitialWindowPackets = (W32, ATOM_QUIC_SETTINGS_InitialWindowPackets)"
| "setting_key S_SendIdleTimeoutMs = (W32, ATOM_QUIC_SETTINGS_SendIdleTimeoutMs)"
| "setting_key S_InitialRttMs = (W32, ATOM_QUIC_SETTINGS_InitialRttMs)"
| "setting_key S_MaxAckDelayMs = (W32, ATOM_QUIC_SETTINGS_MaxAckDelayMs)"
| "setting_key S_DisconnectTimeoutMs = (W32, ATOM_QUIC_SETTINGS_DisconnectTimeoutMs)"
| "setting_key S_KeepAliveIntervalMs = (W32, ATOM_QUIC_SETTINGS_KeepAliveIntervalMs)"
| "setting_key S_PeerBidiStreamCount = (W16, ATOM_QUIC_SETTINGS_PeerBidiStreamCount)"
| "setting_key S_PeerUnidiStreamCount = (W16, ATOM_QUIC_SETTINGS_PeerUnidiStreamCount)"
| "setting_key S_MaxOperationsPerDrain = (W8, ATOM_QUIC_SETTINGS_MaxOperationsPerDrain)"
| "setting_key S_SendBufferingEnabled = (W8, ATOM_QUIC_SETTINGS_SendBufferingEnabled)"
| "setting_key S_PacingEnabled = (W8, ATOM_QUIC_SETTINGS_PacingEnabled)"
| "setting_key S_MigrationEnabled = (W8, ATOM_QUIC_SETTINGS_MigrationEnabled)"
| "setting_key S_DatagramReceiveEnabled = (W8, ATOM_QUIC_SETTINGS_DatagramReceiveEnabled)"
| "setting_key S_ServerResumptionLevel = (W8, ATOM_QUIC_SETTINGS_ServerResumptionLevel)"
| "setting_key S_MinimumMtu = (W16, ATOM_QUIC_SETTINGS_MinimumMtu)"
| "setting_key S_MaximumMtu = (W16, ATOM_QUIC_SETTINGS_MaximumMtu)"
| "setting_key S_MtuDiscoveryMissingProbeCount = (W8, ATOM_QUIC_SETTINGS_MtuDiscoveryMissingProbeCount)"
| "setting_key S_MaxBindingStatelessOperations = (W16, ATOM_QUIC_SETTINGS_MaxBindingStatelessOperations)"
| "setting_key S_StatelessOperationExpirationMs = (W16, ATOM_QUIC_SETTINGS_StatelessOperationExpirationMs)"

definition bitfields :: "setting set" where
  "bitfields = {S_MaxOperationsPerDrain, S_SendBufferingEnabled, S_PacingEnabled,
     S_MigrationEnabled, S_DatagramReceiveEnabled, S_ServerResumptionLevel}"

definition setting_value :: "enif \<Rightarrow> eterm \<Rightarrow> setting \<Rightarrow> u64 option" where
  "setting_value E m s = (case setting_key s of (w, key) \<Rightarrow> read_setting E m w key)"

text \<open>A table is well formed when every row reads its field with that field's key and width.\<close>

definition rows_ok :: "(reader \<times> eterm \<times> setting) list \<Rightarrow> bool" where
  "rows_ok t \<longleftrightarrow> list_all (\<lambda>(w, key, s). setting_key s = (w, key)) t"

lemma tables_ok: "rows_ok settings_words" "rows_ok settings_bits" "rows_ok settings_tail"
  by (simp_all add: rows_ok_def settings_words_def settings_bits_def settings_tail_def)

definition row_fields :: "(reader \<times> eterm \<times> setting) list \<Rightarrow> setting set" where
  "row_fields t = (\<lambda>(w, key, s). s) ` set t"

lemma rows_ok_simps [simp]:
  "rows_ok []" "rows_ok ((w, key, s) # t) \<longleftrightarrow> setting_key s = (w, key) \<and> rows_ok t"
  by (simp_all add: rows_ok_def)

lemma row_fields_simps [simp]:
  "row_fields [] = {}" "row_fields ((w, key, s) # t) = insert s (row_fields t)"
  by (simp_all add: row_fields_def)

lemma put_setting_simps [simp]:
  "Val (put_setting s v S) s' = (if s' = s then v else Val S s')"
  "IsSet (put_setting s v S) s' \<longleftrightarrow> s' = s \<or> IsSet S s'"
  by (simp_all add: put_setting_def)

lemma store_setting_row:
  "setting_key s = (w, key) \<Longrightarrow> store_setting E m (w, key, s) S =
     (case setting_value E m s of None \<Rightarrow> S | Some v \<Rightarrow> put_setting s v S)"
  by (simp add: setting_value_def)

lemma store_bitfield_row:
  "setting_key s = (w, key) \<Longrightarrow> store_bitfield E M m (w, key, s) S =
     (case setting_value E m s of
        None \<Rightarrow> S | Some v \<Rightarrow> put_setting s (take_bit (bitfield_width M s) v) S)"
  by (simp add: setting_value_def)

lemmas row_simps = store_setting_row store_bitfield_row

text \<open>Folding the rows of a table: a field of the table is written, any other is untouched.\<close>

lemma fold_store_Val:
  "rows_ok t \<Longrightarrow> Val (fold (store_setting E m) t S) s =
     (if s \<in> row_fields t then (case setting_value E m s of None \<Rightarrow> Val S s | Some v \<Rightarrow> v) else Val S s)"
proof (induction t arbitrary: S)
  case (Cons r t)
  obtain w key s' where r: "r = (w, key, s')" by (cases r)
  from Cons.prems have "setting_key s' = (w, key)" and "rows_ok t" by (simp_all add: r)
  then show ?case
    by (cases "setting_value E m s'"; cases "setting_value E m s"; cases "s' = s")
      (simp_all add: r row_simps Cons.IH del: store_setting.simps store_bitfield.simps)
qed simp

lemma fold_store_IsSet:
  "rows_ok t \<Longrightarrow> IsSet (fold (store_setting E m) t S) s =
     (IsSet S s \<or> s \<in> row_fields t \<and> setting_value E m s \<noteq> None)"
proof (induction t arbitrary: S)
  case (Cons r t)
  obtain w key s' where r: "r = (w, key, s')" by (cases r)
  from Cons.prems have "setting_key s' = (w, key)" and "rows_ok t" by (simp_all add: r)
  then show ?case
    by (cases "setting_value E m s'"; cases "setting_value E m s"; cases "s' = s")
      (simp_all add: r row_simps Cons.IH del: store_setting.simps store_bitfield.simps)
qed simp

lemma fold_bitfield_Val:
  "rows_ok t \<Longrightarrow> Val (fold (store_bitfield E M m) t S) s =
     (if s \<in> row_fields t
      then (case setting_value E m s of None \<Rightarrow> Val S s | Some v \<Rightarrow> take_bit (bitfield_width M s) v)
      else Val S s)"
proof (induction t arbitrary: S)
  case (Cons r t)
  obtain w key s' where r: "r = (w, key, s')" by (cases r)
  from Cons.prems have "setting_key s' = (w, key)" and "rows_ok t" by (simp_all add: r)
  then show ?case
    by (cases "setting_value E m s'"; cases "setting_value E m s"; cases "s' = s")
      (simp_all add: r row_simps Cons.IH del: store_setting.simps store_bitfield.simps)
qed simp

lemma fold_bitfield_IsSet:
  "rows_ok t \<Longrightarrow> IsSet (fold (store_bitfield E M m) t S) s =
     (IsSet S s \<or> s \<in> row_fields t \<and> setting_value E m s \<noteq> None)"
proof (induction t arbitrary: S)
  case (Cons r t)
  obtain w key s' where r: "r = (w, key, s')" by (cases r)
  from Cons.prems have "setting_key s' = (w, key)" and "rows_ok t" by (simp_all add: r)
  then show ?case
    by (cases "setting_value E m s'"; cases "setting_value E m s"; cases "s' = s")
      (simp_all add: r row_simps Cons.IH del: store_setting.simps store_bitfield.simps)
qed simp

lemmas fold_store_simps =
  fold_store_Val fold_store_IsSet fold_bitfield_Val fold_bitfield_IsSet tables_ok

lemma bits_row_fields: "row_fields settings_bits = bitfields"
  by (simp add: row_fields_def settings_bits_def bitfields_def)

lemma words_bits_disjoint:
  "row_fields settings_words \<inter> bitfields = {}" "row_fields settings_tail \<inter> bitfields = {}"
  by (simp_all add: row_fields_def settings_words_def settings_tail_def bitfields_def)

lemma every_setting_has_a_row:
  "s \<in> row_fields settings_words \<or> s \<in> bitfields \<or> s \<in> row_fields settings_tail"
  by (cases s) (simp_all add: row_fields_def settings_words_def settings_tail_def bitfields_def)

lemma create_settings_IsSet:
  assumes "create_settings E M m = Some S"
  shows "IsSet S s \<longleftrightarrow> setting_value E m s \<noteq> None"
  using assms every_setting_has_a_row [of s]
  by (auto simp: create_settings_def fold_store_simps bits_row_fields zero_settings_def Let_def
      split: if_splits)

lemma create_settings_Val:
  assumes "create_settings E M m = Some S"
  shows "Val S s = (case setting_value E m s of
     None \<Rightarrow> 0
   | Some v \<Rightarrow> if s \<in> bitfields then take_bit (bitfield_width M s) v else v)"
  using assms every_setting_has_a_row [of s] words_bits_disjoint
  by (auto simp: create_settings_def fold_store_simps bits_row_fields zero_settings_def Let_def
      disjoint_iff split: if_splits option.splits)

text \<open>A value out of the range of its field is not stored at all.\<close>

lemma setting_value_bound:
  assumes "setting_value E m s = Some v" and "setting_key s = (w, key)"
  shows "uint v < 2 ^ (case w of W8 \<Rightarrow> 8 | W16 \<Rightarrow> 16 | W32 \<Rightarrow> 32 | W64 \<Rightarrow> 64)"
proof -
  have "uint (x :: u8) < 2 ^ 8" "uint (y :: u16) < 2 ^ 16" "uint (z :: u32) < 2 ^ 32"
    "uint (u :: u64) < 2 ^ 64" for x y z u
    using uint_lt2p [of x] uint_lt2p [of y] uint_lt2p [of z] uint_lt2p [of u] by simp_all
  with assms show ?thesis
    by (cases w) (auto simp: setting_value_def uint_up_ucast is_up)
qed

subsection \<open>Properties\<close>

text \<open>
  C24: A settings block is exactly what the option map says. A field is marked as set if and only
  if the map has, under the field's key, an unsigned integer that fits the field's integer type;
  its value is then that number (cut down to the width of the field for a bit field), and every
  other field is zero. In particular a number that is too large is ignored, not truncated.
\<close>

theorem create_settings_fields:
  assumes "create_settings E M m = Some S"
  shows "(IsSet S s \<longleftrightarrow> setting_value E m s \<noteq> None) \<and>
    Val S s = (case setting_value E m s of
        None \<Rightarrow> 0
      | Some v \<Rightarrow> if s \<in> bitfields then take_bit (bitfield_width M s) v else v) \<and>
    (\<forall>v. setting_value E m s = Some v \<longrightarrow>
       uint v < 2 ^ (case fst (setting_key s) of W8 \<Rightarrow> 8 | W16 \<Rightarrow> 16 | W32 \<Rightarrow> 32 | W64 \<Rightarrow> 64))"
  using create_settings_IsSet [OF assms] create_settings_Val [OF assms]
    setting_value_bound [of E m s _ "fst (setting_key s)" "snd (setting_key s)"]
  by simp

theorem create_settings_fields_witness:
  "\<exists>S. create_settings beam msquic0
       (EMap [(ATOM_QUIC_SETTINGS_PeerBidiStreamCount, EInt 10), (ATOM_QUIC_SETTINGS_MinimumMtu, EInt 70000)]) = Some S \<and>
     IsSet S S_PeerBidiStreamCount \<and> Val S S_PeerBidiStreamCount = 10 \<and> \<not> IsSet S S_MinimumMtu"
proof -
  let ?m = "EMap [(ATOM_QUIC_SETTINGS_PeerBidiStreamCount, EInt 10), (ATOM_QUIC_SETTINGS_MinimumMtu, EInt 70000)]"
  obtain S where S: "create_settings beam msquic0 ?m = Some S"
    by (simp add: create_settings_def beam_def Let_def)
  have v: "setting_value beam ?m S_PeerBidiStreamCount = Some 10" "setting_value beam ?m S_MinimumMtu = None"
    by (simp_all add: setting_value_def get_uint16_from_map_def beam_def)
  show ?thesis
    using S v create_settings_fields [OF S, of S_PeerBidiStreamCount]
      create_settings_fields [OF S, of S_MinimumMtu]
    by (simp add: bitfields_def)
qed

end
