(* ===== verification/Quicer_Queue.thy ===== *)
theory Quicer_Queue
  imports Quicer_Settings
begin

section \<open>Acceptors and their queues (\<open>quicer_queue.c\<close>)\<close>

text \<open>
  An \<open>ACCEPTOR\<close> is an Erlang process that owns, or waits to own, a connection or a stream,
  with its receive mode. Processes wait in a FIFO queue with a lock of its own. The intrusive
  list of the platform layer is a HOL list: insert at the tail, remove at the head.
\<close>

subsection \<open>Data\<close>

datatype ACCEPTOR_RECV_MODE =
    ACCEPTOR_RECV_MODE_PASSIVE
  | ACCEPTOR_RECV_MODE_ACTIVE
  | ACCEPTOR_RECV_MODE_ONCE
  | ACCEPTOR_RECV_MODE_MULTI

record ACCEPTOR =
  acc_addr :: nat
  acc_Pid :: pid
  active :: ACCEPTOR_RECV_MODE
  active_count :: u16
  acc_Settings :: QUIC_SETTINGS

record QUICER_ACCEPTOR_QUEUE =
  q_List :: "ACCEPTOR list"
  q_owner :: rsrc

subsection \<open>Acceptors\<close>

text \<open>
  \<open>AcceptorAlloc\<close> zeroes the block before anything tests the pointer: a failed allocation
  is a write through NULL. The outer option is the outcome, the inner one the C pointer.
\<close>

definition AcceptorAlloc :: "enif \<Rightarrow> nat \<Rightarrow> ACCEPTOR option option" where
  "AcceptorAlloc E addr =
     (if alloc_ok E ''QUICER_ACCEPTOR''
      then Some (Some \<lparr>acc_addr = addr, acc_Pid = 0, active = ACCEPTOR_RECV_MODE_ACTIVE,
             active_count = 0, acc_Settings = zero_settings\<rparr>)
      else None)"

definition AcceptorDestroy :: "ACCEPTOR option \<Rightarrow> eff list" where
  "AcceptorDestroy acc = (case acc of None \<Rightarrow> [] | Some a \<Rightarrow> [Free (MAcceptor (acc_addr a))])"

definition set_owner_recv_mode :: "enif \<Rightarrow> ACCEPTOR \<Rightarrow> eterm \<Rightarrow> bool \<times> ACCEPTOR" where
  "set_owner_recv_mode E owner term =
     (if term = ATOM_FALSE
      then (True, owner\<lparr>active_count := 0, active := ACCEPTOR_RECV_MODE_PASSIVE\<rparr>)
      else if term = ATOM_TRUE
      then (True, owner\<lparr>active_count := 0, active := ACCEPTOR_RECV_MODE_ACTIVE\<rparr>)
      else if term = ATOM_ONCE
      then (True, owner\<lparr>active_count := 0, active := ACCEPTOR_RECV_MODE_ONCE\<rparr>)
      else case enif_get_int E term of
          None \<Rightarrow> (False, owner)
        | Some i \<Rightarrow>
            if i \<le> INT16_MAX \<and> INT16_MIN \<le> i
            then
              (if i < 0 \<and> \<bar>i\<bar> > uint (active_count owner)
               then (True, owner\<lparr>active := ACCEPTOR_RECV_MODE_PASSIVE, active_count := 0\<rparr>)
               else if uint (active_count owner) + i > INT16_MAX
               then (False, owner)
               else (True, owner\<lparr>active_count := active_count owner + word_of_int i,
                                 active := ACCEPTOR_RECV_MODE_MULTI\<rparr>))
            else (False, owner))"

subsection \<open>Queues\<close>

definition AcceptorQueueInit :: "rsrc \<Rightarrow> QUICER_ACCEPTOR_QUEUE \<times> eff list" where
  "AcceptorQueueInit r =
     (\<lparr>q_List = [], q_owner = r\<rparr>, [Lock (QueueLockOf r), Unlock (QueueLockOf r)])"

definition AcceptorQueueNew :: "enif \<Rightarrow> rsrc \<Rightarrow> QUICER_ACCEPTOR_QUEUE option \<times> eff list" where
  "AcceptorQueueNew E r =
     (if \<not> alloc_ok E ''QUICER_ACCEPTOR_QUEUE'' then (None, [])
      else case AcceptorQueueInit r of (q, es) \<Rightarrow> (Some q, es))"

fun free_all :: "ACCEPTOR list \<Rightarrow> eff list" where
  "free_all [] = []"
| "free_all (a # as) = Free (MAcceptor (acc_addr a)) # free_all as"

definition AcceptorQueueDestroy :: "QUICER_ACCEPTOR_QUEUE \<Rightarrow> eff list" where
  "AcceptorQueueDestroy q =
     [Lock (QueueLockOf (q_owner q))] @ free_all (q_List q) @
     [Unlock (QueueLockOf (q_owner q)), MutexDestroy (QueueLockOf (q_owner q)),
      Free (MAcceptorQueue (q_owner q))]"

definition AcceptorEnqueue :: "QUICER_ACCEPTOR_QUEUE \<Rightarrow> ACCEPTOR \<Rightarrow> QUICER_ACCEPTOR_QUEUE \<times> eff list" where
  "AcceptorEnqueue q a =
     (q\<lparr>q_List := q_List q @ [a]\<rparr>, [Lock (QueueLockOf (q_owner q)), Unlock (QueueLockOf (q_owner q))])"

definition AcceptorDequeue :: "QUICER_ACCEPTOR_QUEUE \<Rightarrow> ACCEPTOR option \<times> QUICER_ACCEPTOR_QUEUE \<times> eff list" where
  "AcceptorDequeue q =
     (let es = [Lock (QueueLockOf (q_owner q)), Unlock (QueueLockOf (q_owner q))]
      in case q_List q of
           [] \<Rightarrow> (None, q, es)
         | a # as \<Rightarrow> (Some a, q\<lparr>q_List := as\<rparr>, es))"

subsection \<open>The interface of a queue of acceptors\<close>

text \<open>
  What the listener, the connection and the accept calls rely on: processes are served in
  the order in which they asked, none is lost and none is served twice.
\<close>

locale acceptor_fifo =
  fixes enq :: "'q \<Rightarrow> 'a \<Rightarrow> 'q \<times> eff list"
    and deq :: "'q \<Rightarrow> 'a option \<times> 'q \<times> eff list"
    and waiting :: "'q \<Rightarrow> 'a list"
  assumes waiting_enq: "waiting (fst (enq q a)) = waiting q @ [a]"
    and deq_empty: "waiting q = [] \<Longrightarrow> fst (deq q) = None \<and> waiting (fst (snd (deq q))) = []"
    and deq_cons: "waiting q = a # as \<Longrightarrow> fst (deq q) = Some a \<and> waiting (fst (snd (deq q))) = as"
    and enq_balanced: "balanced (snd (enq q a))"
    and deq_balanced: "balanced (snd (snd (deq q)))"
begin

fun enq_all :: "'q \<Rightarrow> 'a list \<Rightarrow> 'q" where
  "enq_all q [] = q"
| "enq_all q (a # as) = enq_all (fst (enq q a)) as"

fun deq_n :: "nat \<Rightarrow> 'q \<Rightarrow> 'a option list" where
  "deq_n 0 q = []"
| "deq_n (Suc n) q = fst (deq q) # deq_n n (fst (snd (deq q)))"

lemma waiting_enq_all: "waiting (enq_all q as) = waiting q @ as"
  by (induction as arbitrary: q) (simp_all add: waiting_enq)

lemma deq_n_waiting:
  "deq_n n q = map Some (take n (waiting q)) @ replicate (n - length (waiting q)) None"
proof (induction n arbitrary: q)
  case 0
  show ?case by simp
next
  case (Suc n)
  show ?case
  proof (cases "waiting q")
    case Nil
    then show ?thesis using deq_empty [of q] Suc [of "fst (snd (deq q))"] by simp
  next
    case (Cons a as)
    then show ?thesis using deq_cons [of q a as] Suc [of "fst (snd (deq q))"] by simp
  qed
qed

text \<open>Whoever asks is served after everyone who waited already, in order of asking.\<close>

lemma served_in_order:
  "deq_n (length (waiting q) + length as) (enq_all q as) = map Some (waiting q @ as)"
  by (simp add: deq_n_waiting waiting_enq_all)

lemma deq_result: "fst (deq q) = (case waiting q of [] \<Rightarrow> None | a # as \<Rightarrow> Some a)"
  using deq_empty [of q] deq_cons [of q] by (cases "waiting q") auto

end

lemma acceptor_queue_fifo: "acceptor_fifo AcceptorEnqueue AcceptorDequeue q_List"
  by unfold_locales
    (auto simp: AcceptorEnqueue_def AcceptorDequeue_def balanced_def Let_def split: list.splits)

interpretation aq: acceptor_fifo AcceptorEnqueue AcceptorDequeue q_List
  by (rule acceptor_queue_fifo)

subsection \<open>Facts about acceptors and queues\<close>

lemma frees_free_all [simp]: "frees (free_all as) = map (\<lambda>a. MAcceptor (acc_addr a)) as"
  by (induction as) auto

lemma lock_run_free_all [simp]: "lock_run h (free_all as) = Some h"
  by (induction as) auto

lemma AcceptorQueueDestroy_balanced: "balanced (AcceptorQueueDestroy q)"
  by (simp add: AcceptorQueueDestroy_def balanced_def lock_run_append)

text \<open>Every waiting acceptor is freed once, in queue order, and then the queue itself.\<close>

lemma AcceptorQueueDestroy_frees:
  "frees (AcceptorQueueDestroy q) =
     map (\<lambda>a. MAcceptor (acc_addr a)) (q_List q) @ [MAcceptorQueue (q_owner q)]"
  by (simp add: AcceptorQueueDestroy_def)

lemma AcceptorDequeue_simps:
  "q_List q = [] \<Longrightarrow> AcceptorDequeue q =
     (None, q, [Lock (QueueLockOf (q_owner q)), Unlock (QueueLockOf (q_owner q))])"
  "q_List q = a # as \<Longrightarrow> AcceptorDequeue q =
     (Some a, q\<lparr>q_List := as\<rparr>, [Lock (QueueLockOf (q_owner q)), Unlock (QueueLockOf (q_owner q))])"
  by (simp_all add: AcceptorDequeue_def)

text \<open>The credit of an \<open>active\<close> acceptor stays in the range of a signed 16-bit integer.\<close>

definition credit_ok :: "ACCEPTOR \<Rightarrow> bool" where
  "credit_ok a \<longleftrightarrow> uint (active_count a) \<le> INT16_MAX"

lemma uint_credit_add:
  fixes c :: u16
  assumes "0 \<le> uint c + i" and "uint c + i \<le> INT16_MAX"
  shows "uint (c + word_of_int i) = uint c + i"
proof -
  have "uint (c + word_of_int i) = (uint c + i) mod 2 ^ 16"
    by (simp add: uint_word_ariths uint_word_of_int mod_simps)
  with assms show ?thesis by simp
qed

lemma set_owner_recv_mode_False: "set_owner_recv_mode E a t = (False, a') \<Longrightarrow> a' = a"
  by (auto simp: set_owner_recv_mode_def split: if_splits option.splits)

lemma set_owner_recv_mode_frame:
  assumes "set_owner_recv_mode E a t = (r, a')"
  shows "acc_Pid a' = acc_Pid a" "acc_addr a' = acc_addr a" "acc_Settings a' = acc_Settings a"
  using assms by (auto simp: set_owner_recv_mode_def split: if_splits option.splits)

lemma set_owner_recv_mode_credit:
  assumes "credit_ok a" and "set_owner_recv_mode E a t = (r, a')"
  shows "credit_ok a'"
  using assms
  by (auto simp: set_owner_recv_mode_def credit_ok_def uint_credit_add split: if_splits option.splits)

lemma set_owner_recv_mode_int:
  assumes "enif_get_int E t = Some i" "t \<notin> {ATOM_TRUE, ATOM_FALSE, ATOM_ONCE}"
    and "set_owner_recv_mode E owner t = (ok, owner')" and "c = uint (active_count owner)"
  shows "(ok \<longleftrightarrow> - 32768 \<le> i \<and> i \<le> 32767 \<and> c + i \<le> 32767) \<and> (\<not> ok \<longrightarrow> owner' = owner) \<and>
    (ok \<longrightarrow> (if c + i < 0
       then active owner' = ACCEPTOR_RECV_MODE_PASSIVE \<and> active_count owner' = 0
       else active owner' = ACCEPTOR_RECV_MODE_MULTI \<and> uint (active_count owner') = c + i))"
proof -
  have "0 \<le> c" by (simp add: assms(4))
  then show ?thesis
    using assms(1-3) unfolding set_owner_recv_mode_def
    by (auto simp: uint_credit_add assms(4) [symmetric] split: if_splits)
qed

subsection \<open>Properties\<close>

text \<open>
  C25: Setting \<open>{active, i}\<close> adds \<open>i\<close> to the credit of the owner. Out of the range of a signed
  16-bit integer \<open>i\<close> is refused; a sum below 0 makes the owner passive with no credit; a sum
  above 32767 is refused and changes nothing; otherwise the owner is in counted mode with
  exactly the sum as credit, which never wraps around, and credit always stays within range.
\<close>

theorem recv_mode_credit:
  assumes "enif_get_int E t = Some i" "t \<notin> {ATOM_TRUE, ATOM_FALSE, ATOM_ONCE}" "credit_ok owner"
    and "c = uint (active_count owner)"
  shows "\<exists>ok owner'. set_owner_recv_mode E owner t = (ok, owner') \<and> credit_ok owner' \<and>
    acc_Pid owner' = acc_Pid owner \<and>
    (ok \<longleftrightarrow> - 32768 \<le> i \<and> i \<le> 32767 \<and> c + i \<le> 32767) \<and>
    (\<not> ok \<longrightarrow> owner' = owner) \<and>
    (ok \<longrightarrow> (if c + i < 0
       then active owner' = ACCEPTOR_RECV_MODE_PASSIVE \<and> active_count owner' = 0
       else active owner' = ACCEPTOR_RECV_MODE_MULTI \<and> uint (active_count owner') = c + i))"
proof -
  obtain ok owner' where run: "set_owner_recv_mode E owner t = (ok, owner')" by fastforce
  note frame = set_owner_recv_mode_frame [OF run] set_owner_recv_mode_credit [OF assms(3) run]
  show ?thesis
    using set_owner_recv_mode_int [OF assms(1,2) run assms(4)] run frame by auto
qed

theorem recv_mode_credit_witness:
  "\<exists>owner'. set_owner_recv_mode beam \<lparr>acc_addr = 2, acc_Pid = 7, active = ACCEPTOR_RECV_MODE_MULTI,
       active_count = 5, acc_Settings = zero_settings\<rparr> (EInt (- 3)) = (True, owner') \<and>
     uint (active_count owner') = 2"
proof -
  let ?o = "\<lparr>acc_addr = 2, acc_Pid = 7, active = ACCEPTOR_RECV_MODE_MULTI,
       active_count = 5, acc_Settings = zero_settings\<rparr>"
  have "\<exists>ok owner'. set_owner_recv_mode beam ?o (EInt (- 3)) = (ok, owner') \<and> credit_ok owner' \<and>
    acc_Pid owner' = acc_Pid ?o \<and>
    (ok \<longleftrightarrow> - 32768 \<le> (- 3 :: int) \<and> (- 3 :: int) \<le> 32767 \<and> (5 :: int) + (- 3) \<le> 32767) \<and>
    (\<not> ok \<longrightarrow> owner' = ?o) \<and>
    (ok \<longrightarrow> (if (5 :: int) + (- 3) < 0
       then active owner' = ACCEPTOR_RECV_MODE_PASSIVE \<and> active_count owner' = 0
       else active owner' = ACCEPTOR_RECV_MODE_MULTI \<and> uint (active_count owner') = 5 + (- 3)))"
    by (rule recv_mode_credit) (simp_all add: beam_def credit_ok_def)
  then obtain owner' where "set_owner_recv_mode beam ?o (EInt (- 3)) = (True, owner')"
    "uint (active_count owner') = 2"
    by (elim exE conjE) simp
  then show ?thesis by blast
qed

end
