(* ===== verification/Quicer_Ctx.thy ===== *)
theory Quicer_Ctx
  imports Quicer_Queue
begin

section \<open>Contexts (\<open>quicer_ctx.h\<close>, \<open>quicer_ctx.c\<close>)\<close>

text \<open>
  The context records behind the five resource types, the two send contexts, and their
  \<open>init\<close>, \<open>deinit\<close> and \<open>destroy\<close> functions. Each record has the address of its block,
  which names the resource in terms and effects. A pointer field is an option; a pointer to
  another context is a copy of it (the fields read through such a pointer are written before
  the context is shared). \<open>Buffers\<close> of a stream are pointers into the receive buffer of the
  stack; they are kept as the bytes they point to, and \<open>rcv_lent\<close>, which is no field of the
  struct, says whether the stack still lends those bytes. Lengths are natural numbers: the code only adds and subtracts them
  within bounds it has tested.
\<close>

subsection \<open>The records\<close>

record QuicerRegistrationCTX =
  r_addr :: nat
  r_Registration :: "hquic option"
  is_released :: bool
  r_name :: string

record QuicerConfigCTX =
  g_addr :: nat
  Configuration :: "hquic option"

record QuicerListenerCTX =
  l_addr :: nat
  l_config_resource :: "QuicerConfigCTX option"
  l_r_ctx :: "QuicerRegistrationCTX option"
  Listener :: "hquic option"
  l_acceptor_queue :: "QUICER_ACCEPTOR_QUEUE option"
  listenerPid :: pid
  cacertfile :: "string option"
  trusted_store :: "nat option"
  l_is_closed :: bool
  l_is_stopped :: bool
  allow_insecure :: bool

record QuicerConnCTX =
  c_addr :: nat
  c_magic :: u32
  c_config_resource :: "QuicerConfigCTX option"
  c_r_ctx :: "QuicerRegistrationCTX option"
  Connection :: "hquic option"
  c_acceptor_queue :: "QUICER_ACCEPTOR_QUEUE option"
  c_owner :: "ACCEPTOR option"
  trusted :: "nat option"
  TlsSecrets :: "unit option"
  ResumptionTicket :: "bytes option"
  c_is_closed :: bool
  c_event_mask :: u32
  ssl_keylogfile :: "string option"
  peer_cert :: "nat option"

record QuicerStreamCTX =
  s_addr :: nat
  s_magic :: u32
  s_c_ctx :: "QuicerConnCTX option"
  Stream :: "hquic option"
  s_owner :: "ACCEPTOR option"
  eHandle :: eterm
  Buffers :: "bytes list"
  TotalBufferLength :: nat
  BufferCount :: nat
  is_wait_for_data :: bool
  is_recv_pending :: bool
  s_is_closed :: bool
  s_event_mask :: u32
  rcv_lent :: bool

record QuicerStreamSendCTX =
  sc_addr :: nat
  sc_s_ctx :: "rsrc option"
  caller :: pid
  is_sync :: bool
  sc_Buffer :: bytes

abbreviation r_res :: "QuicerRegistrationCTX \<Rightarrow> rsrc" where "r_res r \<equiv> RReg (r_addr r)"
abbreviation g_res :: "QuicerConfigCTX \<Rightarrow> rsrc" where "g_res g \<equiv> RConfig (g_addr g)"
abbreviation l_res :: "QuicerListenerCTX \<Rightarrow> rsrc" where "l_res l \<equiv> RListener (l_addr l)"
abbreviation c_res :: "QuicerConnCTX \<Rightarrow> rsrc" where "c_res c \<equiv> RConn (c_addr c)"
abbreviation s_res :: "QuicerStreamCTX \<Rightarrow> rsrc" where "s_res s \<equiv> RStream (s_addr s)"

subsection \<open>Registrations and configurations\<close>

definition init_r_ctx :: "enif \<Rightarrow> nat \<Rightarrow> QuicerRegistrationCTX option" where
  "init_r_ctx E addr =
     (if \<not> alloc_ok E ''ctx_reg_t'' then None
      else Some \<lparr>r_addr = addr, r_Registration = None, is_released = False, r_name = []\<rparr>)"

definition deinit_r_ctx :: "QuicerRegistrationCTX \<Rightarrow> eff list" where
  "deinit_r_ctx r_ctx = [FreeEnv (EnvOf (r_res r_ctx))]"

definition destroy_r_ctx :: "QuicerRegistrationCTX \<Rightarrow> QuicerRegistrationCTX \<times> eff list" where
  "destroy_r_ctx r_ctx = (r_ctx\<lparr>is_released := True\<rparr>, [Release (r_res r_ctx)])"

definition init_config_ctx :: "enif \<Rightarrow> nat \<Rightarrow> QuicerConfigCTX option" where
  "init_config_ctx E addr =
     (if \<not> alloc_ok E ''ctx_config_t'' then None
      else Some \<lparr>g_addr = addr, Configuration = None\<rparr>)"

definition deinit_config_ctx :: "QuicerConfigCTX \<Rightarrow> eff list" where
  "deinit_config_ctx config_ctx = [FreeEnv (EnvOf (g_res config_ctx))]"

definition destroy_config_ctx :: "QuicerConfigCTX \<Rightarrow> eff list" where
  "destroy_config_ctx config_ctx = [Release (g_res config_ctx)]"

subsection \<open>Listeners\<close>

definition init_l_ctx :: "enif \<Rightarrow> nat \<Rightarrow> nat \<Rightarrow> QuicerListenerCTX option \<times> eff list" where
  "init_l_ctx E addr config_addr =
     (if \<not> alloc_ok E ''ctx_listener_t'' then (None, [])
      else case AcceptorQueueNew E (RListener addr) of (q, es) \<Rightarrow>
        (Some \<lparr>l_addr = addr,
               l_config_resource = init_config_ctx E config_addr,
               l_r_ctx = None, Listener = None, l_acceptor_queue = q, listenerPid = 0,
               cacertfile = None, trusted_store = None,
               l_is_closed = True, l_is_stopped = False, allow_insecure = False\<rparr>, es))"

definition deinit_l_ctx :: "hquic option \<Rightarrow> QuicerListenerCTX \<Rightarrow> eff list option" where
  "deinit_l_ctx GRegistration l_ctx =
     deref (l_acceptor_queue l_ctx) (\<lambda>q. Some (
       (case trusted_store l_ctx of None \<Rightarrow> [] | Some st \<Rightarrow> [Free (MX509Store st)]) @
       AcceptorQueueDestroy q @
       (case l_config_resource l_ctx of None \<Rightarrow> [] | Some g \<Rightarrow> destroy_config_ctx g) @
       (case l_r_ctx l_ctx of
          None \<Rightarrow> []
        | Some r \<Rightarrow> if r_Registration r \<noteq> GRegistration then [Release (r_res r)] else []) @
       [MutexDestroy (LockOf (l_res l_ctx)), FreeEnv (EnvOf (l_res l_ctx))]))"

definition destroy_l_ctx :: "QuicerListenerCTX \<Rightarrow> (QuicerListenerCTX \<times> eff list) option" where
  "destroy_l_ctx l_ctx =
     deref (l_config_resource l_ctx) (\<lambda>g. Some (
       l_ctx\<lparr>l_r_ctx := None, l_config_resource := None\<rparr>,
       destroy_config_ctx g @
       (case l_r_ctx l_ctx of None \<Rightarrow> [] | Some r \<Rightarrow> [Release (r_res r)]) @
       [Demonitor (l_res l_ctx), Release (l_res l_ctx)]))"

subsection \<open>Connections\<close>

definition init_c_ctx :: "enif \<Rightarrow> nat \<Rightarrow> QuicerConnCTX option \<times> eff list" where
  "init_c_ctx E addr =
     (if \<not> alloc_ok E ''ctx_connection_t'' then (None, [])
      else case AcceptorQueueNew E (RConn addr) of (q, es) \<Rightarrow>
        (Some \<lparr>c_addr = addr, c_magic = 0xcfcfcfcf, c_config_resource = None, c_r_ctx = None,
               Connection = None, c_acceptor_queue = q, c_owner = None, trusted = None,
               TlsSecrets = None, ResumptionTicket = None, c_is_closed = True,
               c_event_mask = 0, ssl_keylogfile = None, peer_cert = None\<rparr>, es))"

definition deinit_c_ctx :: "QuicerConnCTX \<Rightarrow> (QuicerConnCTX \<times> eff list) option" where
  "deinit_c_ctx c_ctx =
     deref (c_acceptor_queue c_ctx) (\<lambda>q. Some (
       c_ctx\<lparr>trusted := None\<rparr>,
       [FreeEnv (EnvOf (c_res c_ctx))] @
       (case trusted c_ctx of None \<Rightarrow> [] | Some st \<Rightarrow> [Free (MX509Store st)]) @
       (case c_config_resource c_ctx of None \<Rightarrow> [] | Some g \<Rightarrow> [Release (g_res g)]) @
       AcceptorQueueDestroy q @
       (case peer_cert c_ctx of None \<Rightarrow> [] | Some x \<Rightarrow> [Free (MX509 x)]) @
       [MutexDestroy (LockOf (c_res c_ctx))]))"

definition destroy_c_ctx :: "QuicerConnCTX \<Rightarrow> QuicerConnCTX \<times> eff list" where
  "destroy_c_ctx c_ctx =
     (c_ctx\<lparr>trusted := None\<rparr>,
      (case trusted c_ctx of None \<Rightarrow> [] | Some st \<Rightarrow> [Free (MX509Store st)]) @
      [Demonitor (c_res c_ctx), Release (c_res c_ctx)])"

subsection \<open>Streams\<close>

definition init_s_ctx :: "enif \<Rightarrow> nat \<Rightarrow> QuicerStreamCTX option" where
  "init_s_ctx E addr =
     (if \<not> alloc_ok E ''ctx_stream_t'' then None
      else Some \<lparr>s_addr = addr, s_magic = 0xefefefef, s_c_ctx = None, Stream = None,
                 s_owner = None, eHandle = EInvalid, Buffers = [[], []], TotalBufferLength = 0,
                 BufferCount = 0, is_wait_for_data = False, is_recv_pending = False,
                 s_is_closed = True, s_event_mask = 0, rcv_lent = False\<rparr>)"

definition deinit_s_ctx :: "QuicerStreamCTX \<Rightarrow> eff list" where
  "deinit_s_ctx s_ctx = [MutexDestroy (LockOf (s_res s_ctx)), FreeEnv (EnvOf (s_res s_ctx))]"

definition destroy_s_ctx :: "QuicerStreamCTX \<Rightarrow> eff list" where
  "destroy_s_ctx s_ctx =
     [FreeEnv (ImmEnvOf (s_res s_ctx)), Demonitor (s_res s_ctx), Release (s_res s_ctx)]"

subsection \<open>Send contexts\<close>

definition init_send_ctx :: "enif \<Rightarrow> nat \<Rightarrow> QuicerStreamSendCTX option" where
  "init_send_ctx E addr =
     (if \<not> alloc_ok E ''QUICER_SEND_CTX'' then None
      else Some \<lparr>sc_addr = addr, sc_s_ctx = None, caller = 0, is_sync = False, sc_Buffer = []\<rparr>)"

definition destroy_send_ctx :: "QuicerStreamSendCTX \<Rightarrow> eff list" where
  "destroy_send_ctx send_ctx = [FreeEnv (EnvSend (sc_addr send_ctx)), Free (MSendCtx (sc_addr send_ctx))]"

definition init_dgram_send_ctx :: "enif \<Rightarrow> nat \<Rightarrow> QuicerStreamSendCTX option" where
  "init_dgram_send_ctx E addr =
     (if \<not> alloc_ok E ''QUICER_DGRAM_SEND_CTX'' then None
      else Some \<lparr>sc_addr = addr, sc_s_ctx = None, caller = 0, is_sync = False, sc_Buffer = []\<rparr>)"

definition destroy_dgram_send_ctx :: "QuicerStreamSendCTX \<Rightarrow> eff list" where
  "destroy_dgram_send_ctx dgram_send_ctx =
     [FreeEnv (EnvDgramSend (sc_addr dgram_send_ctx)), Free (MDgramSendCtx (sc_addr dgram_send_ctx))]"

lemmas ctx_init_defs =
  init_r_ctx_def init_config_ctx_def init_l_ctx_def init_c_ctx_def init_s_ctx_def
  init_send_ctx_def init_dgram_send_ctx_def AcceptorQueueNew_def AcceptorQueueInit_def

lemmas ctx_destroy_defs =
  destroy_r_ctx_def destroy_config_ctx_def destroy_c_ctx_def destroy_s_ctx_def
  destroy_send_ctx_def destroy_dgram_send_ctx_def

subsection \<open>What a fresh context looks like\<close>

text \<open>Every context starts closed, without a handle, with an empty queue.\<close>

lemma init_s_ctx_fresh:
  "init_s_ctx E a = Some s \<Longrightarrow>
     s_is_closed s \<and> Stream s = None \<and> Buffers s = [[], []] \<and> TotalBufferLength s = 0 \<and>
     \<not> is_recv_pending s \<and> \<not> is_wait_for_data s \<and> s_addr s = a"
  by (auto simp: init_s_ctx_def split: if_splits)

lemma init_c_ctx_fresh:
  "init_c_ctx E a = (Some c, es) \<Longrightarrow>
     c_is_closed c \<and> Connection c = None \<and> c_owner c = None \<and> c_addr c = a \<and> balanced es"
  by (auto simp: ctx_init_defs balanced_def split: if_splits)

lemma init_l_ctx_fresh:
  "init_l_ctx E a b = (Some l, es) \<Longrightarrow>
     l_is_closed l \<and> \<not> l_is_stopped l \<and> Listener l = None \<and> l_addr l = a \<and> balanced es"
  by (auto simp: ctx_init_defs balanced_def split: if_splits)

end
