(* ===== verification/Quicer_Stream.thy ===== *)
theory Quicer_Stream
  imports Quicer_Ctx
begin

section \<open>Streams (\<open>quicer_stream.c\<close>)\<close>

text \<open>
  The stream callbacks and NIFs. A callback takes the stream context and the event and
  returns the status, the context and the effects; a NIF takes the context its handle
  argument resolves to (\<open>None\<close> when \<open>enif_get_resource\<close> fails) and returns the Erlang
  term as well. The result is \<open>None\<close> where the C code runs into undefined behaviour.
\<close>

subsection \<open>Events and flags\<close>

record receive_event =
  AbsoluteOffset :: u64
  rcv_TotalBufferLength :: nat
  rcv_Buffer0 :: bytes
  rcv_Buffer1 :: bytes
  rcv_BufferCount :: nat
  rcv_Flags :: u32

datatype QUIC_STREAM_EVENT =
    START_COMPLETE quic_status u64 bool
  | RECEIVE receive_event
  | SEND_COMPLETE "QuicerStreamSendCTX option" bool
  | PEER_SEND_SHUTDOWN
  | PEER_SEND_ABORTED u64
  | PEER_RECEIVE_ABORTED u64
  | SEND_SHUTDOWN_COMPLETE bool
  | STREAM_SHUTDOWN_COMPLETE bool bool bool bool u64 quic_status
  | IDEAL_SEND_BUFFER_SIZE u64
  | PEER_ACCEPTED
  | STREAM_EVENT_OTHER

type_synonym stream_result = "(quic_status \<times> QuicerStreamCTX \<times> eff list) option"

definition QUICER_SEND_FLAGS_SYNC :: u32 where
  "QUICER_SEND_FLAGS_SYNC = 0x1000"

definition QUICER_STREAM_EVENT_MASK_START_COMPLETE :: u32 where
  "QUICER_STREAM_EVENT_MASK_START_COMPLETE = 0x00000001"

subsection \<open>The receive buffers\<close>

text \<open>
  The copy loop of \<open>recvbuffer_flush\<close>, over the buffers from index \<open>i\<close> on: reading past
  the last of them is undefined behaviour, and so is reading bytes that the stack has taken
  back, unless they are still there.
\<close>

fun flush_loop :: "bytes list \<Rightarrow> nat \<Rightarrow> bytes option" where
  "flush_loop bufs 0 = Some []"
| "flush_loop [] (Suc n) = None"
| "flush_loop (b # bs) (Suc n) =
     (if length b \<le> Suc n then map_option ((@) b) (flush_loop bs (Suc n - length b))
      else Some (take (Suc n) b))"

definition recvbuffer_flush :: "enif \<Rightarrow> QuicerStreamCTX \<Rightarrow> nat \<Rightarrow> bytes option" where
  "recvbuffer_flush E s_ctx req_len =
     c_assert E (req_len \<le> TotalBufferLength s_ctx)
       (let size = (if req_len = 0 then TotalBufferLength s_ctx else req_len)
        in if \<not> alloc_ok E ''binary'' then None
           else c_assert E (0 < size)
             (if rcv_lent s_ctx then flush_loop (Buffers s_ctx) size
              else stale_read E (flush_loop (Buffers s_ctx) size)))"

definition reset_stream_recv :: "QuicerStreamCTX \<Rightarrow> QuicerStreamCTX" where
  "reset_stream_recv s_ctx =
     s_ctx\<lparr>Buffers := [[], []], is_recv_pending := False, TotalBufferLength := 0\<rparr>"

subsection \<open>Event handlers\<close>

text \<open>A report to the owner of the stream.\<close>

definition report_owner :: "QuicerStreamCTX \<Rightarrow> eterm \<Rightarrow> stream_result" where
  "report_owner s_ctx report =
     deref (s_owner s_ctx) (\<lambda>owner. Some (QUIC_STATUS_SUCCESS, s_ctx, [Send (acc_Pid owner) report]))"

definition handle_stream_event_recv :: "enif \<Rightarrow> msquic \<Rightarrow> hquic option \<Rightarrow> QuicerStreamCTX \<Rightarrow> receive_event \<Rightarrow> stream_result" where
  "handle_stream_event_recv E M hStream s_ctx ev =
     c_assert E (0 < rcv_BufferCount ev \<or> rcv_Flags ev = QUIC_RECEIVE_FLAG_FIN M)
     (let s_ctx = s_ctx\<lparr>Buffers := [rcv_Buffer0 ev, rcv_Buffer1 ev],
                        BufferCount := rcv_BufferCount ev,
                        TotalBufferLength := rcv_TotalBufferLength ev, rcv_lent := True\<rparr>
      in if rcv_TotalBufferLength ev = 0 then Some (QUIC_STATUS_SUCCESS, s_ctx, [])
      else deref (s_owner s_ctx) (\<lambda>owner.
        if active owner = ACCEPTOR_RECV_MODE_PASSIVE
        then
          (let s_ctx = s_ctx\<lparr>is_recv_pending := True\<rparr>;
               report = make_event ATOM_QUIC_STATUS_CONTINUE (eHandle s_ctx) ATOM_UNDEFINED
           in Some (QUIC_STATUS_PENDING, s_ctx,
                if is_wait_for_data s_ctx
                then Send (acc_Pid owner) report #
                  (if \<not> enif_send E (acc_Pid owner) report
                   then [Quic (StreamShutdown hStream (QUIC_STREAM_SHUTDOWN_FLAG_GRACEFUL M)
                               (code_of_status M QUIC_STATUS_UNREACHABLE))]
                   else [])
                else []))
        else
          (case recvbuffer_flush E s_ctx 0 of
             None \<Rightarrow> None
           | Some bin \<Rightarrow>
               (let report_active = make_event_with_props (EBin bin) (eHandle s_ctx)
                      [ATOM_ABS_OFFSET, ATOM_LEN, ATOM_FLAGS]
                      [enif_make_uint64 (AbsoluteOffset ev),
                       enif_make_uint64 (of_nat (rcv_TotalBufferLength ev)),
                       enif_make_int (uint (rcv_Flags ev))];
                    report_passive = make_event ATOM_PASSIVE (eHandle s_ctx) ATOM_UNDEFINED
                in if active owner = ACCEPTOR_RECV_MODE_ONCE
                   then Some (QUIC_STATUS_SUCCESS,
                          s_ctx\<lparr>s_owner := Some (owner\<lparr>active_count := 0,
                                                       active := ACCEPTOR_RECV_MODE_PASSIVE\<rparr>)\<rparr>,
                          [Send (acc_Pid owner) report_active])
                   else if active owner = ACCEPTOR_RECV_MODE_MULTI
                   then c_assert E (0 < active_count owner)
                     (let owner = owner\<lparr>active_count := active_count owner - 1\<rparr>
                      in if active_count owner = 0
                         then Some (QUIC_STATUS_SUCCESS,
                                s_ctx\<lparr>s_owner := Some (owner\<lparr>active := ACCEPTOR_RECV_MODE_PASSIVE\<rparr>)\<rparr>,
                                [Quic (StreamReceiveSetEnabled (Stream s_ctx) False),
                                 Send (acc_Pid owner) report_active,
                                 Send (acc_Pid owner) report_passive])
                         else Some (QUIC_STATUS_SUCCESS,
                                s_ctx\<lparr>s_owner := Some owner\<rparr>,
                                [Send (acc_Pid owner) report_active]))
                   else Some (QUIC_STATUS_SUCCESS, s_ctx,
                          [Send (acc_Pid owner) report_active])))))"

definition handle_stream_event_start_complete ::
    "msquic \<Rightarrow> QuicerStreamCTX \<Rightarrow> quic_status \<Rightarrow> u64 \<Rightarrow> bool \<Rightarrow> stream_result" where
  "handle_stream_event_start_complete M s_ctx status ID PeerAccepted =
     (let s_ctx = s_ctx\<lparr>s_is_closed := False\<rparr>
      in if s_event_mask s_ctx AND QUICER_STREAM_EVENT_MASK_START_COMPLETE \<noteq> 0
         then report_owner s_ctx
                (make_event_with_props ATOM_START_COMPLETE (eHandle s_ctx)
                   [ATOM_STATUS, ATOM_STREAM_ID, ATOM_IS_PEER_ACCEPTED]
                   [atom_status M status, enif_make_uint64 ID, ATOM_BOOLEAN PeerAccepted])
         else Some (QUIC_STATUS_SUCCESS, s_ctx, []))"

definition handle_stream_event_peer_send_shutdown :: "QuicerStreamCTX \<Rightarrow> stream_result" where
  "handle_stream_event_peer_send_shutdown s_ctx =
     report_owner s_ctx (make_event ATOM_PEER_SEND_SHUTDOWN (eHandle s_ctx) ATOM_UNDEFINED)"

definition handle_stream_event_peer_send_aborted :: "QuicerStreamCTX \<Rightarrow> u64 \<Rightarrow> stream_result" where
  "handle_stream_event_peer_send_aborted s_ctx ErrorCode =
     report_owner s_ctx (make_event ATOM_PEER_SEND_ABORTED (eHandle s_ctx) (enif_make_uint64 ErrorCode))"

definition handle_stream_event_peer_receive_aborted :: "QuicerStreamCTX \<Rightarrow> u64 \<Rightarrow> stream_result" where
  "handle_stream_event_peer_receive_aborted s_ctx ErrorCode =
     report_owner s_ctx (make_event ATOM_PEER_RECEIVE_ABORTED (eHandle s_ctx) (enif_make_uint64 ErrorCode))"

definition handle_stream_event_shutdown_complete ::
    "msquic \<Rightarrow> QuicerStreamCTX \<Rightarrow> bool \<Rightarrow> bool \<Rightarrow> bool \<Rightarrow> bool \<Rightarrow> u64 \<Rightarrow> quic_status \<Rightarrow> stream_result" where
  "handle_stream_event_shutdown_complete M s_ctx is_conn_shutdown AppCloseInProgress
       ConnectionShutdownByApp ConnectionClosedRemotely ConnectionErrorCode ConnectionCloseStatus =
     report_owner s_ctx
       (make_event_with_props ATOM_STREAM_CLOSED (eHandle s_ctx)
          [ATOM_IS_CONN_SHUTDOWN, ATOM_IS_APP_CLOSING, ATOM_IS_SHUTDOWN_BY_APP,
           ATOM_IS_CLOSED_REMOTELY, ATOM_ERROR, ATOM_STATUS]
          [ATOM_BOOLEAN is_conn_shutdown, ATOM_BOOLEAN AppCloseInProgress,
           ATOM_BOOLEAN ConnectionShutdownByApp, ATOM_BOOLEAN ConnectionClosedRemotely,
           enif_make_uint64 ConnectionErrorCode, atom_status M ConnectionCloseStatus])"

definition handle_stream_event_peer_accepted :: "QuicerStreamCTX \<Rightarrow> stream_result" where
  "handle_stream_event_peer_accepted s_ctx =
     report_owner s_ctx (make_event ATOM_PEER_ACCEPTED (eHandle s_ctx) ATOM_UNDEFINED)"

text \<open>The completion of a send is reported to the process that sent, not to the owner.\<close>

definition handle_stream_event_send_complete ::
    "QuicerStreamCTX \<Rightarrow> QuicerStreamSendCTX option \<Rightarrow> bool \<Rightarrow> stream_result" where
  "handle_stream_event_send_complete s_ctx ClientContext Canceled =
     (case ClientContext of
        None \<Rightarrow> Some (QUIC_STATUS_INVALID_STATE, s_ctx, [])
      | Some send_ctx \<Rightarrow> Some (QUIC_STATUS_SUCCESS, s_ctx,
          (if is_sync send_ctx
           then [Send (caller send_ctx)
                   (make_event ATOM_SEND_COMPLETE (eHandle s_ctx) (ATOM_BOOLEAN Canceled))]
           else []) @ destroy_send_ctx send_ctx))"

definition handle_stream_event_send_shutdown_complete :: "QuicerStreamCTX \<Rightarrow> bool \<Rightarrow> stream_result" where
  "handle_stream_event_send_shutdown_complete s_ctx is_graceful =
     report_owner s_ctx (make_event ATOM_SEND_SHUTDOWN_COMPLETE (eHandle s_ctx) (ATOM_BOOLEAN is_graceful))"

subsection \<open>Callbacks\<close>

text \<open>
  When a handler returns to the stack anything but \<open>PENDING\<close> for received data, the stack takes
  its buffers back.
\<close>

definition take_back :: "stream_result \<Rightarrow> stream_result" where
  "take_back r = map_option (\<lambda>(st, s, es). (st, s\<lparr>rcv_lent := (st = QUIC_STATUS_PENDING)\<rparr>, es)) r"

text \<open>
  The \<open>switch\<close> of the two callbacks: the handler's result and whether the context is
  destroyed. The server's has no case for \<open>START_COMPLETE\<close> and \<open>PEER_ACCEPTED\<close>.
\<close>

fun server_stream_switch :: "enif \<Rightarrow> msquic \<Rightarrow> hquic option \<Rightarrow> QuicerStreamCTX \<Rightarrow> QUIC_STREAM_EVENT \<Rightarrow> stream_result \<times> bool" where
  "server_stream_switch E M h s (SEND_COMPLETE ctx canceled) =
     (handle_stream_event_send_complete s ctx canceled, False)"
| "server_stream_switch E M h s (RECEIVE ev) = (take_back (handle_stream_event_recv E M h s ev), False)"
| "server_stream_switch E M h s PEER_SEND_SHUTDOWN = (handle_stream_event_peer_send_shutdown s, False)"
| "server_stream_switch E M h s (PEER_SEND_ABORTED code) = (handle_stream_event_peer_send_aborted s code, False)"
| "server_stream_switch E M h s (PEER_RECEIVE_ABORTED code) = (handle_stream_event_peer_receive_aborted s code, False)"
| "server_stream_switch E M h s (STREAM_SHUTDOWN_COMPLETE a b c d code st) =
     (handle_stream_event_shutdown_complete M s a b c d code st, True)"
| "server_stream_switch E M h s (SEND_SHUTDOWN_COMPLETE g) = (handle_stream_event_send_shutdown_complete s g, False)"
| "server_stream_switch E M h s _ = (Some (QUIC_STATUS_SUCCESS, s, []), False)"

fun client_stream_switch :: "enif \<Rightarrow> msquic \<Rightarrow> hquic option \<Rightarrow> QuicerStreamCTX \<Rightarrow> QUIC_STREAM_EVENT \<Rightarrow> stream_result \<times> bool" where
  "client_stream_switch E M h s (START_COMPLETE st i p) = (handle_stream_event_start_complete M s st i p, False)"
| "client_stream_switch E M h s (SEND_COMPLETE ctx canceled) =
     (handle_stream_event_send_complete s ctx canceled, False)"
| "client_stream_switch E M h s (RECEIVE ev) = (take_back (handle_stream_event_recv E M h s ev), False)"
| "client_stream_switch E M h s (PEER_SEND_ABORTED code) = (handle_stream_event_peer_send_aborted s code, False)"
| "client_stream_switch E M h s (PEER_RECEIVE_ABORTED code) = (handle_stream_event_peer_receive_aborted s code, False)"
| "client_stream_switch E M h s PEER_SEND_SHUTDOWN = (handle_stream_event_peer_send_shutdown s, False)"
| "client_stream_switch E M h s (STREAM_SHUTDOWN_COMPLETE a b c d code st) =
     (handle_stream_event_shutdown_complete M s a b c d code st, True)"
| "client_stream_switch E M h s PEER_ACCEPTED = (handle_stream_event_peer_accepted s, False)"
| "client_stream_switch E M h s (IDEAL_SEND_BUFFER_SIZE n) = (Some (QUIC_STATUS_SUCCESS, s, []), False)"
| "client_stream_switch E M h s (SEND_SHUTDOWN_COMPLETE g) = (handle_stream_event_send_shutdown_complete s g, False)"
| "client_stream_switch E M h s _ = (Some (QUIC_STATUS_SUCCESS, s, []), False)"

text \<open>The frame both callbacks put around the switch.\<close>

definition stream_callback_frame :: "QuicerStreamCTX \<Rightarrow> stream_result \<times> bool \<Rightarrow> stream_result" where
  "stream_callback_frame s_ctx r =
     (case r of
        (None, is_destroy) \<Rightarrow> None
      | (Some (status, s', es), is_destroy) \<Rightarrow>
          (let s' = (if is_destroy then s'\<lparr>s_is_closed := True\<rparr> else s')
           in Some (status, s',
                [Lock (LockOf (s_res s_ctx))] @ es @
                [ClearEnv (EnvOf (s_res s_ctx)), Unlock (LockOf (s_res s_ctx))] @
                (if is_destroy then destroy_s_ctx s' else []))))"

definition ServerStreamCallback :: "enif \<Rightarrow> msquic \<Rightarrow> hquic option \<Rightarrow> QuicerStreamCTX \<Rightarrow> QUIC_STREAM_EVENT \<Rightarrow> stream_result" where
  "ServerStreamCallback E M hStream s_ctx Event =
     stream_callback_frame s_ctx (server_stream_switch E M hStream s_ctx Event)"

definition ClientStreamCallback :: "enif \<Rightarrow> msquic \<Rightarrow> hquic option \<Rightarrow> QuicerStreamCTX \<Rightarrow> QUIC_STREAM_EVENT \<Rightarrow> stream_result" where
  "ClientStreamCallback E M hStream s_ctx Event =
     stream_callback_frame s_ctx (client_stream_switch E M hStream s_ctx Event)"

subsection \<open>Starting and accepting streams\<close>

text \<open>An optional unsigned option: \<open>None\<close> if it is set to something that is no unsigned integer.\<close>

definition opt_uint :: "enif \<Rightarrow> eterm \<Rightarrow> eterm \<Rightarrow> u32 \<Rightarrow> u32 option" where
  "opt_uint E eoptions key default_val =
     (case enif_get_map_value E eoptions key of
        None \<Rightarrow> Some default_val
      | Some t \<Rightarrow> enif_get_uint E t)"

definition set_event_mask :: "enif \<Rightarrow> eterm \<Rightarrow> QuicerStreamCTX \<Rightarrow> QuicerStreamCTX" where
  "set_event_mask E eoptions s_ctx =
     (case get_uint32_from_map E eoptions ATOM_QUIC_EVENT_MASK of
        None \<Rightarrow> s_ctx
      | Some m \<Rightarrow> s_ctx\<lparr>s_event_mask := m\<rparr>)"

type_synonym stream_nif = "(eterm \<times> QuicerStreamCTX option \<times> eff list) option"

text \<open>The label \<open>ErrorExit\<close> of \<open>async_start_stream2\<close>.\<close>

definition start_stream_exit :: "eterm \<Rightarrow> QuicerStreamCTX \<Rightarrow> eff list \<Rightarrow> stream_nif" where
  "start_stream_exit res s_ctx es = Some (res, Some s_ctx, es @ destroy_s_ctx s_ctx)"

text \<open>From \<open>StreamOpen\<close> on.\<close>

definition start_stream_open ::
    "msquic \<Rightarrow> QuicerConnCTX \<Rightarrow> u32 \<Rightarrow> u32 \<Rightarrow> QuicerStreamCTX \<Rightarrow> eff list \<Rightarrow> stream_nif" where
  "start_stream_open M c_ctx open_flag start_flag s_ctx es =
     (let open_call = StreamOpen (Connection c_ctx) open_flag ClientStreamCb (s_res s_ctx)
      in if quic_failed M (quic_status_of M open_call)
         then start_stream_exit
                (ERROR_TUPLE_3 ATOM_STREAM_OPEN_ERROR (atom_status M (quic_status_of M open_call)))
                s_ctx (es @ [Quic open_call])
         else
           (let s_ctx = s_ctx\<lparr>Stream := Some (quic_handle_of M open_call), eHandle := ERes (s_res s_ctx)\<rparr>;
                start_call = StreamStart (Stream s_ctx) start_flag;
                es = es @ [Quic open_call, Quic start_call]
            in if quic_failed M (quic_status_of M start_call)
               then Some (ERROR_TUPLE_3 ATOM_STREAM_START_ERROR
                            (atom_status M (quic_status_of M start_call)), Some s_ctx, es)
               else Some (SUCCESS (eHandle s_ctx), Some s_ctx, es)))"

definition async_start_stream2 ::
    "enif \<Rightarrow> msquic \<Rightarrow> QuicerConnCTX option \<Rightarrow> eterm \<Rightarrow> nat \<Rightarrow> nat \<Rightarrow> stream_nif" where
  "async_start_stream2 E M c_h eoptions addr acc_address =
     (case c_h of
        None \<Rightarrow> Some (ERROR_TUPLE_2 ATOM_BADARG, None, [])
      | Some c_ctx \<Rightarrow>
     (case enif_get_map_value E eoptions ATOM_QUIC_STREAM_OPTS_ACTIVE of
        None \<Rightarrow> Some (ERROR_TUPLE_2 ATOM_BADARG, None, [])
      | Some active_val \<Rightarrow>
     (case opt_uint E eoptions ATOM_QUIC_STREAM_OPTS_OPEN_FLAG (QUIC_STREAM_OPEN_FLAG_NONE M) of
        None \<Rightarrow> Some (ERROR_TUPLE_2 ATOM_BADARG, None, [])
      | Some open_flag \<Rightarrow>
     (case opt_uint E eoptions ATOM_QUIC_STREAM_OPTS_START_FLAG (QUIC_STREAM_START_FLAG_NONE M) of
        None \<Rightarrow> Some (ERROR_TUPLE_2 ATOM_BADARG, None, [])
      | Some start_flag \<Rightarrow>
     (case init_s_ctx E addr of
        None \<Rightarrow> Some (ERROR_TUPLE_2 ATOM_ERROR_NOT_ENOUGH_MEMORY, None, [])
      | Some s_ctx \<Rightarrow>
     (let s_ctx = (set_event_mask E eoptions s_ctx)\<lparr>s_c_ctx := Some c_ctx\<rparr>;
          es = [Keep (c_res c_ctx)]
      in case AcceptorAlloc E acc_address of
        None \<Rightarrow> None
      | Some None \<Rightarrow> start_stream_exit (ERROR_TUPLE_2 ATOM_ERROR_NOT_ENOUGH_MEMORY) s_ctx es
      | Some (Some acc) \<Rightarrow>
     (case enif_self E of
        None \<Rightarrow> start_stream_exit (ERROR_TUPLE_2 ATOM_BAD_PID) (s_ctx\<lparr>s_owner := Some acc\<rparr>) es
      | Some self \<Rightarrow>
     (case set_owner_recv_mode E (acc\<lparr>acc_Pid := self\<rparr>) active_val of (ok, acc) \<Rightarrow>
        let s_ctx = s_ctx\<lparr>s_owner := Some acc\<rparr>
        in if \<not> ok then start_stream_exit (ERROR_TUPLE_2 ATOM_BADARG) s_ctx es
           else start_stream_open M c_ctx open_flag start_flag s_ctx es))))))))"

text \<open>Waiting for a stream of the peer: the acceptor joins the queue of the connection.\<close>

definition async_accept_stream2 ::
    "enif \<Rightarrow> QuicerConnCTX option \<Rightarrow> eterm \<Rightarrow> nat \<Rightarrow> (eterm \<times> QuicerConnCTX option \<times> eff list) option" where
  "async_accept_stream2 E c_h eoptions acc_address =
     (case c_h of
        None \<Rightarrow> Some (ERROR_TUPLE_2 ATOM_BADARG, None, [])
      | Some c_ctx \<Rightarrow>
     (case enif_get_map_value E eoptions ATOM_QUIC_STREAM_OPTS_ACTIVE of
        None \<Rightarrow> Some (ERROR_TUPLE_2 ATOM_BADARG, Some c_ctx, [])
      | Some active_val \<Rightarrow>
     (case AcceptorAlloc E acc_address of
        None \<Rightarrow> None
      | Some None \<Rightarrow> Some (ERROR_TUPLE_2 ATOM_ERROR_INTERNAL_ERROR, Some c_ctx, [])
      | Some (Some acceptor) \<Rightarrow>
     (case enif_self E of
        None \<Rightarrow> Some (ERROR_TUPLE_2 ATOM_BAD_PID, Some c_ctx, AcceptorDestroy (Some acceptor))
      | Some self \<Rightarrow>
     (let acceptor = acceptor\<lparr>acc_Pid := self\<rparr>
      in if \<not> enif_is_process_alive E self
         then Some (ERROR_TUPLE_2 ATOM_OWNER_DEAD, Some c_ctx, AcceptorDestroy (Some acceptor))
         else
     (case set_owner_recv_mode E acceptor active_val of (ok, acceptor) \<Rightarrow>
        if \<not> ok
        then Some (ERROR_TUPLE_2 ATOM_PARAM_ERROR, Some c_ctx, AcceptorDestroy (Some acceptor))
        else deref (c_acceptor_queue c_ctx) (\<lambda>q.
          case AcceptorEnqueue q acceptor of (q, es) \<Rightarrow>
            Some (SUCCESS (ERes (c_res c_ctx)), Some (c_ctx\<lparr>c_acceptor_queue := Some q\<rparr>), es))))))))"

subsection \<open>Sending\<close>

text \<open>The payload as one binary, if it is an I/O list or a binary of at most \<open>UINT32_MAX\<close> bytes.\<close>

definition inspect_payload :: "enif \<Rightarrow> eterm \<Rightarrow> bytes option" where
  "inspect_payload E ebin =
     (case (case enif_inspect_iolist_as_binary E ebin of
              Some b \<Rightarrow> Some b
            | None \<Rightarrow> enif_inspect_binary E ebin) of
        None \<Rightarrow> None
      | Some b \<Rightarrow> if int (length b) > UINT32_MAX then None else Some b)"

text \<open>The flag that asks for a completion message is taken out of the flags for the stack.\<close>

definition split_send_flags :: "u32 \<Rightarrow> bool \<times> u32" where
  "split_send_flags sendflags =
     (if sendflags AND QUICER_SEND_FLAGS_SYNC > 0
      then (True, sendflags AND NOT QUICER_SEND_FLAGS_SYNC)
      else (False, sendflags))"

text \<open>
  \<open>send3\<close> gives the send context to the stack (third component) or frees it. A context
  whose caller \<open>enif_self\<close> does not fill keeps the zeroed one.
\<close>

definition send3 ::
    "enif \<Rightarrow> msquic \<Rightarrow> nat \<Rightarrow> QuicerStreamCTX option \<Rightarrow> eterm \<Rightarrow> eterm \<Rightarrow> nat \<Rightarrow>
     eterm \<times> QuicerStreamSendCTX option \<times> eff list" where
  "send3 E M argc s_h ebin eFlags addr =
     (if argc \<noteq> 3 then (ERROR_TUPLE_2 ATOM_BADARG, None, [])
      else case s_h of
        None \<Rightarrow> (ERROR_TUPLE_2 ATOM_BADARG, None, [])
      | Some s_ctx \<Rightarrow>
     (case init_send_ctx E addr of
        None \<Rightarrow> (ERROR_TUPLE_2 ATOM_ERROR_NOT_ENOUGH_MEMORY, None, [])
      | Some send_ctx \<Rightarrow>
     (case enif_get_uint E eFlags of
        None \<Rightarrow> (ERROR_TUPLE_2 ATOM_BADARG, None, destroy_send_ctx send_ctx)
      | Some sendflags \<Rightarrow>
     (let send_ctx = (case enif_self E of None \<Rightarrow> send_ctx | Some self \<Rightarrow> send_ctx\<lparr>caller := self\<rparr>);
          (sync, sendflags) = split_send_flags sendflags;
          send_ctx = send_ctx\<lparr>is_sync := sync\<rparr>
      in case inspect_payload E ebin of
        None \<Rightarrow> (ERROR_TUPLE_2 ATOM_BADARG, None, destroy_send_ctx send_ctx)
      | Some bin \<Rightarrow>
     (let send_ctx = send_ctx\<lparr>sc_s_ctx := Some (s_res s_ctx), sc_Buffer := bin\<rparr>;
          call = StreamSend (Stream s_ctx) bin sendflags (sc_addr send_ctx);
          es = [Lock (LockOf (s_res s_ctx)), Quic call]
      in if quic_failed M (quic_status_of M call)
         then (ERROR_TUPLE_3 ATOM_STREAM_SEND_ERROR (atom_status M (quic_status_of M call)), None,
               es @ destroy_send_ctx send_ctx @ [Unlock (LockOf (s_res s_ctx))])
         else (SUCCESS (ETERM_UINT_64 (int (length bin))), Some send_ctx,
               es @ [Unlock (LockOf (s_res s_ctx))]))))))"

text \<open>The label \<open>ErrorExit\<close> of \<open>csend4\<close>: it dereferences the send context.\<close>

type_synonym csend_nif =
  "(eterm \<times> QuicerStreamCTX option \<times> QuicerStreamSendCTX option \<times> eff list) option"

definition csend_exit ::
    "eterm \<Rightarrow> QuicerStreamSendCTX option \<Rightarrow> QuicerStreamCTX \<Rightarrow> eff list \<Rightarrow> csend_nif" where
  "csend_exit res send_ctx s_ctx es =
     deref send_ctx (\<lambda>sc. Some (res, Some s_ctx, None, es @ destroy_send_ctx sc @ destroy_s_ctx s_ctx))"

text \<open>From \<open>StreamOpen\<close> on.\<close>

definition csend_open ::
    "enif \<Rightarrow> msquic \<Rightarrow> QuicerConnCTX \<Rightarrow> eterm \<Rightarrow> u32 \<Rightarrow> u32 \<Rightarrow> QuicerStreamSendCTX \<Rightarrow>
     QuicerStreamCTX \<Rightarrow> eff list \<Rightarrow> csend_nif" where
  "csend_open E M c_ctx ebin open_flag sendflags send_ctx s_ctx es =
     (let open_call = StreamOpen (Connection c_ctx) open_flag ClientStreamCb (s_res s_ctx);
          es = es @ [Quic open_call]
      in if quic_failed M (quic_status_of M open_call)
         then csend_exit
                (ERROR_TUPLE_3 ATOM_STREAM_OPEN_ERROR (atom_status M (quic_status_of M open_call)))
                (Some send_ctx) s_ctx es
         else
           (let s_ctx = s_ctx\<lparr>Stream := Some (quic_handle_of M open_call), eHandle := ERes (s_res s_ctx)\<rparr>
            in case inspect_payload E ebin of
              None \<Rightarrow> csend_exit (ERROR_TUPLE_2 ATOM_BADARG) (Some send_ctx) s_ctx es
            | Some bin \<Rightarrow>
                (let send_ctx = send_ctx\<lparr>sc_Buffer := bin\<rparr>;
                     call = StreamSend (Stream s_ctx) bin (sendflags OR QUIC_SEND_FLAG_START M) (sc_addr send_ctx);
                     es = es @ [Lock (LockOf (s_res s_ctx)), Quic call, Unlock (LockOf (s_res s_ctx))]
                 in if quic_failed M (quic_status_of M call)
                    then csend_exit
                           (ERROR_TUPLE_3 ATOM_STREAM_SEND_ERROR (atom_status M (quic_status_of M call)))
                           (Some send_ctx) s_ctx es
                    else Some (SUCCESS (eHandle s_ctx), Some s_ctx, Some send_ctx, es))))"

definition csend4 ::
    "enif \<Rightarrow> msquic \<Rightarrow> nat \<Rightarrow> QuicerConnCTX option \<Rightarrow> eterm \<Rightarrow> eterm \<Rightarrow> eterm \<Rightarrow> nat \<Rightarrow> nat \<Rightarrow> nat \<Rightarrow>
     csend_nif" where
  "csend4 E M argc c_h ebin eoptions eFlags addr sc_address acc_address =
     (if argc \<noteq> 4 then Some (ERROR_TUPLE_2 ATOM_BADARG, None, None, [])
      else case c_h of
        None \<Rightarrow> Some (ERROR_TUPLE_2 ATOM_BADARG, None, None, [])
      | Some c_ctx \<Rightarrow>
     (case enif_get_map_value E eoptions ATOM_QUIC_STREAM_OPTS_ACTIVE of
        None \<Rightarrow> Some (ERROR_TUPLE_2 ATOM_BADARG, None, None, [])
      | Some active_val \<Rightarrow>
     (case opt_uint E eoptions ATOM_QUIC_STREAM_OPTS_OPEN_FLAG (QUIC_STREAM_OPEN_FLAG_NONE M) of
        None \<Rightarrow> Some (ERROR_TUPLE_2 ATOM_BADARG, None, None, [])
      | Some open_flag \<Rightarrow>
     (if enif_get_map_value E eoptions ATOM_QUIC_STREAM_OPTS_START_FLAG \<noteq> None
      then Some (ERROR_TUPLE_2 ATOM_BADARG, None, None, [])
      else case init_s_ctx E addr of
        None \<Rightarrow> Some (ERROR_TUPLE_2 ATOM_ERROR_NOT_ENOUGH_MEMORY, None, None, [])
      | Some s_ctx \<Rightarrow>
     (let s_ctx = s_ctx\<lparr>s_c_ctx := Some c_ctx\<rparr>;
          es = [Keep (c_res c_ctx)]
      in case init_send_ctx E sc_address of
        None \<Rightarrow> csend_exit (ERROR_TUPLE_2 ATOM_ERROR_NOT_ENOUGH_MEMORY) None s_ctx es
      | Some send_ctx \<Rightarrow>
     (case AcceptorAlloc E acc_address of
        None \<Rightarrow> None
      | Some None \<Rightarrow> csend_exit (ERROR_TUPLE_2 ATOM_ERROR_NOT_ENOUGH_MEMORY) (Some send_ctx) s_ctx es
      | Some (Some acc) \<Rightarrow>
     (let s_ctx = s_ctx\<lparr>s_owner := Some acc\<rparr>;
          send_ctx = send_ctx\<lparr>sc_s_ctx := Some (s_res s_ctx)\<rparr>
      in case enif_self E of
        None \<Rightarrow> csend_exit (ERROR_TUPLE_2 ATOM_BAD_PID) (Some send_ctx) s_ctx es
      | Some self \<Rightarrow>
     (let acc = acc\<lparr>acc_Pid := self\<rparr>;
          s_ctx = s_ctx\<lparr>s_owner := Some acc\<rparr>;
          send_ctx = send_ctx\<lparr>caller := self\<rparr>
      in case enif_get_uint E eFlags of
        None \<Rightarrow> csend_exit (ERROR_TUPLE_2 ATOM_BADARG) (Some send_ctx) s_ctx es
      | Some sendflags \<Rightarrow>
     (let (sync, sendflags) = split_send_flags sendflags;
          send_ctx = send_ctx\<lparr>is_sync := sync\<rparr>;
          s_ctx = set_event_mask E eoptions s_ctx
      in case set_owner_recv_mode E acc active_val of (ok, acc) \<Rightarrow>
        let s_ctx = s_ctx\<lparr>s_owner := Some acc\<rparr>
        in if \<not> ok then csend_exit (ERROR_TUPLE_2 ATOM_BADARG) (Some send_ctx) s_ctx es
           else csend_open E M c_ctx ebin open_flag sendflags send_ctx s_ctx es)))))))))"

subsection \<open>Receiving and shutting down\<close>

text \<open>With \<open>StreamReceiveComplete\<close> the stack gets its buffers back.\<close>

definition recv2 :: "enif \<Rightarrow> msquic \<Rightarrow> QuicerStreamCTX option \<Rightarrow> eterm \<Rightarrow> stream_nif" where
  "recv2 E M s_h esize =
     (case s_h of
        None \<Rightarrow> Some (ERROR_TUPLE_2 ATOM_BADARG, None, [])
      | Some s_ctx \<Rightarrow>
     (case enif_get_uint64 E esize of
        None \<Rightarrow> Some (ERROR_TUPLE_2 ATOM_BADARG, Some s_ctx, [])
      | Some size_req \<Rightarrow>
     (let lk = Lock (LockOf (s_res s_ctx)); ulk = Unlock (LockOf (s_res s_ctx))
      in deref (s_owner s_ctx) (\<lambda>owner.
        if active owner \<noteq> ACCEPTOR_RECV_MODE_PASSIVE
        then Some (ERROR_TUPLE_2 ATOM_EINVAL, Some s_ctx, [lk, ulk])
        else if is_recv_pending s_ctx \<and> TotalBufferLength s_ctx > 0
        then
          (case recvbuffer_flush E s_ctx
                  (if unat size_req > TotalBufferLength s_ctx then TotalBufferLength s_ctx
                   else unat size_req) of
             None \<Rightarrow> None
           | Some bin \<Rightarrow>
               (let size_consumed = length bin;
                    s_ctx = reset_stream_recv s_ctx;
                    s_ctx = (if size_consumed > 0 then s_ctx\<lparr>is_wait_for_data := False\<rparr> else s_ctx)
                in Some (SUCCESS (EBin bin), Some (s_ctx\<lparr>rcv_lent := False\<rparr>),
                     [lk, Quic (StreamReceiveComplete (Stream s_ctx) (of_nat size_consumed)), ulk])))
        else
          (let s_ctx = s_ctx\<lparr>is_wait_for_data := True,
                             rcv_lent := rcv_lent s_ctx \<and> \<not> is_recv_pending s_ctx\<rparr>;
               enable = StreamReceiveSetEnabled (Stream s_ctx) True;
               es = [lk] @
                 (if is_recv_pending s_ctx then [Quic (StreamReceiveComplete (Stream s_ctx) 0)] else []) @
                 [Quic enable, ulk]
           in if quic_failed M (quic_status_of M enable)
              then Some (ERROR_TUPLE_2 (atom_status M (quic_status_of M enable)), Some s_ctx, es)
              else Some (SUCCESS ATOM_ERROR_NOT_READY, Some s_ctx, es))))))"

text \<open>
  A flag or an error code that is no unsigned integer sets the return value and leaves the
  variable at 0; the stream is shut down all the same.
\<close>

definition shutdown_stream3 ::
    "enif \<Rightarrow> msquic \<Rightarrow> QuicerStreamCTX option \<Rightarrow> eterm \<Rightarrow> eterm \<Rightarrow> eterm \<times> eff list" where
  "shutdown_stream3 E M s_h eflags ecode =
     (case s_h of
        None \<Rightarrow> (ERROR_TUPLE_2 ATOM_BADARG, [])
      | Some s_ctx \<Rightarrow>
          (let ret = ATOM_OK;
               (ret, flags) = (case enif_get_uint E eflags of
                  None \<Rightarrow> (ERROR_TUPLE_2 ATOM_BADARG, 0) | Some f \<Rightarrow> (ret, f));
               (ret, app_errcode) = (case enif_get_uint E ecode of
                  None \<Rightarrow> (ERROR_TUPLE_2 ATOM_BADARG, 0) | Some c \<Rightarrow> (ret, c));
               call = StreamShutdown (Stream s_ctx) flags (ucast app_errcode);
               ret = (if quic_failed M (quic_status_of M call)
                      then ERROR_TUPLE_2 (atom_status M (quic_status_of M call)) else ret)
           in (ret, [Quic call])))"

definition get_stream_rid1 :: "nat \<Rightarrow> QuicerStreamCTX option \<Rightarrow> eterm" where
  "get_stream_rid1 args s_h =
     (if args \<noteq> 1 then ERROR_TUPLE_2 ATOM_BADARG
      else case s_h of
        None \<Rightarrow> ERROR_TUPLE_2 ATOM_BADARG
      | Some s_ctx \<Rightarrow> SUCCESS (EInt (case Stream s_ctx of None \<Rightarrow> 0 | Some h \<Rightarrow> int h)))"

subsection \<open>Facts about the receive buffers\<close>

text \<open>
  The loop copies a prefix of the buffered bytes, and leaves the buffers exactly when more is
  asked for than they hold.
\<close>

lemma flush_loop_eq:
  "flush_loop bufs n = (if n \<le> length (concat bufs) then Some (take n (concat bufs)) else None)"
  by (induction bufs n rule: flush_loop.induct) auto

text \<open>A context whose buffers hold as many bytes as its total says, and an event likewise.\<close>

definition buffers_ok :: "QuicerStreamCTX \<Rightarrow> bool" where
  "buffers_ok s \<longleftrightarrow> length (Buffers s) = 2 \<and> TotalBufferLength s = length (concat (Buffers s))"

definition event_ok :: "msquic \<Rightarrow> receive_event \<Rightarrow> bool" where
  "event_ok M ev \<longleftrightarrow>
     rcv_TotalBufferLength ev = length (rcv_Buffer0 ev) + length (rcv_Buffer1 ev) \<and>
     (0 < rcv_BufferCount ev \<or> rcv_Flags ev = QUIC_RECEIVE_FLAG_FIN M)"

definition event_bytes :: "receive_event \<Rightarrow> bytes" where
  "event_bytes ev = rcv_Buffer0 ev @ rcv_Buffer1 ev"

lemma recvbuffer_flush_eq:
  assumes "buffers_ok s" and "alloc_ok E ''binary''" and "rcv_lent s \<or> stale_reads E"
    and "req \<le> TotalBufferLength s" and "0 < TotalBufferLength s"
  shows "recvbuffer_flush E s req =
     Some (if req = 0 then concat (Buffers s) else take req (concat (Buffers s)))"
  using assms by (auto simp: recvbuffer_flush_def stale_read_def flush_loop_eq buffers_ok_def)

text \<open>The context as the receive handler fills it from an event.\<close>

definition buffered :: "QuicerStreamCTX \<Rightarrow> receive_event \<Rightarrow> QuicerStreamCTX" where
  "buffered s ev = s\<lparr>Buffers := [rcv_Buffer0 ev, rcv_Buffer1 ev],
                     BufferCount := rcv_BufferCount ev,
                     TotalBufferLength := rcv_TotalBufferLength ev, rcv_lent := True\<rparr>"

lemma buffered_simps [simp]:
  "Buffers (buffered s ev) = [rcv_Buffer0 ev, rcv_Buffer1 ev]"
  "TotalBufferLength (buffered s ev) = rcv_TotalBufferLength ev"
  "s_owner (buffered s ev) = s_owner s" "eHandle (buffered s ev) = eHandle s"
  "Stream (buffered s ev) = Stream s" "s_addr (buffered s ev) = s_addr s"
  "is_recv_pending (buffered s ev) = is_recv_pending s"
  "is_wait_for_data (buffered s ev) = is_wait_for_data s"
  "s_is_closed (buffered s ev) = s_is_closed s" "rcv_lent (buffered s ev)"
  by (simp_all add: buffered_def)

lemma buffers_ok_buffered: "event_ok M ev \<Longrightarrow> buffers_ok (buffered s ev)"
  by (simp add: buffers_ok_def event_ok_def)

lemma buffers_ok_reset: "buffers_ok (reset_stream_recv s)"
  by (simp add: buffers_ok_def reset_stream_recv_def)

text \<open>The message that delivers data to an active owner.\<close>

definition data_message :: "QuicerStreamCTX \<Rightarrow> receive_event \<Rightarrow> eterm" where
  "data_message s ev =
     make_event_with_props (EBin (event_bytes ev)) (eHandle s)
       [ATOM_ABS_OFFSET, ATOM_LEN, ATOM_FLAGS]
       [enif_make_uint64 (AbsoluteOffset ev),
        enif_make_uint64 (of_nat (rcv_TotalBufferLength ev)),
        enif_make_int (uint (rcv_Flags ev))]"

definition passive_message :: "QuicerStreamCTX \<Rightarrow> eterm" where
  "passive_message s = make_event ATOM_PASSIVE (eHandle s) ATOM_UNDEFINED"

definition continue_message :: "QuicerStreamCTX \<Rightarrow> eterm" where
  "continue_message s = make_event ATOM_QUIC_STATUS_CONTINUE (eHandle s) ATOM_UNDEFINED"

lemma flush_buffered:
  assumes "event_ok M ev" "alloc_ok E ''binary''" "0 < rcv_TotalBufferLength ev"
  shows "recvbuffer_flush E (buffered s ev) 0 = Some (event_bytes ev)"
  using assms buffers_ok_buffered [OF assms(1), of s]
  by (simp add: recvbuffer_flush_eq event_bytes_def)

text \<open>The receive handler by receive mode of the owner.\<close>

lemma recv_unfold:
  assumes ok: "event_ok M ev" and mem: "alloc_ok E ''binary''"
    and data: "0 < rcv_TotalBufferLength ev" and own: "s_owner s = Some owner"
  shows "handle_stream_event_recv E M h s ev =
     (if active owner = ACCEPTOR_RECV_MODE_PASSIVE
      then Some (QUIC_STATUS_PENDING, (buffered s ev)\<lparr>is_recv_pending := True\<rparr>,
             if is_wait_for_data s
             then Send (acc_Pid owner) (continue_message s) #
               (if \<not> enif_send E (acc_Pid owner) (continue_message s)
                then [Quic (StreamShutdown h (QUIC_STREAM_SHUTDOWN_FLAG_GRACEFUL M)
                            (code_of_status M QUIC_STATUS_UNREACHABLE))] else [])
             else [])
      else if active owner = ACCEPTOR_RECV_MODE_ONCE
      then Some (QUIC_STATUS_SUCCESS,
             (buffered s ev)\<lparr>s_owner := Some (owner\<lparr>active_count := 0,
                                       active := ACCEPTOR_RECV_MODE_PASSIVE\<rparr>)\<rparr>,
             [Send (acc_Pid owner) (data_message s ev)])
      else if active owner = ACCEPTOR_RECV_MODE_MULTI
      then c_assert E (0 < active_count owner)
        (if active_count owner - 1 = 0
         then Some (QUIC_STATUS_SUCCESS,
                (buffered s ev)\<lparr>s_owner := Some (owner\<lparr>active_count := 0,
                                       active := ACCEPTOR_RECV_MODE_PASSIVE\<rparr>)\<rparr>,
                [Quic (StreamReceiveSetEnabled (Stream s) False),
                 Send (acc_Pid owner) (data_message s ev),
                 Send (acc_Pid owner) (passive_message s)])
         else Some (QUIC_STATUS_SUCCESS,
                (buffered s ev)\<lparr>s_owner := Some (owner\<lparr>active_count := active_count owner - 1\<rparr>)\<rparr>,
                [Send (acc_Pid owner) (data_message s ev)]))
      else Some (QUIC_STATUS_SUCCESS, buffered s ev,
             [Send (acc_Pid owner) (data_message s ev)]))"
proof -
  have flush: "recvbuffer_flush E
      (s\<lparr>Buffers := [rcv_Buffer0 ev, rcv_Buffer1 ev], BufferCount := rcv_BufferCount ev,
         TotalBufferLength := rcv_TotalBufferLength ev, rcv_lent := True\<rparr>) 0 = Some (event_bytes ev)"
    using flush_buffered [OF ok mem data, of s] by (simp add: buffered_def)
  have fin: "0 < rcv_BufferCount ev \<or> rcv_Flags ev = QUIC_RECEIVE_FLAG_FIN M"
    using ok by (simp add: event_ok_def)
  show ?thesis
    using fin data own
    by (simp add: handle_stream_event_recv_def flush Let_def buffered_def
        data_message_def passive_message_def continue_message_def)
qed

lemma data_message_cong [simp]:
  "data_message (buffered s ev) = data_message s"
  "data_message (s\<lparr>s_owner := o'\<rparr>) = data_message s"
  "passive_message (buffered s ev) = passive_message s"
  "passive_message (s\<lparr>s_owner := o'\<rparr>) = passive_message s"
  "data_message (s\<lparr>rcv_lent := l\<rparr>) = data_message s" "passive_message (s\<lparr>rcv_lent := l\<rparr>) = passive_message s"
  by (simp_all add: fun_eq_iff data_message_def passive_message_def)

text \<open>The callbacks put the lock around whatever the handler does.\<close>

lemma frame_Some:
  "stream_callback_frame s r = Some (status, s', es) \<longleftrightarrow>
     (\<exists>s0 es0. fst r = Some (status, s0, es0) \<and>
        s' = (if snd r then s0\<lparr>s_is_closed := True\<rparr> else s0) \<and>
        es = [Lock (LockOf (s_res s))] @ es0 @
             [ClearEnv (EnvOf (s_res s)), Unlock (LockOf (s_res s))] @
             (if snd r then destroy_s_ctx s' else []))"
  by (cases r) (auto simp: stream_callback_frame_def Let_def split: option.splits)

lemma destroy_no_locks [simp]:
  "no_locks (destroy_s_ctx s)" "no_locks (destroy_send_ctx sc)"
  by (simp_all add: ctx_destroy_defs)

lemmas stream_event_defs =
  handle_stream_event_start_complete_def handle_stream_event_peer_send_shutdown_def
  handle_stream_event_peer_send_aborted_def handle_stream_event_peer_receive_aborted_def
  handle_stream_event_shutdown_complete_def handle_stream_event_peer_accepted_def
  handle_stream_event_send_complete_def handle_stream_event_send_shutdown_complete_def
  report_owner_def

text \<open>
  What every handler keeps: the lock is left alone, nothing is released, and the identity of
  the context and its connection stay.
\<close>

definition handler_frame :: "QuicerStreamCTX \<Rightarrow> QuicerStreamCTX \<times> eff list \<Rightarrow> bool" where
  "handler_frame s r \<longleftrightarrow>
     no_locks (snd r) \<and> releases (snd r) = [] \<and> keeps (snd r) = [] \<and>
     s_addr (fst r) = s_addr s \<and> s_c_ctx (fst r) = s_c_ctx s \<and> Stream (fst r) = Stream s \<and>
     map_option acc_Pid (s_owner (fst r)) = map_option acc_Pid (s_owner s)"

text \<open>What only speaks of the effects is not touched by giving the buffers back.\<close>

lemma post_take_back: "post r (\<lambda>(st, s, es). P es) \<Longrightarrow> post (take_back r) (\<lambda>(st, s, es). P es)"
  by (auto simp: take_back_def post_def)

lemma recv_post:
  "post (handle_stream_event_recv E M h s ev)
     (\<lambda>(st, s', es). handler_frame s (s', es) \<and> s_is_closed s' = s_is_closed s \<and> frees es = [])"
  unfolding handle_stream_event_recv_def by (intro wp) (simp_all add: handler_frame_def)

lemma recv_frame:
  "take_back (handle_stream_event_recv E M h s ev) = Some (st, s', es) \<Longrightarrow>
     handler_frame s (s', es) \<and> s_is_closed s' = s_is_closed s \<and> frees es = []"
  by (auto simp: take_back_def handler_frame_def dest: postD [OF recv_post])

lemma server_switch_frame:
  "fst (server_stream_switch E M h s e) = Some (st, s', es) \<Longrightarrow>
     handler_frame s (s', es) \<and> s_is_closed s' = s_is_closed s"
  by (cases e)
    (auto simp: stream_event_defs handler_frame_def ctx_destroy_defs
      dest!: recv_frame split: if_splits option.splits)

lemma client_switch_frame:
  "fst (client_stream_switch E M h s e) = Some (st, s', es) \<Longrightarrow>
     handler_frame s (s', es) \<and>
     s_is_closed s' = (case e of START_COMPLETE _ _ _ \<Rightarrow> False | _ \<Rightarrow> s_is_closed s)"
  by (cases e)
    (auto simp: stream_event_defs handler_frame_def ctx_destroy_defs Let_def
      dest!: recv_frame split: if_splits option.splits)

fun is_shutdown_event :: "QUIC_STREAM_EVENT \<Rightarrow> bool" where
  "is_shutdown_event (STREAM_SHUTDOWN_COMPLETE _ _ _ _ _ _) = True"
| "is_shutdown_event _ = False"

lemma switch_destroys [simp]:
  "snd (server_stream_switch E M h s e) = is_shutdown_event e"
  "snd (client_stream_switch E M h s e) = is_shutdown_event e"
  by (cases e; simp)+

text \<open>
  What a callback does to locks and references, given what its handler keeps. The mutex is
  free again before the reference is given up, and nothing follows the release.
\<close>

definition callback_contract :: "QuicerStreamCTX \<Rightarrow> bool \<Rightarrow> QuicerStreamCTX \<Rightarrow> eff list \<Rightarrow> bool" where
  "callback_contract s closing s' es \<longleftrightarrow>
     balanced es \<and> s_addr s' = s_addr s \<and>
     releases es = (if closing then [s_res s] else []) \<and>
     (closing \<longrightarrow> s_is_closed s' \<and>
        (\<exists>pre. balanced pre \<and> releases pre = [] \<and> es = pre @ destroy_s_ctx s'))"

lemma frame_contract:
  assumes "stream_callback_frame s r = Some (st, s', es)"
    and "\<And>s0 es0. fst r = Some (st, s0, es0) \<Longrightarrow> handler_frame s (s0, es0)"
  shows "callback_contract s (snd r) s' es"
proof -
  obtain s0 es0 where r: "fst r = Some (st, s0, es0)"
    and s': "s' = (if snd r then s0\<lparr>s_is_closed := True\<rparr> else s0)"
    and es: "es = ([Lock (LockOf (s_res s))] @ es0 @
             [ClearEnv (EnvOf (s_res s)), Unlock (LockOf (s_res s))]) @
             (if snd r then destroy_s_ctx s' else [])"
    using assms(1) by (auto simp: frame_Some)
  have keep: "no_locks es0" "releases es0 = []" "s_addr s0 = s_addr s"
    using assms(2) [OF r] by (auto simp: handler_frame_def)
  have gen: "callback_contract s (snd r) s' (p @ (if snd r then destroy_s_ctx s' else []))"
    if "balanced p" "releases p = []" for p
    using that keep s'
    by (cases "snd r") (auto simp: callback_contract_def balanced_append balanced_no_locks destroy_no_locks,
        simp_all add: destroy_s_ctx_def)
  show ?thesis
    using keep gen [of "[Lock (LockOf (s_res s))] @ es0 @ [ClearEnv (EnvOf (s_res s)), Unlock (LockOf (s_res s))]"]
    unfolding es by (simp add: balanced_def lock_run_append lock_run_no_locks)
qed

lemma server_callback_contract:
  "ServerStreamCallback E M h s e = Some (st, s', es) \<Longrightarrow>
     callback_contract s (is_shutdown_event e) s' es"
  unfolding ServerStreamCallback_def
  using frame_contract [of s "server_stream_switch E M h s e" st s' es]
  by (auto dest: server_switch_frame)

lemma client_callback_contract:
  "ClientStreamCallback E M h s e = Some (st, s', es) \<Longrightarrow>
     callback_contract s (is_shutdown_event e) s' es"
  unfolding ClientStreamCallback_def
  using frame_contract [of s "client_stream_switch E M h s e" st s' es]
  by (auto dest: client_switch_frame)

subsection \<open>Runs of receive events\<close>

text \<open>The events of one stream, one after the other, as its worker indicates them.\<close>

fun stream_run :: "enif \<Rightarrow> msquic \<Rightarrow> hquic option \<Rightarrow> QuicerStreamCTX \<Rightarrow> QUIC_STREAM_EVENT list \<Rightarrow>
    (QuicerStreamCTX \<times> eff list) option" where
  "stream_run E M h s [] = Some (s, [])"
| "stream_run E M h s (e # evs) =
     (case ServerStreamCallback E M h s e of
        None \<Rightarrow> None
      | Some (status, s', es) \<Rightarrow>
          (case stream_run E M h s' evs of
             None \<Rightarrow> None
           | Some (s'', es') \<Rightarrow> Some (s'', es @ es')))"

lemma server_recv_callback:
  "ServerStreamCallback E M h s (RECEIVE ev) =
     (case handle_stream_event_recv E M h s ev of
        None \<Rightarrow> None
      | Some (st, s', es) \<Rightarrow> Some (st, s'\<lparr>rcv_lent := (st = QUIC_STATUS_PENDING)\<rparr>,
          [Lock (LockOf (s_res s))] @ es @ [ClearEnv (EnvOf (s_res s)), Unlock (LockOf (s_res s))]))"
  by (simp add: ServerStreamCallback_def stream_callback_frame_def take_back_def Let_def split: option.split)

definition data_event :: "msquic \<Rightarrow> receive_event \<Rightarrow> bool" where
  "data_event M ev \<longleftrightarrow> event_ok M ev \<and> 0 < rcv_TotalBufferLength ev"

lemma multi_step:
  assumes "data_event M ev" "alloc_ok E ''binary''" "s_owner s = Some owner"
    "active owner = ACCEPTOR_RECV_MODE_MULTI" "0 < active_count owner" "active_count owner - 1 = k"
  shows "ServerStreamCallback E M h s (RECEIVE ev) =
     (if k = 0
      then Some (QUIC_STATUS_SUCCESS,
             (buffered s ev)\<lparr>s_owner := Some (owner\<lparr>active_count := 0, active := ACCEPTOR_RECV_MODE_PASSIVE\<rparr>),
                              rcv_lent := False\<rparr>,
             [Lock (LockOf (s_res s)), Quic (StreamReceiveSetEnabled (Stream s) False),
              Send (acc_Pid owner) (data_message s ev), Send (acc_Pid owner) (passive_message s),
              ClearEnv (EnvOf (s_res s)), Unlock (LockOf (s_res s))])
      else Some (QUIC_STATUS_SUCCESS,
             (buffered s ev)\<lparr>s_owner := Some (owner\<lparr>active_count := k\<rparr>), rcv_lent := False\<rparr>,
             [Lock (LockOf (s_res s)), Send (acc_Pid owner) (data_message s ev),
              ClearEnv (EnvOf (s_res s)), Unlock (LockOf (s_res s))]))"
proof -
  note recv = recv_unfold [of M ev E s owner h]
  show ?thesis
    using assms unfolding data_event_def server_recv_callback
    by (cases "k = 0") (simp_all add: recv)
qed

lemma multi_run:
  assumes "alloc_ok E ''binary''" "s_owner s = Some owner" "active owner = ACCEPTOR_RECV_MODE_MULTI"
    "evs \<noteq> []" "\<forall>ev \<in> set evs. data_event M ev" "unat (active_count owner) = length evs"
  shows "\<exists>s' es. stream_run E M h s (map RECEIVE evs) = Some (s', es) \<and>
     msgs es = map (\<lambda>ev. (acc_Pid owner, data_message s ev)) evs @ [(acc_Pid owner, passive_message s)] \<and>
     quic_calls es = [StreamReceiveSetEnabled (Stream s) False] \<and>
     s_owner s' = Some (owner\<lparr>active_count := 0, active := ACCEPTOR_RECV_MODE_PASSIVE\<rparr>)"
  using assms
proof (induction evs arbitrary: s owner)
  case Nil
  then show ?case by simp
next
  case (Cons ev evs)
  let ?k = "active_count owner - 1"
  have pos: "0 < active_count owner" and k: "unat ?k = length evs"
    using Cons.prems(6) by (simp_all add: unat_gt_0 word_gt_0 unat_sub_if' flip: unat_eq_zero)
  note step = multi_step [of M ev E s owner ?k h]
  show ?case
  proof (cases "evs = []")
    case True
    then have "?k = 0" using k by (simp add: unat_eq_zero)
    then show ?thesis using step Cons.prems pos True by simp
  next
    case False
    then have nz: "?k \<noteq> 0" using k by (auto simp: unat_eq_zero)
    let ?s = "(buffered s ev)\<lparr>s_owner := Some (owner\<lparr>active_count := ?k\<rparr>), rcv_lent := False\<rparr>"
    have one: "ServerStreamCallback E M h s (RECEIVE ev) = Some (QUIC_STATUS_SUCCESS, ?s,
             [Lock (LockOf (s_res s)), Send (acc_Pid owner) (data_message s ev),
              ClearEnv (EnvOf (s_res s)), Unlock (LockOf (s_res s))])"
      using step Cons.prems pos nz by simp
    show ?thesis
      using Cons.IH [of ?s "owner\<lparr>active_count := ?k\<rparr>"] Cons.prems k False one by auto
  qed
qed

subsection \<open>Properties\<close>

text \<open>
  C2: A stream whose owner has asked for \<open>{active, n}\<close> delivers the next \<open>n\<close> data events as
  \<open>n\<close> messages to the owner, in order, each with exactly the bytes of its event, then one
  \<open>passive\<close> message; receiving is switched off once, and the owner is left passive with no
  credit.
\<close>

theorem active_n_run:
  assumes "alloc_ok E ''binary''" "s_owner s = Some owner" "active owner = ACCEPTOR_RECV_MODE_MULTI"
    "evs \<noteq> []" "\<forall>ev \<in> set evs. data_event M ev" "unat (active_count owner) = length evs"
  shows "\<exists>s' es. stream_run E M h s (map RECEIVE evs) = Some (s', es) \<and>
     msgs es = map (\<lambda>ev. (acc_Pid owner, data_message s ev)) evs @ [(acc_Pid owner, passive_message s)] \<and>
     quic_calls es = [StreamReceiveSetEnabled (Stream s) False] \<and>
     s_owner s' = Some (owner\<lparr>active_count := 0, active := ACCEPTOR_RECV_MODE_PASSIVE\<rparr>)"
  using multi_run [OF assms] .

definition stream0 :: "ACCEPTOR_RECV_MODE \<Rightarrow> u16 \<Rightarrow> QuicerStreamCTX" where
  "stream0 mode n =
     \<lparr>s_addr = 1, s_magic = 0xefefefef, s_c_ctx = None, Stream = Some 5,
      s_owner = Some \<lparr>acc_addr = 2, acc_Pid = 7, active = mode, active_count = n,
                      acc_Settings = zero_settings\<rparr>,
      eHandle = ERes (RStream 1), Buffers = [[], []], TotalBufferLength = 0, BufferCount = 0,
      is_wait_for_data = False, is_recv_pending = False, s_is_closed = False, s_event_mask = 0,
      rcv_lent = False\<rparr>"

definition event0 :: "bytes \<Rightarrow> bytes \<Rightarrow> receive_event" where
  "event0 b0 b1 = \<lparr>AbsoluteOffset = 0, rcv_TotalBufferLength = length b0 + length b1,
     rcv_Buffer0 = b0, rcv_Buffer1 = b1, rcv_BufferCount = 2, rcv_Flags = 0\<rparr>"

theorem active_n_run_witness:
  "\<exists>s' es. stream_run beam msquic0 (Some 5) (stream0 ACCEPTOR_RECV_MODE_MULTI 2)
       (map RECEIVE [event0 [1, 2] [3], event0 [4] []]) = Some (s', es) \<and>
     map fst (msgs es) = [7, 7, 7]"
  using active_n_run [of beam "stream0 ACCEPTOR_RECV_MODE_MULTI 2"
      "\<lparr>acc_addr = 2, acc_Pid = 7, active = ACCEPTOR_RECV_MODE_MULTI, active_count = 2,
        acc_Settings = zero_settings\<rparr>" "[event0 [1, 2] [3], event0 [4] []]" msquic0 "Some 5"]
  by (fastforce simp: stream0_def event0_def beam_def data_event_def event_ok_def)

text \<open>
  C3: Data that arrives for a passive owner is held back (the stack is told \<open>PENDING\<close>, no data
  message is sent, and the owner is told that it can go on exactly if an earlier \<open>recv\<close> left
  it waiting), and the next \<open>recv\<close> for \<open>n\<close> bytes returns the first \<open>n\<close> of them (all of them
  for 0 or for more than there are), telling the stack that it consumed exactly as many bytes
  as it returned.
\<close>

theorem passive_receive_roundtrip:
  assumes "data_event M ev" "alloc_ok E ''binary''" "s_owner s = Some owner"
    "active owner = ACCEPTOR_RECV_MODE_PASSIVE" "enif_get_uint64 E esize = Some n"
    "enif_send E (acc_Pid owner) (continue_message s)"
    "bin = (if n = 0 then event_bytes ev else take (unat n) (event_bytes ev))"
  shows "\<exists>s1 es1 s2 es2.
     ServerStreamCallback E M h s (RECEIVE ev) = Some (QUIC_STATUS_PENDING, s1, es1) \<and>
     msgs es1 = (if is_wait_for_data s then [(acc_Pid owner, continue_message s)] else []) \<and>
     quic_calls es1 = [] \<and>
     recv2 E M (Some s1) esize = Some (SUCCESS (EBin bin), Some s2, es2) \<and>
     quic_calls es2 = [StreamReceiveComplete (Stream s) (of_nat (length bin))] \<and>
     \<not> is_recv_pending s2 \<and> \<not> is_wait_for_data s2 \<and> balanced es2"
proof -
  let ?s1 = "(buffered s ev)\<lparr>is_recv_pending := True\<rparr>"
  have ev: "event_ok M ev" "0 < rcv_TotalBufferLength ev"
    using assms(1) by (auto simp: data_event_def)
  have cb: "ServerStreamCallback E M h s (RECEIVE ev) = Some (QUIC_STATUS_PENDING, ?s1,
      [Lock (LockOf (s_res s))] @
      (if is_wait_for_data s then [Send (acc_Pid owner) (continue_message s)] else []) @
      [ClearEnv (EnvOf (s_res s)), Unlock (LockOf (s_res s))])"
    using recv_unfold [OF ev(1) assms(2) ev(2) assms(3), of h] assms(4,6)
    by (simp add: server_recv_callback)
  have ok: "buffers_ok ?s1" and len: "length (event_bytes ev) = rcv_TotalBufferLength ev"
    using ev(1) by (auto simp: buffers_ok_def event_ok_def event_bytes_def)
  have bin: "recvbuffer_flush E ?s1
      (if unat n > TotalBufferLength ?s1 then TotalBufferLength ?s1 else unat n) = Some bin"
    using recvbuffer_flush_eq [OF ok assms(2)] ev(2) len assms(7)
    by (auto simp: event_bytes_def unat_eq_zero)
  have "length bin > 0"
    using assms(7) ev(2) len by (cases "n = 0") (auto simp: unat_gt_0)
  then have "recv2 E M (Some ?s1) esize = Some (SUCCESS (EBin bin),
      Some ((reset_stream_recv ?s1)\<lparr>is_wait_for_data := False, rcv_lent := False\<rparr>),
      [Lock (LockOf (s_res s)), Quic (StreamReceiveComplete (Stream s) (of_nat (length bin))),
       Unlock (LockOf (s_res s))])"
    using assms(3-5) ev(2) bin by (simp add: recv2_def Let_def reset_stream_recv_def)
  then show ?thesis
    using cb by (simp add: balanced_def reset_stream_recv_def)
qed

theorem passive_receive_roundtrip_witness:
  "\<exists>s1 es1 s2 es2.
     ServerStreamCallback beam msquic0 (Some 5) (stream0 ACCEPTOR_RECV_MODE_PASSIVE 0)
       (RECEIVE (event0 [1, 2] [3])) = Some (QUIC_STATUS_PENDING, s1, es1) \<and>
     recv2 beam msquic0 (Some s1) (EInt 2) = Some (SUCCESS (EBin [1, 2]), Some s2, es2)"
  using passive_receive_roundtrip [of msquic0 "event0 [1, 2] [3]" beam
      "stream0 ACCEPTOR_RECV_MODE_PASSIVE 0" "the (s_owner (stream0 ACCEPTOR_RECV_MODE_PASSIVE 0))"
      "EInt 2" 2 "[1, 2]" "Some 5"]
  by (fastforce simp: stream0_def event0_def beam_def msquic0_def data_event_def event_ok_def event_bytes_def)

text \<open>
  C23: Either stream callback leaves every mutex as it found it, and gives up the reference to
  the stream exactly on the final event of the stream: then the context is marked closed, and
  the reference goes after the mutex is free again, as the last thing the callback does.
\<close>

theorem stream_callback_discipline:
  assumes "cb = ServerStreamCallback \<or> cb = ClientStreamCallback"
    and "cb E M h s e = Some (st, s', es)"
  shows "balanced es \<and> releases es = (if is_shutdown_event e then [s_res s] else []) \<and>
    (is_shutdown_event e \<longrightarrow> s_is_closed s' \<and>
       (\<exists>pre. balanced pre \<and> releases pre = [] \<and>
          es = pre @ [FreeEnv (ImmEnvOf (s_res s)), Demonitor (s_res s), Release (s_res s)]))"
proof -
  have "callback_contract s (is_shutdown_event e) s' es"
    using assms server_callback_contract client_callback_contract by blast
  then show ?thesis
    by (auto simp: callback_contract_def destroy_s_ctx_def)
qed

theorem stream_callback_discipline_witness:
  "\<exists>s' es. ClientStreamCallback beam msquic0 (Some 5) (stream0 ACCEPTOR_RECV_MODE_ACTIVE 0)
       (STREAM_SHUTDOWN_COMPLETE False False False False 0 QUIC_STATUS_SUCCESS) =
         Some (QUIC_STATUS_SUCCESS, s', es) \<and> balanced es \<and> releases es = [RStream 1]"
  using stream_callback_discipline [of ClientStreamCallback beam msquic0 "Some 5"
      "stream0 ACCEPTOR_RECV_MODE_ACTIVE 0"
      "STREAM_SHUTDOWN_COMPLETE False False False False 0 QUIC_STATUS_SUCCESS"]
  by (simp add: ClientStreamCallback_def stream_callback_frame_def stream_event_defs stream0_def Let_def)

text \<open>The events that only the initiator of a stream gets.\<close>

fun initiator_event :: "QUIC_STREAM_EVENT \<Rightarrow> bool" where
  "initiator_event (START_COMPLETE _ _ _) = True"
| "initiator_event PEER_ACCEPTED = True"
| "initiator_event _ = False"

text \<open>
  C33: The two callbacks treat every event alike but the two that only the initiator of a stream
  gets: the completion of its start and the acceptance by the peer.
\<close>

theorem stream_callbacks_agree:
  assumes "\<not> initiator_event e"
  shows "ClientStreamCallback E M h s e = ServerStreamCallback E M h s e"
  using assms by (cases e) (simp_all add: ClientStreamCallback_def ServerStreamCallback_def)

theorem stream_callbacks_agree_witness:
  "ClientStreamCallback beam msquic0 None (stream0 ACCEPTOR_RECV_MODE_ACTIVE 0) PEER_SEND_SHUTDOWN =
   ServerStreamCallback beam msquic0 None (stream0 ACCEPTOR_RECV_MODE_ACTIVE 0) PEER_SEND_SHUTDOWN"
  by (rule stream_callbacks_agree) simp

text \<open>
  The send context of \<open>send3\<close>: on success the stack has it, otherwise it is freed, block and
  environment, if it was allocated.
\<close>

definition send_contract ::
    "enif \<Rightarrow> msquic \<Rightarrow> nat \<Rightarrow> QuicerStreamCTX option \<Rightarrow> nat \<Rightarrow>
     eterm \<times> QuicerStreamSendCTX option \<times> eff list \<Rightarrow> bool" where
  "send_contract E M argc s_h a r \<longleftrightarrow>
     (case r of (res, given, es) \<Rightarrow>
        balanced es \<and>
        (case given of
           Some sc \<Rightarrow> sc_addr sc = a \<and> frees es = [] \<and> FreeEnv (EnvSend a) \<notin> set es \<and>
             res = SUCCESS (ETERM_UINT_64 (int (length (sc_Buffer sc)))) \<and>
             int (length (sc_Buffer sc)) \<le> UINT32_MAX \<and>
             (\<exists>s flags. s_h = Some s \<and> sc_s_ctx sc = Some (s_res s) \<and>
                quic_calls es = [StreamSend (Stream s) (sc_Buffer sc) flags a] \<and>
                \<not> quic_failed M (quic_status_of M (StreamSend (Stream s) (sc_Buffer sc) flags a)))
         | None \<Rightarrow> (\<exists>x. res = ERROR_TUPLE_2 x \<or> (\<exists>y. res = ERROR_TUPLE_3 x y)) \<and>
             (if argc = 3 \<and> s_h \<noteq> None \<and> alloc_ok E ''QUICER_SEND_CTX''
              then frees es = [MSendCtx a] \<and> count_list es (FreeEnv (EnvSend a)) = 1
              else es = [])))"

lemma init_send_ctx_addr: "init_send_ctx E a = Some sc \<Longrightarrow> sc_addr sc = a"
  by (auto simp: init_send_ctx_def split: if_splits)

lemma init_send_ctx_None: "init_send_ctx E a = None \<longleftrightarrow> \<not> alloc_ok E ''QUICER_SEND_CTX''"
  by (simp add: init_send_ctx_def)

lemma init_send_ctx_mem: "init_send_ctx E a = Some sc \<Longrightarrow> alloc_ok E ''QUICER_SEND_CTX''"
  by (auto simp: init_send_ctx_def split: if_splits)

lemma inspect_payload_bound: "inspect_payload E t = Some b \<Longrightarrow> int (length b) \<le> UINT32_MAX"
  by (auto simp: inspect_payload_def split: option.splits if_splits)

lemma send3_contract: "holds (send3 E M argc s_h ebin fl a) (send_contract E M argc s_h a)"
  unfolding send3_def
  by (intro wp)
    (auto simp: send_contract_def balanced_def destroy_send_ctx_def init_send_ctx_None
      dest: init_send_ctx_addr init_send_ctx_mem inspect_payload_bound split: option.splits)



definition csend_contract ::
    "QuicerConnCTX option \<Rightarrow> nat \<Rightarrow> nat \<Rightarrow>
     eterm \<times> QuicerStreamCTX option \<times> QuicerStreamSendCTX option \<times> eff list \<Rightarrow> bool" where
  "csend_contract c_h addr sc_address r \<longleftrightarrow>
     (case r of (res, s', given, es) \<Rightarrow>
        balanced es \<and>
        (case given of
           Some sc \<Rightarrow> sc_addr sc = sc_address \<and> frees es = [] \<and> releases es = [] \<and>
             res = SUCCESS (ERes (RStream addr)) \<and> (\<exists>c. c_h = Some c \<and> keeps es = [c_res c])
         | None \<Rightarrow> (\<nexists>t. res = SUCCESS t) \<and>
             (es = [] \<or>
              frees es = [MSendCtx sc_address] \<and> releases es = [RStream addr] \<and>
              (\<exists>c. c_h = Some c \<and> keeps es = [c_res c]))))"

lemma AcceptorAlloc_cases:
  "AcceptorAlloc E a = (if alloc_ok E ''QUICER_ACCEPTOR''
     then Some (Some \<lparr>acc_addr = a, acc_Pid = 0, active = ACCEPTOR_RECV_MODE_ACTIVE,
             active_count = 0, acc_Settings = zero_settings\<rparr>) else None)"
  by (simp add: AcceptorAlloc_def)

lemma init_s_ctx_addr: "init_s_ctx E a = Some s \<Longrightarrow> s_addr s = a"
  by (auto simp: init_s_ctx_def split: if_splits)

lemma set_event_mask_addr [simp]: "s_addr (set_event_mask E o' s) = s_addr s"
  by (simp add: set_event_mask_def split: option.split)

lemma csend_exit_contract:
  assumes "c_h = Some c" "keeps es = [c_res c]" "frees es = []" "releases es = []" "balanced es"
    "s_addr s = addr" "case send_ctx of None \<Rightarrow> True | Some sc \<Rightarrow> sc_addr sc = a" "\<nexists>t. res = SUCCESS t"
  shows "post (csend_exit res send_ctx s es) (csend_contract c_h addr a)"
  unfolding csend_exit_def
  using assms
  by (intro wp) (auto simp: csend_contract_def destroy_send_ctx_def destroy_s_ctx_def balanced_def lock_run_append)

lemma csend_open_contract:
  assumes "c_h = Some c" "es = [Keep (c_res c)]" "s_addr s = addr" "sc_addr sc = a"
  shows "post (csend_open E M c ebin op fl sc s es) (csend_contract c_h addr a)"
  unfolding csend_open_def
  by (intro wp csend_exit_contract)
    (use assms in \<open>auto simp: csend_contract_def balanced_def\<close>)

lemma csend4_contract:
  "post (csend4 E M argc c_h ebin opts fl addr a acc_a) (csend_contract c_h addr a)"
  unfolding csend4_def
  by (intro wp csend_exit_contract csend_open_contract)
    (simp_all add: csend_contract_def balanced_def init_s_ctx_addr init_send_ctx_addr)

text \<open>Only a failed allocation leads \<open>csend4\<close> into undefined behaviour.\<close>

lemma csend_open_defined: "defined (csend_open E M c ebin op fl sc s es)"
  unfolding csend_open_def csend_exit_def by (intro dwp) simp_all

lemma csend4_defined:
  assumes "alloc_ok E ''QUICER_SEND_CTX''" "alloc_ok E ''QUICER_ACCEPTOR''"
  shows "defined (csend4 E M argc c_h ebin opts fl addr a acc_a)"
  unfolding csend4_def csend_exit_def
  by (intro dwp csend_open_defined) (use assms in \<open>simp_all add: init_send_ctx_def AcceptorAlloc_def\<close>)


definition conn0 :: QuicerConnCTX where
  "conn0 = \<lparr>c_addr = 3, c_magic = 0xcfcfcfcf, c_config_resource = None, c_r_ctx = None,
     Connection = Some 4,
     c_acceptor_queue = Some \<lparr>q_List = [], q_owner = RConn 3\<rparr>,
     c_owner = Some \<lparr>acc_addr = 2, acc_Pid = 7, active = ACCEPTOR_RECV_MODE_ACTIVE, active_count = 0,
                     acc_Settings = zero_settings\<rparr>,
     trusted = None, TlsSecrets = None, ResumptionTicket = None, c_is_closed = False,
     c_event_mask = 0, ssl_keylogfile = None, peer_cert = None\<rparr>"


text \<open>
  C37: Asking for \<open>{active, 0}\<close> while there is no credit is accepted and puts the owner in counted
  mode with a credit of 0: in a debug build the next data event aborts on its assertion, in a
  release build the credit wraps around to 65535 and data keeps coming.
\<close>

theorem active_zero_credit:
  assumes "enif_get_int E t = Some 0" "t \<notin> {ATOM_TRUE, ATOM_FALSE, ATOM_ONCE}"
    "active_count owner = 0" "set_owner_recv_mode E owner t = (ok, owner')"
    "data_event M ev" "alloc_ok E ''binary''" "s_owner s = Some owner'"
  shows "ok \<and> active owner' = ACCEPTOR_RECV_MODE_MULTI \<and>
    (if ndebug E
     then \<exists>s' es. ServerStreamCallback E M h s (RECEIVE ev) = Some (QUIC_STATUS_SUCCESS, s', es) \<and>
        s_owner s' = Some (owner'\<lparr>active_count := 65535\<rparr>) \<and>
        msgs es = [(acc_Pid owner', data_message s ev)]
     else ServerStreamCallback E M h s (RECEIVE ev) = None)"
proof -
  have owner': "ok" "owner' = owner\<lparr>active := ACCEPTOR_RECV_MODE_MULTI\<rparr>"
    using assms(1-4) by (auto simp: set_owner_recv_mode_def)
  have ev: "event_ok M ev" "0 < rcv_TotalBufferLength ev"
    using assms(5) by (auto simp: data_event_def)
  show ?thesis
    using owner' assms(3,7) recv_unfold [OF ev(1) assms(6) ev(2) assms(7), of h]
    by (simp add: server_recv_callback c_assert_def)
qed

theorem active_zero_credit_witness:
  "ServerStreamCallback beam msquic0 (Some 5)
     ((stream0 ACCEPTOR_RECV_MODE_PASSIVE 0)\<lparr>s_owner := Some (snd (set_owner_recv_mode beam
        (the (s_owner (stream0 ACCEPTOR_RECV_MODE_PASSIVE 0))) (EInt 0)))\<rparr>) (RECEIVE (event0 [1] [])) = None"
  using active_zero_credit [of beam "EInt 0" "the (s_owner (stream0 ACCEPTOR_RECV_MODE_PASSIVE 0))"
      "fst (set_owner_recv_mode beam (the (s_owner (stream0 ACCEPTOR_RECV_MODE_PASSIVE 0))) (EInt 0))"
      "snd (set_owner_recv_mode beam (the (s_owner (stream0 ACCEPTOR_RECV_MODE_PASSIVE 0))) (EInt 0))"
      msquic0 "event0 [1] []"
      "(stream0 ACCEPTOR_RECV_MODE_PASSIVE 0)\<lparr>s_owner := Some (snd (set_owner_recv_mode beam
        (the (s_owner (stream0 ACCEPTOR_RECV_MODE_PASSIVE 0))) (EInt 0)))\<rparr>" "Some 5"]
  by (simp add: beam_def data_event_def event_ok_def event0_def stream0_def)

end
