(* ===== verification/Quicer_Dgram.thy ===== *)
theory Quicer_Dgram
  imports Quicer_Stream
begin

section \<open>Datagrams (\<open>quicer_dgram.c\<close>)\<close>

text \<open>
  Unreliable datagrams over a connection: the send NIF, the three events of the connection
  callback that concern datagrams, and the life of a send context between them.
\<close>

subsection \<open>Sending\<close>

definition send_dgram ::
    "enif \<Rightarrow> msquic \<Rightarrow> nat \<Rightarrow> QuicerConnCTX option \<Rightarrow> eterm \<Rightarrow> eterm \<Rightarrow> nat \<Rightarrow>
     eterm \<times> QuicerStreamSendCTX option \<times> eff list" where
  "send_dgram E M argc c_h ebin eFlags addr =
     (if argc \<noteq> 3 then (ERROR_TUPLE_2 ATOM_BADARG, None, [])
      else case c_h of
        None \<Rightarrow> (ERROR_TUPLE_2 ATOM_BADARG, None, [])
      | Some c_ctx \<Rightarrow>
     (case init_dgram_send_ctx E addr of
        None \<Rightarrow> (ERROR_TUPLE_2 ATOM_ERROR_NOT_ENOUGH_MEMORY, None, [])
      | Some dgram_send_ctx \<Rightarrow>
     (case enif_get_uint E eFlags of
        None \<Rightarrow> (ERROR_TUPLE_2 ATOM_BADARG, None, destroy_dgram_send_ctx dgram_send_ctx)
      | Some sendflags \<Rightarrow>
     (let dgram_send_ctx = (case enif_self E of
            None \<Rightarrow> dgram_send_ctx | Some self \<Rightarrow> dgram_send_ctx\<lparr>caller := self\<rparr>);
          dgram_send_ctx = dgram_send_ctx\<lparr>is_sync := sendflags AND 1 > 0\<rparr>
      in case inspect_payload E ebin of
        None \<Rightarrow> (ERROR_TUPLE_2 ATOM_BADARG, None, destroy_dgram_send_ctx dgram_send_ctx)
      | Some bin \<Rightarrow>
     (let dgram_send_ctx = dgram_send_ctx\<lparr>sc_Buffer := bin\<rparr>;
          call = DatagramSend (Connection c_ctx) bin (sc_addr dgram_send_ctx);
          es = [Lock (LockOf (c_res c_ctx)), Quic call]
      in if quic_failed M (quic_status_of M call)
         then (ERROR_TUPLE_3 ATOM_DGRAM_SEND_ERROR (atom_status M (quic_status_of M call)), None,
               es @ destroy_dgram_send_ctx dgram_send_ctx @ [Unlock (LockOf (c_res c_ctx))])
         else (SUCCESS (ETERM_UINT_64 (int (length bin))), Some dgram_send_ctx,
               es @ [Unlock (LockOf (c_res c_ctx))]))))))"

subsection \<open>Send states\<close>

datatype QUIC_DATAGRAM_SEND_STATE =
    QUIC_DATAGRAM_SEND_UNKNOWN
  | QUIC_DATAGRAM_SEND_SENT
  | QUIC_DATAGRAM_SEND_LOST_SUSPECT
  | QUIC_DATAGRAM_SEND_LOST_DISCARDED
  | QUIC_DATAGRAM_SEND_ACKNOWLEDGED
  | QUIC_DATAGRAM_SEND_ACKNOWLEDGED_SPURIOUS
  | QUIC_DATAGRAM_SEND_CANCELED
  | QUIC_DATAGRAM_SEND_OTHER u16

fun atom_dgram_send_state :: "QUIC_DATAGRAM_SEND_STATE \<Rightarrow> eterm" where
  "atom_dgram_send_state QUIC_DATAGRAM_SEND_UNKNOWN = ATOM_QUIC_DATAGRAM_SEND_UNKNOWN"
| "atom_dgram_send_state QUIC_DATAGRAM_SEND_SENT = ATOM_QUIC_DATAGRAM_SEND_SENT"
| "atom_dgram_send_state QUIC_DATAGRAM_SEND_LOST_SUSPECT = ATOM_QUIC_DATAGRAM_SEND_LOST_SUSPECT"
| "atom_dgram_send_state QUIC_DATAGRAM_SEND_LOST_DISCARDED = ATOM_QUIC_DATAGRAM_SEND_LOST_DISCARDED"
| "atom_dgram_send_state QUIC_DATAGRAM_SEND_ACKNOWLEDGED = ATOM_QUIC_DATAGRAM_SEND_ACKNOWLEDGED"
| "atom_dgram_send_state QUIC_DATAGRAM_SEND_ACKNOWLEDGED_SPURIOUS = ATOM_QUIC_DATAGRAM_SEND_ACKNOWLEDGED_SPURIOUS"
| "atom_dgram_send_state QUIC_DATAGRAM_SEND_CANCELED = ATOM_QUIC_DATAGRAM_SEND_CANCELED"
| "atom_dgram_send_state (QUIC_DATAGRAM_SEND_OTHER _) = ATOM_UNDEFINED"

definition dgram_final :: "QUIC_DATAGRAM_SEND_STATE \<Rightarrow> bool" where
  "dgram_final state \<longleftrightarrow>
     state = QUIC_DATAGRAM_SEND_LOST_DISCARDED \<or> state = QUIC_DATAGRAM_SEND_ACKNOWLEDGED \<or>
     state = QUIC_DATAGRAM_SEND_ACKNOWLEDGED_SPURIOUS \<or> state = QUIC_DATAGRAM_SEND_CANCELED"

subsection \<open>Events\<close>

definition handle_dgram_state_changed_event :: "QuicerConnCTX \<Rightarrow> u16 \<Rightarrow> bool \<Rightarrow> eff list option" where
  "handle_dgram_state_changed_event c_ctx max_len SendEnabled =
     deref (c_owner c_ctx) (\<lambda>owner. Some [Send (acc_Pid owner)
       (make_event_with_props ATOM_DGRAM_STATE_CHANGED (ERes (c_res c_ctx))
          [ATOM_DGRAM_MAX_LEN, ATOM_DGRAM_SEND_ENABLED]
          [enif_make_uint (ucast max_len), ATOM_BOOLEAN SendEnabled])])"

definition handle_dgram_send_state_event ::
    "QuicerConnCTX \<Rightarrow> QUIC_DATAGRAM_SEND_STATE \<Rightarrow> QuicerStreamSendCTX option \<Rightarrow> eff list option" where
  "handle_dgram_send_state_event c_ctx state ClientContext =
     deref ClientContext (\<lambda>dgram_send_ctx. Some (
       [Send (caller dgram_send_ctx)
          (make_event_with_props ATOM_DGRAM_SEND_STATE (ERes (c_res c_ctx))
             [ATOM_STATE] [atom_dgram_send_state state])] @
       (if dgram_final state then destroy_dgram_send_ctx dgram_send_ctx else [])))"

definition handle_dgram_recv_event :: "enif \<Rightarrow> QuicerConnCTX \<Rightarrow> bytes \<Rightarrow> u32 \<Rightarrow> eff list option" where
  "handle_dgram_recv_event E c_ctx buf Flags =
     (if alloc_ok E ''binary''
      then deref (c_owner c_ctx) (\<lambda>owner. Some [Send (acc_Pid owner)
             (ETuple [ATOM_QUIC, EBin buf, ERes (c_res c_ctx), enif_make_uint Flags])])
      else Some [])"

subsection \<open>Facts and properties\<close>

lemma destroy_dgram_no_locks [simp]: "no_locks (destroy_dgram_send_ctx sc)"
  by (simp add: destroy_dgram_send_ctx_def)

lemma init_dgram_send_ctx_addr: "init_dgram_send_ctx E a = Some sc \<Longrightarrow> sc_addr sc = a"
  by (auto simp: init_dgram_send_ctx_def split: if_splits)

lemma init_dgram_send_ctx_mem:
  "init_dgram_send_ctx E a = None \<longleftrightarrow> \<not> alloc_ok E ''QUICER_DGRAM_SEND_CTX''"
  "init_dgram_send_ctx E a = Some sc \<Longrightarrow> alloc_ok E ''QUICER_DGRAM_SEND_CTX''"
  by (auto simp: init_dgram_send_ctx_def split: if_splits)

definition dgram_contract ::
    "enif \<Rightarrow> nat \<Rightarrow> QuicerConnCTX option \<Rightarrow> nat \<Rightarrow> eterm \<times> QuicerStreamSendCTX option \<times> eff list \<Rightarrow> bool" where
  "dgram_contract E argc c_h a r \<longleftrightarrow>
     (case r of (res, given, es) \<Rightarrow>
        balanced es \<and>
        (case given of
           Some sc \<Rightarrow> sc_addr sc = a \<and> frees es = [] \<and> FreeEnv (EnvDgramSend a) \<notin> set es \<and>
             res = SUCCESS (ETERM_UINT_64 (int (length (sc_Buffer sc)))) \<and>
             (\<exists>c. c_h = Some c \<and> quic_calls es = [DatagramSend (Connection c) (sc_Buffer sc) a])
         | None \<Rightarrow> (\<nexists>t. res = SUCCESS t) \<and>
             (if argc = 3 \<and> c_h \<noteq> None \<and> alloc_ok E ''QUICER_DGRAM_SEND_CTX''
              then frees es = [MDgramSendCtx a] \<and> count_list es (FreeEnv (EnvDgramSend a)) = 1
              else es = [])))"

lemma send_dgram_contract: "holds (send_dgram E M argc c_h ebin fl a) (dgram_contract E argc c_h a)"
  unfolding send_dgram_def
  by (intro wp)
    (auto simp: dgram_contract_def balanced_def destroy_dgram_send_ctx_def init_dgram_send_ctx_mem(1)
      dest: init_dgram_send_ctx_addr init_dgram_send_ctx_mem(2) split: option.splits)

text \<open>The reports of the states a datagram goes through, one after the other.\<close>

fun dgram_run :: "QuicerConnCTX \<Rightarrow> QuicerStreamSendCTX \<Rightarrow> QUIC_DATAGRAM_SEND_STATE list \<Rightarrow> eff list option" where
  "dgram_run c sc [] = Some []"
| "dgram_run c sc (st # sts) =
     (case handle_dgram_send_state_event c st (Some sc) of
        None \<Rightarrow> None
      | Some es \<Rightarrow> map_option ((@) es) (dgram_run c sc sts))"

lemma dgram_run_frees:
  "\<exists>es. dgram_run c sc sts = Some es \<and>
     frees es = replicate (length (filter dgram_final sts)) (MDgramSendCtx (sc_addr sc)) \<and>
     count_list es (FreeEnv (EnvDgramSend (sc_addr sc))) = length (filter dgram_final sts) \<and>
     map fst (msgs es) = replicate (length sts) (caller sc)"
  by (induction sts)
    (auto simp: handle_dgram_send_state_event_def destroy_dgram_send_ctx_def split: if_splits)

text \<open>
  The states after which the stack reports no other one for the same datagram: it was
  acknowledged, after a suspected loss or not, or given up, or the send was cancelled.
\<close>

definition last_states :: "QUIC_DATAGRAM_SEND_STATE set" where
  "last_states = {QUIC_DATAGRAM_SEND_LOST_DISCARDED, QUIC_DATAGRAM_SEND_ACKNOWLEDGED,
     QUIC_DATAGRAM_SEND_ACKNOWLEDGED_SPURIOUS, QUIC_DATAGRAM_SEND_CANCELED}"

lemma dgram_final_iff: "dgram_final st \<longleftrightarrow> st \<in> last_states"
  by (simp add: dgram_final_def last_states_def)



end
