(* ===== verification/Quicer_Conn.thy ===== *)
theory Quicer_Conn
  imports Quicer_Dgram
begin

section \<open>Connections (\<open>quicer_connection.c\<close>): events\<close>

text \<open>
  The connection callbacks and the NIFs on a connection that need no configuration. The
  queue of the connection holds the processes that wait for a stream of the peer.
\<close>

subsection \<open>Events\<close>

datatype QUIC_CONNECTION_EVENT =
    CONNECTED "bytes option" u8 bool
  | SHUTDOWN_INITIATED_BY_TRANSPORT quic_status u64
  | SHUTDOWN_INITIATED_BY_PEER u64
  | CONN_SHUTDOWN_COMPLETE bool bool bool
  | LOCAL_ADDRESS_CHANGED string
  | PEER_ADDRESS_CHANGED string
  | PEER_STREAM_STARTED hquic u32
  | STREAMS_AVAILABLE u16 u16
  | PEER_NEEDS_STREAMS
  | IDEAL_PROCESSOR_CHANGED
  | DATAGRAM_STATE_CHANGED u16 bool
  | DATAGRAM_RECEIVED bytes u32
  | DATAGRAM_SEND_STATE_CHANGED QUIC_DATAGRAM_SEND_STATE "QuicerStreamSendCTX option"
  | RESUMED nat "bytes option"
  | RESUMPTION_TICKET_RECEIVED bytes
  | PEER_CERTIFICATE_RECEIVED "nat option" "nat option"
  | CONN_EVENT_OTHER

definition QUICER_CONNECTION_EVENT_MASK_NST :: u32 where
  "QUICER_CONNECTION_EVENT_MASK_NST = 0x00000001"

text \<open>
  What a handler yields: the status, the connection, the context of a stream it created, and
  the effects.
\<close>

type_synonym conn_result =
  "(quic_status \<times> QuicerConnCTX \<times> QuicerStreamCTX option \<times> eff list) option"

definition conn_ok :: "QuicerConnCTX \<Rightarrow> eff list \<Rightarrow> conn_result" where
  "conn_ok c es = Some (QUIC_STATUS_SUCCESS, c, None, es)"

text \<open>A report to the owner.\<close>

definition report_conn :: "QuicerConnCTX \<Rightarrow> eterm \<Rightarrow> conn_result" where
  "report_conn c_ctx report =
     deref (c_owner c_ctx) (\<lambda>owner. conn_ok c_ctx [Send (acc_Pid owner) report])"

subsection \<open>Event handlers\<close>

definition handle_connection_event_connected ::
    "enif \<Rightarrow> QuicerConnCTX \<Rightarrow> bytes option \<Rightarrow> u8 \<Rightarrow> bool \<Rightarrow> conn_result" where
  "handle_connection_event_connected E c_ctx NegotiatedAlpn alpn_size SessionResumed =
     c_assert E (Connection c_ctx \<noteq> None)
     (deref (c_owner c_ctx) (\<lambda>acc.
        case (case NegotiatedAlpn of
                None \<Rightarrow> Some ATOM_UNDEFINED
              | Some buff \<Rightarrow>
                  if 0 < alpn_size
                  then if alloc_ok E ''binary'' then Some (EBin (take (unat alpn_size) buff)) else None
                  else Some ATOM_UNDEFINED) of
          None \<Rightarrow> None
        | Some ealpns \<Rightarrow>
            (let report = make_event_with_props ATOM_CONNECTED (ERes (c_res c_ctx))
                   [ATOM_IS_RESUMED, ATOM_ALPNS] [ATOM_BOOLEAN SessionResumed, ealpns];
                 es = [Monitor (c_res c_ctx) (acc_Pid acc), Send (acc_Pid acc) report]
             in if \<not> enif_send E (acc_Pid acc) report
                then Some (QUIC_STATUS_UNREACHABLE, c_ctx, None, es)
                else conn_ok c_ctx (es @ [Quic (ConnectionSendResumptionTicket (Connection c_ctx))]))))"

definition handle_connection_event_shutdown_initiated_by_transport ::
    "enif \<Rightarrow> msquic \<Rightarrow> QuicerConnCTX \<Rightarrow> quic_status \<Rightarrow> u64 \<Rightarrow> conn_result" where
  "handle_connection_event_shutdown_initiated_by_transport E M c_ctx Status ErrorCode =
     c_assert E (Connection c_ctx \<noteq> None)
     (report_conn c_ctx (make_event_with_props ATOM_TRANS_SHUTDOWN (ERes (c_res c_ctx))
        [ATOM_STATUS, ATOM_ERROR] [atom_status M Status, enif_make_uint64 ErrorCode]))"

text \<open>The 62-bit error code of the peer is passed where a 32-bit status is expected.\<close>

definition handle_connection_event_shutdown_initiated_by_peer ::
    "enif \<Rightarrow> msquic \<Rightarrow> QuicerConnCTX \<Rightarrow> u64 \<Rightarrow> conn_result" where
  "handle_connection_event_shutdown_initiated_by_peer E M c_ctx ErrorCode =
     c_assert E (Connection c_ctx \<noteq> None)
     (report_conn c_ctx (make_event ATOM_SHUTDOWN (ERes (c_res c_ctx))
        (atom_status M (status_of_code M (ucast ErrorCode)))))"

text \<open>The loop over the acceptors that still wait for a stream.\<close>

definition closed_report :: eterm where
  "closed_report = make_event ATOM_CLOSED ATOM_UNDEFINED ATOM_UNDEFINED"

function drain_acceptors :: "QUICER_ACCEPTOR_QUEUE \<Rightarrow> QUICER_ACCEPTOR_QUEUE \<times> eff list" where
  "drain_acceptors q =
     (case AcceptorDequeue q of
        (None, q', es) \<Rightarrow> (q', es)
      | (Some acc, q', es) \<Rightarrow>
          (case drain_acceptors q' of (q'', es') \<Rightarrow>
             (q'', es @ [Send (acc_Pid acc) closed_report] @ AcceptorDestroy (Some acc) @ es')))"
  by pat_completeness auto
termination
  by (relation "measure (length \<circ> q_List)")
    (auto simp: AcceptorDequeue_def Let_def split: list.splits)

definition handle_connection_event_shutdown_complete ::
    "enif \<Rightarrow> QuicerConnCTX \<Rightarrow> bool \<Rightarrow> bool \<Rightarrow> bool \<Rightarrow> conn_result" where
  "handle_connection_event_shutdown_complete E c_ctx HandshakeCompleted PeerAcknowledgedShutdown AppCloseInProgress =
     c_assert E (Connection c_ctx \<noteq> None)
     (deref (c_acceptor_queue c_ctx) (\<lambda>q.
        (let report = make_event_with_props ATOM_CLOSED (ERes (c_res c_ctx))
               [ATOM_IS_HANDSHAKE_COMPLETED, ATOM_IS_PEER_ACKED, ATOM_IS_APP_CLOSING]
               [ATOM_BOOLEAN HandshakeCompleted, ATOM_BOOLEAN PeerAcknowledgedShutdown,
                ATOM_BOOLEAN AppCloseInProgress]
         in case drain_acceptors q of (q', es) \<Rightarrow>
              conn_ok (c_ctx\<lparr>c_acceptor_queue := Some q'\<rparr>)
                ((case c_owner c_ctx of None \<Rightarrow> [] | Some owner \<Rightarrow> [Send (acc_Pid owner) report]) @ es))))"

definition handle_connection_event_local_address_changed ::
    "enif \<Rightarrow> QuicerConnCTX \<Rightarrow> string \<Rightarrow> conn_result" where
  "handle_connection_event_local_address_changed E c_ctx addrStr =
     c_assert E (Connection c_ctx \<noteq> None)
     (report_conn c_ctx (make_event ATOM_LOCAL_ADDRESS_CHANGED (ERes (c_res c_ctx)) (EStr addrStr)))"

definition handle_connection_event_peer_address_changed ::
    "enif \<Rightarrow> QuicerConnCTX \<Rightarrow> string \<Rightarrow> conn_result" where
  "handle_connection_event_peer_address_changed E c_ctx addrStr =
     c_assert E (Connection c_ctx \<noteq> None)
     (report_conn c_ctx (make_event ATOM_PEER_ADDRESS_CHANGED (ERes (c_res c_ctx)) (EStr addrStr)))"

text \<open>
  A stream of the peer goes to the acceptor that waits longest. Without one the owner of the
  connection gets it, as a passive orphan, with a copy of the owner's acceptor block.
\<close>

definition handle_connection_event_peer_stream_started ::
    "enif \<Rightarrow> QuicerConnCTX \<Rightarrow> hquic \<Rightarrow> u32 \<Rightarrow> quic_callback \<Rightarrow> nat \<Rightarrow> nat \<Rightarrow> conn_result" where
  "handle_connection_event_peer_stream_started E c_ctx hStream Flags stream_callback addr acc_address =
     c_assert E (Connection c_ctx \<noteq> None)
     (deref (init_s_ctx E addr) (\<lambda>s_ctx.
      deref (c_acceptor_queue c_ctx) (\<lambda>q.
        (let s_ctx = s_ctx\<lparr>s_c_ctx := Some c_ctx, eHandle := ERes (s_res s_ctx), Stream := Some hStream\<rparr>
         in case AcceptorDequeue q of (acc, q', es) \<Rightarrow>
         (let c_ctx = c_ctx\<lparr>c_acceptor_queue := Some q'\<rparr>;
              es = [Keep (c_res c_ctx)] @ es;
              is_orphan = (acc = None)
          in case (case acc of
                     Some a \<Rightarrow> Some (Some a)
                   | None \<Rightarrow>
                       (case AcceptorAlloc E acc_address of
                          None \<Rightarrow> None
                        | Some None \<Rightarrow> Some None
                        | Some (Some _) \<Rightarrow> deref (c_owner c_ctx) (\<lambda>owner.
                            Some (Some (owner\<lparr>acc_addr := acc_address, active := ACCEPTOR_RECV_MODE_PASSIVE\<rparr>))))) of
               None \<Rightarrow> None
             | Some None \<Rightarrow> Some (QUIC_STATUS_UNREACHABLE, c_ctx, Some s_ctx, es)
             | Some (Some acc) \<Rightarrow>
                 (let s_ctx = s_ctx\<lparr>s_owner := Some acc, s_is_closed := False\<rparr>;
                      report = make_event_with_props ATOM_NEW_STREAM (ERes (s_res s_ctx))
                        [ATOM_FLAGS, ATOM_IS_ORPHAN] [enif_make_uint Flags, ATOM_BOOLEAN is_orphan];
                      es = es @ [Send (acc_Pid acc) report]
                  in if enif_send E (acc_Pid acc) report
                     then Some (QUIC_STATUS_SUCCESS, c_ctx, Some s_ctx,
                            es @ [Quic (SetCallbackHandler (Some hStream) stream_callback (s_res s_ctx))])
                     else Some (QUIC_STATUS_UNREACHABLE, c_ctx, Some s_ctx, es)))))))"

definition handle_connection_event_streams_available ::
    "enif \<Rightarrow> QuicerConnCTX \<Rightarrow> u16 \<Rightarrow> u16 \<Rightarrow> conn_result" where
  "handle_connection_event_streams_available E c_ctx BidirectionalCount UnidirectionalCount =
     c_assert E (Connection c_ctx \<noteq> None)
     (report_conn c_ctx (make_event_with_props ATOM_STREAMS_AVAILABLE (ERes (c_res c_ctx))
        [ATOM_BIDI_STREAMS, ATOM_UNIDI_STREAMS]
        [enif_make_uint64 (ucast BidirectionalCount), enif_make_uint64 (ucast UnidirectionalCount)]))"

definition handle_connection_event_peer_needs_streams :: "enif \<Rightarrow> QuicerConnCTX \<Rightarrow> conn_result" where
  "handle_connection_event_peer_needs_streams E c_ctx =
     c_assert E (Connection c_ctx \<noteq> None)
     (report_conn c_ctx (make_event ATOM_PEER_NEEDS_STREAMS (ERes (c_res c_ctx)) ATOM_UNDEFINED))"

definition handle_connection_event_ideal_processor_changed :: "QuicerConnCTX \<Rightarrow> conn_result" where
  "handle_connection_event_ideal_processor_changed c_ctx = conn_ok c_ctx []"

definition handle_connection_event_datagram_state_changed ::
    "QuicerConnCTX \<Rightarrow> u16 \<Rightarrow> bool \<Rightarrow> conn_result" where
  "handle_connection_event_datagram_state_changed c_ctx MaxSendLength SendEnabled =
     deref (handle_dgram_state_changed_event c_ctx MaxSendLength SendEnabled) (conn_ok c_ctx)"

definition handle_connection_event_datagram_received ::
    "enif \<Rightarrow> QuicerConnCTX \<Rightarrow> bytes \<Rightarrow> u32 \<Rightarrow> conn_result" where
  "handle_connection_event_datagram_received E c_ctx buf Flags =
     deref (handle_dgram_recv_event E c_ctx buf Flags) (conn_ok c_ctx)"

definition handle_connection_event_datagram_send_state_changed ::
    "QuicerConnCTX \<Rightarrow> QUIC_DATAGRAM_SEND_STATE \<Rightarrow> QuicerStreamSendCTX option \<Rightarrow> conn_result" where
  "handle_connection_event_datagram_send_state_changed c_ctx state ClientContext =
     deref (handle_dgram_send_state_event c_ctx state ClientContext) (conn_ok c_ctx)"

text \<open>
  The resumption state is copied only when the pointer to it is NULL; when it is not, the owner
  is told \<open>false\<close>.
\<close>

definition handle_connection_event_resumed ::
    "QuicerConnCTX \<Rightarrow> nat \<Rightarrow> bytes option \<Rightarrow> conn_result" where
  "handle_connection_event_resumed c_ctx ResumptionStateLength ResumptionState =
     (if 0 < ResumptionStateLength \<and> ResumptionState = None
      then None
      else report_conn c_ctx (make_event ATOM_CONN_RESUMED (ERes (c_res c_ctx)) ATOM_FALSE))"

definition handle_connection_event_resumption_ticket_received ::
    "enif \<Rightarrow> QuicerConnCTX \<Rightarrow> bytes \<Rightarrow> conn_result" where
  "handle_connection_event_resumption_ticket_received E c_ctx ticket =
     (if c_event_mask c_ctx AND QUICER_CONNECTION_EVENT_MASK_NST \<noteq> 0
      then if alloc_ok E ''binary''
           then report_conn c_ctx (make_event ATOM_NST_RECEIVED (ERes (c_res c_ctx)) (EBin ticket))
           else conn_ok c_ctx []
      else
        (let es = (case ResumptionTicket c_ctx of None \<Rightarrow> [] | Some t \<Rightarrow> [Free (MResumptionTicket t)])
         in conn_ok (c_ctx\<lparr>ResumptionTicket :=
              (if alloc_ok E ''QUICER_RESUME_TICKET'' then Some ticket else None)\<rparr>) es))"

definition handle_connection_event_peer_certificate_received ::
    "openssl \<Rightarrow> QuicerConnCTX \<Rightarrow> nat option \<Rightarrow> nat option \<Rightarrow> conn_result" where
  "handle_connection_event_peer_certificate_received X c_ctx cert chain =
     (let es = (case peer_cert c_ctx of None \<Rightarrow> [] | Some x \<Rightarrow> [Free (MX509 x)]);
          c_ctx = c_ctx\<lparr>peer_cert := (case cert of None \<Rightarrow> None | Some x \<Rightarrow> X509_dup X x)\<rparr>
      in case cert of
           None \<Rightarrow> Some (QUIC_STATUS_BAD_CERTIFICATE, c_ctx, None, es)
         | Some x \<Rightarrow> deref chain (\<lambda>x509_ctx.
             (let untrusted = X509_STORE_CTX_get0_untrusted X x509_ctx
              in if X509_verify_cert X (trusted c_ctx) x untrusted \<le> 0
                 then Some (QUIC_STATUS_BAD_CERTIFICATE, c_ctx, None, es)
                 else conn_ok c_ctx es)))"

subsection \<open>The key log\<close>

fun secret_label :: "tls_secret \<Rightarrow> string" where
  "secret_label ClientRandom = ''''"
| "secret_label ClientEarlyTrafficSecret = ''CLIENT_EARLY_TRAFFIC_SECRET''"
| "secret_label ClientHandshakeTrafficSecret = ''CLIENT_HANDSHAKE_TRAFFIC_SECRET''"
| "secret_label ServerHandshakeTrafficSecret = ''SERVER_HANDSHAKE_TRAFFIC_SECRET''"
| "secret_label ClientTrafficSecret0 = ''CLIENT_TRAFFIC_SECRET_0''"
| "secret_label ServerTrafficSecret0 = ''SERVER_TRAFFIC_SECRET_0''"

definition secret_line :: "openssl \<Rightarrow> QUIC_TLS_SECRETS \<Rightarrow> string \<Rightarrow> tls_secret \<Rightarrow> string" where
  "secret_line X secrets random s =
     (if SecretIsSet secrets s
      then secret_label s @ '' '' @ random @ '' '' @
           EncodeHexBuffer X (take (SecretLength secrets) (SecretBytes secrets s)) @ [CHR 0x0A]
      else [])"

definition dump_sslkeylogfile :: "openssl \<Rightarrow> string \<Rightarrow> QUIC_TLS_SECRETS \<Rightarrow> eff list" where
  "dump_sslkeylogfile X FileName secrets =
     (case fopen_ab X FileName of
        None \<Rightarrow> []
      | Some is_new \<Rightarrow>
          (let ClientRandomBuffer = (if SecretIsSet secrets ClientRandom
                 then EncodeHexBuffer X (SecretBytes secrets ClientRandom) else [])
           in [AppendFile FileName
                ((if is_new then ''# TLS 1.3 secrets log file'' @ [CHR 0x0A] else []) @
                 concat (map (secret_line X secrets ClientRandomBuffer)
                   [ClientEarlyTrafficSecret, ClientHandshakeTrafficSecret, ServerHandshakeTrafficSecret,
                    ClientTrafficSecret0, ServerTrafficSecret0]))]))"

subsection \<open>Callbacks\<close>

text \<open>
  The \<open>switch\<close> of the two callbacks, over the addresses for the stream context and the
  acceptor block that a new stream needs.
\<close>

fun client_conn_switch ::
    "enif \<Rightarrow> msquic \<Rightarrow> openssl \<Rightarrow> QuicerConnCTX \<Rightarrow> QUIC_CONNECTION_EVENT \<Rightarrow> nat \<Rightarrow> nat \<Rightarrow> conn_result" where
  "client_conn_switch E M X c (CONNECTED alpn n r) a b =
     (case handle_connection_event_connected E c alpn n r of
        None \<Rightarrow> None
      | Some (st, c', s, es) \<Rightarrow> Some (st, c', s, es @
          (case (TlsSecrets c', ssl_keylogfile c') of
             (Some _, Some f) \<Rightarrow> dump_sslkeylogfile X f (tls_secrets_of X (c_res c'))
           | _ \<Rightarrow> [])))"
| "client_conn_switch E M X c (PEER_STREAM_STARTED h fl) a b =
     handle_connection_event_peer_stream_started E c h fl ClientStreamCb a b"
| "client_conn_switch E M X c (SHUTDOWN_INITIATED_BY_TRANSPORT st code) a b =
     handle_connection_event_shutdown_initiated_by_transport E M c st code"
| "client_conn_switch E M X c (SHUTDOWN_INITIATED_BY_PEER code) a b =
     handle_connection_event_shutdown_initiated_by_peer E M c code"
| "client_conn_switch E M X c (CONN_SHUTDOWN_COMPLETE x y z) a b =
     handle_connection_event_shutdown_complete E c x y z"
| "client_conn_switch E M X c (PEER_ADDRESS_CHANGED s) a b =
     handle_connection_event_peer_address_changed E c s"
| "client_conn_switch E M X c (LOCAL_ADDRESS_CHANGED s) a b =
     handle_connection_event_local_address_changed E c s"
| "client_conn_switch E M X c (STREAMS_AVAILABLE x y) a b =
     handle_connection_event_streams_available E c x y"
| "client_conn_switch E M X c PEER_NEEDS_STREAMS a b = handle_connection_event_peer_needs_streams E c"
| "client_conn_switch E M X c (RESUMPTION_TICKET_RECEIVED t) a b =
     handle_connection_event_resumption_ticket_received E c t"
| "client_conn_switch E M X c (PEER_CERTIFICATE_RECEIVED x ch) a b =
     handle_connection_event_peer_certificate_received X c x ch"
| "client_conn_switch E M X c (DATAGRAM_STATE_CHANGED n e) a b =
     handle_connection_event_datagram_state_changed c n e"
| "client_conn_switch E M X c (DATAGRAM_SEND_STATE_CHANGED st cc) a b =
     handle_connection_event_datagram_send_state_changed c st cc"
| "client_conn_switch E M X c (DATAGRAM_RECEIVED buf fl) a b =
     handle_connection_event_datagram_received E c buf fl"
| "client_conn_switch E M X c IDEAL_PROCESSOR_CHANGED a b = handle_connection_event_ideal_processor_changed c"
| "client_conn_switch E M X c _ a b = conn_ok c []"

fun server_conn_switch ::
    "enif \<Rightarrow> msquic \<Rightarrow> openssl \<Rightarrow> QuicerConnCTX \<Rightarrow> QUIC_CONNECTION_EVENT \<Rightarrow> nat \<Rightarrow> nat \<Rightarrow> conn_result" where
  "server_conn_switch E M X c (CONNECTED alpn n r) a b = handle_connection_event_connected E c alpn n r"
| "server_conn_switch E M X c (SHUTDOWN_INITIATED_BY_TRANSPORT st code) a b =
     handle_connection_event_shutdown_initiated_by_transport E M c st code"
| "server_conn_switch E M X c (SHUTDOWN_INITIATED_BY_PEER code) a b =
     handle_connection_event_shutdown_initiated_by_peer E M c code"
| "server_conn_switch E M X c (CONN_SHUTDOWN_COMPLETE x y z) a b =
     handle_connection_event_shutdown_complete E c x y z"
| "server_conn_switch E M X c (PEER_STREAM_STARTED h fl) a b =
     handle_connection_event_peer_stream_started E c h fl ServerStreamCb a b"
| "server_conn_switch E M X c (RESUMED n st) a b = handle_connection_event_resumed c n st"
| "server_conn_switch E M X c (DATAGRAM_STATE_CHANGED n e) a b =
     handle_connection_event_datagram_state_changed c n e"
| "server_conn_switch E M X c (DATAGRAM_SEND_STATE_CHANGED st cc) a b =
     handle_connection_event_datagram_send_state_changed c st cc"
| "server_conn_switch E M X c (DATAGRAM_RECEIVED buf fl) a b =
     handle_connection_event_datagram_received E c buf fl"
| "server_conn_switch E M X c (PEER_ADDRESS_CHANGED s) a b =
     handle_connection_event_peer_address_changed E c s"
| "server_conn_switch E M X c (LOCAL_ADDRESS_CHANGED s) a b =
     handle_connection_event_local_address_changed E c s"
| "server_conn_switch E M X c (STREAMS_AVAILABLE x y) a b =
     handle_connection_event_streams_available E c x y"
| "server_conn_switch E M X c PEER_NEEDS_STREAMS a b = handle_connection_event_peer_needs_streams E c"
| "server_conn_switch E M X c (PEER_CERTIFICATE_RECEIVED x ch) a b =
     handle_connection_event_peer_certificate_received X c x ch"
| "server_conn_switch E M X c _ a b = conn_ok c []"

fun is_conn_shutdown :: "QUIC_CONNECTION_EVENT \<Rightarrow> bool" where
  "is_conn_shutdown (CONN_SHUTDOWN_COMPLETE _ _ _) = True"
| "is_conn_shutdown _ = False"

text \<open>The frame both callbacks put around the switch, for a connection that is still open.\<close>

definition conn_callback_frame ::
    "enif \<Rightarrow> hquic option \<Rightarrow> QuicerConnCTX \<Rightarrow> QUIC_CONNECTION_EVENT \<Rightarrow> conn_result \<Rightarrow> conn_result" where
  "conn_callback_frame E hConn c_ctx Event r =
     c_assert E (hConn = Connection c_ctx \<or> Connection c_ctx = None)
     (if hConn = None then conn_ok c_ctx []
      else case r of
        None \<Rightarrow> None
      | Some (status, c', s, es) \<Rightarrow>
          (let is_destroy = is_conn_shutdown Event;
               c' = (if is_destroy then c'\<lparr>c_is_closed := True\<rparr> else c');
               es = [Lock (LockOf (c_res c_ctx))] @ es @
                    [ClearEnv (EnvOf (c_res c_ctx)), Unlock (LockOf (c_res c_ctx))]
           in if is_destroy
              then (case destroy_c_ctx c' of (c'', es') \<Rightarrow> Some (status, c'', s, es @ es'))
              else Some (status, c', s, es)))"

definition ClientConnectionCallback ::
    "enif \<Rightarrow> msquic \<Rightarrow> openssl \<Rightarrow> hquic option \<Rightarrow> QuicerConnCTX \<Rightarrow> QUIC_CONNECTION_EVENT \<Rightarrow> nat \<Rightarrow> nat \<Rightarrow>
     conn_result" where
  "ClientConnectionCallback E M X hConn c_ctx Event addr acc_address =
     conn_callback_frame E hConn c_ctx Event (client_conn_switch E M X c_ctx Event addr acc_address)"

definition ServerConnectionCallback ::
    "enif \<Rightarrow> msquic \<Rightarrow> openssl \<Rightarrow> hquic option \<Rightarrow> QuicerConnCTX \<Rightarrow> QUIC_CONNECTION_EVENT \<Rightarrow> nat \<Rightarrow> nat \<Rightarrow>
     conn_result" where
  "ServerConnectionCallback E M X hConn c_ctx Event addr acc_address =
     conn_callback_frame E hConn c_ctx Event (server_conn_switch E M X c_ctx Event addr acc_address)"

subsection \<open>NIFs\<close>

text \<open>
  The certificate of the peer, asked for a connection or a stream. \<open>conns\<close> are the live
  connection contexts, where a stream finds its own.
\<close>

definition peercert1 ::
    "enif \<Rightarrow> openssl \<Rightarrow> (nat \<Rightarrow> QuicerConnCTX option) \<Rightarrow> QuicerStreamCTX option \<Rightarrow> QuicerConnCTX option \<Rightarrow>
     eterm option" where
  "peercert1 E X conns s_h c_h =
     (let found = (case s_h of
            Some s \<Rightarrow> Some (case s_c_ctx s of None \<Rightarrow> None | Some c \<Rightarrow> conns (c_addr c))
          | None \<Rightarrow> (case c_h of Some c \<Rightarrow> Some (Some c) | None \<Rightarrow> None))
      in case found of
           None \<Rightarrow> Some (ERROR_TUPLE_2 ATOM_BADARG)
         | Some p \<Rightarrow> deref p (\<lambda>c_ctx.
             case peer_cert c_ctx of
               None \<Rightarrow> Some (ERROR_TUPLE_2 ATOM_NO_PEERCERT)
             | Some x \<Rightarrow>
                 (case i2d_X509 X x of
                    None \<Rightarrow> Some (ERROR_TUPLE_2 ATOM_ERROR_INTERNAL_ERROR)
                  | Some der \<Rightarrow>
                      if \<not> alloc_ok E ''binary''
                      then Some (ERROR_TUPLE_2 ATOM_ERROR_NOT_ENOUGH_MEMORY)
                      else Some (SUCCESS (EBin der)))))"

text \<open>
  \<open>async_accept2\<close> on a listener: the acceptor brings its own settings for the connections it
  gets, and joins the queue of the listener.
\<close>

definition async_accept2 ::
    "enif \<Rightarrow> msquic \<Rightarrow> QuicerListenerCTX option \<Rightarrow> eterm \<Rightarrow> nat \<Rightarrow>
     (eterm \<times> QuicerListenerCTX option \<times> eff list) option" where
  "async_accept2 E M l_h conn_opts acc_address =
     (case l_h of
        None \<Rightarrow> Some (ERROR_TUPLE_2 ATOM_BADARG, None, [])
      | Some l_ctx \<Rightarrow>
     (let active_val = (case enif_get_map_value E conn_opts ATOM_QUIC_STREAM_OPTS_ACTIVE of
            None \<Rightarrow> ATOM_TRUE | Some v \<Rightarrow> v)
      in case AcceptorAlloc E acc_address of
        None \<Rightarrow> None
      | Some None \<Rightarrow> Some (ERROR_TUPLE_2 ATOM_ERROR_NOT_ENOUGH_MEMORY, Some l_ctx, [])
      | Some (Some acceptor) \<Rightarrow>
     (case enif_self E of
        None \<Rightarrow> Some (ERROR_TUPLE_2 ATOM_BAD_PID, Some l_ctx, AcceptorDestroy (Some acceptor))
      | Some self \<Rightarrow>
     (case set_owner_recv_mode E (acceptor\<lparr>acc_Pid := self\<rparr>) active_val of (ok, acceptor) \<Rightarrow>
      if \<not> ok then Some (ERROR_TUPLE_2 ATOM_BADARG, Some l_ctx, AcceptorDestroy (Some acceptor))
      else case create_settings E M conn_opts of
        None \<Rightarrow> Some (ERROR_TUPLE_2 ATOM_PARAM_ERROR, Some l_ctx, AcceptorDestroy (Some acceptor))
      | Some S \<Rightarrow> deref (l_acceptor_queue l_ctx) (\<lambda>q.
          case AcceptorEnqueue q (acceptor\<lparr>acc_Settings := S\<rparr>) of (q, es) \<Rightarrow>
            c_assert E (enif_is_process_alive E self)
              (Some (SUCCESS (ERes (l_res l_ctx)), Some (l_ctx\<lparr>l_acceptor_queue := Some q\<rparr>), es)))))))"

definition shutdown_connection3 ::
    "enif \<Rightarrow> QuicerConnCTX option \<Rightarrow> eterm \<Rightarrow> eterm \<Rightarrow> eterm \<times> eff list" where
  "shutdown_connection3 E c_h eflags ecode =
     (case c_h of
        None \<Rightarrow> (ERROR_TUPLE_2 ATOM_BADARG, [])
      | Some c_ctx \<Rightarrow>
      if Connection c_ctx = None then (ERROR_TUPLE_2 ATOM_CLOSED, [])
      else case enif_get_uint E eflags of
        None \<Rightarrow> (ERROR_TUPLE_2 ATOM_BADARG, [])
      | Some flags \<Rightarrow>
     (case enif_get_uint E ecode of
        None \<Rightarrow> (ERROR_TUPLE_2 ATOM_BADARG, [])
      | Some app_errcode \<Rightarrow>
          (ATOM_OK, [Quic (ConnectionShutdown (Connection c_ctx) flags (ucast app_errcode))])))"

text \<open>
  Addresses: the bytes of the address in memory order. \<open>ntohs\<close> swaps the two bytes of a port
  on the little-endian hosts the library is built for; the port of an IPv6 address is read
  without it.
\<close>

definition ntohs :: "u8 \<Rightarrow> u8 \<Rightarrow> int" where
  "ntohs hi lo = uint hi * 256 + uint lo"

definition host_u16 :: "u8 \<Rightarrow> u8 \<Rightarrow> int" where
  "host_u16 b0 b1 = uint b0 + uint b1 * 256"

definition addr_byte :: "bytes \<Rightarrow> nat \<Rightarrow> u8" where
  "addr_byte bs i = (if i < length bs then bs ! i else 0)"

definition addr2eterm :: "QUIC_ADDR \<Rightarrow> eterm" where
  "addr2eterm addr =
     (case sin_port addr of (p0, p1) \<Rightarrow>
        if sa_family addr = AF_INET6
        then ETuple
          [ETuple (map (\<lambda>i. enif_make_int (ntohs (addr_byte (sin_addr addr) (2 * i))
                                                  (addr_byte (sin_addr addr) (2 * i + 1)))) [0..<8]),
           enif_make_int (host_u16 p0 p1)]
        else ETuple
          [ETuple (map (\<lambda>i. enif_make_int (uint (addr_byte (sin_addr addr) i))) [0..<4]),
           enif_make_int (ntohs p0 p1)])"

definition sizeof_QUIC_ADDR :: u32 where
  "sizeof_QUIC_ADDR = 28"

text \<open>\<open>ATOM_SOCKNAME_ERROR\<close> is read from its variable, which nothing assigns.\<close>

definition sockname1 ::
    "msquic \<Rightarrow> QuicerConnCTX option \<Rightarrow> QuicerListenerCTX option \<Rightarrow> (eterm \<times> eff list) option" where
  "sockname1 M c_h l_h =
     (let found = (case c_h of
            Some c \<Rightarrow> Some (GetParam (Connection c) QUIC_PARAM_CONN_LOCAL_ADDRESS sizeof_QUIC_ADDR,
                             [Lock (LockOf (c_res c)), Unlock (LockOf (c_res c))])
          | None \<Rightarrow> (case l_h of
              Some l \<Rightarrow> Some (GetParam (Listener l) QUIC_PARAM_LISTENER_LOCAL_ADDRESS sizeof_QUIC_ADDR, [])
            | None \<Rightarrow> None))
      in case found of
           None \<Rightarrow> Some (ERROR_TUPLE_2 ATOM_BADARG, [])
         | Some (call, es) \<Rightarrow>
             if quic_failed M (quic_status_of M call)
             then Some (ERROR_TUPLE_2 (atom_var ''ATOM_SOCKNAME_ERROR''), es @ [Quic call])
             else (case quic_value_of M call of
                     BufAddr addr \<Rightarrow> Some (SUCCESS (addr2eterm addr), es @ [Quic call])
                   | _ \<Rightarrow> None))"

definition get_conn_rid1 :: "nat \<Rightarrow> QuicerConnCTX option \<Rightarrow> eterm" where
  "get_conn_rid1 argc c_h =
     (if argc \<noteq> 1 then ERROR_TUPLE_2 ATOM_BADARG
      else case c_h of
        None \<Rightarrow> ERROR_TUPLE_2 ATOM_BADARG
      | Some c_ctx \<Rightarrow> SUCCESS (EInt (case Connection c_ctx of None \<Rightarrow> 0 | Some h \<Rightarrow> int h)))"

definition continue_connection_handshake ::
    "msquic \<Rightarrow> QuicerConnCTX option \<Rightarrow> (quic_status \<times> eff list) option" where
  "continue_connection_handshake M c_p =
     (case c_p of
        None \<Rightarrow> Some (QUIC_STATUS_INTERNAL_ERROR, [])
      | Some c_ctx \<Rightarrow> deref (c_config_resource c_ctx) (\<lambda>g.
          (let set_config = ConnectionSetConfiguration (Connection c_ctx) (Configuration g);
               Status = quic_status_of M set_config
           in if quic_failed M Status then Some (Status, [Quic set_config])
              else deref (c_owner c_ctx) (\<lambda>owner.
                (let set_param = SetParam (Connection c_ctx) QUIC_PARAM_CONN_SETTINGS (sizeof_settings M)
                                   (BufSettings (acc_Settings owner))
                 in Some (quic_status_of M set_param, [Quic set_config, Quic set_param]))))))"

definition async_handshake_1 :: "msquic \<Rightarrow> nat \<Rightarrow> QuicerConnCTX option \<Rightarrow> (eterm \<times> eff list) option" where
  "async_handshake_1 M argc c_h =
     (if argc \<noteq> 1 then Some (ERROR_TUPLE_2 ATOM_BADARG, [])
      else case c_h of
        None \<Rightarrow> Some (ERROR_TUPLE_2 ATOM_BADARG, [])
      | Some c_ctx \<Rightarrow>
          (case continue_connection_handshake M (Some c_ctx) of
             None \<Rightarrow> None
           | Some (Status, es) \<Rightarrow>
               Some (if quic_failed M Status then ERROR_TUPLE_2 (atom_status M Status) else ATOM_OK, es)))"

subsection \<open>Facts\<close>

declare drain_acceptors.simps [simp del]

lemma drain_Nil: "q_List q = [] \<Longrightarrow> drain_acceptors q =
    (q, [Lock (QueueLockOf (q_owner q)), Unlock (QueueLockOf (q_owner q))])"
  by (subst drain_acceptors.simps) (simp add: AcceptorDequeue_simps)

lemma drain_Cons: "q_List q = a # as \<Longrightarrow> drain_acceptors q =
    (fst (drain_acceptors (q\<lparr>q_List := as\<rparr>)),
     [Lock (QueueLockOf (q_owner q)), Unlock (QueueLockOf (q_owner q)),
      Send (acc_Pid a) closed_report, Free (MAcceptor (acc_addr a))] @
     snd (drain_acceptors (q\<lparr>q_List := as\<rparr>)))"
  by (subst drain_acceptors.simps) (simp add: AcceptorDequeue_simps AcceptorDestroy_def split: prod.split)

lemma drain_all:
  "q_List (fst (drain_acceptors q)) = [] \<and> q_owner (fst (drain_acceptors q)) = q_owner q \<and>
   msgs (snd (drain_acceptors q)) = map (\<lambda>a. (acc_Pid a, closed_report)) (q_List q) \<and>
   frees (snd (drain_acceptors q)) = map (\<lambda>a. MAcceptor (acc_addr a)) (q_List q) \<and>
   releases (snd (drain_acceptors q)) = [] \<and> keeps (snd (drain_acceptors q)) = [] \<and>
   quic_calls (snd (drain_acceptors q)) = [] \<and>
   (QueueLockOf (q_owner q) \<notin> set h \<longrightarrow> lock_run h (snd (drain_acceptors q)) = Some h)"
proof (induction "q_List q" arbitrary: q)
  case Nil
  then show ?case using drain_Nil [of q] by simp
next
  case (Cons a as)
  then have q: "q_List q = a # as" by simp
  show ?case using drain_Cons [OF q] Cons(1) [of "q\<lparr>q_List := as\<rparr>"] q by simp
qed

text \<open>A connection whose queue is its own.\<close>

definition conn_wf :: "QuicerConnCTX \<Rightarrow> bool" where
  "conn_wf c \<longleftrightarrow> (\<exists>q. c_acceptor_queue c = Some q \<and> q_owner q = c_res c)"

lemma init_c_ctx_wf:
  "alloc_ok E ''QUICER_ACCEPTOR_QUEUE'' \<Longrightarrow> init_c_ctx E a = (Some c, es) \<Longrightarrow> conn_wf c"
  by (auto simp: conn_wf_def ctx_init_defs split: if_splits)

text \<open>
  What every handler of a connection event keeps: run under the lock of the connection it
  leaves that lock held and no other, gives up no reference, and keeps the identity, the
  handle and the owner of the connection.
\<close>

definition conn_frame :: "QuicerConnCTX \<Rightarrow> quic_status \<times> QuicerConnCTX \<times> QuicerStreamCTX option \<times> eff list \<Rightarrow> bool" where
  "conn_frame c r \<longleftrightarrow>
     (case r of (st, c', s, es) \<Rightarrow>
        lock_run [LockOf (c_res c)] es = Some [LockOf (c_res c)] \<and> releases es = [] \<and>
        c_addr c' = c_addr c \<and> Connection c' = Connection c \<and> c_owner c' = c_owner c \<and>
        trusted c' = trusted c \<and> c_is_closed c' = c_is_closed c \<and> (conn_wf c \<longrightarrow> conn_wf c'))"

lemma conn_ok_frame [wp]:
  "no_locks es \<Longrightarrow> releases es = [] \<Longrightarrow> post (conn_ok c es) (conn_frame c)"
  by (simp add: conn_ok_def conn_frame_def post_def lock_run_no_locks)

lemma report_conn_frame [wp]: "post (report_conn c t) (conn_frame c)"
  unfolding report_conn_def by (intro wp) simp_all

lemmas conn_handler_defs =
  handle_connection_event_connected_def handle_connection_event_shutdown_initiated_by_transport_def
  handle_connection_event_shutdown_initiated_by_peer_def handle_connection_event_local_address_changed_def
  handle_connection_event_peer_address_changed_def handle_connection_event_streams_available_def
  handle_connection_event_peer_needs_streams_def handle_connection_event_ideal_processor_changed_def
  handle_connection_event_datagram_state_changed_def handle_connection_event_datagram_received_def
  handle_connection_event_datagram_send_state_changed_def handle_connection_event_resumed_def

lemma connected_frame: "post (handle_connection_event_connected E c alpn n r) (conn_frame c)"
  unfolding handle_connection_event_connected_def
  by (intro wp) (simp_all add: conn_frame_def lock_run_no_locks)

lemma shutdown_complete_frame:
  assumes "conn_wf c"
  shows "post (handle_connection_event_shutdown_complete E c x y z) (conn_frame c)"
  unfolding handle_connection_event_shutdown_complete_def
proof (intro wp)
  fix q r report q' es
  assume q: "c_acceptor_queue c = Some q" and d: "drain_acceptors q = (q', es)"
  have own: "q_owner q = c_res c"
    using assms q by (simp add: conn_wf_def)
  show "post (conn_ok (c\<lparr>c_acceptor_queue := Some q'\<rparr>)
      ((case c_owner c of None \<Rightarrow> [] | Some owner \<Rightarrow> [Send (acc_Pid owner) report]) @ es)) (conn_frame c)"
    using drain_all [of q "[LockOf (c_res c)]"] d own
    by (auto simp: conn_ok_def post_def conn_frame_def conn_wf_def lock_run_append split: option.split)
qed

lemma dgram_events_frame:
  "post (handle_connection_event_datagram_state_changed c n e) (conn_frame c)"
  "post (handle_connection_event_datagram_received E c buf fl) (conn_frame c)"
  "post (handle_connection_event_datagram_send_state_changed c st cc) (conn_frame c)"
  by (auto simp: conn_handler_defs handle_dgram_state_changed_event_def handle_dgram_recv_event_def
      handle_dgram_send_state_event_def destroy_dgram_send_ctx_def post_def conn_ok_def conn_frame_def
      split: if_splits)

lemma certificate_frame:
  "post (handle_connection_event_peer_certificate_received X c cert ch) (conn_frame c)"
  unfolding handle_connection_event_peer_certificate_received_def conn_ok_def
  by (intro wp) (auto simp: conn_frame_def conn_wf_def split: option.split)

lemma ticket_frame:
  "post (handle_connection_event_resumption_ticket_received E c t) (conn_frame c)"
  unfolding handle_connection_event_resumption_ticket_received_def
  by (intro wp) (auto simp: conn_ok_def post_def conn_frame_def conn_wf_def split: option.split)

lemma dequeue_owner:
  "AcceptorDequeue q = (a, q', es) \<Longrightarrow> q_owner q' = q_owner q \<and>
     es = [Lock (QueueLockOf (q_owner q)), Unlock (QueueLockOf (q_owner q))]"
  by (auto simp: AcceptorDequeue_def Let_def split: list.splits)

lemma peer_stream_frame:
  assumes "conn_wf c"
  shows "post (handle_connection_event_peer_stream_started E c h fl cb a b) (conn_frame c)"
  unfolding handle_connection_event_peer_stream_started_def
  using assms
  by (intro wp) (auto simp: conn_frame_def conn_wf_def dest!: dequeue_owner)

lemma client_conn_frame:
  assumes "conn_wf c"
  shows "post (client_conn_switch E M X c e a b) (conn_frame c)"
proof (cases e)
  case (CONNECTED alpn n r)
  have "conn_frame c (st, c', s, es @ (case (TlsSecrets c', ssl_keylogfile c') of
             (Some _, Some f) \<Rightarrow> dump_sslkeylogfile X f (tls_secrets_of X (c_res c')) | _ \<Rightarrow> []))"
    if "handle_connection_event_connected E c alpn n r = Some (st, c', s, es)" for st c' s es
    using postD [OF connected_frame that]
    by (auto simp: conn_frame_def lock_run_append dump_sslkeylogfile_def Let_def split: option.split)
  then show ?thesis
    by (simp add: CONNECTED post_def split: option.splits)
qed (use assms in \<open>simp_all add: shutdown_complete_frame dgram_events_frame certificate_frame ticket_frame
      peer_stream_frame conn_ok_frame, (unfold conn_handler_defs, intro wp; simp)+\<close>)

lemma server_conn_frame:
  assumes "conn_wf c"
  shows "post (server_conn_switch E M X c e a b) (conn_frame c)"
  using assms
  by (cases e) (simp_all add: shutdown_complete_frame dgram_events_frame certificate_frame
      connected_frame peer_stream_frame conn_ok_frame, (unfold conn_handler_defs, intro wp; simp)+)

lemma destroy_c_no_locks: "no_locks (snd (destroy_c_ctx c))"
  by (simp add: destroy_c_ctx_def split: option.split)

lemma conn_callback_contract:
  assumes "conn_callback_frame E hConn c e r = Some (st, c', s, es)" "post r (conn_frame c)"
    and "hConn \<noteq> None"
  shows "balanced es \<and> releases es = (if is_conn_shutdown e then [c_res c] else []) \<and>
     (is_conn_shutdown e \<longrightarrow> c_is_closed c' \<and> trusted c' = None \<and>
        (\<exists>pre. balanced pre \<and> releases pre = [] \<and> es = pre @ [Demonitor (c_res c), Release (c_res c)])) \<and>
     (conn_wf c \<longrightarrow> conn_wf c')"
proof -
  obtain c0 es0 where r: "r = Some (st, c0, s, es0)"
    and c': "c' = (if is_conn_shutdown e then c0\<lparr>c_is_closed := True, trusted := None\<rparr> else c0)"
    and es: "es = ([Lock (LockOf (c_res c))] @ es0 @ [ClearEnv (EnvOf (c_res c)), Unlock (LockOf (c_res c))]) @
       (if is_conn_shutdown e then snd (destroy_c_ctx c0) else [])"
    using assms(1,3)
    by (auto simp: conn_callback_frame_def Let_def destroy_c_ctx_def split: option.splits if_splits prod.splits)
  have keep: "lock_run [LockOf (c_res c)] es0 = Some [LockOf (c_res c)]" "releases es0 = []"
    "c_addr c0 = c_addr c" "conn_wf c \<longrightarrow> conn_wf c0"
    using postD [OF assms(2) r] by (auto simp: conn_frame_def)
  have pre: "balanced p \<Longrightarrow> releases p = [] \<Longrightarrow> balanced (p @ (if is_conn_shutdown e then snd (destroy_c_ctx c0) else [])) \<and>
      (is_conn_shutdown e \<longrightarrow> (\<exists>pre. balanced pre \<and> releases pre = [] \<and>
          p @ snd (destroy_c_ctx c0) = pre @ [Demonitor (c_res c), Release (c_res c)]))" for p
  proof -
    assume p: "balanced p" "releases p = []"
    let ?f = "case trusted c0 of None \<Rightarrow> [] | Some st \<Rightarrow> [Free (MX509Store st)]"
    have "balanced (p @ ?f)" "releases (p @ ?f) = []"
      using p by (auto simp: balanced_append balanced_no_locks split: option.split)
    moreover have "snd (destroy_c_ctx c0) = ?f @ [Demonitor (c_res c), Release (c_res c)]"
      using keep by (simp add: destroy_c_ctx_def)
    moreover have "balanced (p @ snd (destroy_c_ctx c0))"
      by (rule balanced_append [OF p(1)]) (simp add: balanced_no_locks destroy_c_no_locks)
    ultimately show ?thesis
      using p by (auto intro!: exI [of _ "p @ ?f"])
  qed
  have "balanced ([Lock (LockOf (c_res c))] @ es0 @ [ClearEnv (EnvOf (c_res c)), Unlock (LockOf (c_res c))])"
    using keep by (simp add: balanced_def lock_run_append)
  note * = pre [OF this]
  show ?thesis
    using * keep c' unfolding es
    by (auto simp: destroy_c_ctx_def conn_wf_def split: option.split)
qed

subsection \<open>Serving streams in the order of the accept calls\<close>

text \<open>Accept calls of the processes \<open>pids\<close>, one after the other; \<open>None\<close> once one fails.\<close>

fun accept_all :: "enif \<Rightarrow> QuicerConnCTX \<Rightarrow> (pid \<times> eterm \<times> nat) list \<Rightarrow> QuicerConnCTX option" where
  "accept_all E c [] = Some c"
| "accept_all E c ((p, opts, a) # reqs) =
     (case async_accept_stream2 (E\<lparr>enif_self := Some p\<rparr>) (Some c) opts a of
        Some (res, Some c', es) \<Rightarrow>
          if res = SUCCESS (ERes (c_res c)) then accept_all E c' reqs else None
      | _ \<Rightarrow> None)"

text \<open>Streams the peer starts, one after the other, and the process each of them is given to.\<close>

fun start_all :: "enif \<Rightarrow> msquic \<Rightarrow> openssl \<Rightarrow> QuicerConnCTX \<Rightarrow> (hquic \<times> nat \<times> nat) list \<Rightarrow> (pid \<times> bool) list option" where
  "start_all E M X c [] = Some []"
| "start_all E M X c ((h, a, b) # hs) =
     (case ServerConnectionCallback E M X (Connection c) c (PEER_STREAM_STARTED h 0) a b of
        Some (st, c', Some s, es) \<Rightarrow>
          (case s_owner s of
             None \<Rightarrow> None
           | Some owner \<Rightarrow>
               map_option ((#) (acc_Pid owner, active owner = ACCEPTOR_RECV_MODE_PASSIVE))
                 (start_all E M X c' hs))
      | _ \<Rightarrow> None)"

lemma accept_stream_enqueues:
  assumes "async_accept_stream2 E (Some c) opts a = Some (SUCCESS t, Some c', es)"
  shows "\<exists>q acc p. c_acceptor_queue c = Some q \<and> enif_self E = Some p \<and> acc_Pid acc = p \<and>
     c' = c\<lparr>c_acceptor_queue := Some (fst (AcceptorEnqueue q acc))\<rparr>"
proof -
  have "post (async_accept_stream2 E (Some c) opts a) (\<lambda>(res, c'', es). (\<exists>t. res = SUCCESS t) \<longrightarrow>
      (\<exists>q acc p. c_acceptor_queue c = Some q \<and> enif_self E = Some p \<and> acc_Pid acc = p \<and>
         c'' = Some (c\<lparr>c_acceptor_queue := Some (fst (AcceptorEnqueue q acc))\<rparr>)))"
    unfolding async_accept_stream2_def
    by (intro wp) (auto dest!: set_owner_recv_mode_frame(1))
  from postD [OF this assms] show ?thesis by auto
qed

lemma accept_all_queue:
  assumes "accept_all E c reqs = Some c'" "c_acceptor_queue c = Some q"
  shows "\<exists>accs. map acc_Pid accs = map fst reqs \<and>
     c' = c\<lparr>c_acceptor_queue := Some (aq.enq_all q accs)\<rparr>"
  using assms
proof (induction reqs arbitrary: c q)
  case Nil
  then show ?case by (intro exI [of _ "[]"]) simp
next
  case (Cons r reqs)
  obtain p opts a where r: "r = (p, opts, a)" by (cases r) auto
  obtain c1 es where one: "async_accept_stream2 (E\<lparr>enif_self := Some p\<rparr>) (Some c) opts a =
      Some (SUCCESS (ERes (c_res c)), Some c1, es)" and rest: "accept_all E c1 reqs = Some c'"
    using Cons.prems(1) r by (auto split: option.splits prod.splits if_splits)
  obtain acc where acc: "acc_Pid acc = p"
    "c1 = c\<lparr>c_acceptor_queue := Some (fst (AcceptorEnqueue q acc))\<rparr>"
    using accept_stream_enqueues [OF one] Cons.prems(2) by auto
  then obtain accs where "map acc_Pid accs = map fst reqs"
    "c' = c1\<lparr>c_acceptor_queue := Some (aq.enq_all (fst (AcceptorEnqueue q acc)) accs)\<rparr>"
    using Cons.IH [OF rest, of "fst (AcceptorEnqueue q acc)"] by auto
  then show ?case
    using acc r by (intro exI [of _ "acc # accs"]) simp
qed

text \<open>One stream of the peer, given to the process the queue yields.\<close>

lemma peer_stream_served:
  assumes "alloc_ok E ''ctx_stream_t''" "Connection c = Some hc" "c_acceptor_queue c = Some q"
    "AcceptorDequeue q = (Some acc, q', es0)"
    "\<forall>t. enif_send E (acc_Pid acc) t"
  shows "\<exists>s es. ServerConnectionCallback E M X (Connection c) c (PEER_STREAM_STARTED h fl) a b =
       Some (QUIC_STATUS_SUCCESS, c\<lparr>c_acceptor_queue := Some q'\<rparr>, Some s, es) \<and>
     s_owner s = Some acc \<and> Stream s = Some h \<and> s_addr s = a \<and> \<not> s_is_closed s \<and>
     keeps es = [c_res c] \<and>
     msgs es = [(acc_Pid acc, make_event_with_props ATOM_NEW_STREAM (ERes (RStream a))
        [ATOM_FLAGS, ATOM_IS_ORPHAN] [enif_make_uint fl, ATOM_FALSE])] \<and>
     quic_calls es = [SetCallbackHandler (Some h) ServerStreamCb (RStream a)]"
proof -
  have "es0 = [Lock (QueueLockOf (q_owner q)), Unlock (QueueLockOf (q_owner q))]"
    using dequeue_owner [OF assms(4)] by simp
  then show ?thesis
    using assms
    by (simp add: ServerConnectionCallback_def conn_callback_frame_def
        handle_connection_event_peer_stream_started_def init_s_ctx_def Let_def ATOM_BOOLEAN_def)
qed

lemma start_all_served:
  assumes "alloc_ok E ''ctx_stream_t''" "Connection c = Some hc" "c_acceptor_queue c = Some q"
    "\<forall>p t. enif_send E p t" "length hs \<le> length (q_List q)"
  shows "\<exists>r. start_all E M X c hs = Some r \<and>
     map (\<lambda>x. Some (fst x)) r = map (map_option acc_Pid) (aq.deq_n (length hs) q)"
  using assms
proof (induction hs arbitrary: c q)
  case Nil
  then show ?case by simp
next
  case (Cons x hs)
  obtain h a b where x: "x = (h, a, b)" by (cases x) auto
  obtain acc as where q: "q_List q = acc # as"
    using Cons.prems(5) by (cases "q_List q") auto
  note deq = AcceptorDequeue_simps(2) [OF q]
  let ?q = "q\<lparr>q_List := as\<rparr>" and ?c = "c\<lparr>c_acceptor_queue := Some (q\<lparr>q_List := as\<rparr>)\<rparr>"
  obtain s es where "ServerConnectionCallback E M X (Connection c) c (PEER_STREAM_STARTED h 0) a b =
       Some (QUIC_STATUS_SUCCESS, ?c, Some s, es)" "s_owner s = Some acc"
    using peer_stream_served [OF Cons.prems(1-3) deq] Cons.prems(4) by blast
  moreover obtain r where "start_all E M X ?c hs = Some r"
    "map (\<lambda>x. Some (fst x)) r = map (map_option acc_Pid) (aq.deq_n (length hs) ?q)"
    using Cons.IH [of ?c ?q] Cons.prems q by auto
  ultimately show ?case
    using x deq by simp
qed

subsection \<open>Properties\<close>

text \<open>
  C1: Processes that call \<open>async_accept_stream\<close> on a connection get the streams the peer starts
  in exactly the order of their calls, after the processes that were waiting already: none is
  skipped, none is served twice.
\<close>

theorem streams_served_in_order:
  assumes "accept_all E c reqs = Some c'" "c_acceptor_queue c = Some q" "Connection c = Some hc"
    "alloc_ok E ''ctx_stream_t''" "\<forall>p t. enif_send E p t"
    "length hs = length (q_List q) + length reqs"
  shows "\<exists>r. start_all E M X c' hs = Some r \<and> map fst r = map acc_Pid (q_List q) @ map fst reqs"
proof -
  obtain accs where accs: "map acc_Pid accs = map fst reqs"
    and c': "c' = c\<lparr>c_acceptor_queue := Some (aq.enq_all q accs)\<rparr>"
    using accept_all_queue [OF assms(1,2)] by blast
  have len: "length accs = length reqs"
    using accs by (metis length_map)
  obtain r where r: "start_all E M X c' hs = Some r"
    "map (\<lambda>x. Some (fst x)) r = map (map_option acc_Pid) (aq.deq_n (length hs) (aq.enq_all q accs))"
    using start_all_served [of E c' hc "aq.enq_all q accs" hs M X] assms(3-6) c' len
    by (auto simp: aq.waiting_enq_all)
  then have "map Some (map fst r) = map Some (map acc_Pid (q_List q @ accs))"
    using assms(6) len aq.served_in_order [of q accs] by (simp add: comp_def)
  then have "map fst r = map acc_Pid (q_List q @ accs)"
    unfolding inj_map_eq_map [OF inj_Some] .
  then show ?thesis
    using r accs by simp
qed

theorem streams_served_in_order_witness:
  "\<exists>c' r. accept_all beam conn0 [(21, EMap [(ATOM_QUIC_STREAM_OPTS_ACTIVE, ATOM_TRUE)], 31),
                                  (22, EMap [(ATOM_QUIC_STREAM_OPTS_ACTIVE, EInt 5)], 32)] = Some c' \<and>
     start_all beam msquic0 openssl0 c' [(50, 41, 61), (51, 42, 62)] = Some r \<and> map fst r = [21, 22]"
proof -
  obtain c' where acc: "accept_all beam conn0 [(21, EMap [(ATOM_QUIC_STREAM_OPTS_ACTIVE, ATOM_TRUE)], 31),
                                  (22, EMap [(ATOM_QUIC_STREAM_OPTS_ACTIVE, EInt 5)], 32)] = Some c'"
    by (simp add: async_accept_stream2_def beam_def AcceptorAlloc_def set_owner_recv_mode_def
        conn0_def AcceptorEnqueue_def)
  show ?thesis
    using streams_served_in_order [OF acc, of "\<lparr>q_List = [], q_owner = RConn 3\<rparr>" 4
        "[(50, 41, 61), (51, 42, 62)]" msquic0 openssl0] acc
    by (simp add: conn0_def beam_def)
qed

text \<open>
  C28: A stream that the peer starts while no process waits for one goes to the owner of the
  connection as a passive orphan. The new stream has an acceptor block of its own, so that
  freeing it cannot touch the owner's, but the block is a copy: an active count the owner had
  on the connection becomes the count of a stream that is passive.
\<close>

theorem orphan_stream:
  assumes "alloc_ok E ''ctx_stream_t''" "alloc_ok E ''QUICER_ACCEPTOR''" "Connection c = Some hc"
    "c_acceptor_queue c = Some q" "q_List q = []" "c_owner c = Some owner"
  shows "\<exists>st s es acc.
     ServerConnectionCallback E M X (Connection c) c (PEER_STREAM_STARTED h fl) a b =
       Some (st, c, Some s, es) \<and>
     s_owner s = Some acc \<and> acc_Pid acc = acc_Pid owner \<and> acc_addr acc = b \<and>
     active acc = ACCEPTOR_RECV_MODE_PASSIVE \<and> active_count acc = active_count owner \<and>
     msgs es = [(acc_Pid owner, make_event_with_props ATOM_NEW_STREAM (ERes (RStream a))
        [ATOM_FLAGS, ATOM_IS_ORPHAN] [enif_make_uint fl, ATOM_TRUE])] \<and>
     keeps es = [c_res c] \<and>
     (st = QUIC_STATUS_SUCCESS \<longleftrightarrow> quic_calls es = [SetCallbackHandler (Some h) ServerStreamCb (RStream a)])"
proof -
  have c: "c\<lparr>c_acceptor_queue := Some q\<rparr> = c"
    using assms(4) by simp
  show ?thesis
    using assms(1-3,5,6) assms(4) c
    by (simp add: ServerConnectionCallback_def conn_callback_frame_def AcceptorAlloc_def
        handle_connection_event_peer_stream_started_def init_s_ctx_def Let_def ATOM_BOOLEAN_def
        AcceptorDequeue_simps)
qed

theorem orphan_stream_witness:
  "\<exists>st s es. ServerConnectionCallback beam msquic0 openssl0 (Some 4) conn0 (PEER_STREAM_STARTED 50 0) 41 61 =
     Some (st, conn0, Some s, es) \<and> map fst (msgs es) = [7]"
  using orphan_stream [of beam conn0 4 "\<lparr>q_List = [], q_owner = RConn 3\<rparr>" "the (c_owner conn0)"
      msquic0 openssl0 50 0 41 61]
  by (auto simp: conn0_def beam_def)

text \<open>
  C5: When a connection is shut down for good, its owner is told, then every process that still
  waits for a stream is told, once and in the order in which they asked, and its acceptor block
  is freed; the queue is left empty, the connection is marked closed, its mutex is free, and
  the reference to it is given up last.
\<close>

theorem shutdown_drains_acceptors:
  assumes "cb = ClientConnectionCallback \<or> cb = ServerConnectionCallback"
    and "Connection c = Some hc" "c_acceptor_queue c = Some q" "q_owner q = c_res c"
    and "c_owner c = Some owner"
  shows "\<exists>c' es. cb E M X (Connection c) c (CONN_SHUTDOWN_COMPLETE hs ack cl) a b =
       Some (QUIC_STATUS_SUCCESS, c', None, es) \<and>
     msgs es = (acc_Pid owner, make_event_with_props ATOM_CLOSED (ERes (c_res c))
         [ATOM_IS_HANDSHAKE_COMPLETED, ATOM_IS_PEER_ACKED, ATOM_IS_APP_CLOSING]
         [ATOM_BOOLEAN hs, ATOM_BOOLEAN ack, ATOM_BOOLEAN cl]) #
       map (\<lambda>acc. (acc_Pid acc, make_event ATOM_CLOSED ATOM_UNDEFINED ATOM_UNDEFINED)) (q_List q) \<and>
     frees es = map (\<lambda>acc. MAcceptor (acc_addr acc)) (q_List q) @
       (case trusted c of None \<Rightarrow> [] | Some st \<Rightarrow> [MX509Store st]) \<and>
     (\<exists>q'. c_acceptor_queue c' = Some q' \<and> q_List q' = []) \<and>
     c_is_closed c' \<and> balanced es \<and> releases es = [c_res c] \<and> last es = Release (c_res c)"
proof -
  let ?e = "CONN_SHUTDOWN_COMPLETE hs ack cl"
  let ?r = "handle_connection_event_shutdown_complete E c hs ack cl"
  have wf: "conn_wf c" using assms(3,4) by (simp add: conn_wf_def)
  have cb: "cb E M X (Connection c) c ?e a b = conn_callback_frame E (Connection c) c ?e ?r"
    using assms(1) by (auto simp: ClientConnectionCallback_def ServerConnectionCallback_def)
  obtain q' ds where d: "drain_acceptors q = (q', ds)" by fastforce
  note da = drain_all [of q, unfolded d, simplified]
  have "\<exists>c' es. cb E M X (Connection c) c ?e a b = Some (QUIC_STATUS_SUCCESS, c', None, es) \<and>
      msgs es = (acc_Pid owner, make_event_with_props ATOM_CLOSED (ERes (c_res c))
         [ATOM_IS_HANDSHAKE_COMPLETED, ATOM_IS_PEER_ACKED, ATOM_IS_APP_CLOSING]
         [ATOM_BOOLEAN hs, ATOM_BOOLEAN ack, ATOM_BOOLEAN cl]) #
       map (\<lambda>acc. (acc_Pid acc, make_event ATOM_CLOSED ATOM_UNDEFINED ATOM_UNDEFINED)) (q_List q) \<and>
      frees es = map (\<lambda>acc. MAcceptor (acc_addr acc)) (q_List q) @
       (case trusted c of None \<Rightarrow> [] | Some st \<Rightarrow> [MX509Store st]) \<and>
      c_acceptor_queue c' = Some q' \<and> last es = Release (c_res c)"
    unfolding cb using assms(2,3,5) d da
    by (simp add: handle_connection_event_shutdown_complete_def conn_callback_frame_def conn_ok_def
        Let_def destroy_c_ctx_def closed_report_def split: option.split)
  then obtain c' es where run: "cb E M X (Connection c) c ?e a b = Some (QUIC_STATUS_SUCCESS, c', None, es)"
    and rest: "msgs es = (acc_Pid owner, make_event_with_props ATOM_CLOSED (ERes (c_res c))
         [ATOM_IS_HANDSHAKE_COMPLETED, ATOM_IS_PEER_ACKED, ATOM_IS_APP_CLOSING]
         [ATOM_BOOLEAN hs, ATOM_BOOLEAN ack, ATOM_BOOLEAN cl]) #
       map (\<lambda>acc. (acc_Pid acc, make_event ATOM_CLOSED ATOM_UNDEFINED ATOM_UNDEFINED)) (q_List q)"
      "frees es = map (\<lambda>acc. MAcceptor (acc_addr acc)) (q_List q) @
       (case trusted c of None \<Rightarrow> [] | Some st \<Rightarrow> [MX509Store st])"
      "c_acceptor_queue c' = Some q'" "last es = Release (c_res c)"
    by blast
  have "conn_callback_frame E (Connection c) c ?e ?r = Some (QUIC_STATUS_SUCCESS, c', None, es)"
    using run unfolding cb .
  note contract = conn_callback_contract [OF this shutdown_complete_frame [OF wf]]
  show ?thesis
    using run rest contract assms(2) da by auto
qed

theorem shutdown_drains_acceptors_witness:
  "\<exists>c' es. ServerConnectionCallback beam msquic0 openssl0 (Some 4) conn0
      (CONN_SHUTDOWN_COMPLETE True True False) 41 61 = Some (QUIC_STATUS_SUCCESS, c', None, es) \<and>
     releases es = [RConn 3]"
  using shutdown_drains_acceptors [of ServerConnectionCallback conn0 4
      "\<lparr>q_List = [], q_owner = RConn 3\<rparr>" "the (c_owner conn0)" beam msquic0 openssl0 True True False 41 61]
  by (auto simp: conn0_def)

text \<open>
  C22: Either connection callback, on every event of a well-formed connection, leaves all mutexes
  free, keeps the connection well-formed, and gives up the reference to the connection exactly
  on its final event, as the last thing it does.
\<close>

theorem conn_callback_discipline:
  assumes "cb = ClientConnectionCallback \<or> cb = ServerConnectionCallback"
    and "conn_wf c" "hConn \<noteq> None"
    and "cb E M X hConn c e a b = Some (st, c', s, es)"
  shows "balanced es \<and> conn_wf c' \<and>
    releases es = (if is_conn_shutdown e then [c_res c] else []) \<and>
    (is_conn_shutdown e \<longrightarrow> c_is_closed c' \<and> trusted c' = None \<and>
       (\<exists>pre. balanced pre \<and> releases pre = [] \<and> es = pre @ [Demonitor (c_res c), Release (c_res c)]))"
proof -
  obtain r where "conn_callback_frame E hConn c e r = Some (st, c', s, es)" "post r (conn_frame c)"
    using assms client_conn_frame [OF assms(2)] server_conn_frame [OF assms(2)]
    unfolding ClientConnectionCallback_def ServerConnectionCallback_def by blast
  then show ?thesis
    using conn_callback_contract assms(2,3) by blast
qed

theorem conn_callback_discipline_witness:
  "\<exists>c' es. ClientConnectionCallback beam msquic0 openssl0 (Some 4) conn0 PEER_NEEDS_STREAMS 41 61 =
     Some (QUIC_STATUS_SUCCESS, c', None, es) \<and> balanced es"
proof -
  obtain c' es where run: "ClientConnectionCallback beam msquic0 openssl0 (Some 4) conn0 PEER_NEEDS_STREAMS 41 61 =
     Some (QUIC_STATUS_SUCCESS, c', None, es)"
    by (simp add: ClientConnectionCallback_def conn_callback_frame_def conn0_def conn_ok_def
        handle_connection_event_peer_needs_streams_def report_conn_def Let_def)
  then show ?thesis
    using conn_callback_discipline [of ClientConnectionCallback conn0 "Some 4" beam msquic0 openssl0
        PEER_NEEDS_STREAMS 41 61 QUIC_STATUS_SUCCESS c' None es]
    by (auto simp: conn_wf_def conn0_def)
qed

text \<open>
  C27: A handshake goes on with \<open>ok\<close> exactly if the stack accepts first the configuration of the
  listener and then, on top of it, the settings the accepting process brought along; the
  settings are never applied when the configuration is refused.
\<close>

theorem handshake_owner_settings:
  assumes "c_config_resource c = Some g" "c_owner c = Some owner"
    and "cfg = ConnectionSetConfiguration (Connection c) (Configuration g)"
    and "par = SetParam (Connection c) QUIC_PARAM_CONN_SETTINGS (sizeof_settings M) (BufSettings (acc_Settings owner))"
  shows "\<exists>res es. async_handshake_1 M 1 (Some c) = Some (res, es) \<and>
    (res = ATOM_OK \<longleftrightarrow> \<not> quic_failed M (quic_status_of M cfg) \<and> \<not> quic_failed M (quic_status_of M par)) \<and>
    quic_calls es = (if quic_failed M (quic_status_of M cfg) then [cfg] else [cfg, par])"
  using assms by (simp add: async_handshake_1_def continue_connection_handshake_def Let_def)

theorem handshake_owner_settings_witness:
  "\<exists>es. async_handshake_1 msquic0 1 (Some (conn0\<lparr>c_config_resource :=
     Some \<lparr>g_addr = 6, Configuration = Some 8\<rparr>\<rparr>)) = Some (ATOM_OK, es)"
  using handshake_owner_settings [of "conn0\<lparr>c_config_resource := Some \<lparr>g_addr = 6, Configuration = Some 8\<rparr>\<rparr>"
      "\<lparr>g_addr = 6, Configuration = Some 8\<rparr>" "the (c_owner conn0)" _ _ msquic0]
  by (auto simp: conn0_def msquic0_def)

lemma byte_of_int: "0 \<le> i \<Longrightarrow> i < 256 \<Longrightarrow> uint (word_of_int i :: u8) = i"
  by (simp add: uint_word_of_int)

lemma port_range: "0 \<le> i \<Longrightarrow> i < 2 ^ 31 \<Longrightarrow> enif_make_int i = EInt i"
  by (simp add: enif_make_int_def signed_take_bit_int_eq_self)

text \<open>
  The address term of an IPv4 socket carries its port number; for an IPv6 socket it carries
  the number with its two bytes swapped, which is the port only when they are equal.
\<close>

lemma addr2eterm_port:
  assumes "0 \<le> p" "p < 65536"
    and "addr = \<lparr>sa_family = fam, sin_port = (word_of_int (p div 256), word_of_int (p mod 256)), sin_addr = bs\<rparr>"
  shows "\<exists>ip. addr2eterm addr =
    ETuple [ip, EInt (if fam = AF_INET6 then (p mod 256) * 256 + p div 256 else p)]"
proof -
  have hi: "uint (word_of_int (p div 256) :: u8) = p div 256"
    and lo: "uint (word_of_int (p mod 256) :: u8) = p mod 256"
    using assms(1,2) by (simp_all add: byte_of_int)
  have "p div 256 * 256 + p mod 256 = p" by simp
  moreover have "p div 256 < 256" "0 \<le> p div 256"
    using assms(1,2) by auto
  ultimately show ?thesis
    using assms(1,2) pos_mod_bound [of 256 p]
    by (auto simp: assms(3) addr2eterm_def ntohs_def host_u16_def hi lo port_range)
qed

text \<open>
  C26: The certificate of a peer is accepted exactly if it is there and OpenSSL verifies it
  against the trusted store of the connection, with the untrusted certificates of the chain
  that came with it; the connection then keeps its own copy for \<open>peercert\<close>, and the copy it
  held before is freed once. Without a certificate the chain is not looked at; a certificate
  that comes without a chain is undefined behaviour, as the chain is read without a test.
\<close>

theorem peer_certificate_checked:
  assumes "cb = ClientConnectionCallback \<or> cb = ServerConnectionCallback"
    and "Connection c = Some hc"
  shows "if cert \<noteq> None \<and> chain = None
    then cb E M X (Connection c) c (PEER_CERTIFICATE_RECEIVED cert chain) a b = None
    else \<exists>st c' es.
      cb E M X (Connection c) c (PEER_CERTIFICATE_RECEIVED cert chain) a b = Some (st, c', None, es) \<and>
      st = (if \<exists>x ctx. cert = Some x \<and> chain = Some ctx \<and>
                 0 < X509_verify_cert X (trusted c) x (X509_STORE_CTX_get0_untrusted X ctx)
            then QUIC_STATUS_SUCCESS else QUIC_STATUS_BAD_CERTIFICATE) \<and>
      c' = c\<lparr>peer_cert := Option.bind cert (X509_dup X)\<rparr> \<and>
      frees es = (case peer_cert c of None \<Rightarrow> [] | Some x \<Rightarrow> [MX509 x])"
  using assms
  by (cases cert; cases chain)
    (auto simp: ClientConnectionCallback_def ServerConnectionCallback_def conn_callback_frame_def Let_def
      conn_ok_def handle_connection_event_peer_certificate_received_def split: option.split)

theorem peer_certificate_checked_witness:
  "(\<exists>c' es. ClientConnectionCallback beam msquic0 openssl0 (Some 4) (conn0\<lparr>peer_cert := Some 6\<rparr>)
      (PEER_CERTIFICATE_RECEIVED (Some 1) (Some 5)) 41 61 = Some (QUIC_STATUS_SUCCESS, c', None, es) \<and>
      peer_cert c' = Some 1 \<and> frees es = [MX509 6]) \<and>
   (\<exists>c' es. ServerConnectionCallback beam msquic0 openssl0 (Some 4) conn0
      (PEER_CERTIFICATE_RECEIVED (Some 2) (Some 5)) 41 61 = Some (QUIC_STATUS_BAD_CERTIFICATE, c', None, es))"
  using peer_certificate_checked [of ClientConnectionCallback "conn0\<lparr>peer_cert := Some 6\<rparr>" 4 "Some 1" "Some 5"
      beam msquic0 openssl0 41 61]
    peer_certificate_checked [of ServerConnectionCallback conn0 4 "Some 2" "Some 5" beam msquic0 openssl0 41 61]
  by (auto simp: conn0_def openssl0_def)

end
