(* ===== verification/Quicer_Tls.thy ===== *)
theory Quicer_Tls
  imports Quicer_Conn
begin

section \<open>Options, credentials and configurations (\<open>quicer_config.c\<close>, \<open>quicer_tls.c\<close>)\<close>

text \<open>
  The parsers of the option maps that listeners and connections are opened with, the TLS
  credentials built from them, and the loading of a configuration into the stack. A C string
  that a parser allocates is an option (NULL is \<open>None\<close>); an outer \<open>None\<close> is undefined
  behaviour, as elsewhere.
\<close>

subsection \<open>Globals (\<open>quicer_nif.c\<close>)\<close>

record GLOBALS =
  MsQuic :: bool
  isLibOpened :: bool
  isRegistered :: bool
  GRegistration :: "hquic option"
  GExecutionProfile :: QUIC_EXECUTION_PROFILE

subsection \<open>Strings and lists from an option map\<close>

definition MAX_ALPN :: nat where "MAX_ALPN = 16"

definition PATH_MAX :: nat where "PATH_MAX = 4096"

text \<open>\<open>str_from_map\<close> as it is called, without a buffer of the caller.\<close>

definition str_from_map :: "enif \<Rightarrow> eterm \<Rightarrow> eterm \<Rightarrow> nat \<Rightarrow> string option option" where
  "str_from_map E key emap max_len =
     (case enif_get_map_value E emap key of
        None \<Rightarrow> Some None
      | Some tmp_term \<Rightarrow>
     (if \<not> enif_is_list E tmp_term then Some None
      else case enif_get_list E tmp_term of
        None \<Rightarrow> Some None
      | Some ts \<Rightarrow>
          if length ts > max_len then Some None
          else if \<not> alloc_ok E ''string'' then None
          else (case enif_get_string E tmp_term (max_len + 1) of
                  (n, s) \<Rightarrow> Some (if n \<noteq> 0 then Some s else None))))"

text \<open>
  The loop of \<open>load_alpn\<close>. Every entry of the array points to the same buffer \<open>str\<close>, which
  the next round overwrites. The buffer is local to the loop: once the loop is left every
  entry dangles. The result of \<open>load_alpn\<close> is what the entries point to when the last round
  ends; a call that hands the array to the stack, which reads it, is a \<open>stale_read\<close>. The array
  has \<open>MAX_ALPN\<close> entries and nothing checks the index.
\<close>

definition write_str :: "string \<Rightarrow> string \<Rightarrow> string" where
  "write_str str s = s @ [CHR 0x00] @ drop (length s + 1) str"

definition strlen :: "string \<Rightarrow> nat" where
  "strlen s = length (takeWhile (\<lambda>c. c \<noteq> CHR 0x00) s)"

fun load_alpn_loop :: "enif \<Rightarrow> nat \<Rightarrow> eterm list \<Rightarrow> string \<Rightarrow> nat list \<Rightarrow> (string \<times> nat list) option option" where
  "load_alpn_loop E i [] str lens = Some (Some (str, lens))"
| "load_alpn_loop E i (head # tail) str lens =
     (case enif_get_string E head PATH_MAX of (n, s) \<Rightarrow>
        if n \<le> 0 then Some None
        else if MAX_ALPN \<le> i then None
        else load_alpn_loop E (Suc i) tail (write_str str s) (lens @ [strlen s]))"

definition load_alpn :: "enif \<Rightarrow> eterm \<Rightarrow> string list option option" where
  "load_alpn E options =
     (case enif_get_map_value E options ATOM_ALPN of
        None \<Rightarrow> Some None
      | Some alpn_list \<Rightarrow>
     (case enif_get_list E alpn_list of
        None \<Rightarrow> Some None
      | Some ts \<Rightarrow>
          if ts = [] then Some None
          else (case load_alpn_loop E 0 ts [] [] of
                  None \<Rightarrow> None
                | Some None \<Rightarrow> Some None
                | Some (Some (str, lens)) \<Rightarrow> Some (Some (map (\<lambda>n. take n str) lens)))))"

definition load_verify :: "enif \<Rightarrow> eterm \<Rightarrow> bool \<Rightarrow> bool" where
  "load_verify E options default_verify =
     (case enif_get_map_value E options ATOM_VERIFY of
        None \<Rightarrow> default_verify
      | Some verify_atom \<Rightarrow>
          if verify_atom = ATOM_PEER \<or> verify_atom = ATOM_VERIFY_PEER then True
          else if verify_atom = ATOM_NONE \<or> verify_atom = ATOM_VERIFY_NONE then False
          else default_verify)"

text \<open>
  A listen address is a string with address and port, or a port. A port is cut down to 16 bits
  and stored in network order; the address bytes of such a \<open>QUIC_ADDR\<close> are not set.
\<close>

definition LISTEN_ON_LEN :: nat where "LISTEN_ON_LEN = 52"

definition port_addr :: "int \<Rightarrow> QUIC_ADDR" where
  "port_addr p = \<lparr>sa_family = AF_UNSPEC, sin_port = (word_of_int (p div 256), word_of_int p), sin_addr = []\<rparr>"

definition addr_from_string :: "msquic \<Rightarrow> string \<Rightarrow> QUIC_ADDR option" where
  "addr_from_string M s =
     (case QuicAddr4FromString M s of Some a \<Rightarrow> Some a | None \<Rightarrow> QuicAddr6FromString M s)"

definition parse_listen_on :: "enif \<Rightarrow> msquic \<Rightarrow> eterm \<Rightarrow> QUIC_ADDR option" where
  "parse_listen_on E M elisten_on =
     (if enif_is_list E elisten_on
      then (case enif_get_string E elisten_on LISTEN_ON_LEN of (n, s) \<Rightarrow>
              if 0 < n then addr_from_string M s else None)
      else if enif_is_integer E elisten_on
      then (case enif_get_int E elisten_on of
              None \<Rightarrow> None
            | Some UdpPort \<Rightarrow> if 0 \<le> UdpPort then Some (port_addr UdpPort) else None)
      else None)"

text \<open>
  The optional registration: \<open>None\<close> if the option is there but is no registration handle.
  \<open>regs\<close> are the live registration contexts.
\<close>

definition parse_registration ::
    "enif \<Rightarrow> (nat \<Rightarrow> QuicerRegistrationCTX option) \<Rightarrow> eterm \<Rightarrow> QuicerRegistrationCTX option option" where
  "parse_registration E regs options =
     (case enif_get_map_value E options ATOM_QUIC_REGISTRATION of
        None \<Rightarrow> Some None
      | Some tmp_term \<Rightarrow>
          (case enif_get_reg E tmp_term of
             None \<Rightarrow> None
           | Some a \<Rightarrow> (case regs a of None \<Rightarrow> None | Some r \<Rightarrow> Some (Some r))))"

subsection \<open>Credentials (\<open>quicer_tls.c\<close>)\<close>

definition zero_cred :: QUIC_CREDENTIAL_CONFIG where
  "zero_cred = \<lparr>cred_Type = QUIC_CREDENTIAL_TYPE_NONE, cred_Flags = 0\<rparr>"

definition parse_cert_options ::
    "enif \<Rightarrow> eterm \<Rightarrow> QUIC_CREDENTIAL_CONFIG \<Rightarrow> (bool \<times> QUIC_CREDENTIAL_CONFIG) option" where
  "parse_cert_options E options CredConfig =
     (case str_from_map E ATOM_CERTFILE options (PATH_MAX + 1) of
        None \<Rightarrow> None
      | Some None \<Rightarrow> Some (False, CredConfig)
      | Some (Some certfile) \<Rightarrow>
     (case str_from_map E ATOM_KEYFILE options (PATH_MAX + 1) of
        None \<Rightarrow> None
      | Some None \<Rightarrow> Some (False, CredConfig)
      | Some (Some keyfile) \<Rightarrow>
     (case enif_get_map_value E options ATOM_PASSWORD of
        Some tmp_term \<Rightarrow>
          (case str_from_map E ATOM_PASSWORD options 256 of
             None \<Rightarrow> None
           | Some None \<Rightarrow> Some (False, CredConfig)
           | Some (Some password) \<Rightarrow>
               if \<not> alloc_ok E ''QUICER_CERTIFICATE_FILE'' then Some (False, CredConfig)
               else Some (True, CredConfig\<lparr>cred_Type :=
                      QUIC_CREDENTIAL_TYPE_CERTIFICATE_FILE_PROTECTED certfile keyfile password\<rparr>))
      | None \<Rightarrow>
          if \<not> alloc_ok E ''QUICER_CERTIFICATE_FILE'' then Some (False, CredConfig)
          else Some (True, CredConfig\<lparr>cred_Type := QUIC_CREDENTIAL_TYPE_CERTIFICATE_FILE certfile keyfile\<rparr>))))"

definition add_flag :: "u32 \<Rightarrow> QUIC_CREDENTIAL_CONFIG \<Rightarrow> QUIC_CREDENTIAL_CONFIG" where
  "add_flag f c = c\<lparr>cred_Flags := cred_Flags c OR f\<rparr>"

definition parse_verify_options ::
    "enif \<Rightarrow> msquic \<Rightarrow> eterm \<Rightarrow> QUIC_CREDENTIAL_CONFIG \<Rightarrow> bool \<Rightarrow> bool \<times> QUIC_CREDENTIAL_CONFIG" where
  "parse_verify_options E M options CredConfig is_server =
     (True,
      if \<not> load_verify E options False
      then add_flag (QUIC_CREDENTIAL_FLAG_NO_CERTIFICATE_VALIDATION M) CredConfig
      else if is_server
      then add_flag (QUIC_CREDENTIAL_FLAG_REQUIRE_CLIENT_AUTHENTICATION M) CredConfig
      else
        (let CredConfig =
               (if enif_get_map_value E options ATOM_CACERTFILE \<noteq> None
                then add_flag (QUIC_CREDENTIAL_FLAG_INDICATE_CERTIFICATE_RECEIVED M)
                       (add_flag (QUIC_CREDENTIAL_FLAG_NO_CERTIFICATE_VALIDATION M) CredConfig)
                else CredConfig)
         in add_flag (QUIC_CREDENTIAL_FLAG_USE_TLS_BUILTIN_CERTIFICATE_VALIDATION M) CredConfig))"

text \<open>The optional \<open>cacertfile\<close>: an inner \<open>None\<close> of the first component is a refusal.\<close>

definition parse_cacertfile_option :: "enif \<Rightarrow> eterm \<Rightarrow> string option option option" where
  "parse_cacertfile_option E options =
     (if \<not> enif_is_map E options then Some None
      else case enif_get_map_value E options ATOM_CACERTFILE of
        None \<Rightarrow> Some (Some None)
      | Some ecacertfile \<Rightarrow>
          (case str_from_map E ATOM_CACERTFILE options (PATH_MAX + 1) of
             None \<Rightarrow> None
           | Some None \<Rightarrow> Some None
           | Some (Some tmp) \<Rightarrow> Some (Some (Some tmp))))"

definition build_trustedstore :: "openssl \<Rightarrow> string option \<Rightarrow> nat option \<times> eff list" where
  "build_trustedstore X cafile =
     (case cafile of
        None \<Rightarrow> (None, [])
      | Some f \<Rightarrow>
     (case X509_STORE_new X of
        None \<Rightarrow> (None, [])
      | Some store \<Rightarrow>
          if \<not> X509_STORE_add_lookup X store then (None, [Free (MX509Store store)])
          else if \<not> X509_LOOKUP_load_file X store f then (None, [Free (MX509Store store)])
          else (Some store, [])))"

definition free_certificate :: "QUIC_CREDENTIAL_CONFIG \<Rightarrow> eff list" where
  "free_certificate cc =
     (case cred_Type cc of
        QUIC_CREDENTIAL_TYPE_CERTIFICATE_FILE c k \<Rightarrow> [Free (MString c), Free (MString k), Free MCertFile]
      | QUIC_CREDENTIAL_TYPE_CERTIFICATE_FILE_PROTECTED c k p \<Rightarrow>
          [Free (MString c), Free (MString k), Free (MString p), Free MCertFile]
      | QUIC_CREDENTIAL_TYPE_NONE \<Rightarrow> [])"

definition parse_sslkeylogfile_option ::
    "enif \<Rightarrow> msquic \<Rightarrow> eterm \<Rightarrow> QuicerConnCTX \<Rightarrow> (QuicerConnCTX \<times> eff list) option" where
  "parse_sslkeylogfile_option E M eoptions c_ctx =
     (case str_from_map E ATOM_SSL_KEYLOGFILE_NAME eoptions (PATH_MAX + 1) of
        None \<Rightarrow> None
      | Some None \<Rightarrow> Some (c_ctx, [])
      | Some (Some keylogfile) \<Rightarrow>
          if \<not> alloc_ok E ''QUICER_TLS_SECRETS'' then Some (c_ctx, [])
          else
            (let call = SetParam (Connection c_ctx) QUIC_PARAM_CONN_TLS_SECRETS (sizeof_tls_secrets M) BufTlsSecrets
             in if quic_failed M (quic_status_of M call)
                then Some (c_ctx\<lparr>TlsSecrets := None, ssl_keylogfile := None\<rparr>,
                       [Quic call, Free (MKeylogFile keylogfile), Free MTlsSecrets])
                else Some (c_ctx\<lparr>TlsSecrets := Some (), ssl_keylogfile := Some keylogfile\<rparr>, [Quic call])))"

subsection \<open>Loading a configuration (\<open>quicer_config.c\<close>)\<close>

text \<open>
  The result is the status term, what \<open>*Configuration\<close> is afterwards, and the effects. A
  configuration that was opened but whose credentials are refused stays in
  \<open>*Configuration\<close>.
\<close>

definition ServerLoadConfiguration ::
    "enif \<Rightarrow> msquic \<Rightarrow> GLOBALS \<Rightarrow> eterm \<Rightarrow> hquic option \<Rightarrow> hquic option \<Rightarrow> QUIC_CREDENTIAL_CONFIG \<Rightarrow>
     (eterm \<times> hquic option \<times> eff list) option" where
  "ServerLoadConfiguration E M G option Registration conf CredConfig =
     (if \<not> isRegistered G \<and> Registration = GRegistration G then Some (ATOM_REG_FAILED, conf, [])
      else case create_settings E M option of
        None \<Rightarrow> Some (ATOM_BADARG, conf, [])
      | Some Settings \<Rightarrow>
     (case load_alpn E option of
        None \<Rightarrow> None
      | Some None \<Rightarrow> Some (ATOM_ALPN, conf, [])
      | Some (Some alpns) \<Rightarrow> stale_read E
     (let open_call = ConfigurationOpen Registration alpns Settings
      in if quic_failed M (quic_status_of M open_call)
         then Some (atom_status M (quic_status_of M open_call), conf, [Quic open_call])
         else
           (let conf = Some (quic_handle_of M open_call);
                load_call = ConfigurationLoadCredential conf CredConfig
            in if quic_failed M (quic_status_of M load_call)
               then Some (atom_status M (quic_status_of M load_call), conf, [Quic open_call, Quic load_call])
               else Some (ATOM_OK, conf, [Quic open_call, Quic load_call])))))"

definition ClientLoadConfiguration ::
    "enif \<Rightarrow> msquic \<Rightarrow> GLOBALS \<Rightarrow> eterm \<Rightarrow> hquic option \<Rightarrow> hquic option \<Rightarrow>
     (eterm \<times> hquic option \<times> eff list) option" where
  "ClientLoadConfiguration E M G options Registration conf =
     (if \<not> isRegistered G \<and> Registration = GRegistration G then Some (ATOM_REG_FAILED, conf, [])
      else case create_settings E M options of
        None \<Rightarrow> Some (ATOM_BADARG, conf, [])
      | Some Settings \<Rightarrow>
     (case parse_cert_options E options (add_flag (QUIC_CREDENTIAL_FLAG_CLIENT M) zero_cred) of
        None \<Rightarrow> None
      | Some (_, CredConfig) \<Rightarrow>
     (case parse_verify_options E M options CredConfig False of (ok, CredConfig) \<Rightarrow>
      if \<not> ok then Some (ERROR_TUPLE_2 ATOM_VERIFY, conf, [])
      else case load_alpn E options of
        None \<Rightarrow> None
      | Some None \<Rightarrow> Some (ATOM_ALPN, conf, free_certificate CredConfig)
      | Some (Some alpns) \<Rightarrow> stale_read E
     (let open_call = ConfigurationOpen Registration alpns Settings
      in if quic_failed M (quic_status_of M open_call)
         then Some (atom_status M (quic_status_of M open_call), conf,
                [Quic open_call] @ free_certificate CredConfig)
         else
           (let conf = Some (quic_handle_of M open_call);
                load_call = ConfigurationLoadCredential conf CredConfig;
                ret = (if quic_failed M (quic_status_of M load_call)
                       then atom_status M (quic_status_of M load_call) else ATOM_OK)
            in Some (ret, conf, [Quic open_call, Quic load_call] @ free_certificate CredConfig))))))"

definition ReloadCertConfig :: "msquic \<Rightarrow> hquic option \<Rightarrow> QUIC_CREDENTIAL_CONFIG \<Rightarrow> bool \<times> eff list" where
  "ReloadCertConfig M conf CredConfig =
     (\<not> quic_failed M (quic_status_of M (ConfigurationLoadCredential conf CredConfig)),
      [Quic (ConfigurationLoadCredential conf CredConfig)])"

subsection \<open>Facts\<close>

lemma strlen_le: "strlen s \<le> length s"
  by (simp add: strlen_def length_takeWhile_le)

lemma strlen_no_nul: "CHR 0x00 \<notin> set s \<Longrightarrow> strlen s = length s"
  by (induction s) (auto simp: strlen_def)

text \<open>The strings of a list of terms, if each of them is one that fits a buffer.\<close>

definition reads_as :: "enif \<Rightarrow> eterm \<Rightarrow> string \<Rightarrow> bool" where
  "reads_as E t s \<longleftrightarrow> enif_get_string E t PATH_MAX = (int (length s) + 1, s) \<and> CHR 0x00 \<notin> set s"

text \<open>What the shared buffer holds after the loop: the last string first.\<close>

lemma load_alpn_loop_reads:
  assumes "list_all2 (reads_as E) ts ss" "i + length ts \<le> MAX_ALPN"
  shows "load_alpn_loop E i ts str lens =
     Some (Some (foldl write_str str ss, lens @ map length ss))"
  using assms
proof (induction ts ss arbitrary: i str lens rule: list_all2_induct)
  case Nil
  then show ?case by simp
next
  case (Cons t ts s ss)
  then show ?case
    using Cons.IH [of "Suc i"] by (simp add: reads_as_def strlen_no_nul)
qed

lemma take_write_str: "n \<le> length s \<Longrightarrow> take n (write_str str s) = take n s"
  by (simp add: write_str_def)

lemma frees_free_certificate_client:
  "frees (free_certificate c) = (case cred_Type c of
     QUIC_CREDENTIAL_TYPE_NONE \<Rightarrow> []
   | QUIC_CREDENTIAL_TYPE_CERTIFICATE_FILE a b \<Rightarrow> [MString a, MString b, MCertFile]
   | QUIC_CREDENTIAL_TYPE_CERTIFICATE_FILE_PROTECTED a b p \<Rightarrow> [MString a, MString b, MString p, MCertFile])"
  by (simp add: free_certificate_def split: QUIC_CREDENTIAL_TYPE.split)

lemma free_certificate_no_locks [simp]:
  "no_locks (free_certificate c)" "releases (free_certificate c) = []"
  "quic_calls (free_certificate c) = []" "msgs (free_certificate c) = []" "keeps (free_certificate c) = []"
  by (simp_all add: free_certificate_def split: QUIC_CREDENTIAL_TYPE.split)

text \<open>
  What loading a configuration may do: it calls the stack only to open a configuration and then
  to load credentials into the one it opened, and \<open>ok\<close> means that both succeeded.
\<close>

definition load_contract :: "msquic \<Rightarrow> hquic option \<Rightarrow> hquic option \<Rightarrow> eterm \<times> hquic option \<times> eff list \<Rightarrow> bool" where
  "load_contract M reg conf r \<longleftrightarrow>
     (case r of (ret, conf', es) \<Rightarrow>
        no_locks es \<and> releases es = [] \<and> keeps es = [] \<and> msgs es = [] \<and>
        (if conf' = conf \<and> (\<forall>h c. ConfigurationLoadCredential h c \<notin> set (quic_calls es))
         then ret \<noteq> ATOM_OK \<or> (\<exists>c. quic_failed M c \<and> ret = atom_status M c)
         else \<exists>alpns S cred. quic_calls es =
                [ConfigurationOpen reg alpns S, ConfigurationLoadCredential conf' cred] \<and>
              conf' = Some (quic_handle_of M (ConfigurationOpen reg alpns S)) \<and>
              (ret = ATOM_OK \<or> (\<exists>c. quic_failed M c \<and> ret = atom_status M c))))"

lemma server_load_contract:
  "post (ServerLoadConfiguration E M G opts reg conf cred) (load_contract M reg conf)"
  unfolding ServerLoadConfiguration_def
  by (intro wp) (auto simp: load_contract_def)

lemma client_load_contract:
  "post (ClientLoadConfiguration E M G opts reg conf) (load_contract M reg conf)"
  unfolding ClientLoadConfiguration_def
  by (intro wp) (auto simp: load_contract_def)

subsection \<open>Properties\<close>

text \<open>
  C38: Of a list of ALPN names only the last reaches the stack intact: all entries share one
  buffer, so the stack sees, for every name that is no longer than the last one, as many
  characters of the \<open>last\<close> name as that name has. A list of one name works.
\<close>

theorem alpn_names_aliased:
  assumes "enif_get_map_value E options ATOM_ALPN = Some t" "enif_get_list E t = Some ts"
    "list_all2 (reads_as E) ts (ss @ [s])" "length ts \<le> MAX_ALPN"
  shows "\<exists>bufs. load_alpn E options = Some (Some bufs) \<and> length bufs = length ss + 1 \<and>
    last bufs = s \<and>
    (\<forall>i < length ss. length (ss ! i) \<le> length s \<longrightarrow> bufs ! i = take (length (ss ! i)) s)"
proof -
  have loop: "load_alpn_loop E 0 ts [] [] =
      Some (Some (write_str (foldl write_str [] ss) s, map length (ss @ [s])))"
    using load_alpn_loop_reads [OF assms(3), of 0 "[]" "[]"] assms(4) by simp
  have "ts \<noteq> []"
    using assms(3) by (auto simp: list_all2_Nil)
  then show ?thesis
    using loop assms(1,2) by (simp add: load_alpn_def take_write_str nth_append)
qed

theorem alpn_names_aliased_witness:
  "load_alpn beam (EMap [(ATOM_ALPN, EList [EStr ''h3'', EStr ''hq''])]) = Some (Some [''hq'', ''hq''])"
proof -
  have r: "list_all2 (reads_as beam) [EStr ''h3'', EStr ''hq''] ([''h3''] @ [''hq''])"
    by (simp add: reads_as_def beam_def term_string_def PATH_MAX_def char_of_def bit_0)
  obtain bufs where "load_alpn beam (EMap [(ATOM_ALPN, EList [EStr ''h3'', EStr ''hq''])]) = Some (Some bufs)"
    "length bufs = 2" "last bufs = ''hq''" "bufs ! 0 = ''hq''"
    using alpn_names_aliased [OF _ _ r, of "EMap [(ATOM_ALPN, EList [EStr ''h3'', EStr ''hq''])]"
        "EList [EStr ''h3'', EStr ''hq'']"]
    by (auto simp: beam_def MAX_ALPN_def)
  then show ?thesis
    by (cases bufs; cases "tl bufs") auto
qed

text \<open>
  C32: A listen port is cut down to 16 bits: the address term of a port number is that number
  modulo 65536, so for a valid port parsing and printing give the port back, and a number that
  is no port is not refused.
\<close>

theorem listen_port_roundtrip:
  assumes "enif_get_int E t = Some p" "0 \<le> p" "enif_is_integer E t" "\<not> enif_is_list E t"
  shows "\<exists>addr ip. parse_listen_on E M t = Some addr \<and> addr2eterm addr = ETuple [ip, EInt (p mod 65536)]"
proof -
  have "uint (word_of_int (p div 256) :: u8) * 256 + uint (word_of_int p :: u8) = p mod 65536"
    by (simp add: uint_word_of_int zmod_zmult2_eq [of 256 p 256, simplified])
  moreover have "0 \<le> p mod 65536" "p mod 65536 < 2 ^ 31"
    using pos_mod_bound [of 65536 p] by auto
  ultimately show ?thesis
    using assms by (simp add: parse_listen_on_def port_addr_def addr2eterm_def ntohs_def port_range)
qed

theorem listen_port_roundtrip_witness:
  "\<exists>addr ip. parse_listen_on beam msquic0 (EInt 65979) = Some addr \<and> addr2eterm addr = ETuple [ip, EInt 443]"
  using listen_port_roundtrip [of beam "EInt 65979" 65979 msquic0] by (simp add: beam_def)

end
