(* ===== verification/Quicer_Opts.thy ===== *)
theory Quicer_Opts
  imports Quicer_Tls
begin

section \<open>Options of open handles (\<open>quicer_config.c\<close>)\<close>

text \<open>
  \<open>getopt\<close> and \<open>setopt\<close>: the translation of parameter buffers into terms, the option tables of
  each kind of handle, and the dispatch on the handle. An option is an atom; a level other than
  \<open>false\<close> addresses the configuration or the TLS session behind the handle.
\<close>

subsection \<open>Terms for what the stack reports\<close>

datatype QUICER_PARAM_HANDLE_TYPE =
    QUICER_PARAM_HANDLE_TYPE_REG
  | QUICER_PARAM_HANDLE_TYPE_CONFIG
  | QUICER_PARAM_HANDLE_TYPE_LISTENER
  | QUICER_PARAM_HANDLE_TYPE_CONN
  | QUICER_PARAM_HANDLE_TYPE_STREAM
  | QUICER_PARAM_HANDLE_TYPE_TLS
  | QUICER_PARAM_HANDLE_TYPE_GLOBAL

definition atom_proto_vsn :: "QUIC_TLS_PROTOCOL_VERSION \<Rightarrow> eterm" where
  "atom_proto_vsn vsn = (if vsn = QUIC_TLS_PROTOCOL_1_3 then ATOM_TLS_VSN_1_3 else ATOM_NONE)"

fun atom_cipher_algorithm :: "QUIC_CIPHER_ALGORITHM \<Rightarrow> eterm" where
  "atom_cipher_algorithm QUIC_CIPHER_ALGORITHM_NONE = ATOM_NONE"
| "atom_cipher_algorithm QUIC_CIPHER_ALGORITHM_AES_128 = ATOM_AES_128"
| "atom_cipher_algorithm QUIC_CIPHER_ALGORITHM_AES_256 = ATOM_AES_256"
| "atom_cipher_algorithm QUIC_CIPHER_ALGORITHM_CHACHA20 = ATOM_CHACHA20"
| "atom_cipher_algorithm (QUIC_CIPHER_ALGORITHM_OTHER _) = ATOM_UNDEFINED"

fun atom_hash_algorithm :: "QUIC_HASH_ALGORITHM \<Rightarrow> eterm" where
  "atom_hash_algorithm QUIC_HASH_ALGORITHM_NONE = ATOM_NONE"
| "atom_hash_algorithm QUIC_HASH_ALGORITHM_SHA_256 = ATOM_SHA_256"
| "atom_hash_algorithm QUIC_HASH_ALGORITHM_SHA_384 = ATOM_SHA_384"
| "atom_hash_algorithm (QUIC_HASH_ALGORITHM_OTHER _) = ATOM_UNDEFINED"

definition atom_key_exchange_algorithm :: "QUIC_KEY_EXCHANGE_ALGORITHM \<Rightarrow> eterm" where
  "atom_key_exchange_algorithm alg =
     (if alg = QUIC_KEY_EXCHANGE_ALGORITHM_NONE then ATOM_NONE else ATOM_UNDEFINED)"

fun atom_cipher_suite :: "QUIC_CIPHER_SUITE \<Rightarrow> eterm" where
  "atom_cipher_suite QUIC_CIPHER_SUITE_TLS_AES_128_GCM_SHA256 = ATOM_AES_128_GCM_SHA256"
| "atom_cipher_suite QUIC_CIPHER_SUITE_TLS_AES_256_GCM_SHA384 = ATOM_AES_256_GCM_SHA384"
| "atom_cipher_suite QUIC_CIPHER_SUITE_TLS_CHACHA20_POLY1305_SHA256 = ATOM_CHACHA20_POLY1305_SHA256"
| "atom_cipher_suite (QUIC_CIPHER_SUITE_OTHER _) = ATOM_UNDEFINED"

definition PropTupleStrInt :: "string \<Rightarrow> u64 \<Rightarrow> eterm" where
  "PropTupleStrInt S I = ETuple [EStr S, enif_make_uint64 I]"

definition PropTupleAtomInt :: "eterm \<Rightarrow> u64 \<Rightarrow> eterm" where
  "PropTupleAtomInt A I = ETuple [A, enif_make_uint64 I]"

definition PropTupleAtomBool :: "eterm \<Rightarrow> u64 \<Rightarrow> eterm" where
  "PropTupleAtomBool A I = ETuple [A, if 0 < I then ATOM_TRUE else ATOM_FALSE]"

text \<open>The statistics block: the names in the order of the list the code builds.\<close>

definition statistics_names :: "string list" where
  "statistics_names =
     [''Timing.Start'', ''Timing.InitialFlightEnd'', ''Timing.HandshakeFlightEnd'', ''Send.PathMtu'',
      ''Send.TotalPackets'', ''Send.RetransmittablePackets'', ''Send.SuspectedLostPackets'',
      ''Send.SpuriousLostPackets'', ''Send.TotalBytes'', ''Send.TotalStreamBytes'',
      ''Send.CongestionCount'', ''Send.PersistentCongestionCount'', ''Recv.TotalPackets'',
      ''Recv.ReorderedPackets'', ''Recv.DroppedPackets'', ''Recv.DuplicatePackets'',
      ''Recv.TotalBytes'', ''Recv.TotalStreamBytes'', ''Recv.DecryptionFailures'',
      ''Recv.ValidAckFrames'']"

definition settings_ints :: "(eterm \<times> setting) list" where
  "settings_ints =
     [(ATOM_QUIC_SETTINGS_MaxBytesPerKey, S_MaxBytesPerKey),
      (ATOM_QUIC_SETTINGS_HandshakeIdleTimeoutMs, S_HandshakeIdleTimeoutMs),
      (ATOM_QUIC_SETTINGS_IdleTimeoutMs, S_IdleTimeoutMs),
      (ATOM_QUIC_SETTINGS_TlsClientMaxSendBuffer, S_TlsClientMaxSendBuffer),
      (ATOM_QUIC_SETTINGS_TlsServerMaxSendBuffer, S_TlsServerMaxSendBuffer),
      (ATOM_QUIC_SETTINGS_StreamRecvWindowDefault, S_StreamRecvWindowDefault),
      (ATOM_QUIC_SETTINGS_StreamRecvBufferDefault, S_StreamRecvBufferDefault),
      (ATOM_QUIC_SETTINGS_ConnFlowControlWindow, S_ConnFlowControlWindow),
      (ATOM_QUIC_SETTINGS_MaxWorkerQueueDelayUs, S_MaxWorkerQueueDelayUs),
      (ATOM_QUIC_SETTINGS_MaxStatelessOperations, S_MaxStatelessOperations),
      (ATOM_QUIC_SETTINGS_InitialWindowPackets, S_InitialWindowPackets),
      (ATOM_QUIC_SETTINGS_SendIdleTimeoutMs, S_SendIdleTimeoutMs),
      (ATOM_QUIC_SETTINGS_InitialRttMs, S_InitialRttMs),
      (ATOM_QUIC_SETTINGS_MaxAckDelayMs, S_MaxAckDelayMs),
      (ATOM_QUIC_SETTINGS_DisconnectTimeoutMs, S_DisconnectTimeoutMs),
      (ATOM_QUIC_SETTINGS_KeepAliveIntervalMs, S_KeepAliveIntervalMs),
      (ATOM_QUIC_SETTINGS_PeerBidiStreamCount, S_PeerBidiStreamCount),
      (ATOM_QUIC_SETTINGS_PeerUnidiStreamCount, S_PeerUnidiStreamCount),
      (ATOM_QUIC_SETTINGS_MaxOperationsPerDrain, S_MaxOperationsPerDrain)]"

definition settings_bools :: "(eterm \<times> setting) list" where
  "settings_bools =
     [(ATOM_QUIC_SETTINGS_SendBufferingEnabled, S_SendBufferingEnabled),
      (ATOM_QUIC_SETTINGS_PacingEnabled, S_PacingEnabled),
      (ATOM_QUIC_SETTINGS_MigrationEnabled, S_MigrationEnabled),
      (ATOM_QUIC_SETTINGS_DatagramReceiveEnabled, S_DatagramReceiveEnabled)]"

definition settings_term :: "QUIC_SETTINGS \<Rightarrow> eterm" where
  "settings_term S = EList
     (map (\<lambda>(a, s). PropTupleAtomInt a (Val S s)) settings_ints @
      map (\<lambda>(a, s). PropTupleAtomBool a (Val S s)) settings_bools @
      [PropTupleAtomInt ATOM_QUIC_SETTINGS_ServerResumptionLevel (Val S S_ServerResumptionLevel)])"

text \<open>
  The parameters whose value is an integer, an address, a flag or a string of bytes, by the kind
  of handle they are asked of.
\<close>

definition int_params :: "(QUICER_PARAM_HANDLE_TYPE \<times> quic_param) list" where
  "int_params =
     [(QUICER_PARAM_HANDLE_TYPE_STREAM, QUIC_PARAM_STREAM_ID),
      (QUICER_PARAM_HANDLE_TYPE_STREAM, QUIC_PARAM_STREAM_0RTT_LENGTH),
      (QUICER_PARAM_HANDLE_TYPE_STREAM, QUIC_PARAM_STREAM_IDEAL_SEND_BUFFER_SIZE),
      (QUICER_PARAM_HANDLE_TYPE_CONN, QUIC_PARAM_CONN_IDEAL_PROCESSOR),
      (QUICER_PARAM_HANDLE_TYPE_CONN, QUIC_PARAM_CONN_LOCAL_BIDI_STREAM_COUNT),
      (QUICER_PARAM_HANDLE_TYPE_CONN, QUIC_PARAM_CONN_LOCAL_UNIDI_STREAM_COUNT),
      (QUICER_PARAM_HANDLE_TYPE_CONN, QUIC_PARAM_CONN_QUIC_VERSION),
      (QUICER_PARAM_HANDLE_TYPE_CONN, QUIC_PARAM_CONN_LOCAL_INTERFACE),
      (QUICER_PARAM_HANDLE_TYPE_CONN, QUIC_PARAM_CONN_STREAM_SCHEDULING_SCHEME),
      (QUICER_PARAM_HANDLE_TYPE_GLOBAL, QUIC_PARAM_GLOBAL_LOAD_BALACING_MODE),
      (QUICER_PARAM_HANDLE_TYPE_GLOBAL, QUIC_PARAM_GLOBAL_RETRY_MEMORY_PERCENT)]"

definition settings_params :: "(QUICER_PARAM_HANDLE_TYPE \<times> quic_param) list" where
  "settings_params =
     [(QUICER_PARAM_HANDLE_TYPE_CONN, QUIC_PARAM_CONN_SETTINGS),
      (QUICER_PARAM_HANDLE_TYPE_CONFIG, QUIC_PARAM_CONFIGURATION_SETTINGS),
      (QUICER_PARAM_HANDLE_TYPE_GLOBAL, QUIC_PARAM_GLOBAL_SETTINGS)]"

definition addr_params :: "(QUICER_PARAM_HANDLE_TYPE \<times> quic_param) list" where
  "addr_params =
     [(QUICER_PARAM_HANDLE_TYPE_CONN, QUIC_PARAM_CONN_REMOTE_ADDRESS),
      (QUICER_PARAM_HANDLE_TYPE_CONN, QUIC_PARAM_CONN_LOCAL_ADDRESS),
      (QUICER_PARAM_HANDLE_TYPE_LISTENER, QUIC_PARAM_LISTENER_LOCAL_ADDRESS)]"

definition bool_params :: "(QUICER_PARAM_HANDLE_TYPE \<times> quic_param) list" where
  "bool_params =
     [(QUICER_PARAM_HANDLE_TYPE_CONN, QUIC_PARAM_CONN_DISABLE_1RTT_ENCRYPTION),
      (QUICER_PARAM_HANDLE_TYPE_CONN, QUIC_PARAM_CONN_SHARE_UDP_BINDING),
      (QUICER_PARAM_HANDLE_TYPE_CONN, QUIC_PARAM_CONN_DATAGRAM_SEND_ENABLED),
      (QUICER_PARAM_HANDLE_TYPE_CONN, QUIC_PARAM_CONN_DATAGRAM_RECEIVE_ENABLED),
      (QUICER_PARAM_HANDLE_TYPE_CONN, QUIC_PARAM_CONN_PEER_CERTIFICATE_VALID)]"

definition binary_params :: "(QUICER_PARAM_HANDLE_TYPE \<times> quic_param) list" where
  "binary_params =
     [(QUICER_PARAM_HANDLE_TYPE_LISTENER, QUIC_PARAM_LISTENER_CIBIR_ID),
      (QUICER_PARAM_HANDLE_TYPE_TLS, QUIC_PARAM_TLS_NEGOTIATED_ALPN),
      (QUICER_PARAM_HANDLE_TYPE_GLOBAL, QUIC_PARAM_GLOBAL_LIBRARY_GIT_HASH),
      (QUICER_PARAM_HANDLE_TYPE_CONN, QUIC_PARAM_CONN_CLOSE_REASON_PHRASE)]"

definition listener_stats_term :: "u64 \<Rightarrow> u64 \<Rightarrow> u64 \<Rightarrow> eterm" where
  "listener_stats_term accepted rejected dropped = EList
     [PropTupleStrInt ''total_accepted_connection'' accepted,
      PropTupleStrInt ''total_rejected_connection'' rejected,
      PropTupleStrInt ''binding_recv_dropped_packets'' dropped]"

text \<open>
  The length the stack reports for what it wrote decides how an integer is read. A buffer that
  does not hold what the code reads from it is a misuse of the stack, outside the model. When
  the binary cannot be allocated the copy goes through NULL.
\<close>

definition encode_parm_to_eterm ::
    "enif \<Rightarrow> QUICER_PARAM_HANDLE_TYPE \<Rightarrow> quic_param \<Rightarrow> quic_buf \<Rightarrow> eterm option" where
  "encode_parm_to_eterm E Type Param Buffer =
     (if Type = QUICER_PARAM_HANDLE_TYPE_CONN \<and> Param = QUIC_PARAM_CONN_STATISTICS
      then (case Buffer of
              BufStatistics vs \<Rightarrow> Some (SUCCESS (EList (map2 PropTupleStrInt statistics_names vs)))
            | _ \<Rightarrow> Some (ERROR_TUPLE_2 ATOM_ERROR_NOT_FOUND))
      else if (Type, Param) \<in> set settings_params
      then (case Buffer of BufSettings S \<Rightarrow> Some (SUCCESS (settings_term S)) | _ \<Rightarrow> None)
      else if (Type, Param) \<in> set int_params
      then (case Buffer of
              BufU64 w \<Rightarrow> Some (SUCCESS (ETERM_UINT_64 (uint w)))
            | BufU32 w \<Rightarrow> Some (SUCCESS (ETERM_INT (uint w)))
            | BufU16 w \<Rightarrow> Some (SUCCESS (ETERM_INT (uint w)))
            | _ \<Rightarrow> Some (ERROR_TUPLE_2 ATOM_ERROR_NOT_FOUND))
      else if (Type, Param) \<in> set addr_params
      then (case Buffer of BufAddr a \<Rightarrow> Some (SUCCESS (addr2eterm a)) | _ \<Rightarrow> None)
      else if (Type, Param) \<in> set bool_params
      then (case Buffer of
              BufBool b \<Rightarrow> Some (SUCCESS (ETERM_BOOL (if b then 1 else 0)))
            | BufU8 w \<Rightarrow> Some (SUCCESS (ETERM_BOOL w))
            | _ \<Rightarrow> None)
      else if (Type, Param) \<in> set binary_params
      then (case Buffer of
              BufBytes b \<Rightarrow> if alloc_ok E ''binary'' then Some (SUCCESS (EBin b)) else None
            | _ \<Rightarrow> None)
      else if Type = QUICER_PARAM_HANDLE_TYPE_LISTENER \<and> Param = QUIC_PARAM_LISTENER_STATS
      then (case Buffer of
              BufListenerStats a r d \<Rightarrow> Some (SUCCESS (listener_stats_term a r d))
            | _ \<Rightarrow> None)
      else Some (ERROR_TUPLE_2 ATOM_ERROR_NOT_FOUND))"

subsection \<open>Asking and setting one parameter\<close>

type_synonym opt_nif = "(eterm \<times> eff list) option"

definition get_param ::
    "enif \<Rightarrow> msquic \<Rightarrow> QUICER_PARAM_HANDLE_TYPE \<Rightarrow> hquic option \<Rightarrow> quic_param \<Rightarrow> u32 \<Rightarrow> opt_nif" where
  "get_param E M Type h Param len =
     (let call = GetParam h Param len
      in if quic_failed M (quic_status_of M call)
         then Some (ERROR_TUPLE_2 (atom_status M (quic_status_of M call)), [Quic call])
         else map_option (\<lambda>t. (t, [Quic call])) (encode_parm_to_eterm E Type Param (quic_value_of M call)))"

definition set_param :: "msquic \<Rightarrow> hquic option \<Rightarrow> quic_param \<Rightarrow> u32 \<Rightarrow> quic_buf \<Rightarrow> eterm \<times> eff list" where
  "set_param M h Param len buf =
     (let call = SetParam h Param len buf
      in (if quic_failed M (quic_status_of M call)
          then ERROR_TUPLE_2 (atom_status M (quic_status_of M call)) else ATOM_OK, [Quic call]))"

subsection \<open>Configuration, TLS and global options\<close>

definition get_config_opt :: "enif \<Rightarrow> msquic \<Rightarrow> hquic option \<Rightarrow> eterm \<Rightarrow> opt_nif" where
  "get_config_opt E M Handle optname =
     (if optname = ATOM_QUIC_PARAM_CONFIGURATION_SETTINGS
      then get_param E M QUICER_PARAM_HANDLE_TYPE_CONFIG Handle QUIC_PARAM_CONFIGURATION_SETTINGS (sizeof_settings M)
      else Some (ERROR_TUPLE_2 ATOM_PARAM_ERROR, []))"

definition set_config_opt :: "enif \<Rightarrow> msquic \<Rightarrow> hquic option \<Rightarrow> eterm \<Rightarrow> eterm \<Rightarrow> opt_nif" where
  "set_config_opt E M Handle optname optval =
     (if optname = ATOM_QUIC_PARAM_CONFIGURATION_SETTINGS
      then (case create_settings E M optval of
              None \<Rightarrow> Some (ERROR_TUPLE_2 ATOM_BADARG, [])
            | Some S \<Rightarrow> Some (set_param M Handle QUIC_PARAM_CONFIGURATION_SETTINGS (sizeof_settings M) (BufSettings S)))
      else Some (ERROR_TUPLE_2 ATOM_PARAM_ERROR, []))"

definition handshake_info_term :: "QUIC_HANDSHAKE_INFO \<Rightarrow> eterm" where
  "handshake_info_term info = EMap (zip
     [ATOM_TLS_PROTOCOL_VERSION, ATOM_CIPHER_ALGORITHM, ATOM_CIPHER_STRENGTH, ATOM_HASH_ALGORITHM,
      ATOM_HASH_STRENGTH, ATOM_KEY_EXCHANGE_ALGORITHM, ATOM_KEY_EXCHANGE_STRENGTH, ATOM_CIPHER_SUITE]
     [atom_proto_vsn (TlsProtocolVersion info),
      atom_cipher_algorithm (CipherAlgorithm info),
      enif_make_uint64 (word_of_int (CipherStrength info)),
      atom_hash_algorithm (HashAlgorithm info),
      enif_make_uint64 (word_of_int (HashStrength info)),
      atom_key_exchange_algorithm (KeyExchangeAlgorithm info),
      enif_make_uint64 (word_of_int (KeyExchangeStrength info)),
      atom_cipher_suite (CipherSuite info)])"

definition get_tls_opt :: "enif \<Rightarrow> msquic \<Rightarrow> hquic option \<Rightarrow> eterm \<Rightarrow> opt_nif" where
  "get_tls_opt E M Handle optname =
     (if optname = ATOM_QUIC_PARAM_TLS_HANDSHAKE_INFO
      then
        (let call = GetParam Handle QUIC_PARAM_TLS_HANDSHAKE_INFO (sizeof_handshake_info M)
         in if quic_failed M (quic_status_of M call)
            then Some (ERROR_TUPLE_2 (atom_status M (quic_status_of M call)), [Quic call])
            else (case quic_value_of M call of
                    BufHandshakeInfo info \<Rightarrow> Some (SUCCESS (handshake_info_term info), [Quic call])
                  | _ \<Rightarrow> None))
      else if optname = ATOM_QUIC_PARAM_TLS_NEGOTIATED_ALPN
      then get_param E M QUICER_PARAM_HANDLE_TYPE_TLS Handle QUIC_PARAM_TLS_NEGOTIATED_ALPN 255
      else Some (ERROR_TUPLE_2 ATOM_PARAM_ERROR, []))"

definition set_tls_opt :: "hquic option \<Rightarrow> eterm \<Rightarrow> eterm \<Rightarrow> opt_nif" where
  "set_tls_opt Handle optname optval = Some (ERROR_TUPLE_2 ATOM_ERROR_NOT_SUPPORTED, [])"

definition perf_counters :: "string list" where
  "perf_counters =
     [''CONN_CREATED'', ''CONN_HANDSHAKE_FAIL'', ''CONN_APP_REJECT'', ''CONN_ACTIVE'',
      ''CONN_CONNECTED'', ''CONN_PROTOCOL_ERRORS'', ''CONN_NO_ALPN'', ''STRM_ACTIVE'',
      ''PKTS_SUSPECTED_LOST'', ''PKTS_DROPPED'', ''PKTS_DECRYPTION_FAIL'', ''UDP_RECV'',
      ''UDP_SEND'', ''UDP_RECV_BYTES'', ''UDP_SEND_BYTES'', ''UDP_RECV_EVENTS'', ''UDP_SEND_CALLS'',
      ''APP_SEND_BYTES'', ''APP_RECV_BYTES'', ''CONN_QUEUE_DEPTH'', ''CONN_OPER_QUEUE_DEPTH'',
      ''CONN_OPER_QUEUED'', ''CONN_OPER_COMPLETED'', ''WORK_OPER_QUEUE_DEPTH'', ''WORK_OPER_QUEUED'',
      ''WORK_OPER_COMPLETED'', ''PATH_VALIDATED'', ''PATH_FAILURE'', ''SEND_STATELESS_RESET'',
      ''SEND_STATELESS_RETRY'']"

definition get_global_opt :: "enif \<Rightarrow> msquic \<Rightarrow> hquic option \<Rightarrow> eterm \<Rightarrow> opt_nif" where
  "get_global_opt E M Handle optname =
     (if optname = ATOM_QUIC_PARAM_GLOBAL_RETRY_MEMORY_PERCENT
      then get_param E M QUICER_PARAM_HANDLE_TYPE_GLOBAL Handle QUIC_PARAM_GLOBAL_RETRY_MEMORY_PERCENT 4
      else if optname = ATOM_QUIC_PARAM_GLOBAL_SUPPORTED_VERSIONS
      then Some (ERROR_TUPLE_2 (atom_status M QUIC_STATUS_NOT_SUPPORTED), [])
      else if optname = ATOM_QUIC_PARAM_GLOBAL_LOAD_BALACING_MODE
      then get_param E M QUICER_PARAM_HANDLE_TYPE_GLOBAL Handle QUIC_PARAM_GLOBAL_LOAD_BALACING_MODE 4
      else if optname = ATOM_QUIC_PARAM_GLOBAL_PERF_COUNTERS
      then
        (let call = GetParam None QUIC_PARAM_GLOBAL_PERF_COUNTERS (sizeof_perf_counters M)
         in if quic_failed M (quic_status_of M call)
            then Some (ERROR_TUPLE_2 (atom_status M (quic_status_of M call)), [Quic call])
            else (case quic_value_of M call of
                    BufCounters counters \<Rightarrow>
                      Some (SUCCESS (EList (map (\<lambda>n. enif_make_uint64 (counters n)) perf_counters)), [Quic call])
                  | _ \<Rightarrow> None))
      else if optname = ATOM_QUIC_PARAM_GLOBAL_SETTINGS
      then get_param E M QUICER_PARAM_HANDLE_TYPE_GLOBAL Handle QUIC_PARAM_GLOBAL_SETTINGS (sizeof_settings M)
      else if optname = ATOM_QUIC_PARAM_GLOBAL_LIBRARY_GIT_HASH
      then get_param E M QUICER_PARAM_HANDLE_TYPE_GLOBAL Handle QUIC_PARAM_GLOBAL_LIBRARY_GIT_HASH 41
      else Some (ERROR_TUPLE_2 ATOM_PARAM_ERROR, []))"

definition set_global_opt :: "enif \<Rightarrow> msquic \<Rightarrow> hquic option \<Rightarrow> eterm \<Rightarrow> eterm \<Rightarrow> opt_nif" where
  "set_global_opt E M Handle optname optval =
     (if optname = ATOM_QUIC_PARAM_GLOBAL_RETRY_MEMORY_PERCENT
      then (case enif_get_uint E optval of
              None \<Rightarrow> Some (ERROR_TUPLE_2 ATOM_BADARG, [])
            | Some percent \<Rightarrow>
                if uint percent > UINT16_MAX then Some (ERROR_TUPLE_2 ATOM_BADARG, [])
                else Some (set_param M Handle QUIC_PARAM_GLOBAL_RETRY_MEMORY_PERCENT 2 (BufU16 (ucast percent))))
      else if optname = ATOM_QUIC_PARAM_GLOBAL_SUPPORTED_VERSIONS
      then Some (ERROR_TUPLE_2 (atom_status M QUIC_STATUS_NOT_SUPPORTED), [])
      else if optname = ATOM_QUIC_PARAM_GLOBAL_LOAD_BALACING_MODE
      then (case enif_get_uint E optval of
              None \<Rightarrow> Some (ERROR_TUPLE_2 ATOM_BADARG, [])
            | Some lbmode \<Rightarrow>
                if QUIC_LOAD_BALANCING_COUNT M \<le> lbmode then Some (ERROR_TUPLE_2 ATOM_BADARG, [])
                else Some (set_param M Handle QUIC_PARAM_GLOBAL_LOAD_BALACING_MODE 4 (BufU32 lbmode)))
      else if optname = ATOM_QUIC_PARAM_GLOBAL_SETTINGS
      then (case create_settings E M optval of
              None \<Rightarrow> Some (ERROR_TUPLE_2 ATOM_BADARG, [])
            | Some S \<Rightarrow> Some (set_param M Handle QUIC_PARAM_GLOBAL_SETTINGS (sizeof_settings M) (BufSettings S)))
      else if optname = ATOM_QUIC_PARAM_GLOBAL_VERSION
      then Some (ERROR_TUPLE_2 (atom_status M QUIC_STATUS_NOT_SUPPORTED), [])
      else Some (ERROR_TUPLE_2 ATOM_PARAM_ERROR, []))"

definition get_level_param ::
    "enif \<Rightarrow> msquic \<Rightarrow> hquic option \<Rightarrow> hquic option \<Rightarrow> eterm \<Rightarrow> eterm \<Rightarrow> opt_nif" where
  "get_level_param E M Handle ConfigHandle eopt level =
     (if level = ATOM_QUIC_CONFIGURATION then get_config_opt E M ConfigHandle eopt
      else if level = ATOM_QUIC_TLS then get_tls_opt E M Handle eopt
      else Some (ERROR_TUPLE_2 ATOM_ERROR_NOT_FOUND, []))"

definition set_level_param ::
    "enif \<Rightarrow> msquic \<Rightarrow> hquic option \<Rightarrow> hquic option \<Rightarrow> eterm \<Rightarrow> eterm \<Rightarrow> eterm \<Rightarrow> opt_nif" where
  "set_level_param E M Handle ConfigHandle eopt eval level =
     (if level = ATOM_QUIC_CONFIGURATION then set_config_opt E M ConfigHandle eopt eval
      else if level = ATOM_QUIC_TLS then set_tls_opt Handle eopt eval
      else Some (ERROR_TUPLE_2 ATOM_ERROR_NOT_FOUND, []))"
subsection \<open>Options of streams\<close>

text \<open>The receive mode of the owner, as the option \<open>active\<close> shows it.\<close>

definition recv_mode_term :: "ACCEPTOR \<Rightarrow> eterm" where
  "recv_mode_term owner =
     (case active owner of
        ACCEPTOR_RECV_MODE_PASSIVE \<Rightarrow> ATOM_FALSE
      | ACCEPTOR_RECV_MODE_MULTI \<Rightarrow> enif_make_int (uint (active_count owner))
      | ACCEPTOR_RECV_MODE_ONCE \<Rightarrow> ATOM_ONCE
      | ACCEPTOR_RECV_MODE_ACTIVE \<Rightarrow> ATOM_TRUE)"

text \<open>The configuration handle behind a level: both pointers are followed unchecked.\<close>

definition conn_config :: "QuicerConnCTX option \<Rightarrow> hquic option option" where
  "conn_config c = deref c (\<lambda>c_ctx. deref (c_config_resource c_ctx) (\<lambda>g. Some (Configuration g)))"

definition get_stream_opt :: "enif \<Rightarrow> msquic \<Rightarrow> QuicerStreamCTX \<Rightarrow> eterm \<Rightarrow> eterm \<Rightarrow> opt_nif" where
  "get_stream_opt E M s_ctx optname elevel =
     (if elevel \<noteq> ATOM_FALSE
      then deref (conn_config (s_c_ctx s_ctx)) (\<lambda>cfg.
             get_level_param E M (Stream s_ctx) cfg optname elevel)
      else if optname = ATOM_QUIC_PARAM_STREAM_ID
      then get_param E M QUICER_PARAM_HANDLE_TYPE_STREAM (Stream s_ctx) QUIC_PARAM_STREAM_ID 8
      else if optname = ATOM_QUIC_STREAM_OPTS_ACTIVE
      then deref (s_owner s_ctx) (\<lambda>owner. Some (SUCCESS (recv_mode_term owner), []))
      else if optname = ATOM_QUIC_PARAM_STREAM_0RTT_LENGTH
      then get_param E M QUICER_PARAM_HANDLE_TYPE_STREAM (Stream s_ctx) QUIC_PARAM_STREAM_0RTT_LENGTH 8
      else if optname = ATOM_QUIC_PARAM_STREAM_IDEAL_SEND_BUFFER_SIZE
      then get_param E M QUICER_PARAM_HANDLE_TYPE_STREAM (Stream s_ctx) QUIC_PARAM_STREAM_IDEAL_SEND_BUFFER_SIZE 8
      else Some (ERROR_TUPLE_2 ATOM_PARAM_ERROR, []))"

text \<open>
  Leaving the passive mode with data in hand lets the stack deliver it again: the pending
  receive is completed with nothing consumed (the stack has its buffers back then) and
  receiving is enabled, before the mode changes.
\<close>

definition set_stream_active ::
    "enif \<Rightarrow> QuicerStreamCTX \<Rightarrow> eterm \<Rightarrow> (eterm \<times> QuicerStreamCTX \<times> eff list) option" where
  "set_stream_active E s_ctx optval =
     deref (s_owner s_ctx) (\<lambda>owner.
       (let is_resume = (active owner = ACCEPTOR_RECV_MODE_PASSIVE \<and> optval \<noteq> ATOM_FALSE \<and>
                         0 < TotalBufferLength s_ctx);
            resume =
          (if is_resume
           then (if is_recv_pending s_ctx then [Quic (StreamReceiveComplete (Stream s_ctx) 0)] else []) @
                [Quic (StreamReceiveSetEnabled (Stream s_ctx) True)]
           else []);
            lent = (rcv_lent s_ctx \<and> \<not> (is_resume \<and> is_recv_pending s_ctx))
        in case set_owner_recv_mode E owner optval of (ok, owner) \<Rightarrow>
             Some (if ok then ATOM_OK else ERROR_TUPLE_2 ATOM_PARAM_ERROR,
                   s_ctx\<lparr>s_owner := Some owner, rcv_lent := lent\<rparr>,
                   [Lock (LockOf (s_res s_ctx))] @ resume @ [Unlock (LockOf (s_res s_ctx))])))"

definition set_stream_opt ::
    "enif \<Rightarrow> msquic \<Rightarrow> QuicerStreamCTX \<Rightarrow> eterm \<Rightarrow> eterm \<Rightarrow> eterm \<Rightarrow> (eterm \<times> QuicerStreamCTX \<times> eff list) option" where
  "set_stream_opt E M s_ctx optname optval elevel =
     (if optname = ATOM_QUIC_STREAM_OPTS_ACTIVE then set_stream_active E s_ctx optval
      else map_option (\<lambda>(t, es). (t, s_ctx, es))
        (if elevel \<noteq> ATOM_FALSE
         then deref (conn_config (s_c_ctx s_ctx)) (\<lambda>cfg.
                set_level_param E M (Stream s_ctx) cfg optname optval elevel)
         else if optname \<in> {ATOM_QUIC_PARAM_STREAM_ID, ATOM_QUIC_PARAM_STREAM_0RTT_LENGTH,
                            ATOM_QUIC_PARAM_STREAM_IDEAL_SEND_BUFFER_SIZE}
         then Some (ERROR_TUPLE_2 (atom_status M QUIC_STATUS_NOT_SUPPORTED), [])
         else if optname = ATOM_QUIC_PARAM_STREAM_PRIORITY
         then (case get_uint16 E optval of
                 None \<Rightarrow> Some (ERROR_TUPLE_2 ATOM_PARAM_ERROR, [])
               | Some prio \<Rightarrow> Some (set_param M (Stream s_ctx) QUIC_PARAM_STREAM_PRIORITY 2 (BufU16 prio)))
         else Some (ERROR_TUPLE_2 ATOM_PARAM_ERROR, [])))"

subsection \<open>Options of connections\<close>

text \<open>
  The parameters a connection reports: the option, the parameter, the size of the buffer and
  whether the buffer is a local variable; other buffers are allocated and freed.
\<close>

definition conn_get_params :: "msquic \<Rightarrow> (eterm \<times> quic_param \<times> u32 \<times> bool) list" where
  "conn_get_params M =
     [(ATOM_QUIC_PARAM_CONN_QUIC_VERSION, QUIC_PARAM_CONN_QUIC_VERSION, 4, False),
      (ATOM_QUIC_PARAM_CONN_LOCAL_ADDRESS, QUIC_PARAM_CONN_LOCAL_ADDRESS, sizeof_QUIC_ADDR, False),
      (ATOM_QUIC_PARAM_CONN_REMOTE_ADDRESS, QUIC_PARAM_CONN_REMOTE_ADDRESS, sizeof_QUIC_ADDR, False),
      (ATOM_QUIC_PARAM_CONN_IDEAL_PROCESSOR, QUIC_PARAM_CONN_IDEAL_PROCESSOR, 2, False),
      (ATOM_QUIC_PARAM_CONN_SETTINGS, QUIC_PARAM_CONN_SETTINGS, sizeof_settings M, False),
      (ATOM_QUIC_PARAM_CONN_STATISTICS, QUIC_PARAM_CONN_STATISTICS, sizeof_statistics M, False),
      (ATOM_QUIC_PARAM_CONN_SHARE_UDP_BINDING, QUIC_PARAM_CONN_SHARE_UDP_BINDING, 1, False),
      (ATOM_QUIC_PARAM_CONN_LOCAL_BIDI_STREAM_COUNT, QUIC_PARAM_CONN_LOCAL_BIDI_STREAM_COUNT, 2, False),
      (ATOM_QUIC_PARAM_CONN_LOCAL_UNIDI_STREAM_COUNT, QUIC_PARAM_CONN_LOCAL_UNIDI_STREAM_COUNT, 2, False),
      (ATOM_QUIC_PARAM_CONN_CLOSE_REASON_PHRASE, QUIC_PARAM_CONN_CLOSE_REASON_PHRASE, 512, False),
      (ATOM_QUIC_PARAM_CONN_STREAM_SCHEDULING_SCHEME, QUIC_PARAM_CONN_STREAM_SCHEDULING_SCHEME, 4, True),
      (ATOM_QUIC_PARAM_CONN_DATAGRAM_SEND_ENABLED, QUIC_PARAM_CONN_DATAGRAM_SEND_ENABLED, 1, True),
      (ATOM_QUIC_PARAM_CONN_DATAGRAM_RECEIVE_ENABLED, QUIC_PARAM_CONN_DATAGRAM_RECEIVE_ENABLED, 1, True),
      (ATOM_QUIC_PARAM_CONN_DISABLE_1RTT_ENCRYPTION, QUIC_PARAM_CONN_DISABLE_1RTT_ENCRYPTION, 1, False),
      (ATOM_QUIC_PARAM_CONN_PEER_CERTIFICATE_VALID, QUIC_PARAM_CONN_PEER_CERTIFICATE_VALID, 0, True),
      (ATOM_QUIC_PARAM_CONN_LOCAL_INTERFACE, QUIC_PARAM_CONN_LOCAL_INTERFACE, 4, False)]"

definition get_max_stream_ids :: "msquic \<Rightarrow> hquic option \<Rightarrow> opt_nif" where
  "get_max_stream_ids M h =
     (let call = GetParam h QUIC_PARAM_CONN_MAX_STREAM_IDS 32
      in if quic_failed M (quic_status_of M call)
         then Some (ERROR_TUPLE_2 (atom_status M (quic_status_of M call)), [Quic call])
         else (case quic_value_of M call of
                 BufStreamIds ids \<Rightarrow> Some (SUCCESS (EList (map enif_make_uint64 ids)), [Quic call])
               | _ \<Rightarrow> None))"

definition get_connection_opt :: "enif \<Rightarrow> msquic \<Rightarrow> QuicerConnCTX \<Rightarrow> eterm \<Rightarrow> eterm \<Rightarrow> opt_nif" where
  "get_connection_opt E M c_ctx optname elevel =
     (if elevel \<noteq> ATOM_FALSE
      then deref (conn_config (Some c_ctx)) (\<lambda>cfg.
             get_level_param E M (Connection c_ctx) cfg optname elevel)
      else if optname \<in> {ATOM_QUIC_PARAM_CONN_STATISTICS_PLAT, ATOM_QUIC_PARAM_CONN_RESUMPTION_TICKET}
      then Some (ERROR_TUPLE_2 (atom_status M QUIC_STATUS_NOT_SUPPORTED), [])
      else if optname = ATOM_QUIC_PARAM_CONN_MAX_STREAM_IDS then get_max_stream_ids M (Connection c_ctx)
      else case map_of (conn_get_params M) optname of
        None \<Rightarrow> Some (ERROR_TUPLE_2 ATOM_PARAM_ERROR, [])
      | Some (Param, len, on_stack) \<Rightarrow>
          if on_stack then get_param E M QUICER_PARAM_HANDLE_TYPE_CONN (Connection c_ctx) Param len
          else if \<not> alloc_ok E ''QUICER_OPT_BUFF'' then Some (ATOM_ERROR_NOT_FOUND, [])
          else map_option (\<lambda>(t, es). (t, es @ [Free MOptBuff]))
                 (get_param E M QUICER_PARAM_HANDLE_TYPE_CONN (Connection c_ctx) Param len))"

text \<open>An atom read as a \<open>BOOLEAN\<close>.\<close>

definition bool_opt :: "eterm \<Rightarrow> u8 option" where
  "bool_opt t = (if t = ATOM_TRUE then Some 1 else if t = ATOM_FALSE then Some 0 else None)"

definition set_bool_param :: "msquic \<Rightarrow> hquic option \<Rightarrow> quic_param \<Rightarrow> eterm \<Rightarrow> eterm \<times> eff list" where
  "set_bool_param M h Param optval =
     (case bool_opt optval of
        None \<Rightarrow> (ERROR_TUPLE_2 ATOM_BADARG, [])
      | Some b \<Rightarrow> set_param M h Param 1 (BufU8 b))"

text \<open>
  The counts, the scheduling scheme and the interface: a value that is no unsigned integer is
  noted as an error, and then the parameter is set to 0 all the same.
\<close>

definition set_uint_param :: "enif \<Rightarrow> msquic \<Rightarrow> hquic option \<Rightarrow> quic_param \<Rightarrow> eterm \<Rightarrow> eterm \<times> eff list" where
  "set_uint_param E M h Param optval =
     set_param M h Param 4 (BufU32 (case enif_get_uint E optval of None \<Rightarrow> 0 | Some v \<Rightarrow> v))"

definition set_addr_param :: "enif \<Rightarrow> msquic \<Rightarrow> hquic option \<Rightarrow> quic_param \<Rightarrow> eterm \<Rightarrow> eterm \<times> eff list" where
  "set_addr_param E M h Param optval =
     (case parse_listen_on E M optval of
        None \<Rightarrow> (ERROR_TUPLE_2 ATOM_BADARG, [])
      | Some addr \<Rightarrow> set_param M h Param sizeof_QUIC_ADDR (BufAddr addr))"

text \<open>The zeroed array of 512 bytes with the phrase written at its front.\<close>

definition phrase_bytes :: "string \<Rightarrow> bytes" where
  "phrase_bytes s = map of_char s @ replicate (512 - length s) 0"

text \<open>The options from the number of streams on.\<close>

definition set_connection_opt_more :: "enif \<Rightarrow> msquic \<Rightarrow> hquic option \<Rightarrow> eterm \<Rightarrow> eterm \<Rightarrow> opt_nif" where
  "set_connection_opt_more E M h optname optval =
     (if optname = ATOM_QUIC_PARAM_CONN_MAX_STREAM_IDS
      then Some (ERROR_TUPLE_2 (atom_status M QUIC_STATUS_NOT_SUPPORTED), [])
      else if optname = ATOM_QUIC_PARAM_CONN_CLOSE_REASON_PHRASE
      then (case enif_get_string E optval 512 of (n, phrase) \<Rightarrow>
              if n = 0 then Some (ERROR_TUPLE_2 ATOM_BADARG, [])
              else Some (set_param M h QUIC_PARAM_CONN_CLOSE_REASON_PHRASE 512 (BufBytes (phrase_bytes phrase))))
      else if optname = ATOM_QUIC_PARAM_CONN_STREAM_SCHEDULING_SCHEME
      then Some (set_uint_param E M h QUIC_PARAM_CONN_STREAM_SCHEDULING_SCHEME optval)
      else if optname = ATOM_QUIC_PARAM_CONN_DATAGRAM_SEND_ENABLED
      then Some (set_bool_param M h QUIC_PARAM_CONN_DATAGRAM_SEND_ENABLED optval)
      else if optname = ATOM_QUIC_PARAM_CONN_DATAGRAM_RECEIVE_ENABLED
      then Some (set_bool_param M h QUIC_PARAM_CONN_DATAGRAM_RECEIVE_ENABLED optval)
      else if optname = ATOM_QUIC_PARAM_CONN_DISABLE_1RTT_ENCRYPTION
      then (case set_bool_param M h QUIC_PARAM_CONN_DISABLE_1RTT_ENCRYPTION optval of
              (t, es) \<Rightarrow> Some (if t = ATOM_OK then t else ERROR_TUPLE_2 ATOM_BADARG, es))
      else if optname = ATOM_QUIC_PARAM_CONN_RESUMPTION_TICKET
      then (case enif_inspect_binary E optval of
              None \<Rightarrow> Some (ERROR_TUPLE_2 ATOM_BADARG, [])
            | Some ticket \<Rightarrow>
                if int (length ticket) > UINT32_MAX then Some (ERROR_TUPLE_2 ATOM_BADARG, [])
                else Some (set_param M h QUIC_PARAM_CONN_RESUMPTION_TICKET
                             (of_nat (length ticket)) (BufBytes ticket)))
      else if optname = ATOM_QUIC_PARAM_CONN_PEER_CERTIFICATE_VALID
      then Some (set_bool_param M h QUIC_PARAM_CONN_PEER_CERTIFICATE_VALID optval)
      else if optname = ATOM_QUIC_PARAM_CONN_LOCAL_INTERFACE
      then Some (set_uint_param E M h QUIC_PARAM_CONN_LOCAL_INTERFACE optval)
      else Some (ERROR_TUPLE_2 ATOM_PARAM_ERROR, []))"

text \<open>
  An allocation of the settings that fails is not tested: the settings are written through
  NULL.
\<close>

definition set_connection_opt :: "enif \<Rightarrow> msquic \<Rightarrow> QuicerConnCTX \<Rightarrow> eterm \<Rightarrow> eterm \<Rightarrow> eterm \<Rightarrow> opt_nif" where
  "set_connection_opt E M c_ctx optname optval elevel =
     (let h = Connection c_ctx in
      if elevel \<noteq> ATOM_FALSE
      then deref (conn_config (Some c_ctx)) (\<lambda>cfg. set_level_param E M h cfg optname optval elevel)
      else if optname \<in> {ATOM_QUIC_PARAM_CONN_QUIC_VERSION, ATOM_QUIC_PARAM_CONN_IDEAL_PROCESSOR}
      then Some (ERROR_TUPLE_2 ATOM_ERROR_NOT_SUPPORTED, [])
      else if optname = ATOM_QUIC_PARAM_CONN_LOCAL_ADDRESS
      then Some (set_addr_param E M h QUIC_PARAM_CONN_LOCAL_ADDRESS optval)
      else if optname = ATOM_QUIC_PARAM_CONN_REMOTE_ADDRESS
      then Some (set_addr_param E M h QUIC_PARAM_CONN_REMOTE_ADDRESS optval)
      else if optname = ATOM_QUIC_PARAM_CONN_SETTINGS
      then
        (if \<not> alloc_ok E ''settings'' then None
         else case create_settings E M optval of
           None \<Rightarrow> Some (ERROR_TUPLE_2 ATOM_BADARG, [Free MOptBuff])
         | Some S \<Rightarrow>
             (case set_param M h QUIC_PARAM_CONN_SETTINGS (sizeof_settings M) (BufSettings S) of
                (t, es) \<Rightarrow> Some (t, es @ [Free MOptBuff])))
      else if optname = ATOM_QUIC_PARAM_CONN_SHARE_UDP_BINDING
      then Some (set_bool_param M h QUIC_PARAM_CONN_SHARE_UDP_BINDING optval)
      else if optname = ATOM_QUIC_PARAM_CONN_LOCAL_BIDI_STREAM_COUNT
      then Some (set_uint_param E M h QUIC_PARAM_CONN_LOCAL_BIDI_STREAM_COUNT optval)
      else if optname = ATOM_QUIC_PARAM_CONN_LOCAL_UNIDI_STREAM_COUNT
      then Some (set_uint_param E M h QUIC_PARAM_CONN_LOCAL_UNIDI_STREAM_COUNT optval)
      else set_connection_opt_more E M h optname optval)"

subsection \<open>Options of listeners\<close>

definition get_listener_opt :: "enif \<Rightarrow> msquic \<Rightarrow> QuicerListenerCTX option \<Rightarrow> eterm \<Rightarrow> eterm \<Rightarrow> opt_nif" where
  "get_listener_opt E M l_h optname elevel =
     (case l_h of
        None \<Rightarrow> Some (ERROR_TUPLE_2 ATOM_BADARG, [])
      | Some l_ctx \<Rightarrow>
     (let lock = LockOf (l_res l_ctx) in
      if l_is_closed l_ctx then Some (ERROR_TUPLE_2 ATOM_CLOSED, [Lock lock, Unlock lock])
      else map_option (\<lambda>(t, es). (t, [Lock lock, Keep (l_res l_ctx), Unlock lock] @ es @ [Release (l_res l_ctx)]))
        (if elevel \<noteq> ATOM_FALSE
         then deref (l_config_resource l_ctx) (\<lambda>g.
                get_level_param E M (Listener l_ctx) (Configuration g) optname elevel)
         else if optname = ATOM_QUIC_PARAM_LISTENER_LOCAL_ADDRESS
         then get_param E M QUICER_PARAM_HANDLE_TYPE_LISTENER (Listener l_ctx) QUIC_PARAM_LISTENER_LOCAL_ADDRESS sizeof_QUIC_ADDR
         else if optname = ATOM_QUIC_PARAM_LISTENER_STATS
         then get_param E M QUICER_PARAM_HANDLE_TYPE_LISTENER (Listener l_ctx) QUIC_PARAM_LISTENER_STATS (sizeof_listener_stats M)
         else if optname = ATOM_QUIC_PARAM_LISTENER_CIBIR_ID
         then Some (ERROR_TUPLE_2 (atom_status M QUIC_STATUS_NOT_SUPPORTED), [])
         else Some (ERROR_TUPLE_2 ATOM_PARAM_ERROR, []))))"

definition set_listener_opt :: "enif \<Rightarrow> msquic \<Rightarrow> QuicerListenerCTX option \<Rightarrow> eterm \<Rightarrow> eterm \<Rightarrow> eterm \<Rightarrow> opt_nif" where
  "set_listener_opt E M l_h optname optval elevel =
     (case l_h of
        None \<Rightarrow> Some (ERROR_TUPLE_2 ATOM_BADARG, [])
      | Some l_ctx \<Rightarrow>
     (let lock = LockOf (l_res l_ctx) in
      map_option (\<lambda>(t, es). (t, [Lock lock] @ es @ [Unlock lock]))
        (if l_is_closed l_ctx then Some (ERROR_TUPLE_2 ATOM_CLOSED, [])
         else if elevel \<noteq> ATOM_FALSE
         then deref (l_config_resource l_ctx) (\<lambda>g.
                set_level_param E M (Listener l_ctx) (Configuration g) optname optval elevel)
         else if optname = ATOM_QUIC_PARAM_LISTENER_CIBIR_ID
         then (case enif_inspect_binary E optval of
                 None \<Rightarrow> Some (ERROR_TUPLE_2 ATOM_BADARG, [])
               | Some bin \<Rightarrow> Some (set_param M (Listener l_ctx) QUIC_PARAM_LISTENER_CIBIR_ID
                                      (of_nat (length bin)) (BufBytes bin)))
         else Some (ERROR_TUPLE_2 ATOM_PARAM_ERROR, []))))"

subsection \<open>Dispatch\<close>

text \<open>What the handle argument resolves to.\<close>

datatype handle_arg =
    HGlobal
  | HStream QuicerStreamCTX
  | HConn QuicerConnCTX
  | HListener QuicerListenerCTX
  | HOther

fun getopt3_handle :: "enif \<Rightarrow> msquic \<Rightarrow> handle_arg \<Rightarrow> eterm \<Rightarrow> eterm \<Rightarrow> opt_nif" where
  "getopt3_handle E M HGlobal eopt elevel = get_global_opt E M None eopt"
| "getopt3_handle E M (HStream s_ctx) eopt elevel = get_stream_opt E M s_ctx eopt elevel"
| "getopt3_handle E M (HConn c_ctx) eopt elevel = get_connection_opt E M c_ctx eopt elevel"
| "getopt3_handle E M (HListener l_ctx) eopt elevel = get_listener_opt E M (Some l_ctx) eopt elevel"
| "getopt3_handle E M HOther eopt elevel = Some (ERROR_TUPLE_2 ATOM_BADARG, [])"

definition getopt3 :: "enif \<Rightarrow> msquic \<Rightarrow> handle_arg \<Rightarrow> eterm \<Rightarrow> eterm \<Rightarrow> opt_nif" where
  "getopt3 E M ctx eopt elevel =
     (if \<not> enif_is_atom E eopt then Some (ERROR_TUPLE_2 ATOM_BADARG, [])
      else getopt3_handle E M ctx eopt elevel)"

fun setopt4_handle ::
    "enif \<Rightarrow> msquic \<Rightarrow> handle_arg \<Rightarrow> eterm \<Rightarrow> eterm \<Rightarrow> eterm \<Rightarrow> (eterm \<times> handle_arg \<times> eff list) option" where
  "setopt4_handle E M HGlobal eopt evalue elevel =
     map_option (\<lambda>(t, es). (t, HGlobal, es)) (set_global_opt E M None eopt evalue)"
| "setopt4_handle E M (HStream s_ctx) eopt evalue elevel =
     map_option (\<lambda>(t, s, es). (t, HStream s, es)) (set_stream_opt E M s_ctx eopt evalue elevel)"
| "setopt4_handle E M (HConn c_ctx) eopt evalue elevel =
     map_option (\<lambda>(t, es). (t, HConn c_ctx, es)) (set_connection_opt E M c_ctx eopt evalue elevel)"
| "setopt4_handle E M (HListener l_ctx) eopt evalue elevel =
     map_option (\<lambda>(t, es). (t, HListener l_ctx, es)) (set_listener_opt E M (Some l_ctx) eopt evalue elevel)"
| "setopt4_handle E M HOther eopt evalue elevel = Some (ERROR_TUPLE_2 ATOM_BADARG, HOther, [])"

definition setopt4 ::
    "enif \<Rightarrow> msquic \<Rightarrow> handle_arg \<Rightarrow> eterm \<Rightarrow> eterm \<Rightarrow> eterm \<Rightarrow> (eterm \<times> handle_arg \<times> eff list) option" where
  "setopt4 E M ctx eopt evalue elevel =
     (if \<not> enif_is_atom E eopt then Some (ERROR_TUPLE_2 ATOM_BADARG, ctx, [])
      else setopt4_handle E M ctx eopt evalue elevel)"
subsection \<open>Reading options only reads\<close>

fun is_get_param :: "qcall \<Rightarrow> bool" where
  "is_get_param (GetParam h p len) = True"
| "is_get_param _ = False"

text \<open>What a run does beyond computing its answer: calls of one kind, and a buffer freed.\<close>

definition opt_effects :: "(qcall \<Rightarrow> bool) \<Rightarrow> eff list \<Rightarrow> bool" where
  "opt_effects P es \<longleftrightarrow> (\<forall>e \<in> set es. (case e of Quic q \<Rightarrow> P q | Free m \<Rightarrow> m = MOptBuff | _ \<Rightarrow> False))"

lemma opt_effects_simps [simp]:
  "opt_effects P []" "opt_effects P (Quic q # es) \<longleftrightarrow> P q \<and> opt_effects P es"
  "opt_effects P (Free m # es) \<longleftrightarrow> m = MOptBuff \<and> opt_effects P es"
  "opt_effects P (xs @ ys) \<longleftrightarrow> opt_effects P xs \<and> opt_effects P ys"
  by (auto simp: opt_effects_def)

lemma opt_effects_inert:
  assumes "opt_effects P es"
  shows "no_locks es \<and> keeps es = [] \<and> releases es = [] \<and> msgs es = [] \<and> (\<forall>q \<in> set (quic_calls es). P q)"
  using assms
proof (induction es)
  case (Cons e es)
  then show ?case by (cases e) (auto simp: opt_effects_def)
qed simp

abbreviation reads :: "opt_nif \<Rightarrow> bool" where
  "reads r \<equiv> post r (\<lambda>(t, es). opt_effects is_get_param es)"

lemma get_param_reads [wp]: "reads (get_param E M Type h Param len)"
  unfolding get_param_def by (intro wp) (simp_all add: post_def)

lemma get_config_opt_reads [wp]: "reads (get_config_opt E M h optname)"
  unfolding get_config_opt_def by (intro wp) simp_all

lemma get_tls_opt_reads [wp]: "reads (get_tls_opt E M h optname)"
  unfolding get_tls_opt_def
  by (intro wp) (simp_all add: post_Some post_None split: quic_buf.split)

lemma get_global_opt_reads [wp]: "reads (get_global_opt E M h optname)"
  unfolding get_global_opt_def
  by (intro wp) (simp_all add: post_Some post_None split: quic_buf.split)

lemma get_level_param_reads [wp]: "reads (get_level_param E M h g optname level)"
  unfolding get_level_param_def by (intro wp) simp_all

lemma get_stream_opt_reads [wp]: "reads (get_stream_opt E M s optname level)"
  unfolding get_stream_opt_def by (intro wp) simp_all

lemma get_max_stream_ids_reads [wp]: "reads (get_max_stream_ids M h)"
  unfolding get_max_stream_ids_def
  by (intro wp) (simp_all add: post_Some post_None split: quic_buf.split)

lemma post_weaken: "post r P \<Longrightarrow> (\<And>x. P x \<Longrightarrow> Q x) \<Longrightarrow> post r Q"
  by (simp add: post_def)

lemma get_connection_opt_reads [wp]: "reads (get_connection_opt E M c optname level)"
proof -
  have buf: "post (get_param E M Type h Param len)
      (\<lambda>r. case (case r of (t, es) \<Rightarrow> (t, es @ [Free MOptBuff])) of (t, es) \<Rightarrow> opt_effects is_get_param es)"
    for Type h Param len
    by (rule post_weaken [OF get_param_reads]) auto
  show ?thesis
    unfolding get_connection_opt_def by (intro wp buf) simp_all
qed

definition reads_safely :: "eff list \<Rightarrow> bool" where
  "reads_safely es \<longleftrightarrow>
     balanced es \<and> keeps es = releases es \<and> msgs es = [] \<and> (\<forall>q \<in> set (quic_calls es). is_get_param q)"

lemma opt_effects_reads_safely: "opt_effects is_get_param es \<Longrightarrow> reads_safely es"
  using opt_effects_inert by (auto simp: reads_safely_def balanced_no_locks)

text \<open>A guarded read of a listener holds a reference while it works, without the lock.\<close>

lemma guarded_read:
  assumes "opt_effects is_get_param es"
  shows "reads_safely ([Lock m, Keep r, Unlock m] @ es @ [Release r])"
proof -
  have "no_locks es" "keeps es = []" "releases es = []" "msgs es = []"
    "\<forall>q \<in> set (quic_calls es). is_get_param q"
    using opt_effects_inert [OF assms] by auto
  then show ?thesis
    by (simp add: reads_safely_def balanced_def lock_run_append lock_run_no_locks)
qed

lemma get_listener_opt_reads:
  "post (get_listener_opt E M (Some l) optname level) (\<lambda>(t, es). reads_safely es)"
proof -
  have closed: "reads_safely [Lock m, Unlock m]" for m
    by (simp add: reads_safely_def balanced_def)
  have guard: "post r (\<lambda>x. case (case x of (t, es) \<Rightarrow> (t, [Lock m, Keep c, Unlock m] @ es @ [Release c])) of
                 (t, es) \<Rightarrow> reads_safely es)" if "reads r" for r m c
    by (rule post_weaken [OF that]) (auto intro: guarded_read [simplified])
  show ?thesis
    unfolding get_listener_opt_def option.case
    by (intro wp guard) (simp_all add: closed)
qed
subsection \<open>Properties of options\<close>

text \<open>
  C30: Reading an option only reads: whatever the handle, the option and the level,
  \<open>getopt3\<close> takes and gives back its locks, releases exactly the references it took, sends
  no message, and the only calls it makes into the stack are \<open>GetParam\<close>.
\<close>

theorem getopt_only_reads:
  assumes "getopt3 E M ctx eopt elevel = Some (t, es)"
  shows "balanced es \<and> keeps es = releases es \<and> msgs es = [] \<and> (\<forall>q \<in> set (quic_calls es). is_get_param q)"
proof -
  have safe: "post r (\<lambda>(t, es). reads_safely es)" if "reads r" for r
    by (rule post_weaken [OF that]) (auto intro: opt_effects_reads_safely)
  have quiet: "reads_safely []"
    by (simp add: reads_safely_def balanced_def)
  have "post (getopt3 E M ctx eopt elevel) (\<lambda>(t, es). reads_safely es)"
    by (cases ctx) (auto simp: getopt3_def quiet
        intro!: post_if post_Some safe get_global_opt_reads get_stream_opt_reads
          get_connection_opt_reads get_listener_opt_reads)
  with assms show ?thesis
    by (auto simp: post_def reads_safely_def)
qed

definition listener0 :: QuicerListenerCTX where
  "listener0 = \<lparr>l_addr = 3, l_config_resource = None, l_r_ctx = None, Listener = Some 30,
     l_acceptor_queue = Some \<lparr>q_List = [], q_owner = RListener 3\<rparr>, listenerPid = 7,
     cacertfile = None, trusted_store = None, l_is_closed = False, l_is_stopped = False,
     allow_insecure = False\<rparr>"

theorem getopt_only_reads_witness:
  "\<exists>t es. getopt3 beam (msquic0\<lparr>quic_value_of := (\<lambda>_. BufListenerStats 1 2 3)\<rparr>) (HListener listener0)
       ATOM_QUIC_PARAM_LISTENER_STATS ATOM_FALSE = Some (t, es) \<and> length es = 5 \<and> balanced es"
proof -
  let ?M = "msquic0\<lparr>quic_value_of := (\<lambda>_. BufListenerStats 1 2 3)\<rparr>"
  obtain t es where run: "getopt3 beam ?M (HListener listener0) ATOM_QUIC_PARAM_LISTENER_STATS ATOM_FALSE = Some (t, es)"
    and len: "length es = 5"
    by (simp add: getopt3_def get_listener_opt_def listener0_def beam_def msquic0_def get_param_def Let_def
        encode_parm_to_eterm_def settings_params_def int_params_def addr_params_def bool_params_def
        binary_params_def)
  from getopt_only_reads [OF run] run len show ?thesis by blast
qed

text \<open>The answer of \<open>set_stream_active\<close> and the context it leaves.\<close>

lemma set_stream_active_eq:
  assumes "s_owner s = Some owner" "set_owner_recv_mode E owner v = (ok, owner')"
  shows "\<exists>lent es. set_stream_active E s v =
           Some (if ok then ATOM_OK else ERROR_TUPLE_2 ATOM_PARAM_ERROR,
                 s\<lparr>s_owner := Some owner', rcv_lent := lent\<rparr>, es)"
  using assms by (simp add: set_stream_active_def Let_def) blast

lemma setopt4_active:
  "enif_is_atom E ATOM_QUIC_STREAM_OPTS_ACTIVE \<Longrightarrow>
     setopt4 E M (HStream s) ATOM_QUIC_STREAM_OPTS_ACTIVE v level =
     map_option (\<lambda>(t, s', es). (t, HStream s', es)) (set_stream_active E s v)"
  by (simp add: setopt4_def set_stream_opt_def)

lemma getopt3_active:
  "enif_is_atom E ATOM_QUIC_STREAM_OPTS_ACTIVE \<Longrightarrow> s_owner s = Some owner \<Longrightarrow>
     getopt3 E M (HStream s) ATOM_QUIC_STREAM_OPTS_ACTIVE ATOM_FALSE = Some (SUCCESS (recv_mode_term owner), [])"
  by (simp add: getopt3_def get_stream_opt_def)

text \<open>
  C29: The receive mode set is the receive mode read. After \<open>setopt4\<close> of the option \<open>active\<close>
  answered \<open>ok\<close>, \<open>getopt3\<close> gives \<open>true\<close>, \<open>false\<close> or \<open>once\<close> as it was set; for an integer
  it gives the sum of the credit the owner had and that integer, or \<open>false\<close> when the sum is
  negative. A value that is refused leaves the mode as it was.
\<close>

theorem active_option_roundtrip:
  assumes atom: "enif_is_atom E ATOM_QUIC_STREAM_OPTS_ACTIVE"
    and own: "s_owner s = Some owner" and cred: "credit_ok owner"
    and set: "setopt4 E M (HStream s) ATOM_QUIC_STREAM_OPTS_ACTIVE v level = Some (res, HStream s', es)"
  shows "getopt3 E M (HStream s') ATOM_QUIC_STREAM_OPTS_ACTIVE ATOM_FALSE = Some (SUCCESS
    (if res \<noteq> ATOM_OK then recv_mode_term owner
     else if v \<in> {ATOM_TRUE, ATOM_FALSE, ATOM_ONCE} then v
     else (let sum = uint (active_count owner) + the (enif_get_int E v)
           in if sum < 0 then ATOM_FALSE else EInt sum)), [])"
proof -
  obtain ok owner' where mode: "set_owner_recv_mode E owner v = (ok, owner')"
    by fastforce
  obtain lent es' where "set_stream_active E s v =
      Some (if ok then ATOM_OK else ERROR_TUPLE_2 ATOM_PARAM_ERROR, s\<lparr>s_owner := Some owner', rcv_lent := lent\<rparr>, es')"
    using set_stream_active_eq [OF own mode] by blast
  with set have res: "res = (if ok then ATOM_OK else ERROR_TUPLE_2 ATOM_PARAM_ERROR)"
    and s': "s' = s\<lparr>s_owner := Some owner', rcv_lent := lent\<rparr>"
    by (auto simp: setopt4_active [OF atom])
  have read: "getopt3 E M (HStream s') ATOM_QUIC_STREAM_OPTS_ACTIVE ATOM_FALSE =
      Some (SUCCESS (recv_mode_term owner'), [])"
    by (rule getopt3_active [OF atom]) (simp add: s')
  show ?thesis
  proof (cases ok)
    case False
    with mode have "owner' = owner" by (simp add: set_owner_recv_mode_False)
    with False show ?thesis by (simp add: read res)
  next
    case True
    have ok: "res = ATOM_OK" using True res by simp
    consider "v = ATOM_TRUE" | "v = ATOM_FALSE" | "v = ATOM_ONCE"
      | "v \<notin> {ATOM_TRUE, ATOM_FALSE, ATOM_ONCE}" by blast
    then show ?thesis
    proof cases
      case 4
      then obtain i where i: "enif_get_int E v = Some i"
        using mode True by (auto simp: set_owner_recv_mode_def split: option.splits)
      have "if uint (active_count owner) + i < 0
        then active owner' = ACCEPTOR_RECV_MODE_PASSIVE
        else active owner' = ACCEPTOR_RECV_MODE_MULTI \<and>
             uint (active_count owner') = uint (active_count owner) + i \<and>
             uint (active_count owner) + i \<le> 32767"
        using set_owner_recv_mode_int [OF i 4 mode refl] True by (auto split: if_splits)
      then show ?thesis
        using 4 i by (auto simp: read ok recv_mode_term_def enif_make_int_def
            signed_take_bit_int_eq_self split: if_splits)
    qed (use mode True in \<open>auto simp: read ok recv_mode_term_def set_owner_recv_mode_def\<close>)
  qed
qed
theorem active_option_roundtrip_witness:
  "\<exists>s' es. setopt4 beam msquic0 (HStream (stream0 ACCEPTOR_RECV_MODE_MULTI 3))
       ATOM_QUIC_STREAM_OPTS_ACTIVE (EInt 4) ATOM_FALSE = Some (ATOM_OK, HStream s', es) \<and>
     getopt3 beam msquic0 (HStream s') ATOM_QUIC_STREAM_OPTS_ACTIVE ATOM_FALSE = Some (SUCCESS (EInt 7), [])"
proof -
  let ?s = "stream0 ACCEPTOR_RECV_MODE_MULTI 3" and ?o = "\<lparr>acc_addr = 2, acc_Pid = 7,
     active = ACCEPTOR_RECV_MODE_MULTI, active_count = 3, acc_Settings = zero_settings\<rparr>"
  have atom: "enif_is_atom beam ATOM_QUIC_STREAM_OPTS_ACTIVE" and int: "enif_get_int beam (EInt 4) = Some 4"
    by (simp_all add: beam_def)
  obtain s' es where set: "setopt4 beam msquic0 (HStream ?s) ATOM_QUIC_STREAM_OPTS_ACTIVE (EInt 4) ATOM_FALSE =
      Some (ATOM_OK, HStream s', es)"
    by (simp add: setopt4_active [OF atom] set_stream_active_def stream0_def set_owner_recv_mode_def int Let_def)
  have "getopt3 beam msquic0 (HStream s') ATOM_QUIC_STREAM_OPTS_ACTIVE ATOM_FALSE = Some (SUCCESS (EInt 7), [])"
    using active_option_roundtrip [OF atom _ _ set, of ?o]
    by (simp add: stream0_def credit_ok_def int)
  with set show ?thesis by blast
qed

text \<open>
  C35: A passive stream switched to \<open>{active, once}\<close> delivers the next data event as one message
  to its owner and is passive again. What a \<open>recv\<close> that follows does depends on the state
  before the switch. If no receive was pending then, it says \<open>not_ready\<close> and asks for more. If
  one was, the flag is still up, and \<open>recv\<close> reads the buffers of the delivered event, which
  the stack has taken back: that is undefined behaviour, and where the old bytes are still
  there it returns the start of them a second time and completes a receive that the stack no
  longer has.
\<close>

theorem once_then_recv:
  assumes "data_event M ev" "alloc_ok E ''binary''" "s_owner s = Some owner"
    "active owner = ACCEPTOR_RECV_MODE_PASSIVE" "enif_is_atom E ATOM_QUIC_STREAM_OPTS_ACTIVE"
    "enif_get_uint64 E esize = Some n"
    "bin = (if n = 0 then event_bytes ev else take (unat n) (event_bytes ev))"
  shows "\<exists>s1 es1 s2 es2.
     setopt4 E M (HStream s) ATOM_QUIC_STREAM_OPTS_ACTIVE ATOM_ONCE level = Some (ATOM_OK, HStream s1, es1) \<and>
     ServerStreamCallback E M h s1 (RECEIVE ev) = Some (QUIC_STATUS_SUCCESS, s2, es2) \<and>
     msgs es2 = [(acc_Pid owner, data_message s ev)] \<and>
     (if is_recv_pending s \<and> \<not> stale_reads E then recv2 E M (Some s2) esize = None
      else \<exists>s3 es3 res. recv2 E M (Some s2) esize = Some (res, Some s3, es3) \<and>
        (if is_recv_pending s
         then res = SUCCESS (EBin bin) \<and> quic_calls es3 = [StreamReceiveComplete (Stream s) (of_nat (length bin))]
         else (\<forall>b. res \<noteq> SUCCESS (EBin b)) \<and> quic_calls es3 = [StreamReceiveSetEnabled (Stream s) True]))"
proof -
  have ev: "event_ok M ev" "0 < rcv_TotalBufferLength ev"
    using assms(1) by (auto simp: data_event_def)
  let ?o1 = "owner\<lparr>active_count := 0, active := ACCEPTOR_RECV_MODE_ONCE\<rparr>"
  let ?o2 = "owner\<lparr>active_count := 0, active := ACCEPTOR_RECV_MODE_PASSIVE\<rparr>"
  let ?s2 = "(buffered s ev)\<lparr>s_owner := Some ?o2, rcv_lent := False\<rparr>"
  have "set_owner_recv_mode E owner ATOM_ONCE = (True, ?o1)"
    by (simp add: set_owner_recv_mode_def)
  then obtain lent es1 where set: "setopt4 E M (HStream s) ATOM_QUIC_STREAM_OPTS_ACTIVE ATOM_ONCE level =
      Some (ATOM_OK, HStream (s\<lparr>s_owner := Some ?o1, rcv_lent := lent\<rparr>), es1)"
    using set_stream_active_eq [OF assms(3)] by (fastforce simp: setopt4_active [OF assms(5)])
  let ?s1 = "s\<lparr>s_owner := Some ?o1, rcv_lent := lent\<rparr>"
  have msg: "data_message ?s1 ev = data_message s ev"
    by (simp add: data_message_def)
  have s2: "(buffered ?s1 ev)\<lparr>s_owner := Some ?o2, rcv_lent := False\<rparr> = ?s2"
    by (simp add: buffered_def)
  have cb: "ServerStreamCallback E M h ?s1 (RECEIVE ev) = Some (QUIC_STATUS_SUCCESS, ?s2,
      [Lock (LockOf (s_res s)), Send (acc_Pid owner) (data_message s ev),
       ClearEnv (EnvOf (s_res s)), Unlock (LockOf (s_res s))])"
    using recv_unfold [OF ev(1) assms(2) ev(2), of ?s1 ?o1 h] msg s2
    by (simp add: server_recv_callback)
  have ok: "buffers_ok ?s2" and len: "length (event_bytes ev) = rcv_TotalBufferLength ev"
    using ev(1) by (auto simp: buffers_ok_def event_ok_def event_bytes_def)
  let ?req = "if unat n > TotalBufferLength ?s2 then TotalBufferLength ?s2 else unat n"
  have bin: "recvbuffer_flush E ?s2 ?req = Some bin" if "stale_reads E"
    using recvbuffer_flush_eq [OF ok assms(2)] that ev(2) len assms(7)
    by (auto simp: event_bytes_def unat_eq_zero)
  have dead: "recvbuffer_flush E ?s2 ?req = None" if "\<not> stale_reads E"
    using that assms(2) by (simp add: recvbuffer_flush_def stale_read_def c_assert_def Let_def)
  have "if is_recv_pending s \<and> \<not> stale_reads E then recv2 E M (Some ?s2) esize = None
     else \<exists>s3 es3 res. recv2 E M (Some ?s2) esize = Some (res, Some s3, es3) \<and>
        (if is_recv_pending s
         then res = SUCCESS (EBin bin) \<and> quic_calls es3 = [StreamReceiveComplete (Stream s) (of_nat (length bin))]
         else (\<forall>b. res \<noteq> SUCCESS (EBin b)) \<and> quic_calls es3 = [StreamReceiveSetEnabled (Stream s) True])"
  proof (cases "is_recv_pending s")
    case True
    then show ?thesis
      using assms(6) ev(2) bin dead
      by (cases "stale_reads E") (simp_all add: recv2_def reset_stream_recv_def Let_def)
  next
    case False
    then show ?thesis
      using assms(6) by (simp add: recv2_def Let_def)
  qed
  with set cb show ?thesis
    by fastforce
qed

theorem once_then_recv_witness:
  "\<exists>s1 es1 s2 es2 s3 es3.
     setopt4 beam msquic0 (HStream ((stream0 ACCEPTOR_RECV_MODE_PASSIVE 0)\<lparr>is_recv_pending := True\<rparr>))
       ATOM_QUIC_STREAM_OPTS_ACTIVE ATOM_ONCE ATOM_FALSE = Some (ATOM_OK, HStream s1, es1) \<and>
     ServerStreamCallback beam msquic0 (Some 5) s1 (RECEIVE (event0 [1, 2] [3])) =
       Some (QUIC_STATUS_SUCCESS, s2, es2) \<and>
     recv2 beam msquic0 (Some s2) (EInt 2) = Some (SUCCESS (EBin [1, 2]), Some s3, es3)"
  using once_then_recv [of msquic0 "event0 [1, 2] [3]" beam
      "(stream0 ACCEPTOR_RECV_MODE_PASSIVE 0)\<lparr>is_recv_pending := True\<rparr>"
      "the (s_owner (stream0 ACCEPTOR_RECV_MODE_PASSIVE 0))" "EInt 2" 2 "[1, 2]" ATOM_FALSE "Some 5"]
  by (fastforce simp: stream0_def event0_def beam_def data_event_def event_ok_def event_bytes_def)

text \<open>
  C39: The identifier of a stream read as an option is the 64-bit identifier the stack reports
  only below \<open>2^31\<close>; from there on the answer is its low 32 bits as a signed number, never
  the identifier.
\<close>

theorem stream_id_option:
  assumes "enif_is_atom E ATOM_QUIC_PARAM_STREAM_ID"
    and "call = GetParam (Stream s) QUIC_PARAM_STREAM_ID 8"
    and "\<not> quic_failed M (quic_status_of M call)" and "quic_value_of M call = BufU64 sid"
  shows "\<exists>i. getopt3 E M (HStream s) ATOM_QUIC_PARAM_STREAM_ID ATOM_FALSE =
       Some (SUCCESS (EInt i), [Quic call]) \<and>
     i = signed_take_bit 31 (uint sid) \<and> (i = uint sid \<longleftrightarrow> uint sid < 2 ^ 31)"
proof -
  have "signed_take_bit 31 (uint sid) = uint sid \<longleftrightarrow> uint sid < 2 ^ 31"
  proof
    assume "signed_take_bit 31 (uint sid) = uint sid"
    then show "uint sid < 2 ^ 31"
      using signed_take_bit_int_less_exp [of 31 "uint sid"] by simp
  next
    assume "uint sid < 2 ^ 31"
    then show "signed_take_bit 31 (uint sid) = uint sid"
      using uint_ge_0 [of sid] by (intro signed_take_bit_int_eq_self) linarith+
  qed
  with assms show ?thesis
    by (simp add: getopt3_def get_stream_opt_def get_param_def encode_parm_to_eterm_def
        settings_params_def int_params_def ETERM_UINT_64_def enif_make_int_def)
qed

theorem stream_id_option_witness:
  "getopt3 beam (msquic0\<lparr>quic_value_of := (\<lambda>_. BufU64 2147483648)\<rparr>)
     (HStream (stream0 ACCEPTOR_RECV_MODE_ACTIVE 0)) ATOM_QUIC_PARAM_STREAM_ID ATOM_FALSE =
   Some (SUCCESS (EInt (- 2147483648)), [Quic (GetParam (Some 5) QUIC_PARAM_STREAM_ID 8)])"
proof -
  let ?M = "msquic0\<lparr>quic_value_of := (\<lambda>_. BufU64 2147483648)\<rparr>" and ?s = "stream0 ACCEPTOR_RECV_MODE_ACTIVE 0"
  have "Stream ?s = Some 5" by (simp add: stream0_def)
  then obtain i where run: "getopt3 beam ?M (HStream ?s) ATOM_QUIC_PARAM_STREAM_ID ATOM_FALSE =
      Some (SUCCESS (EInt i), [Quic (GetParam (Some 5) QUIC_PARAM_STREAM_ID 8)])"
    and i: "i = signed_take_bit 31 (uint (2147483648 :: u64))"
    using stream_id_option [of beam "GetParam (Some 5) QUIC_PARAM_STREAM_ID 8" ?s ?M 2147483648]
    by (auto simp: beam_def msquic0_def)
  have "i = - 2147483648" by (simp add: i)
  with run show ?thesis by simp
qed

text \<open>
  C40: The count, scheme and interface options of a connection are not protected against a value
  that is no unsigned integer: it is not refused, and the stack is told to set the parameter
  to 0; the answer is what the stack says of that.
\<close>

theorem bad_count_sets_zero:
  assumes "enif_is_atom E optname" "enif_get_uint E v = None"
    and "(optname, Param) \<in>
      {(ATOM_QUIC_PARAM_CONN_LOCAL_BIDI_STREAM_COUNT, QUIC_PARAM_CONN_LOCAL_BIDI_STREAM_COUNT),
       (ATOM_QUIC_PARAM_CONN_LOCAL_UNIDI_STREAM_COUNT, QUIC_PARAM_CONN_LOCAL_UNIDI_STREAM_COUNT),
       (ATOM_QUIC_PARAM_CONN_STREAM_SCHEDULING_SCHEME, QUIC_PARAM_CONN_STREAM_SCHEDULING_SCHEME),
       (ATOM_QUIC_PARAM_CONN_LOCAL_INTERFACE, QUIC_PARAM_CONN_LOCAL_INTERFACE)}"
    and "call = SetParam (Connection c) Param 4 (BufU32 0)"
  shows "setopt4 E M (HConn c) optname v ATOM_FALSE =
     Some (if quic_failed M (quic_status_of M call)
           then ERROR_TUPLE_2 (atom_status M (quic_status_of M call)) else ATOM_OK,
           HConn c, [Quic call])"
  using assms
  by (elim insertE emptyE)
     (simp_all add: setopt4_def set_connection_opt_def set_connection_opt_more_def set_uint_param_def
       set_param_def Let_def)

theorem bad_count_sets_zero_witness:
  "setopt4 beam msquic0 (HConn conn0) ATOM_QUIC_PARAM_CONN_LOCAL_BIDI_STREAM_COUNT (Atom ''many'') ATOM_FALSE =
     Some (ATOM_OK, HConn conn0, [Quic (SetParam (Some 4) QUIC_PARAM_CONN_LOCAL_BIDI_STREAM_COUNT 4 (BufU32 0))])"
  using bad_count_sets_zero [of beam ATOM_QUIC_PARAM_CONN_LOCAL_BIDI_STREAM_COUNT "Atom ''many''"
      QUIC_PARAM_CONN_LOCAL_BIDI_STREAM_COUNT _ conn0 msquic0]
  by (simp add: beam_def msquic0_def conn0_def)

end
