(* ===== verification/Quicer_Connect.thy ===== *)
theory Quicer_Connect
  imports Quicer_Opts
begin

section \<open>Opening client connections (\<open>quicer_connection.c\<close>)\<close>

text \<open>
  \<open>open_connectionX\<close> and \<open>async_connect3\<close>, with the optional parameters they set before the
  connection is started. A connection context that was allocated is part of the result, also
  where the code forgets it.
\<close>

type_synonym conn_nif = "(eterm \<times> QuicerConnCTX option \<times> eff list) option"

subsection \<open>Optional parameters\<close>

text \<open>An option of the map that is set on the connection when it is there.\<close>

definition set_if_given ::
    "enif \<Rightarrow> msquic \<Rightarrow> eterm \<Rightarrow> eterm \<Rightarrow> eterm \<Rightarrow> QuicerConnCTX \<Rightarrow> opt_nif" where
  "set_if_given E M eoptions key optname c_ctx =
     (case enif_get_map_value E eoptions key of
        None \<Rightarrow> Some (ATOM_OK, [])
      | Some evalue \<Rightarrow> set_connection_opt E M c_ctx optname evalue ATOM_FALSE)"

definition parse_conn_local_address :: "enif \<Rightarrow> msquic \<Rightarrow> eterm \<Rightarrow> QuicerConnCTX \<Rightarrow> opt_nif" where
  "parse_conn_local_address E M eoptions c_ctx =
     set_if_given E M eoptions ATOM_QUIC_PARAM_CONN_LOCAL_ADDRESS ATOM_QUIC_PARAM_CONN_LOCAL_ADDRESS c_ctx"

definition parse_conn_disable_1rtt_encryption :: "enif \<Rightarrow> msquic \<Rightarrow> eterm \<Rightarrow> QuicerConnCTX \<Rightarrow> opt_nif" where
  "parse_conn_disable_1rtt_encryption E M eoptions c_ctx =
     set_if_given E M eoptions ATOM_QUIC_PARAM_CONN_DISABLE_1RTT_ENCRYPTION
       ATOM_QUIC_PARAM_CONN_DISABLE_1RTT_ENCRYPTION c_ctx"

definition parse_conn_resume_ticket :: "enif \<Rightarrow> msquic \<Rightarrow> eterm \<Rightarrow> QuicerConnCTX \<Rightarrow> opt_nif" where
  "parse_conn_resume_ticket E M eoptions c_ctx =
     set_if_given E M eoptions ATOM_NST ATOM_QUIC_PARAM_CONN_RESUMPTION_TICKET c_ctx"

definition parse_conn_event_mask :: "enif \<Rightarrow> eterm \<Rightarrow> QuicerConnCTX \<Rightarrow> eterm \<times> QuicerConnCTX" where
  "parse_conn_event_mask E eoptions c_ctx =
     (case enif_get_map_value E eoptions ATOM_QUIC_EVENT_MASK of
        None \<Rightarrow> (ATOM_OK, c_ctx)
      | Some evalue \<Rightarrow>
          (case enif_get_uint E evalue of
             None \<Rightarrow> (ERROR_TUPLE_2 ATOM_QUIC_EVENT_MASK, c_ctx)
           | Some m \<Rightarrow> (ATOM_OK, c_ctx\<lparr>c_event_mask := m\<rparr>)))"

subsection \<open>\<open>open_connectionX\<close>\<close>

text \<open>The label \<open>exit\<close>.\<close>

definition open_exit :: "eterm \<Rightarrow> QuicerRegistrationCTX option \<Rightarrow> QuicerConnCTX \<Rightarrow> eff list \<Rightarrow> conn_nif" where
  "open_exit res r_ctx c_ctx es =
     Some (res, Some c_ctx,
       es @ (case r_ctx of None \<Rightarrow> [] | Some r \<Rightarrow> [Release (r_res r)]) @ [Release (c_res c_ctx)])"

text \<open>
  The options are read from \<open>argv[1]\<close>, although the function takes at most one argument:
  \<open>argv\<close> is the argument array with whatever follows it in memory. A context that could not be
  allocated is written through before it is tested.
\<close>

definition open_connectionX ::
    "enif \<Rightarrow> msquic \<Rightarrow> GLOBALS \<Rightarrow> (nat \<Rightarrow> QuicerRegistrationCTX option) \<Rightarrow> nat \<Rightarrow> (nat \<Rightarrow> eterm) \<Rightarrow>
     nat \<Rightarrow> nat \<Rightarrow> conn_nif" where
  "open_connectionX E M G regs argc argv addr acc_address =
     (let options = argv 1 in
      case (if argc = 0 then Some (Some None)
            else c_assert E (argc = 1) (Some (parse_registration E regs options))) of
        None \<Rightarrow> None
      | Some None \<Rightarrow> Some (ERROR_TUPLE_2 ATOM_QUIC_REGISTRATION, None, [])
      | Some (Some r_ctx) \<Rightarrow>
     (let registration = (case r_ctx of None \<Rightarrow> GRegistration G | Some r \<Rightarrow> r_Registration r);
          es = (case r_ctx of None \<Rightarrow> [] | Some r \<Rightarrow> [Keep (r_res r)])
      in case init_c_ctx E addr of
        (None, _) \<Rightarrow> None
      | (Some c_ctx, ies) \<Rightarrow>
     (let c_ctx = c_ctx\<lparr>c_r_ctx := r_ctx\<rparr>; es = es @ ies
      in case AcceptorAlloc E acc_address of
        None \<Rightarrow> None
      | Some None \<Rightarrow> open_exit (ERROR_TUPLE_2 ATOM_ERROR_NOT_ENOUGH_MEMORY) r_ctx c_ctx es
      | Some (Some acc) \<Rightarrow>
     (case enif_self E of
        None \<Rightarrow> open_exit (ERROR_TUPLE_2 ATOM_BAD_PID) r_ctx (c_ctx\<lparr>c_owner := Some acc\<rparr>) es
      | Some self \<Rightarrow>
     (let c_ctx = c_ctx\<lparr>c_owner := Some (acc\<lparr>acc_Pid := self\<rparr>)\<rparr>;
          call = ConnectionOpen registration ClientConnectionCb (c_res c_ctx)
      in if quic_failed M (quic_status_of M call)
         then open_exit (ERROR_TUPLE_2 (atom_status M (quic_status_of M call))) r_ctx c_ctx (es @ [Quic call])
         else
           (let c_ctx = c_ctx\<lparr>Connection := Some (quic_handle_of M call)\<rparr>
            in case parse_conn_resume_ticket E M options c_ctx of
                 None \<Rightarrow> None
               | Some (res, tes) \<Rightarrow>
                   if res \<noteq> ATOM_OK then open_exit res r_ctx c_ctx (es @ [Quic call] @ tes)
                   else Some (SUCCESS (ERes (c_res c_ctx)), Some c_ctx, es @ [Quic call] @ tes)))))))"

subsection \<open>\<open>async_connect3\<close>\<close>

text \<open>
  The label \<open>Error\<close>. A connection that is open is closed; its final event, which the close
  brings about, gives up the context. A context without a connection is dropped without
  releasing it.
\<close>

definition connect_error :: "enif \<Rightarrow> bool \<Rightarrow> eterm \<Rightarrow> QuicerConnCTX \<Rightarrow> eff list \<Rightarrow> conn_nif" where
  "connect_error E is_reuse_handle res c_ctx es =
     (let unlock = (if is_reuse_handle then [Unlock (LockOf (c_res c_ctx))] else []);
          close = (case Connection c_ctx of None \<Rightarrow> [] | Some h \<Rightarrow> [Quic (ConnectionClose (Some h))]);
          c_ctx = (case Connection c_ctx of
                     None \<Rightarrow> c_ctx
                   | Some h \<Rightarrow> c_ctx\<lparr>Connection := None, c_is_closed := True\<rparr>)
      in c_assert E (c_is_closed c_ctx \<or> Connection c_ctx = None)
           (Some (res, Some c_ctx, es @ close @ unlock)))"

text \<open>From \<open>ConnectionStart\<close> on.\<close>

definition connect_start ::
    "enif \<Rightarrow> msquic \<Rightarrow> bool \<Rightarrow> string \<Rightarrow> int \<Rightarrow> QuicerConnCTX \<Rightarrow> eff list \<Rightarrow> conn_nif" where
  "connect_start E M is_reuse_handle host port c_ctx es =
     c_assert E (\<not> c_is_closed c_ctx \<and> Connection c_ctx \<noteq> None)
     (deref (c_config_resource c_ctx) (\<lambda>g.
       (let call = ConnectionStart (Connection c_ctx) (Configuration g) host port
        in if quic_failed M (quic_status_of M call)
           then connect_error E is_reuse_handle (ERROR_TUPLE_2 ATOM_CONN_START_ERROR)
                  (c_ctx\<lparr>c_owner := None, Connection := None\<rparr>)
                  (es @ [Quic call] @ AcceptorDestroy (c_owner c_ctx))
           else deref (c_owner c_ctx) (\<lambda>owner.
             Some (SUCCESS (ERes (c_res c_ctx)), Some c_ctx,
               es @ [Quic call, Monitor (c_res c_ctx) (acc_Pid owner)] @
               (if is_reuse_handle then [Unlock (LockOf (c_res c_ctx))] else []))))))"

text \<open>The optional parameters of the opened connection; a key log that fails is no error.\<close>

definition connect_opts ::
    "enif \<Rightarrow> msquic \<Rightarrow> bool \<Rightarrow> string \<Rightarrow> int \<Rightarrow> eterm \<Rightarrow> QuicerConnCTX \<Rightarrow> eff list \<Rightarrow> conn_nif" where
  "connect_opts E M is_reuse_handle host port eoptions c_ctx es =
     c_assert E (c_is_closed c_ctx)
     (let c_ctx = c_ctx\<lparr>c_is_closed := False\<rparr>
      in case parse_sslkeylogfile_option E M eoptions c_ctx of
        None \<Rightarrow> None
      | Some (c_ctx, kes) \<Rightarrow>
     (case parse_conn_local_address E M eoptions c_ctx of
        None \<Rightarrow> None
      | Some (res, aes) \<Rightarrow>
      if res \<noteq> ATOM_OK then connect_error E is_reuse_handle res c_ctx (es @ kes @ aes)
      else case parse_conn_disable_1rtt_encryption E M eoptions c_ctx of
        None \<Rightarrow> None
      | Some (res, des) \<Rightarrow>
      if res \<noteq> ATOM_OK then connect_error E is_reuse_handle res c_ctx (es @ kes @ aes @ des)
      else case parse_conn_event_mask E eoptions c_ctx of
        (res, c_ctx) \<Rightarrow>
      if res \<noteq> ATOM_OK then connect_error E is_reuse_handle res c_ctx (es @ kes @ aes @ des)
      else connect_start E M is_reuse_handle host port c_ctx (es @ kes @ aes @ des)))"

text \<open>A new context opens its connection; a reused handle has it open already.\<close>

definition connect_open ::
    "enif \<Rightarrow> msquic \<Rightarrow> bool \<Rightarrow> hquic option \<Rightarrow> string \<Rightarrow> int \<Rightarrow> eterm \<Rightarrow> QuicerConnCTX \<Rightarrow> eff list \<Rightarrow> conn_nif" where
  "connect_open E M is_reuse_handle Registration host port eoptions c_ctx es =
     (if is_reuse_handle then connect_opts E M is_reuse_handle host port eoptions c_ctx es
      else
        (let call = ConnectionOpen Registration ClientConnectionCb (c_res c_ctx)
         in if quic_failed M (quic_status_of M call)
            then c_assert E (Connection c_ctx = None)
                   (connect_error E is_reuse_handle (ERROR_TUPLE_2 ATOM_CONN_OPEN_ERROR) c_ctx (es @ [Quic call]))
            else
              (let c_ctx = c_ctx\<lparr>Connection := Some (quic_handle_of M call)\<rparr>
               in case parse_conn_resume_ticket E M eoptions c_ctx of
                    None \<Rightarrow> None
                  | Some (res, tes) \<Rightarrow>
                      if res \<noteq> ATOM_OK
                      then connect_error E is_reuse_handle res c_ctx (es @ [Quic call] @ tes)
                      else connect_opts E M is_reuse_handle host port eoptions c_ctx (es @ [Quic call] @ tes))))"

text \<open>The trusted store and the configuration.\<close>

definition connect_config ::
    "enif \<Rightarrow> msquic \<Rightarrow> openssl \<Rightarrow> GLOBALS \<Rightarrow> bool \<Rightarrow> hquic option \<Rightarrow> string \<Rightarrow> int \<Rightarrow> eterm \<Rightarrow> nat \<Rightarrow>
     QuicerConnCTX \<Rightarrow> eff list \<Rightarrow> conn_nif" where
  "connect_config E M X G is_reuse_handle Registration host port eoptions cfg_addr c_ctx es =
     (let es = es @ (if is_reuse_handle then [Lock (LockOf (c_res c_ctx))] else [])
      in c_assert E (c_owner c_ctx \<noteq> None)
     (case init_config_ctx E cfg_addr of
        None \<Rightarrow> connect_error E is_reuse_handle (ERROR_TUPLE_2 ATOM_ERROR_NOT_ENOUGH_MEMORY)
                  (c_ctx\<lparr>c_config_resource := None\<rparr>) es
      | Some g \<Rightarrow>
     (let c_ctx = c_ctx\<lparr>c_config_resource := Some g\<rparr>
      in case parse_cacertfile_option E eoptions of
        None \<Rightarrow> None
      | Some None \<Rightarrow> connect_error E is_reuse_handle (ERROR_TUPLE_2 ATOM_CACERTFILE) c_ctx es
      | Some (Some cacertfile_opt) \<Rightarrow>
     (case build_trustedstore X cacertfile_opt of (store, bes) \<Rightarrow>
      let fes = (case cacertfile_opt of None \<Rightarrow> [] | Some f \<Rightarrow> bes @ [Free (MCacertFile f)])
      in if cacertfile_opt \<noteq> None \<and> store = None
         then connect_error E is_reuse_handle (ERROR_TUPLE_2 ATOM_CERT_ERROR) c_ctx (es @ fes)
         else
           (let c_ctx = (if cacertfile_opt = None then c_ctx else c_ctx\<lparr>trusted := store\<rparr>)
            in case ClientLoadConfiguration E M G eoptions Registration (Configuration g) of
                 None \<Rightarrow> None
               | Some (estatus, conf, les) \<Rightarrow>
                   (let c_ctx = c_ctx\<lparr>c_config_resource := Some (g\<lparr>Configuration := conf\<rparr>)\<rparr>;
                        es = es @ fes @ les
                    in if estatus \<noteq> ATOM_OK
                       then connect_error E is_reuse_handle (ERROR_TUPLE_2 estatus) c_ctx es
                       else connect_open E M is_reuse_handle Registration host port eoptions c_ctx es))))))"

text \<open>A registration that is closed (no handle) is passed over.\<close>

definition registration_or_global :: "GLOBALS \<Rightarrow> QuicerRegistrationCTX option \<Rightarrow> hquic option" where
  "registration_or_global G r_ctx =
     (case r_ctx of
        None \<Rightarrow> GRegistration G
      | Some r \<Rightarrow> if r_Registration r \<noteq> None then r_Registration r else GRegistration G)"

text \<open>A new context: registration, owner and the calling process.\<close>

definition connect_new ::
    "enif \<Rightarrow> msquic \<Rightarrow> openssl \<Rightarrow> GLOBALS \<Rightarrow> (nat \<Rightarrow> QuicerRegistrationCTX option) \<Rightarrow> string \<Rightarrow> int \<Rightarrow> eterm \<Rightarrow>
     nat \<Rightarrow> nat \<Rightarrow> nat \<Rightarrow> conn_nif" where
  "connect_new E M X G regs host port eoptions addr acc_address cfg_addr =
     (case init_c_ctx E addr of
        (None, _) \<Rightarrow> None
      | (Some c_ctx, es) \<Rightarrow>
     (case parse_registration E regs eoptions of
        None \<Rightarrow> connect_error E False (ERROR_TUPLE_2 ATOM_QUIC_REGISTRATION) c_ctx es
      | Some r_ctx \<Rightarrow>
     (let c_ctx = c_ctx\<lparr>c_r_ctx := r_ctx\<rparr>;
          es = es @ (case r_ctx of
                       None \<Rightarrow> []
                     | Some r \<Rightarrow> if r_Registration r \<noteq> None then [Keep (r_res r)] else [])
      in case AcceptorAlloc E acc_address of
        None \<Rightarrow> None
      | Some None \<Rightarrow> connect_error E False (ERROR_TUPLE_2 ATOM_ERROR_NOT_ENOUGH_MEMORY) c_ctx es
      | Some (Some acc) \<Rightarrow>
     (case enif_self E of
        None \<Rightarrow> connect_error E False (ERROR_TUPLE_2 ATOM_BAD_PID) (c_ctx\<lparr>c_owner := Some acc\<rparr>) es
      | Some self \<Rightarrow>
          connect_config E M X G False (registration_or_global G r_ctx) host port eoptions cfg_addr
            (c_ctx\<lparr>c_owner := Some (acc\<lparr>acc_Pid := self\<rparr>)\<rparr>) es))))"

text \<open>
  The port is tested with the two conditions the wrong way round: a term that is no integer
  leaves \<open>port\<close> at 0, so it is never refused. \<open>conn_of\<close> is \<open>enif_get_resource\<close> for
  connection handles.
\<close>

definition async_connect3 ::
    "enif \<Rightarrow> msquic \<Rightarrow> openssl \<Rightarrow> GLOBALS \<Rightarrow> (nat \<Rightarrow> QuicerRegistrationCTX option) \<Rightarrow>
     (eterm \<Rightarrow> QuicerConnCTX option) \<Rightarrow> eterm \<Rightarrow> eterm \<Rightarrow> eterm \<Rightarrow> nat \<Rightarrow> nat \<Rightarrow> nat \<Rightarrow> conn_nif" where
  "async_connect3 E M X G regs conn_of ehost eport eoptions addr acc_address cfg_addr =
     (let port = (case enif_get_int E eport of None \<Rightarrow> 0 | Some p \<Rightarrow> p)
      in if enif_get_int E eport = None \<and> port > 0 then Some (ERROR_TUPLE_2 ATOM_BADARG, None, [])
      else case enif_get_string E ehost 256 of (n, host) \<Rightarrow>
      if n \<le> 0 then Some (ERROR_TUPLE_2 ATOM_BADARG, None, [])
      else case enif_get_map_value E eoptions ATOM_HANDLE of
        Some ehandle \<Rightarrow>
          (case conn_of ehandle of
             None \<Rightarrow> Some (ERROR_TUPLE_2 ATOM_PARAM_ERROR, None, [])
           | Some c_ctx \<Rightarrow> c_assert E (c_is_closed c_ctx \<and> c_owner c_ctx \<noteq> None)
               (connect_config E M X G True (registration_or_global G (c_r_ctx c_ctx)) host port
                  eoptions cfg_addr c_ctx []))
      | None \<Rightarrow> connect_new E M X G regs host port eoptions addr acc_address cfg_addr)"
subsection \<open>How a connect attempt ends\<close>

text \<open>
  The connections that are open after a list of calls, by the rules of the stack: an accepted
  \<open>ConnectionOpen\<close> opens one, \<open>ConnectionClose\<close> closes one that is open. Closing one that is not
  open is \<open>None\<close>. Nothing else opens or closes.
\<close>

fun open_conns :: "msquic \<Rightarrow> hquic list \<Rightarrow> qcall list \<Rightarrow> hquic list option" where
  "open_conns M hs [] = Some hs"
| "open_conns M hs (ConnectionOpen reg cb r # qs) =
     (let q = ConnectionOpen reg cb r
      in open_conns M (if quic_failed M (quic_status_of M q) then hs else quic_handle_of M q # hs) qs)"
| "open_conns M hs (ConnectionClose h # qs) =
     (case h of
        None \<Rightarrow> None
      | Some x \<Rightarrow> if x \<in> set hs then open_conns M (remove1 x hs) qs else None)"
| "open_conns M hs (_ # qs) = open_conns M hs qs"

lemma open_conns_append:
  "open_conns M hs (xs @ ys) = (case open_conns M hs xs of None \<Rightarrow> None | Some hs' \<Rightarrow> open_conns M hs' ys)"
  by (induction M hs xs rule: open_conns.induct) (auto simp: Let_def split: option.split)

fun opens_closes :: "qcall \<Rightarrow> bool" where
  "opens_closes (ConnectionOpen _ _ _) = True"
| "opens_closes (ConnectionClose _) = True"
| "opens_closes _ = False"

definition no_open_close :: "eff list \<Rightarrow> bool" where
  "no_open_close es \<longleftrightarrow> (\<forall>q \<in> set (quic_calls es). \<not> opens_closes q)"

lemma no_open_close_simps [simp]:
  "no_open_close []" "no_open_close (xs @ ys) \<longleftrightarrow> no_open_close xs \<and> no_open_close ys"
  "no_open_close (Quic q # es) \<longleftrightarrow> \<not> opens_closes q \<and> no_open_close es"
  "no_open_close (Free m # es) \<longleftrightarrow> no_open_close es"
  by (auto simp: no_open_close_def)

lemma open_conns_same: "\<forall>q \<in> set qs. \<not> opens_closes q \<Longrightarrow> open_conns M hs qs = Some hs"
  by (induction M hs qs rule: open_conns.induct) auto

lemma open_conns_inert: "no_open_close es \<Longrightarrow> open_conns M hs (quic_calls es) = Some hs"
  by (simp add: no_open_close_def open_conns_same)

text \<open>The handle of a context, as a list.\<close>

definition handle_list :: "hquic option \<Rightarrow> hquic list" where
  "handle_list h = (case h of None \<Rightarrow> [] | Some x \<Rightarrow> [x])"

lemma handle_list_simps [simp]: "handle_list None = []" "handle_list (Some h) = [h]"
  by (simp_all add: handle_list_def)

text \<open>What setting an option answers and does.\<close>

fun is_set_param :: "qcall \<Rightarrow> bool" where
  "is_set_param (SetParam h p len b) = True"
| "is_set_param _ = False"

lemma is_set_param_open: "is_set_param q \<Longrightarrow> \<not> opens_closes q"
  by (cases q) auto

definition opt_answer :: "eterm \<Rightarrow> bool" where
  "opt_answer t \<longleftrightarrow> t = ATOM_OK \<or> (\<exists>e. t = ERROR_TUPLE_2 e)"

lemma opt_answer_simps [simp]: "opt_answer (Atom ''ok'')" "opt_answer (ERROR_TUPLE_2 e)"
  by (auto simp: opt_answer_def)

definition writes_only :: "eterm \<times> eff list \<Rightarrow> bool" where
  "writes_only r \<longleftrightarrow> opt_answer (fst r) \<and> opt_effects is_set_param (snd r)"

lemma set_param_writes: "writes_only (set_param M h Param len buf)"
  by (simp add: writes_only_def set_param_def Let_def)

lemma set_addr_param_writes: "writes_only (set_addr_param E M h Param v)"
  using set_param_writes by (simp add: set_addr_param_def writes_only_def split: option.split)

lemma set_bool_param_writes: "writes_only (set_bool_param M h Param v)"
  using set_param_writes by (simp add: set_bool_param_def writes_only_def split: option.split)

lemma set_uint_param_writes: "writes_only (set_uint_param E M h Param v)"
  unfolding set_uint_param_def by (rule set_param_writes)

lemma writes_quiet: "opt_answer t \<Longrightarrow> writes_only (t, [])"
  by (simp add: writes_only_def)

lemmas writes = set_param_writes set_addr_param_writes set_bool_param_writes set_uint_param_writes

lemma set_level_param_writes: "post (set_level_param E M h g optname v level) writes_only"
  unfolding set_level_param_def set_config_opt_def set_tls_opt_def
  by (intro wp) (simp_all add: writes writes_quiet)

lemma set_connection_opt_writes: "post (set_connection_opt E M c optname v level) writes_only"
proof -
  have pair: "writes_only (t, es @ [Free MOptBuff])" "writes_only (if t = ATOM_OK then t else ERROR_TUPLE_2 e, es)"
    if "f = (t, es)" "writes_only f" for f t es e
    using that by (simp_all add: writes_only_def)
  have freed: "writes_only (ERROR_TUPLE_2 e, [Free MOptBuff])" for e
    by (simp add: writes_only_def)
  show ?thesis
    unfolding set_connection_opt_def set_connection_opt_more_def
    by (intro wp set_level_param_writes) (simp_all add: freed writes writes_quiet pair [OF _ writes(1)] pair [OF _ writes(3)])
qed

lemma writes_only_inert:
  "writes_only (t, es) \<Longrightarrow> opt_answer t \<and> no_locks es \<and> releases es = [] \<and> no_open_close es"
  using opt_effects_inert [of is_set_param es] by (auto simp: writes_only_def no_open_close_def is_set_param_open)

lemma set_if_given_writes:
  assumes "set_if_given E M eoptions key optname c = Some (t, es)"
  shows "opt_answer t \<and> no_locks es \<and> releases es = [] \<and> no_open_close es"
proof -
  have post: "post (set_if_given E M eoptions key optname c) writes_only"
    unfolding set_if_given_def
    by (intro wp set_connection_opt_writes) (simp add: writes_quiet)
  show ?thesis by (rule writes_only_inert [OF postD [OF post assms]])
qed

lemma parse_conn_writes:
  "parse_conn_local_address E M eoptions c = Some (t, es) \<Longrightarrow>
     opt_answer t \<and> no_locks es \<and> releases es = [] \<and> no_open_close es"
  "parse_conn_disable_1rtt_encryption E M eoptions c = Some (t, es) \<Longrightarrow>
     opt_answer t \<and> no_locks es \<and> releases es = [] \<and> no_open_close es"
  "parse_conn_resume_ticket E M eoptions c = Some (t, es) \<Longrightarrow>
     opt_answer t \<and> no_locks es \<and> releases es = [] \<and> no_open_close es"
  unfolding parse_conn_local_address_def parse_conn_disable_1rtt_encryption_def parse_conn_resume_ticket_def
  by (erule set_if_given_writes)+

lemma sslkeylogfile_frame:
  assumes "parse_sslkeylogfile_option E M eoptions c = Some (c', es)"
  shows "no_locks es \<and> releases es = [] \<and> no_open_close es \<and> Connection c' = Connection c \<and> c_is_closed c' = c_is_closed c \<and>
     c_addr c' = c_addr c \<and> c_owner c' = c_owner c \<and> c_config_resource c' = c_config_resource c"
proof -
  have "post (parse_sslkeylogfile_option E M eoptions c) (\<lambda>(c', es). no_locks es \<and> releases es = [] \<and>
     no_open_close es \<and> Connection c' = Connection c \<and> c_is_closed c' = c_is_closed c \<and> c_addr c' = c_addr c \<and>
     c_owner c' = c_owner c \<and> c_config_resource c' = c_config_resource c)"
    unfolding parse_sslkeylogfile_option_def by (intro wp) simp_all
  with assms show ?thesis by (auto simp: post_def)
qed

lemma event_mask_frame:
  assumes "parse_conn_event_mask E eoptions c = (t, c')"
  shows "opt_answer t \<and> Connection c' = Connection c \<and> c_is_closed c' = c_is_closed c \<and>
     c_addr c' = c_addr c \<and> c_owner c' = c_owner c \<and> c_config_resource c' = c_config_resource c"
  using assms by (auto simp: parse_conn_event_mask_def split: option.splits)

text \<open>
  \<open>held\<close>: what has been done so far holds just the lock of a reused handle, and just the
  connection of the context is open. \<open>connect_outcome\<close>: the attempt fails and nothing is open,
  or its start was refused and the connection is still open but in no context, or the
  connection in the context is the one that is open and started.
\<close>

definition held :: "msquic \<Rightarrow> hquic list \<Rightarrow> bool \<Rightarrow> QuicerConnCTX \<Rightarrow> eff list \<Rightarrow> bool" where
  "held M hs reuse c es \<longleftrightarrow>
     lock_run [] es = Some (if reuse then [LockOf (c_res c)] else []) \<and> releases es = [] \<and>
     open_conns M hs (quic_calls es) = Some (handle_list (Connection c))"

lemma held_append:
  "held M hs reuse c es \<Longrightarrow> no_locks es' \<Longrightarrow> releases es' = [] \<Longrightarrow> no_open_close es' \<Longrightarrow>
     c_addr c' = c_addr c \<Longrightarrow> Connection c' = Connection c \<Longrightarrow> held M hs reuse c' (es @ es')"
  by (simp add: held_def lock_run_append lock_run_no_locks open_conns_append open_conns_inert)

definition connect_failed :: "msquic \<Rightarrow> hquic list \<Rightarrow> qcall list \<Rightarrow> bool" where
  "connect_failed M hs qs \<longleftrightarrow>
     open_conns M hs qs = Some [] \<or>
     (\<exists>pre h cfg host port. qs = pre @ [ConnectionStart h cfg host port] \<and>
        quic_failed M (quic_status_of M (ConnectionStart h cfg host port)) \<and>
        open_conns M hs qs = Some (handle_list h))"

definition connect_outcome :: "enif \<Rightarrow> msquic \<Rightarrow> hquic list \<Rightarrow> eterm \<times> QuicerConnCTX option \<times> eff list \<Rightarrow> bool" where
  "connect_outcome E M hs r \<longleftrightarrow>
     (case r of (res, c', es) \<Rightarrow> balanced es \<and> releases es = [] \<and>
        (case c' of
           None \<Rightarrow> (\<exists>e. res = ERROR_TUPLE_2 e) \<and> es = []
         | Some c \<Rightarrow>
             (\<exists>e. res = ERROR_TUPLE_2 e) \<and> Connection c = None \<and> connect_failed M hs (quic_calls es) \<or>
             res = SUCCESS (ERes (c_res c)) \<and> \<not> c_is_closed c \<and> (ndebug E \<or> Connection c \<noteq> None) \<and>
             open_conns M hs (quic_calls es) = Some (handle_list (Connection c)) \<and>
             (\<exists>pre cfg host port.
                quic_calls es = pre @ [ConnectionStart (Connection c) cfg host port] \<and>
                \<not> quic_failed M (quic_status_of M (ConnectionStart (Connection c) cfg host port)))))"

lemma connect_error_outcome:
  assumes "held M hs reuse c es" "opt_answer res" "res \<noteq> ATOM_OK"
  shows "post (connect_error E reuse res c es) (connect_outcome E M hs)"
  using assms unfolding connect_error_def
  by (intro wp)
     (auto simp: connect_outcome_def connect_failed_def held_def balanced_def lock_run_append opt_answer_def
       open_conns_append split: option.splits)

lemma AcceptorDestroy_inert [simp]:
  "no_locks (AcceptorDestroy a)" "releases (AcceptorDestroy a) = []" "lock_run h (AcceptorDestroy a) = Some h"
  "quic_calls (AcceptorDestroy a) = []"
  by (simp_all add: AcceptorDestroy_def split: option.split)

lemma start_refused_outcome:
  assumes "held M hs reuse c es" "call = ConnectionStart (Connection c) cfg host port"
    and "quic_failed M (quic_status_of M call)"
  shows "post (connect_error E reuse (ERROR_TUPLE_2 e) (c\<lparr>c_owner := None, Connection := None\<rparr>)
     (es @ [Quic call] @ AcceptorDestroy a)) (connect_outcome E M hs)"
  using assms unfolding connect_error_def
  by (intro wp)
     (auto simp: connect_outcome_def connect_failed_def held_def balanced_def lock_run_append open_conns_append)

lemma connect_start_outcome:
  assumes "held M hs reuse c es" "\<not> c_is_closed c"
  shows "post (connect_start E M reuse host port c es) (connect_outcome E M hs)"
  using assms unfolding connect_start_def
  by (intro wp start_refused_outcome)
     (auto simp: connect_outcome_def held_def balanced_def lock_run_append open_conns_append)

lemma connect_opts_outcome:
  assumes "held M hs reuse c es"
  shows "post (connect_opts E M reuse host port eoptions c es) (connect_outcome E M hs)"
proof -
  note facts = sslkeylogfile_frame parse_conn_writes event_mask_frame
  show ?thesis
    unfolding connect_opts_def
    by (intro wp connect_error_outcome connect_start_outcome)
       (auto dest!: facts intro!: held_append [OF assms])
qed

lemma connect_open_outcome:
  assumes "held M hs reuse c es" "reuse \<or> Connection c = None"
  shows "post (connect_open E M reuse reg host port eoptions c es) (connect_outcome E M hs)"
  using assms unfolding connect_open_def
  by (intro wp connect_error_outcome connect_opts_outcome)
     (auto dest!: parse_conn_writes
       simp: held_def lock_run_append lock_run_no_locks open_conns_append open_conns_inert)

lemma build_trustedstore_inert:
  "build_trustedstore X f = (store, es) \<Longrightarrow> no_locks es \<and> releases es = [] \<and> no_open_close es"
  by (auto simp: build_trustedstore_def split: option.splits if_splits)

lemma free_certificate_open [simp]: "no_open_close (free_certificate cc)"
  by (auto simp: free_certificate_def split: QUIC_CREDENTIAL_TYPE.split)

lemma client_load_open:
  "post (ClientLoadConfiguration E M G opts reg conf) (\<lambda>(t, conf', es). no_open_close es)"
  unfolding ClientLoadConfiguration_def by (intro wp) auto

lemma client_load_inert:
  assumes "ClientLoadConfiguration E M G opts reg conf = Some (t, conf', es)"
  shows "no_locks es \<and> releases es = [] \<and> no_open_close es"
  using postD [OF client_load_contract assms] postD [OF client_load_open assms] by (simp add: load_contract_def)

lemma connect_config_outcome:
  assumes "held M hs False c es" "reuse \<or> Connection c = None"
  shows "post (connect_config E M X G reuse reg host port eoptions a c es) (connect_outcome E M hs)"
  using assms unfolding connect_config_def
  by (intro wp connect_error_outcome connect_open_outcome)
     (auto dest!: build_trustedstore_inert client_load_inert
       simp: held_def lock_run_append lock_run_no_locks opt_answer_def open_conns_append open_conns_inert
       split: option.split)

lemma connect_new_outcome:
  "post (connect_new E M X G regs host port eoptions a acc cfg) (connect_outcome E M [])"
proof -
  have start: "held M [] False c es \<and> Connection c = None" if "init_c_ctx E a = (Some c, es)" for c es
    using init_c_ctx_fresh [OF that] that
    by (auto simp: held_def balanced_def ctx_init_defs split: if_splits)
  show ?thesis
    unfolding connect_new_def
    by (intro wp connect_error_outcome connect_config_outcome)
       (auto dest!: start simp: held_def lock_run_append lock_run_no_locks open_conns_append split: option.split)
qed

subsection \<open>Properties\<close>

text \<open>
  C13: An attempt to connect is all or nothing, also in the eyes of the stack. Counting the
  connections that its calls open and close, from the one a reused handle brings along: if it
  succeeds, it answers the handle, the connection in the context is the only one open, and
  starting it was the last thing asked of the stack, which agreed. If it fails, it answers an
  error, and either it did not touch anything, or the context has no connection any more; then
  every connection that was open has been closed, exactly once, with one exception: when
  \<open>ConnectionStart\<close> is what failed, the handle is dropped from the context without closing it.
  The lock of a reused handle is free again in every case. The function itself never gives up
  the context: after a close the final event does.
\<close>

theorem connect_all_or_nothing:
  assumes "async_connect3 E M X G regs conn_of ehost eport eoptions addr acc_address cfg_addr = Some (res, c', es)"
    and "hs = (case Option.bind (enif_get_map_value E eoptions ATOM_HANDLE) conn_of of
                 None \<Rightarrow> [] | Some c \<Rightarrow> handle_list (Connection c))"
  shows "balanced es \<and> releases es = [] \<and>
    ((\<exists>e. res = ERROR_TUPLE_2 e) \<and> c' = None \<and> es = [] \<or>
     (\<exists>e c. res = ERROR_TUPLE_2 e \<and> c' = Some c \<and> Connection c = None \<and>
        (open_conns M hs (quic_calls es) = Some [] \<or>
         (\<exists>pre h cfg host port. quic_calls es = pre @ [ConnectionStart h cfg host port] \<and>
            quic_failed M (quic_status_of M (ConnectionStart h cfg host port)) \<and>
            open_conns M hs (quic_calls es) = Some (handle_list h)))) \<or>
     (\<exists>c pre cfg host port. c' = Some c \<and> res = SUCCESS (ERes (c_res c)) \<and> \<not> c_is_closed c \<and>
        (ndebug E \<or> Connection c \<noteq> None) \<and>
        open_conns M hs (quic_calls es) = Some (handle_list (Connection c)) \<and>
        quic_calls es = pre @ [ConnectionStart (Connection c) cfg host port] \<and>
        \<not> quic_failed M (quic_status_of M (ConnectionStart (Connection c) cfg host port))))"
proof -
  have quiet: "connect_outcome E M hs' (ERROR_TUPLE_2 e, None, [])" for e hs'
    by (simp add: connect_outcome_def balanced_def)
  have "post (async_connect3 E M X G regs conn_of ehost eport eoptions addr acc_address cfg_addr) (connect_outcome E M hs)"
    using assms(2) connect_new_outcome [of E M X G regs _ _ eoptions addr acc_address cfg_addr]
    unfolding async_connect3_def
    by (intro wp connect_config_outcome) (simp_all add: quiet held_def)
  from postD [OF this assms(1)] show ?thesis
    by (cases c') (auto simp: connect_outcome_def connect_failed_def)
qed

text \<open>
  A client configuration that the stack accepts, with further options, and a stack that refuses
  to start connections.
\<close>

definition connect_opts0 :: "(eterm \<times> eterm) list \<Rightarrow> eterm" where
  "connect_opts0 extra = EMap ([(ATOM_ALPN, EList [EStr ''h3'']), (ATOM_VERIFY, ATOM_NONE)] @ extra)"

definition globals0 :: GLOBALS where
  "globals0 = \<lparr>MsQuic = True, isLibOpened = True, isRegistered = True, GRegistration = Some 40,
     GExecutionProfile = QUIC_EXECUTION_PROFILE_LOW_LATENCY\<rparr>"

definition refusing :: msquic where
  "refusing = msquic0\<lparr>quic_status_of := (\<lambda>q. case q of ConnectionStart _ _ _ _ \<Rightarrow> QUIC_STATUS_ABORTED
     | _ \<Rightarrow> QUIC_STATUS_SUCCESS)\<rparr>"

lemma refusing_simps:
  "quic_status_of refusing q = (case q of ConnectionStart _ _ _ _ \<Rightarrow> QUIC_STATUS_ABORTED
      | _ \<Rightarrow> QUIC_STATUS_SUCCESS)"
  "\<not> quic_failed refusing QUIC_STATUS_SUCCESS" "quic_failed refusing QUIC_STATUS_ABORTED"
  "quic_handle_of refusing q = 42"
  by (simp_all add: refusing_def msquic0_def)

lemma refused_connect:
  assumes "extra = [] \<or> extra = [(ATOM_QUIC_EVENT_MASK, ATOM_NONE)]"
  shows "\<exists>c es. async_connect3 beam refusing openssl0 globals0 (\<lambda>_. None) (\<lambda>_. None)
       (EStr ''localhost'') (EInt 443) (connect_opts0 extra) 20 21 22 =
     Some (ERROR_TUPLE_2 (if extra = [] then ATOM_CONN_START_ERROR else ATOM_QUIC_EVENT_MASK), Some c, es) \<and>
     (extra \<noteq> [] \<longrightarrow> ConnectionClose (Some 42) \<in> set (quic_calls es) \<and>
        (\<forall>h cfg a p. ConnectionStart h cfg a p \<notin> set (quic_calls es)))"
proof -
  let ?o = "connect_opts0 extra" and ?M = refusing
  have start: "async_connect3 beam ?M openssl0 globals0 (\<lambda>_. None) (\<lambda>_. None)
       (EStr ''localhost'') (EInt 443) ?o 20 21 22 =
     connect_new beam ?M openssl0 globals0 (\<lambda>_. None) ''localhost'' 443 ?o 20 21 22"
    using assms by (auto simp: async_connect3_def beam_def term_string_def char_of_def bit_0 connect_opts0_def)
  have alpn: "load_alpn beam ?o = Some (Some [''h3''])"
    by (simp add: load_alpn_def connect_opts0_def beam_def term_string_def write_str_def strlen_def
        char_of_def bit_0 PATH_MAX_def MAX_ALPN_def)
  obtain S where S: "create_settings beam ?M ?o = Some S"
    using assms by (auto simp: create_settings_def connect_opts0_def beam_def)
  have cert: "parse_cert_options beam ?o cc = Some (False, cc)" for cc
    using assms by (auto simp: parse_cert_options_def str_from_map_def connect_opts0_def beam_def)
  obtain les where load: "ClientLoadConfiguration beam ?M globals0 ?o (Some 40) None =
     Some (ATOM_OK, Some 42, les)"
    by (simp add: ClientLoadConfiguration_def S alpn cert parse_verify_options_def refusing_simps Let_def globals0_def)
  have opts: "enif_get_map_value beam ?o k = None" if "k \<notin> {ATOM_ALPN, ATOM_VERIFY, ATOM_QUIC_EVENT_MASK}" for k
    using that assms by (auto simp: beam_def connect_opts0_def)
  have mask: "enif_get_map_value beam ?o ATOM_QUIC_EVENT_MASK = (if extra = [] then None else Some ATOM_NONE)"
    "enif_get_uint beam ATOM_NONE = None"
    using assms by (auto simp: beam_def connect_opts0_def)
  have reg: "GRegistration globals0 = Some 40"
    by (simp add: globals0_def)
  have rt: "alloc_ok beam n" "enif_self beam = Some 7" "\<not> ndebug beam" "enif_is_map beam ?o" for n
    by (simp_all add: beam_def connect_opts0_def)
  note calls = client_load_open [THEN postD, OF load, unfolded no_open_close_def]
  show ?thesis
    unfolding start connect_new_def connect_config_def connect_open_def connect_opts_def connect_start_def
      connect_error_def
    using assms postD [OF client_load_contract load]
    by (auto simp: ctx_init_defs opts mask load parse_registration_def AcceptorAlloc_def registration_or_global_def
        parse_cacertfile_option_def parse_sslkeylogfile_option_def str_from_map_def build_trustedstore_def
        parse_conn_local_address_def parse_conn_disable_1rtt_encryption_def parse_conn_resume_ticket_def
        set_if_given_def parse_conn_event_mask_def refusing_simps rt reg Let_def load_contract_def split: if_splits)
qed

theorem connect_all_or_nothing_witness:
  "(\<exists>c es. async_connect3 beam refusing openssl0 globals0 (\<lambda>_. None) (\<lambda>_. None)
       (EStr ''localhost'') (EInt 443) (connect_opts0 [(ATOM_QUIC_EVENT_MASK, ATOM_NONE)]) 20 21 22 =
       Some (ERROR_TUPLE_2 ATOM_QUIC_EVENT_MASK, Some c, es) \<and>
     open_conns refusing [] (quic_calls es) = Some [] \<and> ConnectionClose (Some 42) \<in> set (quic_calls es)) \<and>
   (\<exists>c es. async_connect3 beam refusing openssl0 globals0 (\<lambda>_. None) (\<lambda>_. None)
       (EStr ''localhost'') (EInt 443) (connect_opts0 []) 20 21 22 =
       Some (ERROR_TUPLE_2 ATOM_CONN_START_ERROR, Some c, es) \<and> Connection c = None \<and> balanced es)"
proof -
  have hs: "[] = (case Option.bind (enif_get_map_value E eoptions ATOM_HANDLE) (\<lambda>_. None) of
      None \<Rightarrow> [] | Some c \<Rightarrow> handle_list (Connection c))" for E eoptions
    by (cases "enif_get_map_value E eoptions ATOM_HANDLE") simp_all
  obtain c es where bad: "async_connect3 beam refusing openssl0 globals0 (\<lambda>_. None) (\<lambda>_. None)
       (EStr ''localhost'') (EInt 443) (connect_opts0 [(ATOM_QUIC_EVENT_MASK, ATOM_NONE)]) 20 21 22 =
     Some (ERROR_TUPLE_2 ATOM_QUIC_EVENT_MASK, Some c, es)" "ConnectionClose (Some 42) \<in> set (quic_calls es)"
      "\<forall>h cfg a p. ConnectionStart h cfg a p \<notin> set (quic_calls es)"
    using refused_connect [of "[(ATOM_QUIC_EVENT_MASK, ATOM_NONE)]"] by auto
  obtain c' es' where start: "async_connect3 beam refusing openssl0 globals0 (\<lambda>_. None) (\<lambda>_. None)
       (EStr ''localhost'') (EInt 443) (connect_opts0 []) 20 21 22 =
     Some (ERROR_TUPLE_2 ATOM_CONN_START_ERROR, Some c', es')"
    using refused_connect [of "[]"] by auto
  have fail: "ERROR_TUPLE_2 x \<noteq> SUCCESS t" for x t by simp
  have no_start: "quic_calls es \<noteq> pre @ [ConnectionStart h cfg a p]" for pre h cfg a p
    using bad(3) in_set_conv_decomp [of "ConnectionStart h cfg a p" "quic_calls es"] by blast
  have closed: "open_conns refusing [] (quic_calls es) = Some []"
    using connect_all_or_nothing [OF bad(1) hs] no_start by blast
  have "Connection c' = None \<and> balanced es'"
    using connect_all_or_nothing [OF start hs] fail by blast
  then show ?thesis
    using bad start closed by blast
qed

end
