(* ===== verification/Quicer_Listener.thy ===== *)
theory Quicer_Listener
  imports Quicer_Connect
begin

section \<open>Listeners (\<open>quicer_listener.c\<close>)\<close>

text \<open>
  The listener callback and the NIFs that open, stop, start and close a listener. A new
  connection of a client goes to the first process that waits in the acceptor queue of the
  listener. The end of a listener is told twice: \<open>is_stopped\<close> says that the stack no longer
  listens, \<open>is_closed\<close> that the handle is gone, and which of the two events comes last decides
  who gives up the reference to the context.
\<close>

subsection \<open>Events\<close>

text \<open>
  What the stack tells of a connection attempt; the two addresses are already printed, as
  \<open>QuicAddrToString\<close> of the stack prints them.
\<close>

record new_connection_info =
  QuicVersion :: u32
  LocalAddress :: string
  RemoteAddress :: string
  ServerName :: bytes
  NegotiatedAlpn :: bytes
  ClientAlpnList :: bytes
  CryptoBuffer :: bytes

datatype QUIC_LISTENER_EVENT =
    NEW_CONNECTION hquic new_connection_info
  | STOP_COMPLETE
  | LISTENER_EVENT_OTHER

type_synonym listener_result = "(quic_status \<times> QuicerListenerCTX \<times> QuicerConnCTX option \<times> eff list) option"

definition new_conn_message :: "QuicerConnCTX \<Rightarrow> new_connection_info \<Rightarrow> eterm" where
  "new_conn_message c_ctx info =
     make_event_with_props ATOM_NEW_CONN (ERes (c_res c_ctx))
       [ATOM_VER, ATOM_LOCAL_ADDR, ATOM_REMOTE_ADDR, ATOM_SERVER_NAME, ATOM_ALPNS, ATOM_CLIENT_ALPNS,
        ATOM_CRYPTO_BUFFER]
       [enif_make_uint (QuicVersion info), EStr (LocalAddress info), EStr (RemoteAddress info),
        EBin (ServerName info), EBin (NegotiatedAlpn info), EBin (ClientAlpnList info),
        EBin (CryptoBuffer info)]"

text \<open>
  A connection that is refused stays with the stack, which closes it: its handle is taken out
  of the context, and the context is released.
\<close>

definition reject_connection ::
    "QuicerListenerCTX \<Rightarrow> QuicerConnCTX \<Rightarrow> quic_status \<Rightarrow> eff list \<Rightarrow> listener_result" where
  "reject_connection l_ctx c_ctx Status es =
     Some (Status, l_ctx, Some (c_ctx\<lparr>Connection := None\<rparr>),
       es @ [Release (c_res c_ctx), Unlock (LockOf (l_res l_ctx))])"

text \<open>
  The case of a new connection. A context that could not be allocated is read through before
  it is tested. The trusted store and the configuration of the listener are shared.
\<close>

definition listener_new_connection ::
    "enif \<Rightarrow> msquic \<Rightarrow> QuicerListenerCTX \<Rightarrow> hquic \<Rightarrow> new_connection_info \<Rightarrow> nat \<Rightarrow> listener_result" where
  "listener_new_connection E M l_ctx hConn info addr =
     (case init_c_ctx E addr of
        (None, _) \<Rightarrow> None
      | (Some c_ctx, ies) \<Rightarrow>
     (let c_ctx = c_ctx\<lparr>Connection := Some hConn, trusted := trusted_store l_ctx\<rparr>;
          es = [Lock (LockOf (l_res l_ctx))] @ ies @
               (case trusted_store l_ctx of None \<Rightarrow> [] | Some st \<Rightarrow> [UpRef (MX509Store st)])
      in deref (l_config_resource l_ctx) (\<lambda>g. deref (l_acceptor_queue l_ctx) (\<lambda>q.
           case AcceptorDequeue q of (conn_owner, q, qes) \<Rightarrow>
           (let l_ctx = l_ctx\<lparr>l_acceptor_queue := Some q\<rparr>;
                c_ctx = c_ctx\<lparr>c_config_resource := Some g\<rparr>;
                es = es @ [Keep (g_res g)] @ qes
            in case conn_owner of
                 None \<Rightarrow> reject_connection l_ctx c_ctx QUIC_STATUS_UNREACHABLE es
               | Some conn_owner \<Rightarrow>
                   (let c_ctx = c_ctx\<lparr>c_owner := Some conn_owner\<rparr>;
                        report = new_conn_message c_ctx info;
                        es = es @
                          (if allow_insecure l_ctx
                           then [Quic (SetParam (Some hConn) QUIC_PARAM_CONN_DISABLE_1RTT_ENCRYPTION 1 (BufU8 1))]
                           else []) @
                          [Send (acc_Pid conn_owner) report]
                    in if \<not> alloc_ok E ''binary'' then None
                       else if \<not> enif_send E (acc_Pid conn_owner) report
                       then reject_connection l_ctx c_ctx QUIC_STATUS_INTERNAL_ERROR es
                       else Some (QUIC_STATUS_SUCCESS, l_ctx, Some (c_ctx\<lparr>c_is_closed := False\<rparr>),
                              es @ [Quic (SetCallbackHandler (Some hConn) ServerConnectionCb (c_res c_ctx)),
                                    ClearEnv (EnvOf (c_res c_ctx)), Unlock (LockOf (l_res l_ctx))])))))))"

definition listener_stopped_message :: "QuicerListenerCTX \<Rightarrow> eterm" where
  "listener_stopped_message l_ctx = ETuple [ATOM_QUIC, ATOM_LISTENER_STOPPED, ERes (l_res l_ctx)]"

text \<open>
  The listener has stopped: no lock is taken. If the handle is gone already, this is part of
  closing the listener, and the context goes.
\<close>

definition listener_stop_complete :: "enif \<Rightarrow> QuicerListenerCTX \<Rightarrow> listener_result" where
  "listener_stop_complete E l_ctx =
     (let es = [Send (listenerPid l_ctx) (listener_stopped_message l_ctx)]
      in if Listener l_ctx = None
         then c_assert E (\<not> l_is_stopped l_ctx)
                (case destroy_l_ctx l_ctx of
                   None \<Rightarrow> None
                 | Some (l_ctx, des) \<Rightarrow>
                     Some (QUIC_STATUS_SUCCESS, l_ctx, None, es @ [ClearEnv (EnvOf (l_res l_ctx))] @ des))
         else Some (QUIC_STATUS_SUCCESS, l_ctx, None, es @ [ClearEnv (EnvOf (l_res l_ctx))]))"

text \<open>Any other event runs into the unlocking of a mutex that was never locked.\<close>

fun ServerListenerCallback ::
    "enif \<Rightarrow> msquic \<Rightarrow> QuicerListenerCTX \<Rightarrow> QUIC_LISTENER_EVENT \<Rightarrow> nat \<Rightarrow> listener_result" where
  "ServerListenerCallback E M l_ctx (NEW_CONNECTION hConn info) addr =
     listener_new_connection E M l_ctx hConn info addr"
| "ServerListenerCallback E M l_ctx STOP_COMPLETE addr = listener_stop_complete E l_ctx"
| "ServerListenerCallback E M l_ctx LISTENER_EVENT_OTHER addr =
     Some (QUIC_STATUS_SUCCESS, l_ctx, None, [Unlock (LockOf (l_res l_ctx))])"

subsection \<open>Opening a listener\<close>

type_synonym listener_nif = "(eterm \<times> QuicerListenerCTX option \<times> eff list) option"

text \<open>The label \<open>exit\<close>.\<close>

definition listen_exit :: "eterm \<Rightarrow> QUIC_CREDENTIAL_CONFIG \<Rightarrow> QuicerListenerCTX \<Rightarrow> eff list \<Rightarrow> listener_nif" where
  "listen_exit ret CredConfig l_ctx es =
     (case destroy_l_ctx l_ctx of
        None \<Rightarrow> None
      | Some (l_ctx, des) \<Rightarrow> Some (ret, Some l_ctx, es @ free_certificate CredConfig @ des))"

text \<open>From \<open>ListenerOpen\<close> on.\<close>

definition listen_open ::
    "enif \<Rightarrow> msquic \<Rightarrow> eterm \<Rightarrow> QUIC_ADDR \<Rightarrow> hquic option \<Rightarrow> QUIC_CREDENTIAL_CONFIG \<Rightarrow> QuicerListenerCTX \<Rightarrow>
     eff list \<Rightarrow> listener_nif" where
  "listen_open E M options Address Registration CredConfig l_ctx es =
     (let open_call = ListenerOpen Registration ServerListenerCb (l_res l_ctx); es = es @ [Quic open_call]
      in if quic_failed M (quic_status_of M open_call)
         then deref (l_config_resource l_ctx) (\<lambda>g.
                listen_exit (ERROR_TUPLE_3 ATOM_LISTENER_OPEN_ERROR (atom_status M (quic_status_of M open_call)))
                  CredConfig (l_ctx\<lparr>l_config_resource := Some (g\<lparr>Configuration := None\<rparr>)\<rparr>) es)
         else
           (let l_ctx = l_ctx\<lparr>Listener := Some (quic_handle_of M open_call), l_is_closed := False\<rparr>;
                l_ctx = (if enif_get_map_value E options ATOM_ALLOW_INSECURE = Some ATOM_TRUE
                         then l_ctx\<lparr>allow_insecure := True\<rparr> else l_ctx)
            in case load_alpn E options of
                 None \<Rightarrow> None
               | Some None \<Rightarrow> listen_exit (ERROR_TUPLE_2 ATOM_ALPN) CredConfig l_ctx es
               | Some (Some alpns) \<Rightarrow> stale_read E
                   (let start_call = ListenerStart (Listener l_ctx) alpns Address; es = es @ [Quic start_call]
                    in if quic_failed M (quic_status_of M start_call)
                       then listen_exit
                              (ERROR_TUPLE_3 ATOM_LISTENER_START_ERROR (atom_status M (quic_status_of M start_call)))
                              CredConfig (l_ctx\<lparr>Listener := None\<rparr>) (es @ [Quic (ListenerClose (Listener l_ctx))])
                       else Some (OK_TUPLE_2 (ERes (l_res l_ctx)), Some l_ctx, es @ free_certificate CredConfig))))"

text \<open>From the owner of the context on: registration, configuration and monitor.\<close>

definition listen_config ::
    "enif \<Rightarrow> msquic \<Rightarrow> GLOBALS \<Rightarrow> (nat \<Rightarrow> QuicerRegistrationCTX option) \<Rightarrow> eterm \<Rightarrow> QUIC_ADDR \<Rightarrow>
     QUIC_CREDENTIAL_CONFIG \<Rightarrow> QuicerListenerCTX \<Rightarrow> eff list \<Rightarrow> listener_nif" where
  "listen_config E M G regs options Address CredConfig l_ctx es =
     (case enif_self E of
        None \<Rightarrow> listen_exit (ERROR_TUPLE_2 ATOM_BAD_PID) CredConfig l_ctx es
      | Some self \<Rightarrow>
     (let l_ctx = l_ctx\<lparr>listenerPid := self\<rparr>
      in case parse_registration E regs options of
        None \<Rightarrow> listen_exit (ERROR_TUPLE_2 ATOM_QUIC_REGISTRATION) CredConfig l_ctx es
      | Some r_ctx \<Rightarrow>
     (let l_ctx = l_ctx\<lparr>l_r_ctx := r_ctx\<rparr>;
          es = es @ (case r_ctx of None \<Rightarrow> [] | Some r \<Rightarrow> [Keep (r_res r)]);
          Registration = (case r_ctx of None \<Rightarrow> GRegistration G | Some r \<Rightarrow> r_Registration r)
      in deref (l_config_resource l_ctx) (\<lambda>g.
         case ServerLoadConfiguration E M G options Registration (Configuration g) CredConfig of
           None \<Rightarrow> None
         | Some (estatus, conf, les) \<Rightarrow>
             (let l_ctx = l_ctx\<lparr>l_config_resource := Some (g\<lparr>Configuration := conf\<rparr>)\<rparr>; es = es @ les
              in if estatus \<noteq> ATOM_OK
                 then listen_exit (ERROR_TUPLE_3 ATOM_CONFIG_ERROR estatus) CredConfig l_ctx es
                 else if enif_monitor_process E (l_res l_ctx) self \<noteq> 0
                 then listen_exit (ERROR_TUPLE_2 ATOM_BAD_MON) CredConfig l_ctx (es @ [Monitor (l_res l_ctx) self])
                 else listen_open E M options Address Registration CredConfig l_ctx
                        (es @ [Monitor (l_res l_ctx) self]))))))"

text \<open>The first part reads the options; what fails there frees nothing.\<close>

definition listen2 ::
    "enif \<Rightarrow> msquic \<Rightarrow> openssl \<Rightarrow> GLOBALS \<Rightarrow> (nat \<Rightarrow> QuicerRegistrationCTX option) \<Rightarrow> eterm \<Rightarrow> eterm \<Rightarrow>
     nat \<Rightarrow> nat \<Rightarrow> listener_nif" where
  "listen2 E M X G regs elisten_on options addr config_addr =
     (if \<not> enif_is_map E options then Some (ERROR_TUPLE_2 ATOM_BADARG, None, [])
      else case parse_listen_on E M elisten_on of
        None \<Rightarrow> Some (ERROR_TUPLE_2 ATOM_BADARG, None, [])
      | Some Address \<Rightarrow>
     (case parse_cert_options E options (zero_cred\<lparr>cred_Flags := QUIC_CREDENTIAL_FLAG_NONE M\<rparr>) of
        None \<Rightarrow> None
      | Some (ok, CredConfig) \<Rightarrow>
      if \<not> ok then Some (ERROR_TUPLE_2 ATOM_QUIC_TLS, None, [])
      else case parse_verify_options E M options CredConfig True of (ok, CredConfig) \<Rightarrow>
      if \<not> ok then Some (ERROR_TUPLE_2 ATOM_VERIFY, None, [])
      else case parse_cacertfile_option E options of
        None \<Rightarrow> None
      | Some None \<Rightarrow> Some (ERROR_TUPLE_2 ATOM_CACERTFILE, None, [])
      | Some (Some cacert) \<Rightarrow>
     (case init_l_ctx E addr config_addr of
        (None, _) \<Rightarrow> Some (ERROR_TUPLE_2 ATOM_ERROR_NOT_ENOUGH_MEMORY, None, [])
      | (Some l_ctx, ies) \<Rightarrow>
     (case cacert of
        None \<Rightarrow> listen_config E M G regs options Address CredConfig l_ctx ies
      | Some f \<Rightarrow>
     (let CredConfig = add_flag (QUIC_CREDENTIAL_FLAG_NO_CERTIFICATE_VALIDATION M)
                         (add_flag (QUIC_CREDENTIAL_FLAG_INDICATE_CERTIFICATE_RECEIVED M) CredConfig)
      in case build_trustedstore X (Some f) of
           (None, bes) \<Rightarrow> listen_exit (ERROR_TUPLE_2 ATOM_CERT_ERROR) CredConfig
                            (l_ctx\<lparr>cacertfile := Some f\<rparr>) (ies @ bes)
         | (Some store, bes) \<Rightarrow>
             listen_config E M G regs options Address CredConfig
               (l_ctx\<lparr>cacertfile := Some f, trusted_store := Some store\<rparr>) (ies @ bes))))))"

subsection \<open>Closing, stopping and starting again\<close>

definition close_listener1 :: "QuicerListenerCTX option \<Rightarrow> listener_nif" where
  "close_listener1 l_h =
     (case l_h of
        None \<Rightarrow> Some (ERROR_TUPLE_2 ATOM_BADARG, None, [])
      | Some l_ctx \<Rightarrow>
     (let lk = Lock (LockOf (l_res l_ctx)); ulk = Unlock (LockOf (l_res l_ctx))
      in if l_is_closed l_ctx then Some (ERROR_TUPLE_2 ATOM_CLOSED, Some l_ctx, [lk, ulk])
         else
           (let l = Listener l_ctx;
                l_ctx = l_ctx\<lparr>Listener := None, l_is_closed := True\<rparr>;
                es = [lk, ulk, Quic (ListenerClose l)]
            in if l_is_stopped l_ctx
               then (case destroy_l_ctx l_ctx of
                       None \<Rightarrow> None
                     | Some (l_ctx, des) \<Rightarrow> Some (ATOM_OK, Some l_ctx, es @ des))
               else Some (ATOM_OK, Some l_ctx, es))))"

definition stop_listener1 :: "QuicerListenerCTX option \<Rightarrow> eterm \<times> QuicerListenerCTX option \<times> eff list" where
  "stop_listener1 l_h =
     (case l_h of
        None \<Rightarrow> (ERROR_TUPLE_2 ATOM_BADARG, None, [])
      | Some l_ctx \<Rightarrow>
     (let lk = Lock (LockOf (l_res l_ctx)); ulk = Unlock (LockOf (l_res l_ctx))
      in if Listener l_ctx = None then (ERROR_TUPLE_2 ATOM_CLOSED, Some l_ctx, [lk, ulk])
         else if \<not> l_is_stopped l_ctx
         then (ATOM_OK, Some (l_ctx\<lparr>l_is_stopped := True\<rparr>), [lk, Quic (ListenerStop (Listener l_ctx)), ulk])
         else (ATOM_OK, Some l_ctx, [lk, ulk])))"

text \<open>
  The address is parsed by a copy of \<open>parse_listen_on\<close> that asks for a string first, whatever
  the type of the term is.
\<close>

definition start_listen_addr :: "enif \<Rightarrow> msquic \<Rightarrow> eterm \<Rightarrow> QUIC_ADDR option" where
  "start_listen_addr E M elisten_on =
     (case enif_get_string E elisten_on LISTEN_ON_LEN of (n, s) \<Rightarrow>
        if 0 < n then addr_from_string M s
        else case enif_get_int E elisten_on of
               None \<Rightarrow> None
             | Some UdpPort \<Rightarrow> if 0 \<le> UdpPort then Some (port_addr UdpPort) else None)"

definition start_listener3 :: "enif \<Rightarrow> msquic \<Rightarrow> QuicerListenerCTX option \<Rightarrow> eterm \<Rightarrow> eterm \<Rightarrow> listener_nif" where
  "start_listener3 E M l_h elisten_on options =
     (case l_h of
        None \<Rightarrow> Some (ERROR_TUPLE_2 ATOM_BADARG, None, [])
      | Some l_ctx \<Rightarrow>
     (case start_listen_addr E M elisten_on of
        None \<Rightarrow> Some (ERROR_TUPLE_2 ATOM_BADARG, Some l_ctx, [])
      | Some Address \<Rightarrow>
     (case load_alpn E options of
        None \<Rightarrow> None
      | Some None \<Rightarrow> Some (ERROR_TUPLE_2 ATOM_ALPN, Some l_ctx, [])
      | Some (Some alpns) \<Rightarrow>
     (let lk = Lock (LockOf (l_res l_ctx)); ulk = Unlock (LockOf (l_res l_ctx));
          call = ListenerStart (Listener l_ctx) alpns Address
      in if Listener l_ctx = None then Some (ERROR_TUPLE_2 ATOM_CLOSED, Some l_ctx, [lk, ulk])
         else stale_read E
           (if quic_failed M (quic_status_of M call)
            then Some (ERROR_TUPLE_3 ATOM_LISTENER_START_ERROR (atom_status M (quic_status_of M call)),
                       Some l_ctx, [lk, Quic call, ulk])
            else Some (ATOM_OK, Some (l_ctx\<lparr>l_is_stopped := False\<rparr>), [lk, Quic call, ulk]))))))"
subsection \<open>Facts\<close>

lemma dequeue_cases:
  "AcceptorDequeue q = (case q_List q of
     [] \<Rightarrow> (None, q, [Lock (QueueLockOf (q_owner q)), Unlock (QueueLockOf (q_owner q))])
   | a # as \<Rightarrow> (Some a, q\<lparr>q_List := as\<rparr>, [Lock (QueueLockOf (q_owner q)), Unlock (QueueLockOf (q_owner q))]))"
  by (simp add: AcceptorDequeue_def split: list.split)

lemma new_conn_message_simps [simp]:
  "new_conn_message (c\<lparr>Connection := x\<rparr>) info = new_conn_message c info"
  "new_conn_message (c\<lparr>c_is_closed := y\<rparr>) info = new_conn_message c info"
  "new_conn_message (c\<lparr>c_owner := z\<rparr>) info = new_conn_message c info"
  by (simp_all add: new_conn_message_def)

text \<open>The context of a new connection before an acceptor is looked for, and what it took.\<close>

lemma new_connection_eq:
  assumes "l_config_resource l = Some g" "l_acceptor_queue l = Some q" "q_owner q = l_res l"
    "alloc_ok E ''ctx_connection_t''" "alloc_ok E ''QUICER_ACCEPTOR_QUEUE''" "alloc_ok E ''binary''"
  shows "\<exists>c pre. c_addr c = addr \<and> Connection c = Some h \<and> c_config_resource c = Some g \<and>
     trusted c = trusted_store l \<and>
     lock_run [] pre = Some [LockOf (l_res l)] \<and> releases pre = [] \<and> keeps pre = [g_res g] \<and>
     msgs pre = [] \<and> quic_calls pre = [] \<and>
     listener_new_connection E M l h info addr =
     (case q_List q of
        [] \<Rightarrow> reject_connection l c QUIC_STATUS_UNREACHABLE pre
      | a # as \<Rightarrow>
          (let l' = l\<lparr>l_acceptor_queue := Some (q\<lparr>q_List := as\<rparr>)\<rparr>;
               c = c\<lparr>c_owner := Some a\<rparr>;
               pre = pre @
                 (if allow_insecure l
                  then [Quic (SetParam (Some h) QUIC_PARAM_CONN_DISABLE_1RTT_ENCRYPTION 1 (BufU8 1))] else []) @
                 [Send (acc_Pid a) (new_conn_message c info)]
           in if \<not> enif_send E (acc_Pid a) (new_conn_message c info)
              then reject_connection l' c QUIC_STATUS_INTERNAL_ERROR pre
              else Some (QUIC_STATUS_SUCCESS, l', Some (c\<lparr>c_is_closed := False\<rparr>),
                     pre @ [Quic (SetCallbackHandler (Some h) ServerConnectionCb (c_res c)),
                            ClearEnv (EnvOf (c_res c)), Unlock (LockOf (l_res l))])))"
proof -
  obtain c0 where c0: "init_c_ctx E addr = (Some c0, [Lock (QueueLockOf (RConn addr)), Unlock (QueueLockOf (RConn addr))])"
    and fresh: "c_addr c0 = addr"
    using assms(4,5) by (auto simp: ctx_init_defs)
  let ?c = "c0\<lparr>Connection := Some h, trusted := trusted_store l, c_config_resource := Some g\<rparr>"
  let ?pre = "[Lock (LockOf (l_res l)), Lock (QueueLockOf (RConn addr)), Unlock (QueueLockOf (RConn addr))] @
     (case trusted_store l of None \<Rightarrow> [] | Some st \<Rightarrow> [UpRef (MX509Store st)]) @ [Keep (g_res g)] @
     [Lock (QueueLockOf (l_res l)), Unlock (QueueLockOf (l_res l))]"
  have upd: "l\<lparr>l_acceptor_queue := Some q\<rparr> = l" by (simp add: assms(2) [symmetric])
  show ?thesis
    by (rule exI [of _ ?c], rule exI [of _ ?pre])
       (simp add: listener_new_connection_def c0 fresh assms dequeue_cases upd Let_def
         split: list.split option.split)
qed

subsection \<open>Properties\<close>

text \<open>
  C18: A new connection goes to the process that has waited longest, as one message that names
  it; the stack is told to call back for it, and the connection starts with the configuration
  and the trusted store of the listener, whose reference it shares. With nobody waiting, or
  nobody there to receive the message, the connection is refused and its context released
  once, without its handle. Either way the lock of the listener is free again, and at most
  one acceptor is used up.
\<close>

theorem new_connection_outcome:
  assumes "l_config_resource l = Some g" "l_acceptor_queue l = Some q" "q_owner q = l_res l"
    "alloc_ok E ''ctx_connection_t''" "alloc_ok E ''QUICER_ACCEPTOR_QUEUE''" "alloc_ok E ''binary''"
  shows "\<exists>st l' c es. ServerListenerCallback E M l (NEW_CONNECTION h info) addr = Some (st, l', Some c, es) \<and>
     balanced es \<and> c_addr c = addr \<and> c_config_resource c = Some g \<and> keeps es = [g_res g] \<and>
     trusted c = trusted_store l \<and> l_acceptor_queue l' = Some (q\<lparr>q_List := tl (q_List q)\<rparr>) \<and>
     (case q_List q of
        [] \<Rightarrow> st = QUIC_STATUS_UNREACHABLE \<and> Connection c = None \<and> releases es = [c_res c] \<and> msgs es = []
      | a # as \<Rightarrow> c_owner c = Some a \<and> msgs es = [(acc_Pid a, new_conn_message c info)] \<and>
          (if enif_send E (acc_Pid a) (new_conn_message c info)
           then st = QUIC_STATUS_SUCCESS \<and> Connection c = Some h \<and> \<not> c_is_closed c \<and> releases es = [] \<and>
             last (quic_calls es) = SetCallbackHandler (Some h) ServerConnectionCb (c_res c)
           else st = QUIC_STATUS_INTERNAL_ERROR \<and> Connection c = None \<and> releases es = [c_res c]))"
proof -
  obtain c pre where c: "c_addr c = addr" "Connection c = Some h" "c_config_resource c = Some g"
    "trusted c = trusted_store l"
    and pre: "lock_run [] pre = Some [LockOf (l_res l)]" "releases pre = []" "keeps pre = [g_res g]"
      "msgs pre = []" "quic_calls pre = []"
    and run: "listener_new_connection E M l h info addr =
     (case q_List q of
        [] \<Rightarrow> reject_connection l c QUIC_STATUS_UNREACHABLE pre
      | a # as \<Rightarrow>
          (let l' = l\<lparr>l_acceptor_queue := Some (q\<lparr>q_List := as\<rparr>)\<rparr>;
               c = c\<lparr>c_owner := Some a\<rparr>;
               pre = pre @
                 (if allow_insecure l
                  then [Quic (SetParam (Some h) QUIC_PARAM_CONN_DISABLE_1RTT_ENCRYPTION 1 (BufU8 1))] else []) @
                 [Send (acc_Pid a) (new_conn_message c info)]
           in if \<not> enif_send E (acc_Pid a) (new_conn_message c info)
              then reject_connection l' c QUIC_STATUS_INTERNAL_ERROR pre
              else Some (QUIC_STATUS_SUCCESS, l', Some (c\<lparr>c_is_closed := False\<rparr>),
                     pre @ [Quic (SetCallbackHandler (Some h) ServerConnectionCb (c_res c)),
                            ClearEnv (EnvOf (c_res c)), Unlock (LockOf (l_res l))])))"
    using new_connection_eq [OF assms, of addr h M info] by blast
  show ?thesis
  proof (cases "q_List q")
    case Nil
    then have "q\<lparr>q_List := []\<rparr> = q" by simp
    with Nil show ?thesis
      by (simp add: run reject_connection_def balanced_def lock_run_append assms(2) c pre)
  next
    case (Cons a as)
    then show ?thesis
      by (cases "enif_send E (acc_Pid a) (new_conn_message c info)")
         (simp_all add: run reject_connection_def balanced_def lock_run_append c pre Let_def)
  qed
qed

definition info0 :: new_connection_info where
  "info0 = \<lparr>QuicVersion = 1, LocalAddress = ''127.0.0.1:443'', RemoteAddress = ''127.0.0.1:5000'',
     ServerName = [], NegotiatedAlpn = [104, 51], ClientAlpnList = [2, 104, 51], CryptoBuffer = []\<rparr>"

definition listener1 :: "ACCEPTOR list \<Rightarrow> QuicerListenerCTX" where
  "listener1 as = listener0\<lparr>l_config_resource := Some \<lparr>g_addr = 2, Configuration = Some 20\<rparr>,
     l_acceptor_queue := Some \<lparr>q_List = as, q_owner = RListener 3\<rparr>\<rparr>"

theorem new_connection_outcome_witness:
  "\<exists>l' c es. ServerListenerCallback beam msquic0
       (listener1 [\<lparr>acc_addr = 2, acc_Pid = 7, active = ACCEPTOR_RECV_MODE_ACTIVE, active_count = 0,
                    acc_Settings = zero_settings\<rparr>]) (NEW_CONNECTION 50 info0) 60 =
       Some (QUIC_STATUS_SUCCESS, l', Some c, es) \<and> map fst (msgs es) = [7] \<and> Connection c = Some 50"
  using new_connection_outcome [of "listener1 [\<lparr>acc_addr = 2, acc_Pid = 7, active = ACCEPTOR_RECV_MODE_ACTIVE,
        active_count = 0, acc_Settings = zero_settings\<rparr>]" "\<lparr>g_addr = 2, Configuration = Some 20\<rparr>"
      "\<lparr>q_List = [\<lparr>acc_addr = 2, acc_Pid = 7, active = ACCEPTOR_RECV_MODE_ACTIVE,
        active_count = 0, acc_Settings = zero_settings\<rparr>], q_owner = RListener 3\<rparr>" beam msquic0 50 info0 60]
  by (fastforce simp: listener1_def listener0_def beam_def)
subsection \<open>How an attempt to listen ends\<close>

definition quiet :: "eff list \<Rightarrow> bool" where
  "quiet es \<longleftrightarrow> balanced es \<and> releases es = [] \<and> (\<forall>h a d. ListenerStart h a d \<notin> set (quic_calls es))"

lemma quiet_simps [simp]:
  "quiet []" "quiet (xs @ [Quic q]) \<longleftrightarrow> quiet xs \<and> (\<forall>h a d. q \<noteq> ListenerStart h a d)"
  "quiet (xs @ [Keep r]) \<longleftrightarrow> quiet xs" "quiet (xs @ [Monitor r p]) \<longleftrightarrow> quiet xs"
  by (auto simp: quiet_def balanced_def lock_run_append split: option.splits)

lemma quiet_append: "quiet xs \<Longrightarrow> quiet ys \<Longrightarrow> quiet (xs @ ys)"
  by (auto simp: quiet_def balanced_append)

definition listen_outcome :: "msquic \<Rightarrow> eterm \<times> QuicerListenerCTX option \<times> eff list \<Rightarrow> bool" where
  "listen_outcome M r \<longleftrightarrow>
     (case r of (res, l', es) \<Rightarrow> balanced es \<and>
        (case l' of
           None \<Rightarrow> es = [] \<and> (\<exists>e. res = ERROR_TUPLE_2 e)
         | Some l \<Rightarrow>
             (res = OK_TUPLE_2 (ERes (l_res l)) \<and> Listener l \<noteq> None \<and> \<not> l_is_closed l \<and> \<not> l_is_stopped l \<and>
              releases es = [] \<and>
              (\<exists>pre alpns a. quic_calls es = pre @ [ListenerStart (Listener l) alpns a] \<and>
                 \<not> quic_failed M (quic_status_of M (ListenerStart (Listener l) alpns a)))) \<or>
             ((\<forall>t. res \<noteq> OK_TUPLE_2 t) \<and> count_list (releases es) (l_res l) = 1 \<and>
              (\<forall>h a d. ListenerStart h a d \<in> set (quic_calls es) \<longrightarrow>
                 quic_failed M (quic_status_of M (ListenerStart h a d))))))"

lemma destroy_l_ctx_effects:
  assumes "destroy_l_ctx l = Some (l', es)"
  shows "no_locks es \<and> count_list (releases es) (l_res l) = 1 \<and> quic_calls es = [] \<and> msgs es = [] \<and> l_addr l' = l_addr l"
  using assms by (auto simp: destroy_l_ctx_def destroy_config_ctx_def split: option.splits)

text \<open>Starting failed, or was never reached.\<close>

definition unstarted :: "msquic \<Rightarrow> eff list \<Rightarrow> bool" where
  "unstarted M es \<longleftrightarrow> balanced es \<and> releases es = [] \<and>
     (\<forall>h a d. ListenerStart h a d \<in> set (quic_calls es) \<longrightarrow> quic_failed M (quic_status_of M (ListenerStart h a d)))"

lemma quiet_unstarted: "quiet es \<Longrightarrow> unstarted M es"
  by (auto simp: quiet_def unstarted_def)

lemma listen_exit_outcome:
  assumes "unstarted M es" "\<And>t. ret \<noteq> OK_TUPLE_2 t"
  shows "post (listen_exit ret cred l es) (listen_outcome M)"
  using assms unfolding listen_exit_def
  by (intro wp)
     (auto dest!: destroy_l_ctx_effects
       simp: listen_outcome_def unstarted_def balanced_def lock_run_append lock_run_no_locks)

lemma error_not_ok [simp]:
  "ERROR_TUPLE_2 e \<noteq> OK_TUPLE_2 t" "ERROR_TUPLE_3 e f \<noteq> OK_TUPLE_2 t"
  by (simp_all add: ret_defs)

lemma listen_open_outcome:
  assumes "quiet es" "\<not> l_is_stopped l"
  shows "post (listen_open E M options a reg cred l es) (listen_outcome M)"
proof -
  have opened: "quiet (es @ [Quic (ListenerOpen h c r)])" for h c r
    using assms(1) by simp
  have failed: "unstarted M (es @ [Quic (ListenerOpen h c r), Quic q, Quic (ListenerClose k)])"
    if "quic_failed M (quic_status_of M q)" "q = ListenerStart h' al ad" for h c r q h' al ad k
    using assms(1) that by (auto simp: unstarted_def quiet_def balanced_def lock_run_append)
  show ?thesis
    using assms unfolding listen_open_def
    by (intro wp listen_exit_outcome)
       (auto simp: opened [simplified] failed quiet_unstarted listen_outcome_def
         quiet_def balanced_def lock_run_append lock_run_no_locks)
qed
lemma no_locks_quiet: "no_locks es \<Longrightarrow> releases es = [] \<Longrightarrow> quic_calls es = [] \<Longrightarrow> quiet es"
  by (simp add: quiet_def balanced_no_locks)

lemma server_load_quiet:
  assumes "ServerLoadConfiguration E M G opts reg conf cred = Some (t, conf', es)"
  shows "quiet es"
proof -
  have "post (ServerLoadConfiguration E M G opts reg conf cred) (\<lambda>(t, conf', es). quiet es)"
    unfolding ServerLoadConfiguration_def
    by (intro wp) (simp_all add: quiet_def balanced_def)
  from postD [OF this assms] show ?thesis by simp
qed

lemma listen_config_outcome:
  assumes "quiet es" "\<not> l_is_stopped l"
  shows "post (listen_config E M G regs options a cred l es) (listen_outcome M)"
proof -
  have kept: "quiet (es @ (case r of None \<Rightarrow> [] | Some r \<Rightarrow> [Keep (r_res r)]))" for r
    using assms(1) by (cases r) simp_all
  show ?thesis
    using assms unfolding listen_config_def
    by (intro wp listen_exit_outcome listen_open_outcome)
       (auto dest!: server_load_quiet intro!: quiet_unstarted quiet_append [OF kept] simp flip: append_assoc)
qed

lemma build_trustedstore_quiet:
  "build_trustedstore X f = (store, es) \<Longrightarrow> quiet es"
  by (auto simp: build_trustedstore_def quiet_def balanced_def split: option.splits if_splits)

lemma init_l_ctx_quiet:
  "init_l_ctx E a b = (Some l, es) \<Longrightarrow> quiet es \<and> \<not> l_is_stopped l"
  by (auto simp: ctx_init_defs quiet_def balanced_def split: if_splits)

text \<open>
  C11: An attempt to listen either ends with a listener that the stack has started, whose
  handle is answered, or with an error; then no listener is left running, and a context that
  was made is given up exactly once. The mutexes are as they were in every case.
\<close>

theorem listen_all_or_nothing:
  assumes "listen2 E M X G regs elisten_on options addr config_addr = Some (res, l', es)"
  shows "balanced es \<and>
    (case l' of
       None \<Rightarrow> es = [] \<and> (\<exists>e. res = ERROR_TUPLE_2 e)
     | Some l \<Rightarrow>
         (res = OK_TUPLE_2 (ERes (l_res l)) \<and> Listener l \<noteq> None \<and> \<not> l_is_closed l \<and> \<not> l_is_stopped l \<and>
          releases es = [] \<and>
          (\<exists>pre alpns a. quic_calls es = pre @ [ListenerStart (Listener l) alpns a] \<and>
             \<not> quic_failed M (quic_status_of M (ListenerStart (Listener l) alpns a)))) \<or>
         ((\<forall>t. res \<noteq> OK_TUPLE_2 t) \<and> count_list (releases es) (l_res l) = 1 \<and>
          (\<forall>h a d. ListenerStart h a d \<in> set (quic_calls es) \<longrightarrow>
             quic_failed M (quic_status_of M (ListenerStart h a d)))))"
proof -
  have none: "listen_outcome M (ERROR_TUPLE_2 e, None, [])" for e
    by (simp add: listen_outcome_def balanced_def)
  have "post (listen2 E M X G regs elisten_on options addr config_addr) (listen_outcome M)"
    unfolding listen2_def
    by (intro wp listen_exit_outcome listen_config_outcome)
       (auto dest!: init_l_ctx_quiet build_trustedstore_quiet simp: none intro: quiet_unstarted quiet_append)
  from postD [OF this assms] show ?thesis
    by (simp add: listen_outcome_def)
qed

text \<open>The options of a listener whose certificate is in two files.\<close>

definition listen_opts0 :: eterm where
  "listen_opts0 = EMap [(ATOM_CERTFILE, EStr ''c''), (ATOM_KEYFILE, EStr ''k''), (ATOM_ALPN, EList [EStr ''h3''])]"

theorem listen_all_or_nothing_witness:
  "\<exists>l es. listen2 beam (msquic0\<lparr>quic_status_of := (\<lambda>q. case q of ListenerStart _ _ _ \<Rightarrow>
         QUIC_STATUS_ADDRESS_IN_USE | _ \<Rightarrow> QUIC_STATUS_SUCCESS)\<rparr>) openssl0 globals0 (\<lambda>_. None)
       (EInt 443) listen_opts0 3 2 =
       Some (ERROR_TUPLE_3 ATOM_LISTENER_START_ERROR ATOM_QUIC_STATUS_ADDRESS_IN_USE, Some l, es) \<and>
     count_list (releases es) (l_res l) = 1"
proof -
  define M where "M = msquic0\<lparr>quic_status_of := (\<lambda>q. case q of ListenerStart _ _ _ \<Rightarrow>
         QUIC_STATUS_ADDRESS_IN_USE | _ \<Rightarrow> QUIC_STATUS_SUCCESS)\<rparr>"
  have stack: "quic_status_of M q = (case q of ListenerStart _ _ _ \<Rightarrow> QUIC_STATUS_ADDRESS_IN_USE
      | _ \<Rightarrow> QUIC_STATUS_SUCCESS)" "\<not> quic_failed M QUIC_STATUS_SUCCESS" "quic_failed M QUIC_STATUS_ADDRESS_IN_USE"
      "quic_handle_of M q = 42" for q
    by (simp_all add: M_def msquic0_def)
  have rt: "alloc_ok beam n" "enif_self beam = Some 7" "\<not> ndebug beam" "enif_is_map beam listen_opts0"
    "enif_monitor_process beam r p = 0" for n r p
    by (simp_all add: beam_def listen_opts0_def)
  have opts: "enif_get_map_value beam listen_opts0 k = None"
    if "k \<notin> {ATOM_CERTFILE, ATOM_KEYFILE, ATOM_ALPN}" for k
    using that by (simp add: beam_def listen_opts0_def)
  have reg: "GRegistration globals0 = Some 40" "isRegistered globals0"
    by (simp_all add: globals0_def)
  have alpn: "load_alpn beam listen_opts0 = Some (Some [''h3''])"
    by (simp add: load_alpn_def listen_opts0_def beam_def term_string_def write_str_def strlen_def
        char_of_def bit_0 PATH_MAX_def MAX_ALPN_def)
  have cert: "\<exists>c. parse_cert_options beam listen_opts0 cc = Some (True, c)" for cc
    by (simp add: parse_cert_options_def str_from_map_def listen_opts0_def beam_def term_string_def PATH_MAX_def
        char_of_def bit_0)
  obtain c where c: "parse_cert_options beam listen_opts0 (zero_cred\<lparr>cred_Flags := QUIC_CREDENTIAL_FLAG_NONE M\<rparr>) =
      Some (True, c)"
    using cert by blast
  obtain S where S: "create_settings beam M listen_opts0 = Some S"
    by (simp add: create_settings_def listen_opts0_def beam_def)
  have addr: "parse_listen_on beam M (EInt 443) = Some (port_addr 443)"
    by (simp add: parse_listen_on_def beam_def)
  obtain l es where run: "listen2 beam M openssl0 globals0 (\<lambda>_. None) (EInt 443) listen_opts0 3 2 =
       Some (ERROR_TUPLE_3 ATOM_LISTENER_START_ERROR ATOM_QUIC_STATUS_ADDRESS_IN_USE, Some l, es)"
    by (simp add: listen2_def listen_config_def listen_open_def listen_exit_def rt opts reg alpn c S addr stack
        parse_verify_options_def parse_cacertfile_option_def parse_registration_def ServerLoadConfiguration_def
        ctx_init_defs destroy_l_ctx_def Let_def)
  show ?thesis
    using run listen_all_or_nothing [OF run] unfolding M_def by (auto simp: ret_defs)
qed

lemma accept_enqueues:
  assumes "async_accept2 E M (Some l) opts acc = Some (SUCCESS t, Some l', es)"
    and "l_acceptor_queue l = Some q"
  shows "\<exists>a S self. enif_self E = Some self \<and> create_settings E M opts = Some S \<and>
     acc_Pid a = self \<and> acc_Settings a = S \<and> l' = l\<lparr>l_acceptor_queue := Some (q\<lparr>q_List := q_List q @ [a]\<rparr>)\<rparr>"
proof -
  have "post (async_accept2 E M (Some l) opts acc) (\<lambda>(res, l', es). \<forall>t. res = SUCCESS t \<longrightarrow>
     (\<exists>a S self. enif_self E = Some self \<and> create_settings E M opts = Some S \<and>
     acc_Pid a = self \<and> acc_Settings a = S \<and>
     l' = Some (l\<lparr>l_acceptor_queue := Some (q\<lparr>q_List := q_List q @ [a]\<rparr>)\<rparr>)))"
    unfolding async_accept2_def option.case
    by (intro wp) (auto simp: assms(2) AcceptorEnqueue_def dest: set_owner_recv_mode_frame(1)
        intro!: exI [where x = "acceptor\<lparr>acc_Settings := S\<rparr>" for acceptor S])
  from postD [OF this assms(1)] show ?thesis by auto
qed

text \<open>
  C7: From accept to handshake: a process accepts on a listener where nobody else waits, a
  client connects, and the handshake goes on. Then the connection belongs to that process, and
  the stack is given, in this order, the configuration of the listener and the settings the
  process put into its accept options.
\<close>

theorem accepted_connection_configured:
  assumes "l_config_resource l = Some g" "l_acceptor_queue l = Some q" "q_List q = []"
    "async_accept2 E M (Some l) opts acc = Some (SUCCESS t, Some l1, es1)"
    "ServerListenerCallback E M l1 (NEW_CONNECTION h info) addr = Some (QUIC_STATUS_SUCCESS, l2, Some c, es2)"
    "\<not> quic_failed M (quic_status_of M (ConnectionSetConfiguration (Some h) (Configuration g)))"
  shows "\<exists>S st es3. create_settings E M opts = Some S \<and> map_option acc_Pid (c_owner c) = enif_self E \<and>
     continue_connection_handshake M (Some c) = Some (st, es3) \<and>
     quic_calls es3 = [ConnectionSetConfiguration (Some h) (Configuration g),
       SetParam (Some h) QUIC_PARAM_CONN_SETTINGS (sizeof_settings M) (BufSettings S)]"
proof -
  obtain a S self where a: "enif_self E = Some self" "create_settings E M opts = Some S" "acc_Pid a = self"
    "acc_Settings a = S" "l1 = l\<lparr>l_acceptor_queue := Some (q\<lparr>q_List := [a]\<rparr>)\<rparr>"
    using accept_enqueues [OF assms(4,2)] assms(3) by auto
  have "post (listener_new_connection E M l1 h info addr) (\<lambda>(st, l', c, es). st = QUIC_STATUS_SUCCESS \<longrightarrow>
     (\<exists>c'. c = Some c' \<and> c_owner c' = Some a \<and> Connection c' = Some h \<and> c_config_resource c' = Some g))"
    unfolding listener_new_connection_def
    by (intro wp) (auto simp: a(5) assms(1) dequeue_cases reject_connection_def post_def)
  then have "c_owner c = Some a" "Connection c = Some h" "c_config_resource c = Some g"
    using postD [of _ _ "(QUIC_STATUS_SUCCESS, l2, Some c, es2)"] assms(5) by fastforce+
  then show ?thesis
    using assms(6) a by (simp add: continue_connection_handshake_def Let_def)
qed

theorem accepted_connection_configured_witness:
  "\<exists>t l1 es1 l2 c es2 S st es3.
     async_accept2 beam msquic0 (Some (listener1 [])) (EMap [(ATOM_QUIC_SETTINGS_IdleTimeoutMs, EInt 9)]) 70 =
       Some (SUCCESS t, Some l1, es1) \<and>
     ServerListenerCallback beam msquic0 l1 (NEW_CONNECTION 50 info0) 60 = Some (QUIC_STATUS_SUCCESS, l2, Some c, es2) \<and>
     continue_connection_handshake msquic0 (Some c) = Some (st, es3) \<and>
     quic_calls es3 = [ConnectionSetConfiguration (Some 50) (Some 20),
       SetParam (Some 50) QUIC_PARAM_CONN_SETTINGS 144 (BufSettings S)]"
proof -
  let ?opts = "EMap [(ATOM_QUIC_SETTINGS_IdleTimeoutMs, EInt 9)]"
  have rt: "alloc_ok beam n" "enif_self beam = Some 7" "enif_is_process_alive beam p" "enif_send beam p m"
    "enif_get_map_value beam ?opts ATOM_QUIC_STREAM_OPTS_ACTIVE = None" for n p m
    by (simp_all add: beam_def)
  have l: "l_config_resource (listener1 as) = Some \<lparr>g_addr = 2, Configuration = Some 20\<rparr>"
    "l_acceptor_queue (listener1 as) = Some \<lparr>q_List = as, q_owner = RListener 3\<rparr>"
    "l_addr (listener1 as) = 3" for as
    by (simp_all add: listener1_def listener0_def)
  obtain S where S: "create_settings beam msquic0 ?opts = Some S"
    by (simp add: create_settings_def beam_def)
  have acc: "\<exists>l1 es1 a. async_accept2 beam msquic0 (Some (listener1 [])) ?opts 70 =
      Some (SUCCESS (ERes (RListener 3)), Some l1, es1) \<and>
      l_config_resource l1 = Some \<lparr>g_addr = 2, Configuration = Some 20\<rparr> \<and> l_addr l1 = 3 \<and>
      l_acceptor_queue l1 = Some \<lparr>q_List = [a], q_owner = RListener 3\<rparr>"
    by (simp add: async_accept2_def AcceptorAlloc_def rt S l set_owner_recv_mode_def AcceptorEnqueue_def
        c_assert_def)
  then obtain l1 es1 a where acc: "async_accept2 beam msquic0 (Some (listener1 [])) ?opts 70 =
      Some (SUCCESS (ERes (RListener 3)), Some l1, es1)"
    and l1: "l_config_resource l1 = Some \<lparr>g_addr = 2, Configuration = Some 20\<rparr>" "l_addr l1 = 3"
      "l_acceptor_queue l1 = Some \<lparr>q_List = [a], q_owner = RListener 3\<rparr>" by blast
  have "\<exists>l2 c es2. ServerListenerCallback beam msquic0 l1 (NEW_CONNECTION 50 info0) 60 =
      Some (QUIC_STATUS_SUCCESS, l2, Some c, es2)"
    using new_connection_eq [OF l1(1) l1(3), of beam 60 50 msquic0 info0] rt l1(2) by (auto simp: Let_def)
  then obtain l2 c es2 where conn: "ServerListenerCallback beam msquic0 l1 (NEW_CONNECTION 50 info0) 60 =
      Some (QUIC_STATUS_SUCCESS, l2, Some c, es2)" by blast
  have "\<not> quic_failed msquic0 (quic_status_of msquic0 q)" "sizeof_settings msquic0 = 144" for q
    by (simp_all add: msquic0_def)
  then show ?thesis
    using accepted_connection_configured [OF l(1) l(2) _ acc conn] acc conn by simp blast
qed
subsection \<open>Serving connections in the order of the accept calls\<close>

text \<open>
  Accept calls of processes on a listener, each with its options, one after the other; \<open>None\<close>
  once one fails.
\<close>

fun accept_conns :: "enif \<Rightarrow> msquic \<Rightarrow> QuicerListenerCTX \<Rightarrow> (pid \<times> eterm \<times> nat) list \<Rightarrow> QuicerListenerCTX option" where
  "accept_conns E M l [] = Some l"
| "accept_conns E M l ((p, opts, a) # reqs) =
     (case async_accept2 (E\<lparr>enif_self := Some p\<rparr>) M (Some l) opts a of
        Some (res, Some l', es) \<Rightarrow> if res = SUCCESS (ERes (l_res l)) then accept_conns E M l' reqs else None
      | _ \<Rightarrow> None)"

text \<open>
  Connections that arrive, one after the other: the answer to the stack, and the process and
  the settings of the acceptor that a connection was given.
\<close>

fun connect_conns :: "enif \<Rightarrow> msquic \<Rightarrow> QuicerListenerCTX \<Rightarrow> (hquic \<times> new_connection_info \<times> nat) list \<Rightarrow>
    (quic_status \<times> (pid \<times> QUIC_SETTINGS) option) list option" where
  "connect_conns E M l [] = Some []"
| "connect_conns E M l ((h, info, a) # hs) =
     (case ServerListenerCallback E M l (NEW_CONNECTION h info) a of
        Some (st, l', Some c, es) \<Rightarrow>
          map_option ((#) (st, map_option (\<lambda>acc. (acc_Pid acc, acc_Settings acc)) (c_owner c)))
            (connect_conns E M l' hs)
      | _ \<Rightarrow> None)"

text \<open>Who waits on a listener, first come first.\<close>

definition waiting_conns :: "QUICER_ACCEPTOR_QUEUE \<Rightarrow> (pid \<times> QUIC_SETTINGS) list" where
  "waiting_conns q = map (\<lambda>acc. (acc_Pid acc, acc_Settings acc)) (q_List q)"

lemma accept_conns_queue:
  assumes "accept_conns E M l reqs = Some l'" "l_acceptor_queue l = Some q"
  shows "\<exists>accs. l' = l\<lparr>l_acceptor_queue := Some (q\<lparr>q_List := q_List q @ accs\<rparr>)\<rparr> \<and>
    map (\<lambda>acc. (acc_Pid acc, Some (acc_Settings acc))) accs =
      map (\<lambda>(p, opts, a). (p, create_settings (E\<lparr>enif_self := Some p\<rparr>) M opts)) reqs"
  using assms
proof (induction reqs arbitrary: l q)
  case Nil
  then show ?case by (intro exI [of _ "[]"]) (auto simp flip: Nil.prems(2))
next
  case (Cons r reqs)
  obtain p opts a where r: "r = (p, opts, a)" by (cases r) auto
  obtain l1 es where one: "async_accept2 (E\<lparr>enif_self := Some p\<rparr>) M (Some l) opts a =
      Some (SUCCESS (ERes (l_res l)), Some l1, es)" and rest: "accept_conns E M l1 reqs = Some l'"
    using Cons.prems(1) r by (auto split: option.splits prod.splits if_splits)
  obtain acc where acc: "acc_Pid acc = p" "create_settings (E\<lparr>enif_self := Some p\<rparr>) M opts = Some (acc_Settings acc)"
    "l1 = l\<lparr>l_acceptor_queue := Some (q\<lparr>q_List := q_List q @ [acc]\<rparr>)\<rparr>"
    using accept_enqueues [OF one Cons.prems(2)] by auto
  then obtain accs where "l' = l1\<lparr>l_acceptor_queue := Some (q\<lparr>q_List := (q_List q @ [acc]) @ accs\<rparr>)\<rparr>"
    "map (\<lambda>acc. (acc_Pid acc, Some (acc_Settings acc))) accs =
      map (\<lambda>(p, opts, a). (p, create_settings (E\<lparr>enif_self := Some p\<rparr>) M opts)) reqs"
    using Cons.IH [OF rest, of "q\<lparr>q_List := q_List q @ [acc]\<rparr>"] by auto
  then show ?case
    using acc r by (intro exI [of _ "acc # accs"]) simp
qed

lemma connect_one:
  assumes "l_config_resource l = Some g" "l_acceptor_queue l = Some q" "q_owner q = l_res l"
    "alloc_ok E ''ctx_connection_t''" "alloc_ok E ''QUICER_ACCEPTOR_QUEUE''" "alloc_ok E ''binary''"
    "\<forall>p t. enif_send E p t"
  shows "\<exists>c es. ServerListenerCallback E M l (NEW_CONNECTION h info) a =
     Some (if q_List q = [] then QUIC_STATUS_UNREACHABLE else QUIC_STATUS_SUCCESS,
           l\<lparr>l_acceptor_queue := Some (q\<lparr>q_List := tl (q_List q)\<rparr>)\<rparr>, Some c, es) \<and>
     c_owner c = (case q_List q of [] \<Rightarrow> None | acc # accs \<Rightarrow> Some acc)"
proof -
  have "post (listener_new_connection E M l h info a) (\<lambda>(st, l', c, es). \<exists>c'. c = Some c' \<and>
     st = (if q_List q = [] then QUIC_STATUS_UNREACHABLE else QUIC_STATUS_SUCCESS) \<and>
     l' = l\<lparr>l_acceptor_queue := Some (q\<lparr>q_List := tl (q_List q)\<rparr>)\<rparr> \<and>
     c_owner c' = (case q_List q of [] \<Rightarrow> None | acc # accs \<Rightarrow> Some acc))"
    using assms unfolding listener_new_connection_def reject_connection_def
    by (intro wp) (auto simp: dequeue_cases ctx_init_defs split: list.splits)
  moreover have "listener_new_connection E M l h info a \<noteq> None"
    using new_connection_eq [OF assms(1-6), of a h M info]
    by (cases "q_List q") (auto simp: reject_connection_def Let_def)
  ultimately show ?thesis
    by (fastforce simp: post_def)
qed

lemma connect_conns_served:
  assumes "l_config_resource l = Some g" "l_acceptor_queue l = Some q" "q_owner q = l_res l"
    "alloc_ok E ''ctx_connection_t''" "alloc_ok E ''QUICER_ACCEPTOR_QUEUE''" "alloc_ok E ''binary''"
    "\<forall>p t. enif_send E p t"
  shows "connect_conns E M l hs = Some (map (\<lambda>w. (QUIC_STATUS_SUCCESS, Some w)) (take (length hs) (waiting_conns q)) @
     replicate (length hs - length (q_List q)) (QUIC_STATUS_UNREACHABLE, None))"
  using assms
proof (induction hs arbitrary: l q)
  case (Cons x hs)
  obtain h info a where x: "x = (h, info, a)" by (cases x) auto
  let ?q = "q\<lparr>q_List := tl (q_List q)\<rparr>"
  obtain c es where "ServerListenerCallback E M l (NEW_CONNECTION h info) a =
     Some (if q_List q = [] then QUIC_STATUS_UNREACHABLE else QUIC_STATUS_SUCCESS,
           l\<lparr>l_acceptor_queue := Some ?q\<rparr>, Some c, es)"
    "c_owner c = (case q_List q of [] \<Rightarrow> None | acc # accs \<Rightarrow> Some acc)"
    using connect_one [OF Cons.prems] by blast
  then show ?case
    using Cons.IH [of "l\<lparr>l_acceptor_queue := Some ?q\<rparr>" ?q] Cons.prems x
    by (cases "q_List q") (simp_all add: waiting_conns_def)
qed simp

text \<open>
  C34: Processes that call \<open>async_accept\<close> on a listener get the connections that arrive in
  exactly the order of their calls, after the processes that were waiting already, each with
  the settings of its own accept options; a connection that finds nobody waiting any more is
  refused as unreachable and given to no one.
\<close>

theorem connections_served_in_order:
  assumes "l_config_resource l = Some g" "l_acceptor_queue l = Some q" "q_owner q = l_res l"
    and "alloc_ok E ''ctx_connection_t''" "alloc_ok E ''QUICER_ACCEPTOR_QUEUE''" "alloc_ok E ''binary''"
    and "\<forall>p t. enif_send E p t"
    and "accept_conns E M l reqs = Some l'"
    and "served = waiting_conns q @
      map (\<lambda>(p, opts, a). (p, the (create_settings (E\<lparr>enif_self := Some p\<rparr>) M opts))) reqs"
  shows "connect_conns E M l' hs =
    Some (map (\<lambda>w. (QUIC_STATUS_SUCCESS, Some w)) (take (length hs) served) @
          replicate (length hs - length served) (QUIC_STATUS_UNREACHABLE, None))"
proof -
  obtain accs where l': "l' = l\<lparr>l_acceptor_queue := Some (q\<lparr>q_List := q_List q @ accs\<rparr>)\<rparr>"
    and accs: "map (\<lambda>acc. (acc_Pid acc, Some (acc_Settings acc))) accs =
      map (\<lambda>(p, opts, a). (p, create_settings (E\<lparr>enif_self := Some p\<rparr>) M opts)) reqs"
    using accept_conns_queue [OF assms(8,2)] by blast
  have "map (\<lambda>(p, s). (p, the s)) (map (\<lambda>acc. (acc_Pid acc, Some (acc_Settings acc))) accs) =
      map (\<lambda>(p, s). (p, the s)) (map (\<lambda>(p, opts, a). (p, create_settings (E\<lparr>enif_self := Some p\<rparr>) M opts)) reqs)"
    by (simp only: accs)
  then have "waiting_conns (q\<lparr>q_List := q_List q @ accs\<rparr>) = served"
    by (simp add: assms(9) waiting_conns_def comp_def case_prod_beta')
  moreover have "length (q_List (q\<lparr>q_List := q_List q @ accs\<rparr>)) = length (waiting_conns (q\<lparr>q_List := q_List q @ accs\<rparr>))"
    by (simp add: waiting_conns_def)
  ultimately show ?thesis
    using connect_conns_served [of l' g "q\<lparr>q_List := q_List q @ accs\<rparr>" E M hs] assms(1,3-7) l' by simp
qed

theorem connections_served_in_order_witness:
  "\<exists>l' S S'. accept_conns beam msquic0 (listener1 [])
       [(21, EMap [(ATOM_QUIC_SETTINGS_IdleTimeoutMs, EInt 9)], 31), (22, EMap [], 32)] = Some l' \<and>
     connect_conns beam msquic0 l' [(50, info0, 60), (51, info0, 61), (52, info0, 62)] =
       Some [(QUIC_STATUS_SUCCESS, Some (21, S)),
             (QUIC_STATUS_SUCCESS, Some (22, S')),
             (QUIC_STATUS_UNREACHABLE, None)]"
proof -
  let ?reqs = "[(21, EMap [(ATOM_QUIC_SETTINGS_IdleTimeoutMs, EInt 9)], 31), (22, EMap [], 32)]"
  have l: "l_config_resource (listener1 []) = Some \<lparr>g_addr = 2, Configuration = Some 20\<rparr>"
    "l_acceptor_queue (listener1 []) = Some \<lparr>q_List = [], q_owner = RListener 3\<rparr>" "l_addr (listener1 []) = 3"
    by (simp_all add: listener1_def listener0_def)
  have rt: "alloc_ok beam n" "enif_send beam p t" "enif_is_process_alive beam p"
    "enif_get_map_value beam (EMap []) ATOM_QUIC_STREAM_OPTS_ACTIVE = None"
    "enif_get_map_value beam (EMap [(ATOM_QUIC_SETTINGS_IdleTimeoutMs, EInt 9)]) ATOM_QUIC_STREAM_OPTS_ACTIVE = None"
    for n p t by (simp_all add: beam_def)
  have "\<exists>S. create_settings (beam\<lparr>enif_self := Some p\<rparr>) msquic0 (EMap kvs) = Some S" for p kvs
    by (simp add: create_settings_def beam_def)
  then obtain S where S: "create_settings (beam\<lparr>enif_self := Some p\<rparr>) msquic0 (EMap kvs) = Some (S p kvs)" for p kvs
    by metis
  have "accept_conns beam msquic0 (listener1 []) ?reqs \<noteq> None"
    by (simp add: async_accept2_def AcceptorAlloc_def l rt S set_owner_recv_mode_def AcceptorEnqueue_def c_assert_def)
  then obtain l' where run: "accept_conns beam msquic0 (listener1 []) ?reqs = Some l'" by blast
  show ?thesis
    using connections_served_in_order [OF l(1,2) _ rt(1,1,1) _ run refl, of "[(50, info0, 60), (51, info0, 61), (52, info0, 62)]"]
      run rt l(3) by (simp add: waiting_conns_def)
qed

end
