(* ===== verification/Quicer_Reg.thy ===== *)
theory Quicer_Reg
  imports Quicer_Tls
begin

section \<open>Registrations (\<open>quicer_reg.c\<close>)\<close>

text \<open>
  A registration of its own, beside the global one: made with a name and an execution profile,
  shut down once, and asked for its name.
\<close>

subsection \<open>Operations\<close>

text \<open>The execution profile a term names.\<close>

definition execution_profile :: "eterm \<Rightarrow> QUIC_EXECUTION_PROFILE option" where
  "execution_profile eprofile =
     (if eprofile = ATOM_QUIC_EXECUTION_PROFILE_LOW_LATENCY then Some QUIC_EXECUTION_PROFILE_LOW_LATENCY
      else if eprofile = ATOM_QUIC_EXECUTION_PROFILE_TYPE_MAX_THROUGHPUT
      then Some QUIC_EXECUTION_PROFILE_TYPE_MAX_THROUGHPUT
      else if eprofile = ATOM_QUIC_EXECUTION_PROFILE_TYPE_SCAVENGER
      then Some QUIC_EXECUTION_PROFILE_TYPE_SCAVENGER
      else if eprofile = ATOM_QUIC_EXECUTION_PROFILE_TYPE_REAL_TIME
      then Some QUIC_EXECUTION_PROFILE_TYPE_REAL_TIME
      else None)"

type_synonym reg_nif = "(eterm \<times> QuicerRegistrationCTX option \<times> eff list) option"

text \<open>
  Two errors are made into a term and not returned. Without memory the name is written through
  NULL. With a name that is no string of at most 255 characters the context is destroyed, and
  the registration is then opened into the freed block. The stack is asked to open a
  registration without a name: the name stays in the context.
\<close>

definition new_registration2 :: "enif \<Rightarrow> msquic \<Rightarrow> nat \<Rightarrow> eterm \<Rightarrow> eterm \<Rightarrow> nat \<Rightarrow> reg_nif" where
  "new_registration2 E M argc ename eprofile addr =
     (case (if argc = 2 then execution_profile eprofile else Some QUIC_EXECUTION_PROFILE_LOW_LATENCY) of
        None \<Rightarrow> Some (ERROR_TUPLE_2 ATOM_BADARG, None, [])
      | Some profile \<Rightarrow>
     (case init_r_ctx E addr of
        None \<Rightarrow> None
      | Some r_ctx \<Rightarrow>
     (case enif_get_string E ename 256 of (n, name) \<Rightarrow>
      if n \<le> 0 then None
      else
        (let r_ctx = r_ctx\<lparr>r_name := name\<rparr>; call = RegistrationOpen [] profile
         in if quic_failed M (quic_status_of M call)
            then (case destroy_r_ctx r_ctx of (r_ctx', des) \<Rightarrow>
                    Some (ERROR_TUPLE_2 (atom_status M (quic_status_of M call)), Some r_ctx',
                          [Quic call] @ deinit_r_ctx r_ctx @ des))
            else Some (SUCCESS (ERes (r_res r_ctx)),
                       Some (r_ctx\<lparr>r_Registration := Some (quic_handle_of M call)\<rparr>), [Quic call])))))"

definition shutdown_registration_x ::
    "enif \<Rightarrow> nat \<Rightarrow> QuicerRegistrationCTX option \<Rightarrow> eterm \<Rightarrow> eterm \<Rightarrow>
     eterm \<times> QuicerRegistrationCTX option \<times> eff list" where
  "shutdown_registration_x E argc r_h esilent eerror_code =
     (case r_h of
        None \<Rightarrow> (ERROR_TUPLE_2 ATOM_BADARG, None, [])
      | Some r_ctx \<Rightarrow>
     (case (if argc = 3
            then (if esilent = ATOM_TRUE then map_option (Pair True) (enif_get_uint64 E eerror_code)
                  else if esilent = ATOM_FALSE then map_option (Pair False) (enif_get_uint64 E eerror_code)
                  else None)
            else Some (False, 0)) of
        None \<Rightarrow> (ERROR_TUPLE_2 ATOM_BADARG, Some r_ctx, [])
      | Some (silent, error_code) \<Rightarrow>
          if r_Registration r_ctx \<noteq> None \<and> \<not> is_released r_ctx
          then (case destroy_r_ctx r_ctx of (r_ctx', des) \<Rightarrow>
                  (ATOM_OK, Some r_ctx', [Quic (RegistrationShutdown (r_Registration r_ctx) silent error_code)] @ des))
          else (ATOM_OK, Some r_ctx, [])))"

definition get_registration_name1 :: "QuicerRegistrationCTX option \<Rightarrow> eterm" where
  "get_registration_name1 r_h =
     (case r_h of
        None \<Rightarrow> ERROR_TUPLE_2 ATOM_BADARG
      | Some r_ctx \<Rightarrow> SUCCESS (EStr (r_name r_ctx)))"

text \<open>The end of the resource (\<open>quicer_nif.c\<close>).\<close>

definition resource_reg_dealloc_callback :: "QuicerRegistrationCTX \<Rightarrow> eff list" where
  "resource_reg_dealloc_callback reg_ctx =
     deinit_r_ctx reg_ctx @
     (case r_Registration reg_ctx of None \<Rightarrow> [] | Some h \<Rightarrow> [Quic (RegistrationClose (Some h))])"

subsection \<open>Properties\<close>

text \<open>
  A registration keeps its name: for every name that the runtime reads as a string, a
  registration that was made with it answers that name, also after it was shut down.
\<close>

lemma registration_name_roundtrip:
  assumes "enif_get_string E ename 256 = (int (length name) + 1, name)"
    and "new_registration2 E M argc ename eprofile addr = Some (SUCCESS t, Some r, es)"
    and "shutdown_registration_x E argc' (Some r) esilent ecode = (res, Some r', es')"
  shows "get_registration_name1 (Some r) = SUCCESS (EStr name) \<and>
     get_registration_name1 (Some r') = SUCCESS (EStr name)"
proof -
  have "post (new_registration2 E M argc ename eprofile addr)
     (\<lambda>(res, r, es). \<forall>t r'. res = SUCCESS t \<and> r = Some r' \<longrightarrow> r_name r' = name)"
    unfolding new_registration2_def
    by (intro wp) (auto simp: assms(1))
  from postD [OF this assms(2)] have "r_name r = name" by simp
  moreover have "r_name r' = r_name r"
    using assms(3) by (auto simp: shutdown_registration_x_def destroy_r_ctx_def split: option.splits if_splits)
  ultimately show ?thesis
    by (simp add: get_registration_name1_def)
qed

text \<open>A sequence of calls of \<open>shutdown_registration\<close> on the same handle.\<close>

fun shutdown_all :: "enif \<Rightarrow> QuicerRegistrationCTX \<Rightarrow> (nat \<times> eterm \<times> eterm) list \<Rightarrow> eff list" where
  "shutdown_all E r [] = []"
| "shutdown_all E r ((argc, esilent, ecode) # calls) =
     (case shutdown_registration_x E argc (Some r) esilent ecode of
        (res, None, es) \<Rightarrow> es
      | (res, Some r', es) \<Rightarrow> es @ shutdown_all E r' calls)"

text \<open>
  What a call asks for: any number of arguments but three is a loud shutdown with code 0; with
  three, the second says whether it is silent and the third is the code.
\<close>

definition asked :: "enif \<Rightarrow> nat \<times> eterm \<times> eterm \<Rightarrow> (bool \<times> u64) option" where
  "asked E = (\<lambda>(argc, esilent, ecode).
     if argc \<noteq> 3 then Some (False, 0)
     else case enif_get_uint64 E ecode of
       None \<Rightarrow> None
     | Some code \<Rightarrow> if esilent = ATOM_TRUE then Some (True, code)
                    else if esilent = ATOM_FALSE then Some (False, code) else None)"

lemma shutdown_asked:
  "shutdown_registration_x E argc (Some r) esilent ecode =
     (case asked E (argc, esilent, ecode) of
        None \<Rightarrow> (ERROR_TUPLE_2 ATOM_BADARG, Some r, [])
      | Some (silent, code) \<Rightarrow>
          if r_Registration r \<noteq> None \<and> \<not> is_released r
          then (ATOM_OK, Some (r\<lparr>is_released := True\<rparr>),
                [Quic (RegistrationShutdown (r_Registration r) silent code), Release (r_res r)])
          else (ATOM_OK, Some r, []))"
  by (auto simp: shutdown_registration_x_def asked_def destroy_r_ctx_def split: option.split)

lemma shutdown_all_idle: "r_Registration r = None \<or> is_released r \<Longrightarrow> shutdown_all E r calls = []"
  by (induction calls) (auto simp: shutdown_asked split: option.split)

text \<open>
  C31: However often and with whatever arguments a registration is shut down, the first call
  with valid arguments shuts it down, with just the flag and the code that it asks for, and the
  reference of the library is given up right after; every other call does nothing. Without a
  valid call, or when there is no handle or it was shut down before, nothing happens. A call
  answers \<open>ok\<close> exactly if its arguments are valid.
\<close>

theorem registration_shutdown_once:
  "shutdown_all E r calls =
     (case List.map_filter (asked E) calls of
        [] \<Rightarrow> []
      | (silent, code) # later \<Rightarrow>
          if r_Registration r \<noteq> None \<and> \<not> is_released r
          then [Quic (RegistrationShutdown (r_Registration r) silent code), Release (r_res r)] else []) \<and>
   fst (shutdown_registration_x E argc (Some r) esilent ecode) =
     (if asked E (argc, esilent, ecode) = None then ERROR_TUPLE_2 ATOM_BADARG else ATOM_OK)"
proof -
  have "shutdown_all E r calls =
     (case List.map_filter (asked E) calls of
        [] \<Rightarrow> []
      | (silent, code) # later \<Rightarrow>
          if r_Registration r \<noteq> None \<and> \<not> is_released r
          then [Quic (RegistrationShutdown (r_Registration r) silent code), Release (r_res r)] else [])"
  proof (induction calls)
    case (Cons call calls)
    obtain argc esilent ecode where call: "call = (argc, esilent, ecode)" by (cases call) auto
    show ?case
    proof (cases "asked E call")
      case None
      with Cons show ?thesis by (simp add: call shutdown_asked map_filter_simps)
    next
      case (Some a)
      then show ?thesis
        by (cases a) (simp add: call shutdown_asked shutdown_all_idle map_filter_simps)
    qed
  qed (simp add: map_filter_simps)
  then show ?thesis
    by (simp add: shutdown_asked split: option.split prod.split)
qed

theorem registration_shutdown_once_witness:
  "shutdown_all beam \<lparr>r_addr = 80, r_Registration = Some 40, is_released = False, r_name = ''r1''\<rparr>
     [(3, ATOM_OK, EInt 4), (3, ATOM_TRUE, EInt 5), (1, ATOM_OK, ATOM_OK)] =
   [Quic (RegistrationShutdown (Some 40) True 5), Release (RReg 80)]"
proof -
  have "enif_get_uint64 beam (EInt 4) = Some 4" "enif_get_uint64 beam (EInt 5) = Some 5"
    by (simp_all add: beam_def)
  then show ?thesis
    using registration_shutdown_once [of beam
        "\<lparr>r_addr = 80, r_Registration = Some 40, is_released = False, r_name = ''r1''\<rparr>"
        "[(3, ATOM_OK, EInt 4), (3, ATOM_TRUE, EInt 5), (1, ATOM_OK, ATOM_OK)]" 1 ATOM_OK ATOM_OK]
    by (simp add: asked_def map_filter_simps)
qed

text \<open>
  C36: When the stack refuses to open a registration, its context is taken apart before its last
  reference is given up; the end of the resource then takes it apart again: its environment is
  freed twice.
\<close>

theorem registration_failure_frees_twice:
  assumes "new_registration2 E M argc ename eprofile addr = Some (res, Some r, es)" "\<forall>t. res \<noteq> SUCCESS t"
  shows "releases es = [r_res r] \<and>
     count_list (es @ resource_reg_dealloc_callback r) (FreeEnv (EnvOf (r_res r))) = 2"
proof -
  have "post (new_registration2 E M argc ename eprofile addr) (\<lambda>(res, r, es).
     case r of None \<Rightarrow> True | Some r \<Rightarrow> (\<forall>t. res \<noteq> SUCCESS t) \<longrightarrow> releases es = [r_res r] \<and>
       count_list (es @ resource_reg_dealloc_callback r) (FreeEnv (EnvOf (r_res r))) = 2)"
    unfolding new_registration2_def
    by (intro wp)
       (auto simp: init_r_ctx_def destroy_r_ctx_def deinit_r_ctx_def resource_reg_dealloc_callback_def
         split: if_splits)
  from postD [OF this assms(1)] assms(2) show ?thesis by simp
qed

theorem registration_failure_frees_twice_witness:
  "\<exists>res r es. new_registration2 beam (msquic0\<lparr>quic_status_of := (\<lambda>_. QUIC_STATUS_OUT_OF_MEMORY)\<rparr>) 1
       (EStr ''r1'') ATOM_OK 80 = Some (res, Some r, es) \<and>
     count_list (es @ resource_reg_dealloc_callback r) (FreeEnv (EnvOf (RReg 80))) = 2"
proof -
  let ?M = "msquic0\<lparr>quic_status_of := (\<lambda>_. QUIC_STATUS_OUT_OF_MEMORY)\<rparr>"
  have str: "enif_get_string beam (EStr ''r1'') 256 = (3, ''r1'')"
    by (simp add: beam_def term_string_def char_of_def bit_0)
  have "alloc_ok beam n" for n by (simp add: beam_def)
  then have new: "\<exists>res r es. new_registration2 beam ?M 1 (EStr ''r1'') ATOM_OK 80 = Some (res, Some r, es) \<and>
      (\<forall>t. res \<noteq> SUCCESS t) \<and> r_addr r = 80"
    by (simp add: new_registration2_def str [simplified] init_r_ctx_def destroy_r_ctx_def Let_def) (simp add: msquic0_def)
  then obtain res r es where run: "new_registration2 beam ?M 1 (EStr ''r1'') ATOM_OK 80 = Some (res, Some r, es)"
    and "\<forall>t. res \<noteq> SUCCESS t" "r_addr r = 80" by blast
  with registration_failure_frees_twice [OF run] show ?thesis by auto
qed

end
