(* ===== verification/Quicer_Nif.thy ===== *)
theory Quicer_Nif
  imports Quicer_Listener Quicer_Reg
begin

section \<open>The NIF library (\<open>quicer_nif.c\<close>)\<close>

text \<open>
  The globals of the library and the NIFs that open and close it, the callbacks of the runtime
  on the end of a resource and on the death of a monitored process, the hand-over of a
  connection or a stream to another process, and the table of functions.
\<close>

subsection \<open>Opening and closing the library\<close>

type_synonym lib_nif = "eterm \<times> GLOBALS \<times> eff list"

definition on_unload :: "GLOBALS \<Rightarrow> GLOBALS \<times> eff list" where
  "on_unload G =
     (G\<lparr>isRegistered := False, isLibOpened := False\<rparr>,
      (if isRegistered G then [Quic (RegistrationClose (GRegistration G))] else []) @
      (if isLibOpened G then [Quic MsQuicClose] else []))"

definition openLib :: "enif \<Rightarrow> msquic \<Rightarrow> openssl \<Rightarrow> GLOBALS \<Rightarrow> eterm \<Rightarrow> lib_nif" where
  "openLib E M X G lttngLib =
     (if isLibOpened G then (SUCCESS ATOM_FALSE, G, [])
      else if quic_failed M (quic_status_of M MsQuicOpen)
      then (ERROR_TUPLE_3 ATOM_OPEN_FAILED (atom_status M (quic_status_of M MsQuicOpen)),
            G\<lparr>isLibOpened := False\<rparr>, [Quic MsQuicOpen])
      else
        (let res = (case enif_get_string E lttngLib PATH_MAX of (n, lttngPath) \<Rightarrow>
               if n \<noteq> 0 \<and> dlopen X lttngPath then ATOM_DEBUG else ATOM_TRUE)
         in (SUCCESS res, G\<lparr>MsQuic := True, isLibOpened := True\<rparr>, [Quic MsQuicOpen])))"

definition closeLib :: "GLOBALS \<Rightarrow> lib_nif" where
  "closeLib G =
     (if isLibOpened G \<and> MsQuic G then (ATOM_OK, G\<lparr>isLibOpened := False\<rparr>, [Quic MsQuicClose])
      else (ATOM_OK, G, []))"

text \<open>The global registration has a name of its own and keeps the last profile it was given.\<close>

definition registration :: "msquic \<Rightarrow> GLOBALS \<Rightarrow> nat \<Rightarrow> eterm \<Rightarrow> lib_nif" where
  "registration M G argc profile =
     (if isRegistered G \<or> \<not> isLibOpened G then (ERROR_TUPLE_2 ATOM_BADARG, G, [])
      else case (if argc = 1 then execution_profile profile else Some (GExecutionProfile G)) of
        None \<Rightarrow> (ERROR_TUPLE_2 ATOM_BADARG, G, [])
      | Some p \<Rightarrow>
          (let G = G\<lparr>GExecutionProfile := p\<rparr>; call = RegistrationOpen ''quicer_nif'' p; status = quic_status_of M call
           in if quic_failed M status
              then (ERROR_TUPLE_3 ATOM_REG_FAILED (ETERM_INT (uint (code_of_status M status))),
                    G\<lparr>isRegistered := False\<rparr>, [Quic call])
              else (ATOM_OK, G\<lparr>GRegistration := Some (quic_handle_of M call), isRegistered := True\<rparr>, [Quic call])))"

definition deregistration :: "GLOBALS \<Rightarrow> lib_nif" where
  "deregistration G =
     (if isRegistered G \<and> GRegistration G \<noteq> None
      then (ATOM_OK, G\<lparr>GRegistration := None, isRegistered := False\<rparr>, [Quic (RegistrationClose (GRegistration G))])
      else (ATOM_OK, G, []))"

subsection \<open>The end of a resource\<close>

text \<open>
  A stream handle is closed before the reference to its connection is given up.
  \<open>AcceptorDestroy\<close> and \<open>CXPLAT_FREE\<close> do nothing on NULL.
\<close>

definition resource_stream_dealloc_callback :: "enif \<Rightarrow> QuicerStreamCTX \<Rightarrow> eff list option" where
  "resource_stream_dealloc_callback E s_ctx =
     c_assert E (s_is_closed s_ctx)
     (deref (s_c_ctx s_ctx) (\<lambda>c_ctx. Some (
       (case Stream s_ctx of None \<Rightarrow> [] | Some h \<Rightarrow> [Quic (StreamClose (Some h))]) @
       [Release (c_res c_ctx)] @ AcceptorDestroy (s_owner s_ctx) @ deinit_s_ctx s_ctx)))"

definition resource_conn_dealloc_callback :: "enif \<Rightarrow> QuicerConnCTX \<Rightarrow> eff list option" where
  "resource_conn_dealloc_callback E c_ctx =
     c_assert E (c_is_closed c_ctx)
     (map_option (\<lambda>(c', des).
       (case Connection c_ctx of None \<Rightarrow> [] | Some h \<Rightarrow> [Quic (ConnectionClose (Some h))]) @
       (case TlsSecrets c_ctx of None \<Rightarrow> [] | Some _ \<Rightarrow> [Free MTlsSecrets]) @
       (case ResumptionTicket c_ctx of None \<Rightarrow> [] | Some t \<Rightarrow> [Free (MResumptionTicket t)]) @
       (case ssl_keylogfile c_ctx of None \<Rightarrow> [] | Some f \<Rightarrow> [Free (MKeylogFile f)]) @
       AcceptorDestroy (c_owner c_ctx) @ des)
     (deinit_c_ctx c_ctx))"

definition resource_listener_dealloc_callback :: "GLOBALS \<Rightarrow> QuicerListenerCTX \<Rightarrow> eff list option" where
  "resource_listener_dealloc_callback G l_ctx =
     map_option (\<lambda>des.
       (if \<not> l_is_closed l_ctx \<and> Listener l_ctx \<noteq> None then [Quic (ListenerClose (Listener l_ctx))] else []) @
       (case cacertfile l_ctx of None \<Rightarrow> [] | Some f \<Rightarrow> [Free (MCacertFile f)]) @ des)
     (deinit_l_ctx (GRegistration G) (l_ctx\<lparr>cacertfile := None\<rparr>))"

definition resource_config_dealloc_callback :: "GLOBALS \<Rightarrow> QuicerConfigCTX \<Rightarrow> eff list" where
  "resource_config_dealloc_callback G config_ctx =
     (if GRegistration G \<noteq> None \<and> Configuration config_ctx \<noteq> None
      then [Quic (ConfigurationClose (Configuration config_ctx))] else []) @
     deinit_config_ctx config_ctx"

subsection \<open>The death of a process\<close>

text \<open>A listener whose owner died is stopped, not closed: it can be started again.\<close>

definition resource_listener_down_callback :: "QuicerListenerCTX \<Rightarrow> QuicerListenerCTX \<times> eff list" where
  "resource_listener_down_callback l_ctx =
     (let lk = Lock (LockOf (l_res l_ctx)); ulk = Unlock (LockOf (l_res l_ctx))
      in if \<not> l_is_closed l_ctx \<and> \<not> l_is_stopped l_ctx \<and> Listener l_ctx \<noteq> None
         then (l_ctx\<lparr>l_is_stopped := True\<rparr>, [lk, Quic (ListenerStop (Listener l_ctx)), ulk])
         else (l_ctx, [lk, ulk]))"

definition resource_conn_down_callback :: "msquic \<Rightarrow> QuicerConnCTX option \<Rightarrow> pid option \<Rightarrow> eff list" where
  "resource_conn_down_callback M c_p DeadPid =
     (case (c_p, DeadPid) of
        (Some c_ctx, Some dead) \<Rightarrow>
          (case c_owner c_ctx of
             None \<Rightarrow> []
           | Some owner \<Rightarrow>
               if acc_Pid owner = dead
               then [Quic (ConnectionShutdown (Connection c_ctx) (QUIC_CONNECTION_SHUTDOWN_FLAG_NONE M) 0)]
               else [])
      | _ \<Rightarrow> [])"

definition resource_stream_down_callback :: "msquic \<Rightarrow> QuicerStreamCTX option \<Rightarrow> pid option \<Rightarrow> eff list" where
  "resource_stream_down_callback M s_p DeadPid =
     (case (s_p, DeadPid) of
        (Some s_ctx, Some dead) \<Rightarrow>
          (case s_owner s_ctx of
             None \<Rightarrow> []
           | Some owner \<Rightarrow>
               if acc_Pid owner = dead
               then [Quic (StreamShutdown (Stream s_ctx)
                      (QUIC_STREAM_SHUTDOWN_FLAG_IMMEDIATE M OR QUIC_STREAM_SHUTDOWN_FLAG_ABORT_RECEIVE M OR
                       QUIC_STREAM_SHUTDOWN_FLAG_ABORT_SEND M) 0)]
               else [])
      | _ \<Rightarrow> [])"

subsection \<open>Handing over a connection or a stream\<close>

text \<open>
  What both kinds of handle do: only the owner may hand over; the monitor moves to the new
  owner; if that process is dead, the owner and its monitor come back. A result other than 0
  of \<open>enif_monitor_process\<close> says that the process is not alive.
\<close>

definition change_owner :: "enif \<Rightarrow> rsrc \<Rightarrow> ACCEPTOR \<Rightarrow> pid \<Rightarrow> eterm \<Rightarrow> eterm \<times> ACCEPTOR \<times> eff list" where
  "change_owner E r owner caller_pid new_owner =
     (if acc_Pid owner \<noteq> caller_pid then (ERROR_TUPLE_2 ATOM_NOT_OWNER, owner, [])
      else case enif_get_local_pid E new_owner of
        None \<Rightarrow> (ERROR_TUPLE_2 ATOM_BADARG, owner, [])
      | Some target \<Rightarrow>
          if enif_monitor_process E r target \<noteq> 0
          then (ERROR_TUPLE_2 ATOM_OWNER_DEAD,
                owner\<lparr>acc_Pid := (case enif_self E of None \<Rightarrow> target | Some self \<Rightarrow> self)\<rparr>,
                [Demonitor r, Monitor r target, Monitor r caller_pid])
          else (ATOM_OK, owner\<lparr>acc_Pid := target\<rparr>, [Demonitor r, Monitor r target]))"

definition connection_controlling_process ::
    "enif \<Rightarrow> QuicerConnCTX \<Rightarrow> pid \<Rightarrow> eterm \<Rightarrow> (eterm \<times> QuicerConnCTX \<times> eff list) option" where
  "connection_controlling_process E c_ctx caller_pid new_owner =
     deref (c_owner c_ctx) (\<lambda>owner.
       case change_owner E (c_res c_ctx) owner caller_pid new_owner of
         (res, owner, es) \<Rightarrow> Some (res, c_ctx\<lparr>c_owner := Some owner\<rparr>, es))"

definition stream_controlling_process ::
    "enif \<Rightarrow> QuicerStreamCTX \<Rightarrow> pid \<Rightarrow> eterm \<Rightarrow> (eterm \<times> QuicerStreamCTX \<times> eff list) option" where
  "stream_controlling_process E s_ctx caller_pid new_owner =
     deref (s_owner s_ctx) (\<lambda>owner.
       case change_owner E (s_res s_ctx) owner caller_pid new_owner of
         (res, owner, es) \<Rightarrow> Some (res, s_ctx\<lparr>s_owner := Some owner\<rparr>, es))"

text \<open>The first error is the bare atom, unlike all others.\<close>

definition controlling_process ::
    "enif \<Rightarrow> nat \<Rightarrow> handle_arg \<Rightarrow> eterm \<Rightarrow> (eterm \<times> handle_arg \<times> eff list) option" where
  "controlling_process E argc handle new_owner =
     (if argc \<noteq> 2 then Some (ATOM_BADARG, handle, [])
      else if enif_get_local_pid E new_owner = None then Some (ERROR_TUPLE_2 ATOM_BADARG, handle, [])
      else case enif_self E of
        None \<Rightarrow> Some (ERROR_TUPLE_2 ATOM_BADARG, handle, [])
      | Some caller_pid \<Rightarrow>
     (case handle of
        HStream s_ctx \<Rightarrow>
          map_option (\<lambda>(res, s', es). (res, HStream s', [Lock (LockOf (s_res s_ctx))] @ es @ [Unlock (LockOf (s_res s_ctx))]))
            (stream_controlling_process E s_ctx caller_pid new_owner)
      | HConn c_ctx \<Rightarrow>
          map_option (\<lambda>(res, c', es). (res, HConn c', [Lock (LockOf (c_res c_ctx))] @ es @ [Unlock (LockOf (c_res c_ctx))]))
            (connection_controlling_process E c_ctx caller_pid new_owner)
      | _ \<Rightarrow> Some (ERROR_TUPLE_2 ATOM_BADARG, handle, [])))"

subsection \<open>Loading and the table of functions\<close>

text \<open>The resource types: name, destructor and the callback on the death of a process.\<close>

definition on_load :: "(string \<times> string \<times> string option) list" where
  "on_load =
     [(''registration_context_resource'', ''resource_reg_dealloc_callback'', None),
      (''config_context_resource'', ''resource_config_dealloc_callback'', None),
      (''listener_context_resource'', ''resource_listener_dealloc_callback'', Some ''resource_listener_down_callback''),
      (''connection_context_resource'', ''resource_conn_dealloc_callback'', Some ''resource_conn_down_callback''),
      (''stream_context_resource'', ''resource_stream_dealloc_callback'', Some ''resource_stream_down_callback'')]"

text \<open>Name, arity, function, and whether it runs on a dirty scheduler.\<close>

definition nif_funcs :: "(string \<times> nat \<times> string \<times> bool) list" where
  "nif_funcs =
     [(''open_lib'', 1, ''openLib'', False),
      (''close_lib'', 0, ''closeLib'', False),
      (''reg_open'', 0, ''registration'', False),
      (''reg_open'', 1, ''registration'', False),
      (''reg_close'', 0, ''deregistration'', False),
      (''new_registration'', 2, ''new_registration2'', False),
      (''shutdown_registration'', 1, ''shutdown_registration_x'', False),
      (''shutdown_registration'', 3, ''shutdown_registration_x'', False),
      (''get_registration_name'', 1, ''get_registration_name1'', False),
      (''listen'', 2, ''listen2'', False),
      (''start_listener'', 3, ''start_listener3'', False),
      (''stop_listener'', 1, ''stop_listener1'', False),
      (''close_listener'', 1, ''close_listener1'', False),
      (''open_connection'', 0, ''open_connectionX'', False),
      (''open_connection'', 1, ''open_connectionX'', False),
      (''async_connect'', 3, ''async_connect3'', False),
      (''async_accept'', 2, ''async_accept2'', False),
      (''async_handshake'', 1, ''async_handshake_1'', False),
      (''async_shutdown_connection'', 3, ''shutdown_connection3'', False),
      (''async_accept_stream'', 2, ''async_accept_stream2'', False),
      (''start_stream'', 2, ''async_start_stream2'', False),
      (''send'', 3, ''send3'', False),
      (''csend'', 4, ''csend4'', False),
      (''recv'', 2, ''recv2'', False),
      (''send_dgram'', 3, ''send_dgram'', False),
      (''async_shutdown_stream'', 3, ''shutdown_stream3'', False),
      (''sockname'', 1, ''sockname1'', False),
      (''getopt'', 3, ''getopt3'', False),
      (''setopt'', 4, ''setopt4'', False),
      (''controlling_process'', 2, ''controlling_process'', False),
      (''peercert'', 1, ''peercert1'', False),
      (''get_conn_rid'', 1, ''get_conn_rid1'', True),
      (''get_stream_rid'', 1, ''get_stream_rid1'', True)]"

subsection \<open>Who is monitored\<close>

text \<open>The process a resource monitors after a run, when \<open>m\<close> was monitored before.\<close>

fun monitored :: "enif \<Rightarrow> rsrc \<Rightarrow> pid option \<Rightarrow> eff list \<Rightarrow> pid option" where
  "monitored E r m [] = m"
| "monitored E r m (Demonitor r' # es) = monitored E r (if r' = r then None else m) es"
| "monitored E r m (Monitor r' p # es) =
     monitored E r (if r' = r \<and> enif_monitor_process E r p = 0 then Some p else m) es"
| "monitored E r m (_ # es) = monitored E r m es"

text \<open>A hand-over by what it finds, for the stream and for the connection.\<close>

lemma change_owner_cases:
  assumes "change_owner E r owner caller_pid t = (res, owner', es)"
    and "enif_self E = Some caller_pid" "enif_get_local_pid E t = Some target"
    and "enif_monitor_process E r caller_pid = 0"
  shows "(res = ATOM_OK \<longleftrightarrow> acc_Pid owner = caller_pid \<and> enif_monitor_process E r target = 0) \<and>
    owner' = (if res = ATOM_OK then owner\<lparr>acc_Pid := target\<rparr> else owner) \<and>
    monitored E r (Some (acc_Pid owner)) es = Some (acc_Pid owner') \<and> no_locks es"
  using assms by (auto simp: change_owner_def split: if_splits)

subsection \<open>Properties\<close>

text \<open>
  C20: A hand-over of a stream is all or nothing, and takes the life of the stream along. It
  succeeds exactly if the caller is the owner and the new process is alive; then the new
  process owns the stream and is the one that is monitored, the death of the old owner no
  longer matters, and the death of the new one shuts the stream down. Otherwise the owner is
  who it was and is monitored as before.
\<close>

theorem stream_handover:
  assumes "controlling_process E 2 (HStream s) t = Some (res, HStream s', es)"
    and "s_owner s = Some owner" "enif_self E = Some self" "enif_get_local_pid E t = Some target"
    and "enif_monitor_process E (s_res s) self = 0"
  shows "\<exists>owner'. s_owner s' = Some owner' \<and> balanced es \<and>
    (res = ATOM_OK \<longleftrightarrow> acc_Pid owner = self \<and> enif_monitor_process E (s_res s) target = 0) \<and>
    owner' = (if res = ATOM_OK then owner\<lparr>acc_Pid := target\<rparr> else owner) \<and>
    monitored E (s_res s) (Some (acc_Pid owner)) es = Some (acc_Pid owner') \<and>
    (\<forall>dead. quic_calls (resource_stream_down_callback M (Some s') (Some dead)) =
       (if dead = acc_Pid owner'
        then [StreamShutdown (Stream s) (QUIC_STREAM_SHUTDOWN_FLAG_IMMEDIATE M OR
                QUIC_STREAM_SHUTDOWN_FLAG_ABORT_RECEIVE M OR QUIC_STREAM_SHUTDOWN_FLAG_ABORT_SEND M) 0]
        else []))"
proof -
  obtain owner' ces where change: "change_owner E (s_res s) owner self t = (res, owner', ces)"
    and s': "s' = s\<lparr>s_owner := Some owner'\<rparr>"
    and es: "es = [Lock (LockOf (s_res s))] @ ces @ [Unlock (LockOf (s_res s))]"
    using assms(1-4) by (auto simp: controlling_process_def stream_controlling_process_def split: prod.splits)
  note facts = change_owner_cases [OF change assms(3,4,5)]
  have tail: "monitored E r m (xs @ [Unlock k]) = monitored E r m xs" for r m xs k
    by (induction E r m xs rule: monitored.induct) simp_all
  show ?thesis
    using facts by (simp add: s' es tail balanced_section [simplified] resource_stream_down_callback_def)
qed

theorem stream_handover_witness:
  "\<exists>s' es. controlling_process beam 2 (HStream (stream0 ACCEPTOR_RECV_MODE_ACTIVE 0)) (EPid 8) =
       Some (ATOM_OK, HStream s', es) \<and> map_option acc_Pid (s_owner s') = Some 8 \<and>
     monitored beam (RStream 1) (Some 7) es = Some 8"
proof -
  let ?s = "stream0 ACCEPTOR_RECV_MODE_ACTIVE 0" and ?o = "\<lparr>acc_addr = 2, acc_Pid = 7,
     active = ACCEPTOR_RECV_MODE_ACTIVE, active_count = 0, acc_Settings = zero_settings\<rparr>"
  have s: "s_owner ?s = Some ?o" "s_res ?s = RStream 1" by (simp_all add: stream0_def)
  have rt: "enif_get_local_pid beam (EPid 8) = Some 8" "enif_self beam = Some 7" "enif_monitor_process beam r p = 0"
    for r p by (simp_all add: beam_def)
  obtain s' es where run: "controlling_process beam 2 (HStream ?s) (EPid 8) = Some (ATOM_OK, HStream s', es)"
    by (simp add: controlling_process_def stream_controlling_process_def change_owner_def s rt)
  obtain o' where "s_owner s' = Some o'" "o' = ?o\<lparr>acc_Pid := 8\<rparr>"
    "monitored beam (s_res ?s) (Some (acc_Pid ?o)) es = Some (acc_Pid o')"
    using stream_handover [OF run s(1) rt(2) rt(1) rt(3), of msquic0] by auto
  then show ?thesis
    using run s(2) by auto
qed

text \<open>
  C21: The same holds of a connection: its owner, its monitor and the process whose death shuts
  it down are one process before and after any hand-over.
\<close>

theorem connection_handover:
  assumes "controlling_process E 2 (HConn c) t = Some (res, HConn c', es)"
    and "c_owner c = Some owner" "enif_self E = Some self" "enif_get_local_pid E t = Some target"
    and "enif_monitor_process E (c_res c) self = 0"
  shows "\<exists>owner'. c_owner c' = Some owner' \<and> balanced es \<and>
    (res = ATOM_OK \<longleftrightarrow> acc_Pid owner = self \<and> enif_monitor_process E (c_res c) target = 0) \<and>
    owner' = (if res = ATOM_OK then owner\<lparr>acc_Pid := target\<rparr> else owner) \<and>
    monitored E (c_res c) (Some (acc_Pid owner)) es = Some (acc_Pid owner') \<and>
    (\<forall>dead. quic_calls (resource_conn_down_callback M (Some c') (Some dead)) =
       (if dead = acc_Pid owner'
        then [ConnectionShutdown (Connection c) (QUIC_CONNECTION_SHUTDOWN_FLAG_NONE M) 0] else []))"
proof -
  obtain owner' ces where change: "change_owner E (c_res c) owner self t = (res, owner', ces)"
    and c': "c' = c\<lparr>c_owner := Some owner'\<rparr>"
    and es: "es = [Lock (LockOf (c_res c))] @ ces @ [Unlock (LockOf (c_res c))]"
    using assms(1-4) by (auto simp: controlling_process_def connection_controlling_process_def split: prod.splits)
  note facts = change_owner_cases [OF change assms(3,4,5)]
  have tail: "monitored E r m (xs @ [Unlock k]) = monitored E r m xs" for r m xs k
    by (induction E r m xs rule: monitored.induct) simp_all
  show ?thesis
    using facts by (simp add: c' es tail balanced_section [simplified] resource_conn_down_callback_def)
qed

theorem connection_handover_witness:
  "\<exists>c' es. controlling_process (beam\<lparr>enif_monitor_process := (\<lambda>r p. if p = 8 then 1 else 0)\<rparr>) 2 (HConn conn0) (EPid 8) =
       Some (ERROR_TUPLE_2 ATOM_OWNER_DEAD, HConn c', es) \<and> c_owner c' = c_owner conn0"
proof -
  define E where "E = beam\<lparr>enif_monitor_process := (\<lambda>r p. if p = 8 then 1 else 0)\<rparr>"
  let ?o = "\<lparr>acc_addr = 2, acc_Pid = 7,
     active = ACCEPTOR_RECV_MODE_ACTIVE, active_count = 0, acc_Settings = zero_settings\<rparr>"
  have c: "c_owner conn0 = Some ?o" "c_res conn0 = RConn 3" by (simp_all add: conn0_def)
  have rt: "enif_get_local_pid E (EPid 8) = Some 8" "enif_self E = Some 7" "enif_monitor_process E r 7 = 0"
    "enif_monitor_process E r 8 = 1" for r by (simp_all add: E_def beam_def)
  obtain c' es where run: "controlling_process E 2 (HConn conn0) (EPid 8) =
      Some (ERROR_TUPLE_2 ATOM_OWNER_DEAD, HConn c', es)"
    by (simp add: controlling_process_def connection_controlling_process_def change_owner_def c rt)
  have "ERROR_TUPLE_2 ATOM_OWNER_DEAD \<noteq> ATOM_OK" by (simp add: ret_defs)
  then have "c_owner c' = Some ?o"
    using connection_handover [OF run c(1) rt(2) rt(1) rt(3), of msquic0] by auto
  then show ?thesis
    using run c(1) unfolding E_def by auto
qed
subsection \<open>The order of the calls that open and close the library\<close>

text \<open>
  What the stack expects: it is opened before a registration is opened, that registration is
  closed before another is opened and before the stack is closed. \<open>lib_next\<close> is the state
  after a call, \<open>None\<close> if the call is out of order.
\<close>

datatype lib_state = LibClosed | LibOpen | LibRegistered hquic

fun lib_next :: "msquic \<Rightarrow> lib_state \<Rightarrow> qcall \<Rightarrow> lib_state option" where
  "lib_next M LibClosed MsQuicOpen = Some (if quic_failed M (quic_status_of M MsQuicOpen) then LibClosed else LibOpen)"
| "lib_next M LibOpen MsQuicClose = Some LibClosed"
| "lib_next M LibOpen (RegistrationOpen n p) =
     Some (if quic_failed M (quic_status_of M (RegistrationOpen n p)) then LibOpen
           else LibRegistered (quic_handle_of M (RegistrationOpen n p)))"
| "lib_next M (LibRegistered h) (RegistrationClose (Some h')) = (if h = h' then Some LibOpen else None)"
| "lib_next M _ _ = None"

fun lib_trace :: "lib_state \<Rightarrow> (msquic \<times> qcall) list \<Rightarrow> lib_state option" where
  "lib_trace st [] = Some st"
| "lib_trace st ((M, q) # qs) = (case lib_next M st q of None \<Rightarrow> None | Some st' \<Rightarrow> lib_trace st' qs)"

lemma lib_trace_append [simp]:
  "lib_trace st (qs @ qs') = (case lib_trace st qs of None \<Rightarrow> None | Some st' \<Rightarrow> lib_trace st' qs')"
  by (induction st qs rule: lib_trace.induct) (simp_all split: option.split)

text \<open>
  The NIFs, one call after the other, in any order. Each call has a runtime and a stack of its
  own: what the stack answers to a call may change from one to the next. A run gives the
  globals and the calls into the stack, each with the stack that answers it.
\<close>

datatype lib_call = OpenLib eterm | CloseLib | RegOpen nat eterm | RegClose | Unload

fun lib_nif_step :: "enif \<Rightarrow> msquic \<Rightarrow> openssl \<Rightarrow> GLOBALS \<Rightarrow> lib_call \<Rightarrow> GLOBALS \<times> eff list" where
  "lib_nif_step E M X G (OpenLib lttng) = snd (openLib E M X G lttng)"
| "lib_nif_step E M X G CloseLib = snd (closeLib G)"
| "lib_nif_step E M X G (RegOpen argc profile) = snd (registration M G argc profile)"
| "lib_nif_step E M X G RegClose = snd (deregistration G)"
| "lib_nif_step E M X G Unload = on_unload G"

type_synonym lib_calls = "(enif \<times> msquic \<times> openssl \<times> lib_call) list"

fun lib_run :: "GLOBALS \<Rightarrow> lib_calls \<Rightarrow> GLOBALS \<times> (msquic \<times> qcall) list" where
  "lib_run G [] = (G, [])"
| "lib_run G ((E, M, X, c) # cs) =
     (case lib_nif_step E M X G c of (G', es) \<Rightarrow>
        (case lib_run G' cs of (G'', qs) \<Rightarrow> (G'', map (Pair M) (quic_calls es) @ qs)))"

text \<open>Nobody closes the library while it is registered.\<close>

fun deregisters_first :: "GLOBALS \<Rightarrow> lib_calls \<Rightarrow> bool" where
  "deregisters_first G [] = True"
| "deregisters_first G ((E, M, X, c) # cs) =
     (\<not> (c = CloseLib \<and> isRegistered G) \<and> deregisters_first (fst (lib_nif_step E M X G c)) cs)"

definition lib_abs :: "GLOBALS \<Rightarrow> lib_state" where
  "lib_abs G =
     (if \<not> isLibOpened G then LibClosed
      else case GRegistration G of
        Some h \<Rightarrow> if isRegistered G then LibRegistered h else LibOpen
      | None \<Rightarrow> LibOpen)"

definition lib_inv :: "GLOBALS \<Rightarrow> bool" where
  "lib_inv G \<longleftrightarrow> (isLibOpened G \<longrightarrow> MsQuic G) \<and>
     (isRegistered G \<longrightarrow> isLibOpened G \<and> GRegistration G \<noteq> None)"

lemmas lib_nif_defs = openLib_def closeLib_def registration_def deregistration_def on_unload_def

lemma lib_step_refines:
  assumes "lib_inv G" "\<not> (c = CloseLib \<and> isRegistered G)" "lib_nif_step E M X G c = (G', es)"
  shows "lib_inv G' \<and> lib_trace (lib_abs G) (map (Pair M) (quic_calls es)) = Some (lib_abs G')"
  using assms
  by (cases c) (auto simp: lib_nif_defs lib_inv_def lib_abs_def Let_def split: if_splits option.splits prod.splits)

lemma closing_registered_breaks:
  assumes "lib_inv G" "isRegistered G" "lib_nif_step E M X G CloseLib = (G', es)"
  shows "lib_trace (lib_abs G) (map (Pair M) (quic_calls es)) = None"
  using assms by (auto simp: lib_nif_defs lib_inv_def lib_abs_def)

lemma lib_run_refines:
  assumes "lib_inv G"
  shows "lib_trace (lib_abs G) (snd (lib_run G cs)) =
     (if deregisters_first G cs then Some (lib_abs (fst (lib_run G cs))) else None)"
  using assms
proof (induction cs arbitrary: G)
  case (Cons call cs)
  obtain E M X c where call: "call = (E, M, X, c)" by (cases call) auto
  obtain G' es where step: "lib_nif_step E M X G c = (G', es)" by fastforce
  show ?case
  proof (cases "c = CloseLib \<and> isRegistered G")
    case True
    then show ?thesis
      using closing_registered_breaks [OF Cons.prems] step by (simp add: call split: prod.split)
  next
    case False
    note ref = lib_step_refines [OF Cons.prems this step]
    obtain G'' qs where "lib_run G' cs = (G'', qs)" by fastforce
    then show ?thesis
      using ref Cons.IH [of G'] step False by (auto simp: call)
  qed
qed simp

text \<open>The globals of a library that was just loaded.\<close>

definition globals_init :: GLOBALS where
  "globals_init = \<lparr>MsQuic = False, isLibOpened = False, isRegistered = False, GRegistration = None,
     GExecutionProfile = QUIC_EXECUTION_PROFILE_LOW_LATENCY\<rparr>"

text \<open>
  C6: The NIFs that open, register, deregister, close and unload the library refine the
  contract of the stack: from a freshly loaded library, any sequence of them, whatever the
  stack answers to each call, makes its calls in an order the stack accepts, and the globals
  then describe the state of the stack, exactly if nobody closes the library while it is
  registered; nothing in the library enforces that.
\<close>

theorem lib_refines_contract:
  "lib_trace LibClosed (snd (lib_run globals_init cs)) =
     (if deregisters_first globals_init cs then Some (lib_abs (fst (lib_run globals_init cs))) else None)"
  using lib_run_refines [of globals_init cs]
  by (simp add: globals_init_def lib_inv_def lib_abs_def)

subsection \<open>The connection outlives its streams\<close>

text \<open>The events of a stream this side has started, one after the other.\<close>

fun client_stream_run :: "enif \<Rightarrow> msquic \<Rightarrow> hquic option \<Rightarrow> QuicerStreamCTX \<Rightarrow> QUIC_STREAM_EVENT list \<Rightarrow>
    (QuicerStreamCTX \<times> eff list) option" where
  "client_stream_run E M h s [] = Some (s, [])"
| "client_stream_run E M h s (e # evs) =
     (case ClientStreamCallback E M h s e of
        None \<Rightarrow> None
      | Some (status, s', es) \<Rightarrow>
          map_option (\<lambda>(s'', es'). (s'', es @ es')) (client_stream_run E M h s' evs))"

text \<open>What a stream callback leaves: the connection and the handle, and only the stream is released.\<close>

definition stream_keeps :: "QuicerStreamCTX \<Rightarrow> QuicerStreamCTX \<times> eff list \<Rightarrow> bool" where
  "stream_keeps s r \<longleftrightarrow>
     s_addr (fst r) = s_addr s \<and> s_c_ctx (fst r) = s_c_ctx s \<and> Stream (fst r) = Stream s \<and>
     keeps (snd r) = [] \<and> set (releases (snd r)) \<subseteq> {s_res s}"

lemma client_callback_keeps:
  assumes "ClientStreamCallback E M h s e = Some (st, s', es)"
  shows "stream_keeps s (s', es)"
  using assms unfolding ClientStreamCallback_def frame_Some
  by (cases "is_shutdown_event e")
     (auto dest!: client_switch_frame simp: handler_frame_def stream_keeps_def destroy_s_ctx_def)

lemma client_run_keeps:
  "client_stream_run E M h s evs = Some (s', es) \<Longrightarrow> stream_keeps s (s', es)"
proof (induction evs arbitrary: s s' es)
  case (Cons e evs)
  then obtain st s1 es1 es2 where one: "ClientStreamCallback E M h s e = Some (st, s1, es1)"
    and rest: "client_stream_run E M h s1 evs = Some (s', es2)" and es: "es = es1 @ es2"
    by (auto split: option.splits)
  show ?case
    using client_callback_keeps [OF one] Cons.IH [OF rest] by (auto simp: stream_keeps_def es)
qed (simp add: stream_keeps_def)

definition stream_started :: "QuicerConnCTX \<Rightarrow> eterm \<times> QuicerStreamCTX option \<times> eff list \<Rightarrow> bool" where
  "stream_started c r \<longleftrightarrow>
     (case r of (res, s, es) \<Rightarrow> (\<forall>t. res = SUCCESS t \<longrightarrow>
        (\<exists>s' h. s = Some s' \<and> s_c_ctx s' = Some c \<and> Stream s' = Some h \<and> keeps es = [c_res c] \<and> releases es = [])))"

lemma start_stream_started:
  "post (async_start_stream2 E M (Some c) opts addr acc) (stream_started c)"
  unfolding async_start_stream2_def option.case
  by (intro wp)
     (auto simp: stream_started_def start_stream_open_def start_stream_exit_def post_def Let_def split: if_splits)

text \<open>
  C8: A stream that this side has started holds its connection: whatever happens on it, the
  reference that starting took is given up only by the end of the stream resource, once, right
  after the stream handle is closed.
\<close>

theorem stream_holds_connection:
  assumes "async_start_stream2 E M (Some c) opts addr acc = Some (SUCCESS t, Some s, es)"
    and "client_stream_run E M h s evs = Some (s', es')"
    and "resource_stream_dealloc_callback E s' = Some des"
  shows "keeps (es @ es' @ des) = [c_res c] \<and> c_res c \<notin> set (releases (es @ es')) \<and>
    (\<exists>rest. des = [Quic (StreamClose (Stream s)), Release (c_res c)] @ rest \<and> releases rest = [])"
proof -
  obtain h' where start: "s_c_ctx s = Some c" "Stream s = Some h'" "keeps es = [c_res c]" "releases es = []"
    using postD [OF start_stream_started assms(1)] by (auto simp: stream_started_def)
  have run: "s_c_ctx s' = Some c" "Stream s' = Some h'" "keeps es' = []" "set (releases es') \<subseteq> {s_res s}"
    using client_run_keeps [OF assms(2)] start by (simp_all add: stream_keeps_def)
  have "des = [Quic (StreamClose (Some h')), Release (c_res c)] @ AcceptorDestroy (s_owner s') @ deinit_s_ctx s'"
    using assms(3) run by (simp add: resource_stream_dealloc_callback_def)
  moreover have "keeps (AcceptorDestroy a) = []" "releases (AcceptorDestroy a) = []" for a
    by (simp_all add: AcceptorDestroy_def split: option.split)
  ultimately show ?thesis
    using start run by (auto simp: deinit_s_ctx_def)
qed
theorem stream_holds_connection_witness:
  "\<exists>s es s' es' des.
     async_start_stream2 beam msquic0 (Some conn0) (EMap [(ATOM_QUIC_STREAM_OPTS_ACTIVE, ATOM_FALSE)]) 90 91 =
       Some (SUCCESS (ERes (RStream 90)), Some s, es) \<and>
     client_stream_run beam msquic0 (Stream s) s
       [STREAM_SHUTDOWN_COMPLETE False False True False 0 QUIC_STATUS_SUCCESS] = Some (s', es') \<and>
     resource_stream_dealloc_callback beam s' = Some des \<and> releases (es' @ des) = [RStream 90, c_res conn0]"
proof -
  let ?opts = "EMap [(ATOM_QUIC_STREAM_OPTS_ACTIVE, ATOM_FALSE)]"
  let ?down = "STREAM_SHUTDOWN_COMPLETE False False True False 0 QUIC_STATUS_SUCCESS"
  have rt: "alloc_ok beam n" "enif_self beam = Some 7"
    "enif_get_map_value beam ?opts ATOM_QUIC_STREAM_OPTS_ACTIVE = Some ATOM_FALSE"
    "enif_get_map_value beam ?opts ATOM_QUIC_STREAM_OPTS_OPEN_FLAG = None"
    "enif_get_map_value beam ?opts ATOM_QUIC_STREAM_OPTS_START_FLAG = None"
    "enif_get_map_value beam ?opts ATOM_QUIC_EVENT_MASK = None" for n
    by (simp_all add: beam_def)
  have stack: "\<not> quic_failed msquic0 (quic_status_of msquic0 q)" "quic_handle_of msquic0 q = 42" for q
    by (simp_all add: msquic0_def)
  obtain s es where start: "async_start_stream2 beam msquic0 (Some conn0) ?opts 90 91 =
      Some (SUCCESS (ERes (RStream 90)), Some s, es)"
    and s: "s_addr s = 90" "s_owner s \<noteq> None" "s_c_ctx s = Some conn0" "Stream s = Some 42"
    by (simp add: async_start_stream2_def start_stream_open_def rt stack opt_uint_def init_s_ctx_def
        AcceptorAlloc_def set_event_mask_def get_uint32_from_map_def set_owner_recv_mode_def Let_def)
  obtain s' es' where run: "client_stream_run beam msquic0 (Stream s) s [?down] = Some (s', es')"
    and s': "s_is_closed s'" "s_c_ctx s' = Some conn0" "releases es' = [RStream 90]"
    using s by (auto simp: ClientStreamCallback_def stream_callback_frame_def stream_event_defs destroy_s_ctx_def)
  obtain des where "resource_stream_dealloc_callback beam s' = Some des"
    using s' by (simp add: resource_stream_dealloc_callback_def)
  from stream_holds_connection [OF start run this] this start run s' show ?thesis
    by fastforce
qed

end
