(* ===== verification/Quicer_Lifecycle.thy ===== *)
theory Quicer_Lifecycle
  imports Quicer_Nif
begin

section \<open>The life of a listener (\<open>quicer_listener.c\<close>, \<open>quicer_nif.c\<close>)\<close>

text \<open>
  What becomes of a listener after \<open>listen\<close>, whatever order it is stopped, started again,
  closed, loses its owner and takes connections in. The NIFs and callbacks are those of
  \<open>Quicer_Listener\<close> and \<open>Quicer_Nif\<close>; this theory adds the stack on the other side of the
  calls and runs them as a step relation.
\<close>

subsection \<open>The listener and the stack\<close>

text \<open>
  Beside the context: whether the stack listens, whether it still has to deliver
  \<open>STOP_COMPLETE\<close>, and how often the library has given up its reference to the context. The
  stack stops listening when it is told to stop or to close, and only then owes
  \<open>STOP_COMPLETE\<close>, once.
\<close>

record lsys =
  lctx :: QuicerListenerCTX
  listening :: bool
  stop_due :: bool
  released :: nat

fun stops :: "qcall \<Rightarrow> bool" where
  "stops (ListenerStop (Some h)) = True"
| "stops (ListenerClose (Some h)) = True"
| "stops _ = False"

fun starts :: "msquic \<Rightarrow> qcall \<Rightarrow> bool" where
  "starts M (ListenerStart h alpns a) = (\<not> quic_failed M (quic_status_of M (ListenerStart h alpns a)))"
| "starts M _ = False"

definition stack_after :: "msquic \<Rightarrow> lsys \<Rightarrow> QuicerListenerCTX \<Rightarrow> eff list \<Rightarrow> lsys" where
  "stack_after M s l' es =
     (let stopped = list_ex stops (quic_calls es); started = list_ex (starts M) (quic_calls es)
      in s\<lparr>lctx := l', listening := (listening s \<or> started) \<and> \<not> stopped,
           stop_due := stop_due s \<or> (listening s \<and> stopped),
           released := released s + count_list (releases es) (l_res (lctx s))\<rparr>)"

text \<open>
  The steps, each with a runtime and a stack of its own. The stack accepts a start only of a
  listener that has stopped, and tells of new connections only while it listens. It delivers
  \<open>STOP_COMPLETE\<close> before \<open>ListenerStop\<close> and \<open>ListenerClose\<close> return, as comments of the code say;
  here that is a step of its own, and no other step comes before it while it is due.
\<close>

inductive listener_step :: "lsys \<Rightarrow> lsys \<Rightarrow> bool" where
  Stop: "\<not> stop_due s \<Longrightarrow> stop_listener1 (Some (lctx s)) = (res, Some l', es) \<Longrightarrow>
     listener_step s (stack_after M s l' es)"
| Start: "\<not> stop_due s \<Longrightarrow>
     start_listener3 E M (Some (lctx s)) listen_on options = Some (res, Some l', es) \<Longrightarrow>
     (list_ex (starts M) (quic_calls es) \<longrightarrow> \<not> listening s \<and> \<not> stop_due s) \<Longrightarrow>
     listener_step s (stack_after M s l' es)"
| Close: "\<not> stop_due s \<Longrightarrow> close_listener1 (Some (lctx s)) = Some (res, Some l', es) \<Longrightarrow>
     listener_step s (stack_after M s l' es)"
| OwnerDown: "\<not> stop_due s \<Longrightarrow> resource_listener_down_callback (lctx s) = (l', es) \<Longrightarrow>
     listener_step s (stack_after M s l' es)"
| Connect: "\<not> stop_due s \<Longrightarrow> listening s \<Longrightarrow>
     ServerListenerCallback E M (lctx s) (NEW_CONNECTION h info) addr = Some (st, l', c, es) \<Longrightarrow>
     listener_step s (stack_after M s l' es)"
| Complete: "stop_due s \<Longrightarrow>
     ServerListenerCallback E M (lctx s) STOP_COMPLETE addr = Some (st, l', c, es) \<Longrightarrow>
     listener_step s ((stack_after M s l' es)\<lparr>stop_due := False\<rparr>)"

text \<open>The system right after a successful \<open>listen\<close>.\<close>

definition opened_sys :: "QuicerListenerCTX \<Rightarrow> lsys" where
  "opened_sys l = \<lparr>lctx = l, listening = True, stop_due = False, released = 0\<rparr>"

definition opened :: "QuicerListenerCTX \<Rightarrow> bool" where
  "opened l \<longleftrightarrow> \<not> l_is_closed l \<and> \<not> l_is_stopped l \<and> Listener l \<noteq> None \<and>
     l_config_resource l \<noteq> None"

subsection \<open>The invariant\<close>

text \<open>
  An open listener has its handle and its configuration, is stopped exactly if the stack does
  not listen, and has not been given up. A closed one has no handle; it has been given up once
  unless \<open>STOP_COMPLETE\<close> is due, which then finds what it needs to do so.
\<close>

definition listener_inv :: "lsys \<Rightarrow> bool" where
  "listener_inv s \<longleftrightarrow>
     (if l_is_closed (lctx s)
      then Listener (lctx s) = None \<and> \<not> listening s \<and>
        (if stop_due s then released s = 0 \<and> \<not> l_is_stopped (lctx s) \<and> l_config_resource (lctx s) \<noteq> None
         else released s = 1)
      else Listener (lctx s) \<noteq> None \<and> l_config_resource (lctx s) \<noteq> None \<and> released s = 0 \<and>
        (l_is_stopped (lctx s) \<longleftrightarrow> \<not> listening s) \<and> (stop_due s \<longrightarrow> \<not> listening s))"

lemma opened_inv: "opened l \<Longrightarrow> listener_inv (opened_sys l)"
  by (simp add: opened_def opened_sys_def listener_inv_def)

lemma stop_inv:
  assumes "listener_inv s" "\<not> stop_due s" "stop_listener1 (Some (lctx s)) = (res, Some l', es)"
  shows "listener_inv (stack_after M s l' es)"
  using assms by (auto simp: stop_listener1_def listener_inv_def stack_after_def Let_def split: if_splits)

lemma down_inv:
  assumes "listener_inv s" "\<not> stop_due s" "resource_listener_down_callback (lctx s) = (l', es)"
  shows "listener_inv (stack_after M s l' es)"
  using assms by (auto simp: resource_listener_down_callback_def listener_inv_def stack_after_def Let_def split: if_splits)

lemma start_inv:
  assumes "listener_inv s" "\<not> stop_due s"
    "start_listener3 E M (Some (lctx s)) listen_on options = Some (res, Some l', es)"
    "list_ex (starts M) (quic_calls es) \<longrightarrow> \<not> listening s \<and> \<not> stop_due s"
  shows "listener_inv (stack_after M s l' es)"
proof -
  have "post (start_listener3 E M (Some (lctx s)) listen_on options) (\<lambda>(res, l', es). \<forall>l. l' = Some l \<longrightarrow>
     (list_ex (starts M) (quic_calls es) \<longrightarrow> \<not> listening s \<and> \<not> stop_due s) \<longrightarrow> listener_inv (stack_after M s l es))"
    using assms(1,2) unfolding start_listener3_def option.case
    by (intro wp) (auto simp: listener_inv_def stack_after_def Let_def split: if_splits)
  from postD [OF this assms(3)] assms(4) show ?thesis by simp
qed

lemma close_inv:
  assumes "listener_inv s" "\<not> stop_due s" "close_listener1 (Some (lctx s)) = Some (res, Some l', es)"
  shows "listener_inv (stack_after M s l' es)"
  using assms
  by (auto simp: close_listener1_def destroy_l_ctx_def destroy_config_ctx_def listener_inv_def stack_after_def Let_def
      split: if_splits option.splits)

lemma init_c_ctx_calls:
  "init_c_ctx E a = (c, es) \<Longrightarrow> releases es = [] \<and> quic_calls es = []"
  by (auto simp: ctx_init_defs split: if_splits)

lemma connect_calls:
  "post (listener_new_connection E M l h info addr) (\<lambda>(st, l', c, es).
     (\<exists>q. l' = l\<lparr>l_acceptor_queue := q\<rparr>) \<and> count_list (releases es) (l_res l) = 0 \<and>
     \<not> list_ex stops (quic_calls es) \<and> \<not> list_ex (starts M) (quic_calls es))"
  unfolding listener_new_connection_def reject_connection_def
  by (intro wp) (auto dest!: init_c_ctx_calls dequeue_owner split: option.split)

lemma connect_inv:
  assumes "listener_inv s" "listening s"
    "ServerListenerCallback E M (lctx s) (NEW_CONNECTION h info) addr = Some (st, l', c, es)"
  shows "listener_inv (stack_after M s l' es)"
  using postD [OF connect_calls, of E M "lctx s" h info addr "(st, l', c, es)"] assms
  by (auto simp: listener_inv_def stack_after_def Let_def split: if_splits)

lemma complete_inv:
  assumes "listener_inv s" "stop_due s"
    "ServerListenerCallback E M (lctx s) STOP_COMPLETE addr = Some (st, l', c, es)"
  shows "listener_inv ((stack_after M s l' es)\<lparr>stop_due := False\<rparr>)"
  using assms
  by (auto simp: listener_stop_complete_def destroy_l_ctx_def destroy_config_ctx_def listener_inv_def stack_after_def
      Let_def split: if_splits option.splits)

lemma listener_step_inv:
  "listener_step s s' \<Longrightarrow> listener_inv s \<Longrightarrow> listener_inv s'"
proof (induction rule: listener_step.induct)
  case (Stop s res l' es M)
  then show ?case by (simp add: stop_inv)
next
  case (Start s E M listen_on options res l' es)
  then show ?case by (simp add: start_inv)
next
  case (Close s res l' es M)
  then show ?case by (simp add: close_inv)
next
  case (OwnerDown s l' es M)
  then show ?case by (simp add: down_inv)
next
  case (Connect s E M h info addr st l' c es)
  then show ?case by (blast intro: connect_inv)
next
  case (Complete s E M addr st l' c es)
  then show ?case by (blast intro: complete_inv)
qed

lemma listener_steps_inv:
  "listener_step\<^sup>*\<^sup>* s s' \<Longrightarrow> listener_inv s \<Longrightarrow> listener_inv s'"
  by (induction rule: rtranclp_induct) (auto dest: listener_step_inv)
subsection \<open>How a listener opens and ends\<close>

definition opens :: "eterm \<times> QuicerListenerCTX option \<times> eff list \<Rightarrow> bool" where
  "opens r \<longleftrightarrow> (case r of (res, l', es) \<Rightarrow> (\<forall>t. res = OK_TUPLE_2 t \<longrightarrow> (\<exists>l. l' = Some l \<and> opened l)))"

lemma listen_exit_opens: "(\<And>t. ret \<noteq> OK_TUPLE_2 t) \<Longrightarrow> post (listen_exit ret cred l es) opens"
  unfolding listen_exit_def by (intro wp) (simp add: opens_def)

lemma listen_open_opens:
  "\<not> l_is_stopped l \<Longrightarrow> l_config_resource l \<noteq> None \<Longrightarrow> post (listen_open E M options a reg cred l es) opens"
  unfolding listen_open_def by (intro wp listen_exit_opens) (auto simp: opens_def opened_def)

lemma listen_config_opens:
  "\<not> l_is_stopped l \<Longrightarrow> post (listen_config E M G regs options a cred l es) opens"
  unfolding listen_config_def by (intro wp listen_exit_opens listen_open_opens) auto

lemma listen2_opens: "post (listen2 E M X G regs elisten_on options addr config_addr) opens"
  unfolding listen2_def
  by (intro wp listen_exit_opens listen_config_opens) (auto dest!: init_l_ctx_quiet simp: opens_def)

lemma listen2_opened:
  "listen2 E M X G regs elisten_on options addr config_addr = Some (OK_TUPLE_2 t, Some l, es) \<Longrightarrow> opened l"
  using postD [OF listen2_opens] by (fastforce simp: opens_def)

lemma complete_defined:
  assumes "listener_inv s" "stop_due s"
  shows "\<exists>st l' es. ServerListenerCallback E M (lctx s) STOP_COMPLETE addr = Some (st, l', None, es)"
  using assms
  by (auto simp: listener_inv_def listener_stop_complete_def destroy_l_ctx_def split: if_splits)

lemma complete_keeps_closed:
  "ServerListenerCallback E M l STOP_COMPLETE addr = Some (st, l', c, es) \<Longrightarrow> l_is_closed l' = l_is_closed l"
  by (auto simp: listener_stop_complete_def destroy_l_ctx_def Let_def split: if_splits option.splits)

text \<open>Delivering what is due, and then closing, ends the life of a listener.\<close>

lemma deliver:
  assumes "listener_inv s"
  shows "\<exists>s'. listener_step\<^sup>*\<^sup>* s s' \<and> listener_inv s' \<and> \<not> stop_due s' \<and>
    l_is_closed (lctx s') = l_is_closed (lctx s)"
proof (cases "stop_due s")
  case True
  obtain st l' es where run: "ServerListenerCallback beam msquic0 (lctx s) STOP_COMPLETE 0 = Some (st, l', None, es)"
    using complete_defined [OF assms True] by blast
  let ?s = "(stack_after msquic0 s l' es)\<lparr>stop_due := False\<rparr>"
  have "listener_step s ?s" by (rule listener_step.Complete [OF True run])
  moreover have "listener_inv ?s" by (rule complete_inv [OF assms True run])
  moreover have "l_is_closed (lctx ?s) = l_is_closed (lctx s)"
    using complete_keeps_closed [OF run] by (simp add: stack_after_def Let_def)
  ultimately show ?thesis by (intro exI [of _ ?s]) auto
qed (use assms in auto)

lemma close_step:
  assumes "listener_inv s" "\<not> stop_due s"
  shows "\<exists>s'. listener_step s s' \<and> listener_inv s' \<and> l_is_closed (lctx s')"
proof -
  have "\<exists>res l' es. close_listener1 (Some (lctx s)) = Some (res, Some l', es) \<and> l_is_closed l'"
    using assms
    by (auto simp: close_listener1_def listener_inv_def destroy_l_ctx_def Let_def split: if_splits)
  then obtain res l' es where run: "close_listener1 (Some (lctx s)) = Some (res, Some l', es)" and "l_is_closed l'"
    by blast
  then have "l_is_closed (lctx (stack_after msquic0 s l' es))" by (simp add: stack_after_def Let_def)
  moreover have "listener_step s (stack_after msquic0 s l' es)"
    by (rule listener_step.Close [OF _ run]) (simp add: assms(2))
  ultimately show ?thesis
    using close_inv [OF assms run] by blast
qed

subsection \<open>Listening returns\<close>

text \<open>At most as many ALPN names as the array of \<open>load_alpn\<close> has entries.\<close>

definition alpn_fits :: "enif \<Rightarrow> eterm \<Rightarrow> bool" where
  "alpn_fits E options \<longleftrightarrow>
     (case enif_get_map_value E options ATOM_ALPN of
        None \<Rightarrow> True
      | Some al \<Rightarrow> (case enif_get_list E al of None \<Rightarrow> True | Some ts \<Rightarrow> length ts \<le> MAX_ALPN))"

lemma load_alpn_loop_defined: "i + length ts \<le> MAX_ALPN \<Longrightarrow> load_alpn_loop E i ts str lens \<noteq> None"
  by (induction E i ts str lens rule: load_alpn_loop.induct) (auto split: prod.split)

lemma not_None: "defined r \<Longrightarrow> (r = None) = False"
  by (simp add: defined_def)

lemma load_alpn_defined: "alpn_fits E options \<Longrightarrow> defined (load_alpn E options)"
  unfolding load_alpn_def
  by (intro dwp) (use load_alpn_loop_defined [of 0] in \<open>auto simp: alpn_fits_def split: option.splits\<close>)

lemma str_from_map_defined: "alloc_ok E ''string'' \<Longrightarrow> defined (str_from_map E k m n)"
  unfolding str_from_map_def by (intro dwp) auto

lemma parsers_defined:
  assumes "\<forall>n. alloc_ok E n"
  shows "defined (parse_cert_options E options c)" "defined (parse_cacertfile_option E options)"
proof -
  have str: "(str_from_map E k m n = None) = False" for k m n
    using assms by (simp add: not_None str_from_map_defined)
  show "defined (parse_cert_options E options c)"
    unfolding parse_cert_options_def by (intro dwp) (auto simp: str)
  show "defined (parse_cacertfile_option E options)"
    unfolding parse_cacertfile_option_def by (intro dwp) (auto simp: str)
qed

lemma server_load_defined:
  "alpn_fits E options \<Longrightarrow> stale_reads E \<Longrightarrow> defined (ServerLoadConfiguration E M G options reg conf cred)"
  unfolding ServerLoadConfiguration_def
  by (intro dwp) (auto simp: not_None load_alpn_defined)

lemma listen_exit_defined: "l_config_resource l \<noteq> None \<Longrightarrow> defined (listen_exit ret cred l es)"
  by (auto simp: listen_exit_def destroy_l_ctx_def defined_def)

lemma listen_open_defined:
  assumes "alpn_fits E options" "l_config_resource l \<noteq> None" "stale_reads E"
  shows "defined (listen_open E M options a reg cred l es)"
  unfolding listen_open_def
  by (intro dwp listen_exit_defined) (use assms(2,3) in \<open>auto simp: not_None load_alpn_defined assms(1)\<close>)

lemma listen_config_defined:
  assumes "alpn_fits E options" "l_config_resource l \<noteq> None" "stale_reads E"
  shows "defined (listen_config E M G regs options a cred l es)"
  unfolding listen_config_def
  by (intro dwp listen_exit_defined listen_open_defined)
     (use assms(2,3) in \<open>auto simp: not_None server_load_defined assms(1)\<close>)

lemma init_l_ctx_config:
  "\<forall>n. alloc_ok E n \<Longrightarrow> init_l_ctx E a b = (Some l, es) \<Longrightarrow> l_config_resource l \<noteq> None"
  by (auto simp: ctx_init_defs)

lemma listen2_defined:
  assumes "\<forall>n. alloc_ok E n" "alpn_fits E options" "stale_reads E"
  shows "defined (listen2 E M X G regs elisten_on options addr config_addr)"
  unfolding listen2_def
  by (intro dwp listen_exit_defined listen_config_defined)
     (auto simp: not_None parsers_defined assms dest!: init_l_ctx_config [OF assms(1)])

text \<open>
  Without reads of dead memory nothing listens: the stack reads the names out of the array.
\<close>

definition never_ok :: "eterm \<times> QuicerListenerCTX option \<times> eff list \<Rightarrow> bool" where
  "never_ok r \<longleftrightarrow> (\<forall>t. fst r \<noteq> OK_TUPLE_2 t)"

lemma listen_exit_never: "(\<And>t. ret \<noteq> OK_TUPLE_2 t) \<Longrightarrow> post (listen_exit ret cred l es) never_ok"
  unfolding listen_exit_def by (intro wp) (simp add: never_ok_def)

lemma listen2_never:
  assumes "\<not> stale_reads E"
  shows "post (listen2 E M X G regs elisten_on options addr config_addr) never_ok"
  using assms unfolding listen2_def listen_config_def listen_open_def
  by (intro wp listen_exit_never) (auto simp: never_ok_def)

text \<open>More names than that, all of them strings, are written past the end of the array.\<close>

lemma load_alpn_loop_overflow:
  "\<forall>t \<in> set ts. 0 < fst (enif_get_string E t PATH_MAX) \<Longrightarrow> MAX_ALPN < i + length ts \<Longrightarrow> i \<le> MAX_ALPN \<Longrightarrow>
     load_alpn_loop E i ts str lens = None"
  by (induction E i ts str lens rule: load_alpn_loop.induct) (auto split: prod.splits)

text \<open>A listener that opens, for the concrete runs below.\<close>

lemma listen_runs:
  "\<exists>l es. listen2 beam msquic0 openssl0 globals0 (\<lambda>_. None) (EInt 443) listen_opts0 3 2 =
     Some (OK_TUPLE_2 (ERes (RListener 3)), Some l, es)"
proof -
  have stack: "\<not> quic_failed msquic0 (quic_status_of msquic0 q)" "quic_handle_of msquic0 q = 42" for q
    by (simp_all add: msquic0_def)
  have rt: "alloc_ok beam n" "enif_self beam = Some 7" "enif_is_map beam listen_opts0"
    "enif_monitor_process beam r p = 0" for n r p
    by (simp_all add: beam_def listen_opts0_def)
  have opts: "enif_get_map_value beam listen_opts0 k = None"
    if "k \<notin> {ATOM_CERTFILE, ATOM_KEYFILE, ATOM_ALPN}" for k
    using that by (simp add: beam_def listen_opts0_def)
  have reg: "GRegistration globals0 = Some 40" "isRegistered globals0"
    by (simp_all add: globals0_def)
  have alpn: "load_alpn beam listen_opts0 = Some (Some [''h3''])"
    by (simp add: load_alpn_def listen_opts0_def beam_def term_string_def write_str_def strlen_def
        char_of_def bit_0 PATH_MAX_def MAX_ALPN_def)
  have cert: "\<exists>c. parse_cert_options beam listen_opts0 cc = Some (True, c)" for cc
    by (simp add: parse_cert_options_def str_from_map_def listen_opts0_def beam_def term_string_def PATH_MAX_def
        char_of_def bit_0)
  obtain c where c: "parse_cert_options beam listen_opts0 (zero_cred\<lparr>cred_Flags := QUIC_CREDENTIAL_FLAG_NONE msquic0\<rparr>) =
      Some (True, c)"
    using cert by blast
  obtain S where S: "create_settings beam msquic0 listen_opts0 = Some S"
    by (simp add: create_settings_def listen_opts0_def beam_def)
  have addr: "parse_listen_on beam msquic0 (EInt 443) = Some (port_addr 443)"
    by (simp add: parse_listen_on_def beam_def)
  show ?thesis
    by (simp add: listen2_def listen_config_def listen_open_def listen_exit_def rt opts reg alpn c S addr stack
        parse_verify_options_def parse_cacertfile_option_def parse_registration_def ServerLoadConfiguration_def
        ctx_init_defs destroy_l_ctx_def Let_def)
qed

subsection \<open>Properties\<close>

text \<open>
  C19: When \<open>listen\<close> returns, and when not. Given memory, at most \<open>MAX_ALPN\<close> ALPN names, and a
  platform on which memory that went out of scope can still be read, it returns whatever else
  the options, the runtime and the stack are. The last condition is no formality, even for one
  name: the names the stack reads are in a local variable of a loop that was left. Where such
  a read is what C says it is, undefined, loading the configuration of a listener is undefined
  for every list of names, and no \<open>listen\<close> ever succeeds. The bound is needed too, and nothing
  checks it: a longer list of strings is written past the end of the array.
\<close>

theorem listen_returns:
  assumes "\<forall>n. alloc_ok E n"
  shows "(alpn_fits E options \<and> stale_reads E \<longrightarrow>
      (\<exists>res l' es. listen2 E M X G regs elisten_on options addr config_addr = Some (res, l', es))) \<and>
    (\<not> stale_reads E \<longrightarrow>
      (\<forall>t l' es. listen2 E M X G regs elisten_on options addr config_addr \<noteq> Some (OK_TUPLE_2 t, l', es)) \<and>
      (\<forall>names S. load_alpn E options = Some (Some names) \<and> create_settings E M options = Some S \<and>
         (isRegistered G \<or> reg \<noteq> GRegistration G) \<longrightarrow>
         ServerLoadConfiguration E M G options reg conf cred = None)) \<and>
    (\<forall>al ts. enif_get_map_value E options ATOM_ALPN = Some al \<and> enif_get_list E al = Some ts \<and>
       MAX_ALPN < length ts \<and> (\<forall>t \<in> set ts. 0 < fst (enif_get_string E t PATH_MAX)) \<longrightarrow> load_alpn E options = None)"
proof -
  have long: "load_alpn_loop E 0 ts [] [] = None"
    if "MAX_ALPN < length ts" "\<forall>t \<in> set ts. 0 < fst (enif_get_string E t PATH_MAX)" for ts
    using load_alpn_loop_overflow [OF that(2), of 0] that(1) by simp
  have never: "listen2 E M X G regs elisten_on options addr config_addr \<noteq> Some (OK_TUPLE_2 t, l', es)"
    if "\<not> stale_reads E" for t l' es
    using postD [OF listen2_never [OF that]] by (fastforce simp: never_ok_def)
  have "ServerLoadConfiguration E M G options reg conf cred = None"
    if "\<not> stale_reads E" "load_alpn E options = Some (Some names)" "create_settings E M options = Some S"
      "isRegistered G \<or> reg \<noteq> GRegistration G" for names S
    using that by (auto simp: ServerLoadConfiguration_def stale_read_def)
  then show ?thesis
    using listen2_defined [OF assms] never long by (auto simp: defined_def load_alpn_def)
qed

theorem listen_returns_witness:
  "(\<exists>res l' es. listen2 beam msquic0 openssl0 globals0 (\<lambda>_. None) (EInt 443) listen_opts0 3 2 = Some (res, l', es)) \<and>
   load_alpn beam (EMap [(ATOM_ALPN, EList (replicate 17 (EStr ''h3'')))]) = None \<and>
   (\<forall>t l' es. listen2 (beam\<lparr>stale_reads := False\<rparr>) msquic0 openssl0 globals0 (\<lambda>_. None) (EInt 443) listen_opts0 3 2
      \<noteq> Some (OK_TUPLE_2 t, l', es))"
proof -
  have mem: "\<forall>n. alloc_ok beam n" "\<forall>n. alloc_ok (beam\<lparr>stale_reads := False\<rparr>) n" by (simp_all add: beam_def)
  have fits: "alpn_fits beam listen_opts0"
    by (simp add: alpn_fits_def beam_def listen_opts0_def MAX_ALPN_def)
  have h3: "fst (enif_get_string beam (EStr ''h3'') PATH_MAX) = 3"
    by (simp add: beam_def term_string_def PATH_MAX_def char_of_def bit_0)
  let ?o = "EMap [(ATOM_ALPN, EList (replicate 17 (EStr ''h3'')))]"
  have long: "enif_get_map_value beam ?o ATOM_ALPN = Some (EList (replicate 17 (EStr ''h3'')))"
    "enif_get_list beam (EList (replicate 17 (EStr ''h3''))) = Some (replicate 17 (EStr ''h3''))"
    "MAX_ALPN < length (replicate 17 (EStr ''h3''))"
    "\<forall>t \<in> set (replicate 17 (EStr ''h3'')). 0 < fst (enif_get_string beam t PATH_MAX)"
    using h3 by (auto simp: beam_def MAX_ALPN_def)
  have "load_alpn beam ?o = None"
    using listen_returns [OF mem(1), of ?o] long by blast
  moreover have "\<exists>res l' es. listen2 beam msquic0 openssl0 globals0 (\<lambda>_. None) (EInt 443) listen_opts0 3 2 = Some (res, l', es)"
    using listen_returns [OF mem(1)] fits beam_stale by blast
  moreover have "\<not> stale_reads (beam\<lparr>stale_reads := False\<rparr>)" by simp
  ultimately show ?thesis
    using listen_returns [OF mem(2)] by blast
qed

text \<open>
  C4: Whatever happens to a listener after \<open>listen\<close> (it is stopped and started again, closed,
  loses its owner, takes connections, in any order and any number of times), the library gives
  up its reference to the context at most once, and exactly once when the listener is closed
  and the stack has nothing left to tell. A closed listener does not listen, an open one has
  its handle. This rests on \<open>STOP_COMPLETE\<close> being delivered before anything else happens, as
  a comment of the code says.
\<close>

theorem listener_released_once:
  assumes "listen2 E M X G regs elisten_on options addr config_addr = Some (OK_TUPLE_2 t, Some l, es)"
    and "listener_step\<^sup>*\<^sup>* (opened_sys l) s"
  shows "released s = (if l_is_closed (lctx s) \<and> \<not> stop_due s then 1 else 0) \<and>
    (l_is_closed (lctx s) \<longrightarrow> \<not> listening s \<and> Listener (lctx s) = None) \<and>
    (\<not> l_is_closed (lctx s) \<longrightarrow> Listener (lctx s) \<noteq> None \<and> (l_is_stopped (lctx s) \<longleftrightarrow> \<not> listening s))"
  using listener_steps_inv [OF assms(2) opened_inv [OF listen2_opened [OF assms(1)]]]
  by (auto simp: listener_inv_def split: if_splits)
theorem listener_released_once_witness:
  "\<exists>l es s. listen2 beam msquic0 openssl0 globals0 (\<lambda>_. None) (EInt 443) listen_opts0 3 2 =
     Some (OK_TUPLE_2 (ERes (RListener 3)), Some l, es) \<and>
     listener_step\<^sup>*\<^sup>* (opened_sys l) s \<and> l_is_closed (lctx s) \<and> released s = 1"
proof -
  obtain l es where listen: "listen2 beam msquic0 openssl0 globals0 (\<lambda>_. None) (EInt 443) listen_opts0 3 2 =
     Some (OK_TUPLE_2 (ERes (RListener 3)), Some l, es)"
    using listen_runs by blast
  have open_inv: "listener_inv (opened_sys l)" "\<not> stop_due (opened_sys l)"
    using opened_inv [OF listen2_opened [OF listen]] by (simp_all add: opened_sys_def)
  obtain s1 where s1: "listener_step (opened_sys l) s1" "listener_inv s1" "l_is_closed (lctx s1)"
    using close_step [OF open_inv] by blast
  obtain s2 where s2: "listener_step\<^sup>*\<^sup>* s1 s2" "\<not> stop_due s2" "l_is_closed (lctx s2)"
    using deliver [OF s1(2)] s1(3) by blast
  have "listener_step\<^sup>*\<^sup>* (opened_sys l) s2" using s1(1) s2(1) by simp
  with listener_released_once [OF listen this] listen s2 show ?thesis by auto
qed

text \<open>
  C17: The end of a listener is always in reach: from every state it can get into, delivering
  what the stack owes, closing it and delivering again leads to a closed listener whose
  reference has been given up; in particular a \<open>STOP_COMPLETE\<close> that is due never runs into
  undefined behaviour, in a debug build or not.
\<close>

theorem listener_can_end:
  assumes "listen2 E M X G regs elisten_on options addr config_addr = Some (OK_TUPLE_2 t, Some l, es)"
    and "listener_step\<^sup>*\<^sup>* (opened_sys l) s"
  shows "(\<exists>s'. listener_step\<^sup>*\<^sup>* s s' \<and> l_is_closed (lctx s') \<and> \<not> stop_due s' \<and> released s' = 1) \<and>
    (stop_due s \<longrightarrow> (\<forall>E' M'. ServerListenerCallback E' M' (lctx s) STOP_COMPLETE addr' \<noteq> None))"
proof -
  have inv: "listener_inv s"
    by (rule listener_steps_inv [OF assms(2) opened_inv [OF listen2_opened [OF assms(1)]]])
  obtain s1 where s1: "listener_step\<^sup>*\<^sup>* s s1" "listener_inv s1" "\<not> stop_due s1"
    using deliver [OF inv] by blast
  obtain s2 where s2: "listener_step s1 s2" "listener_inv s2" "l_is_closed (lctx s2)"
    using close_step [OF s1(2,3)] by blast
  obtain s3 where s3: "listener_step\<^sup>*\<^sup>* s2 s3" "listener_inv s3" "\<not> stop_due s3" "l_is_closed (lctx s3)"
    using deliver [OF s2(2)] s2(3) by blast
  have "listener_step\<^sup>*\<^sup>* s s3" using s1(1) s2(1) s3(1) by (simp add: rtranclp_trans)
  moreover have "released s3 = 1" using s3 by (simp add: listener_inv_def)
  ultimately show ?thesis
    using s3 complete_defined [OF inv] by fastforce
qed

theorem listener_can_end_witness:
  "\<exists>l es s. listen2 beam msquic0 openssl0 globals0 (\<lambda>_. None) (EInt 443) listen_opts0 3 2 =
     Some (OK_TUPLE_2 (ERes (RListener 3)), Some l, es) \<and>
     listener_step\<^sup>*\<^sup>* (opened_sys l) s \<and> l_is_closed (lctx s) \<and> released s = 1"
proof -
  obtain l es where listen: "listen2 beam msquic0 openssl0 globals0 (\<lambda>_. None) (EInt 443) listen_opts0 3 2 =
     Some (OK_TUPLE_2 (ERes (RListener 3)), Some l, es)"
    using listen_runs by blast
  show ?thesis
    using listener_can_end [OF listen rtranclp.rtrancl_refl] listen by blast
qed

end
