(* ===== verification/Quicer_Messages.thy ===== *)
theory Quicer_Messages
  imports Quicer_Lifecycle
begin

section \<open>The messages of the callbacks\<close>

text \<open>
  The shape of what the callbacks of streams, connections and listeners send to Erlang
  processes: \<open>docs/messages_to_owner.md\<close> promises tuples of four, \<open>quic\<close>, the name of the
  event or the data, a handle, and properties.
\<close>

subsection \<open>Well-formed terms and messages\<close>

text \<open>A term the runtime can copy: no part of it is a variable that was never assigned.\<close>

fun valid_term :: "eterm \<Rightarrow> bool" where
  "valid_term (EList ts) = list_all valid_term ts"
| "valid_term (ETuple ts) = list_all valid_term ts"
| "valid_term (EMap kvs) = list_all (\<lambda>kv. valid_term (fst kv) \<and> valid_term (snd kv)) kvs"
| "valid_term EInvalid = False"
| "valid_term _ = True"

fun event_name :: "eterm \<Rightarrow> bool" where
  "event_name (Atom a) = True"
| "event_name (EBin b) = True"
| "event_name _ = False"

fun event_handle :: "eterm \<Rightarrow> bool" where
  "event_handle (ERes r) = True"
| "event_handle t = (t = ATOM_UNDEFINED)"

fun message_ok :: "eterm \<Rightarrow> bool" where
  "message_ok (ETuple [q, name, handle, prop]) =
     (q = ATOM_QUIC \<and> event_name name \<and> event_handle handle \<and> valid_term prop)"
| "message_ok _ = False"

fun typed :: "eff list \<Rightarrow> bool" where
  "typed [] = True"
| "typed (Send p t # es) = (message_ok t \<and> typed es)"
| "typed (_ # es) = typed es"

lemma typed_append [simp]: "typed (xs @ ys) \<longleftrightarrow> typed xs \<and> typed ys"
  by (induction xs rule: typed.induct) auto

lemma typed_msgs: "typed es \<longleftrightarrow> list_all (\<lambda>m. message_ok (snd m)) (msgs es)"
  by (induction es rule: typed.induct) auto

lemma valid_chars [simp]: "list_all valid_term (map (\<lambda>c. EInt (of_char c)) s)"
  by (simp add: list_all_iff)

lemma valid_numbers [simp]:
  "valid_term (enif_make_int i)" "valid_term (enif_make_uint w)" "valid_term (enif_make_uint64 v)"
  "valid_term (ETERM_UINT_64 j)" "valid_term (ATOM_BOOLEAN b)" "valid_term (EStr s)"
  by (simp_all add: enif_make_int_def enif_make_uint_def enif_make_uint64_def ETERM_UINT_64_def ATOM_BOOLEAN_def
      list_all_iff)

lemma valid_atom_status [simp]: "valid_term (atom_status M st)"
  by (cases st) (simp_all add: Let_def)

lemma message_make_event [simp]:
  "message_ok (make_event name handle prop) \<longleftrightarrow> event_name name \<and> event_handle handle \<and> valid_term prop"
  by (simp add: make_event_def)

lemma message_with_props [simp]:
  assumes "list_all valid_term keys" "list_all valid_term vals" "event_name name" "event_handle handle"
  shows "message_ok (make_event_with_props name handle keys vals)"
  using assms by (auto simp: make_event_with_props_def list_all_iff dest: set_zip_leftD set_zip_rightD)

lemma typed_free [simp]:
  "typed (destroy_s_ctx s)" "typed (destroy_send_ctx sc)" "typed (destroy_dgram_send_ctx sc)"
  "typed (snd (destroy_c_ctx c))" "typed (AcceptorDestroy a)"
  by (simp_all add: ctx_destroy_defs AcceptorDestroy_def split: option.split)

subsection \<open>Streams\<close>

lemma recv_typed:
  "eHandle s = ERes r \<Longrightarrow> post (take_back (handle_stream_event_recv E M h s ev)) (\<lambda>(st, s', es). typed es)"
  unfolding handle_stream_event_recv_def by (intro post_take_back wp) simp_all

lemma report_typed:
  "message_ok t \<Longrightarrow> post (report_owner s t) (\<lambda>(st, s', es). typed es)"
  unfolding report_owner_def by (intro wp) simp

lemma stream_frame_typed:
  "post (fst r) (\<lambda>(st, s', es). typed es) \<Longrightarrow> post (stream_callback_frame s r) (\<lambda>(st, s', es). typed es)"
  by (cases r) (auto simp: post_def frame_Some)

lemma stream_switch_typed:
  assumes "eHandle s = ERes r"
  shows "post (fst (server_stream_switch E M h s e)) (\<lambda>(st, s', es). typed es)"
    and "post (fst (client_stream_switch E M h s e)) (\<lambda>(st, s', es). typed es)"
  using assms
  by (cases e; simp add: recv_typed; (unfold stream_event_defs Let_def)?; (intro wp)?; simp)+
subsection \<open>Connections and listeners\<close>

definition typed_result :: "quic_status \<times> QuicerConnCTX \<times> QuicerStreamCTX option \<times> eff list \<Rightarrow> bool" where
  "typed_result = (\<lambda>(st, c', s, es). typed es)"

lemma conn_ok_typed [wp]: "typed es \<Longrightarrow> post (conn_ok c es) typed_result"
  by (simp add: conn_ok_def post_def typed_result_def)

lemma report_conn_typed [wp]: "message_ok t \<Longrightarrow> post (report_conn c t) typed_result"
  unfolding report_conn_def by (intro wp) simp

lemma drain_typed: "typed (snd (drain_acceptors q))"
  using drain_all [of q] by (auto simp: typed_msgs list_all_iff closed_report_def)

lemma dump_typed [simp]: "typed (dump_sslkeylogfile X f secrets)"
  by (simp add: dump_sslkeylogfile_def Let_def split: option.split)

lemma valid_dgram_state [simp]: "valid_term (atom_dgram_send_state st)"
  by (cases st) simp_all

lemma connected_typed: "post (handle_connection_event_connected E c alpn n r) typed_result"
  unfolding handle_connection_event_connected_def
  by (intro wp) (auto simp: typed_result_def split: option.splits if_splits)

lemma shutdown_complete_typed: "post (handle_connection_event_shutdown_complete E c x y z) typed_result"
proof -
  have "typed es" if "drain_acceptors q = (q', es)" for q q' es
    using drain_typed [of q] that by simp
  then show ?thesis
    unfolding handle_connection_event_shutdown_complete_def
    by (intro wp) (auto split: option.split)
qed

lemma dgram_typed:
  "post (handle_connection_event_datagram_send_state_changed c dst cc) typed_result"
  "post (handle_connection_event_datagram_state_changed c mx en) typed_result"
  "post (handle_connection_event_datagram_received E c buf fl) typed_result"
  by (auto simp: conn_handler_defs handle_dgram_send_state_event_def handle_dgram_state_changed_event_def
      handle_dgram_recv_event_def post_def typed_result_def conn_ok_def split: if_splits)

lemma ticket_typed: "post (handle_connection_event_resumption_ticket_received E c ticket) typed_result"
  unfolding handle_connection_event_resumption_ticket_received_def
  by (intro wp) (auto split: option.split)

lemma certificate_typed: "post (handle_connection_event_peer_certificate_received X c cert chain) typed_result"
  unfolding handle_connection_event_peer_certificate_received_def
  by (intro wp) (auto simp: typed_result_def split: option.split)

lemma peer_stream_typed: "post (handle_connection_event_peer_stream_started E c h fl cb a b) typed_result"
  unfolding handle_connection_event_peer_stream_started_def
  by (intro wp) (auto simp: typed_result_def dest!: dequeue_owner)

lemma conn_switch_typed:
  "post (client_conn_switch E M X c e a b) typed_result"
  "post (server_conn_switch E M X c e a b) typed_result"
proof -
  have key_log: "post (case r of None \<Rightarrow> None
      | Some (st, c', s, es) \<Rightarrow> Some (st, c', s, es @
          (case (TlsSecrets c', ssl_keylogfile c') of
             (Some _, Some f) \<Rightarrow> dump_sslkeylogfile X f (tls_secrets_of X (c_res c'))
           | _ \<Rightarrow> []))) typed_result" if "post r typed_result" for r
    using that by (auto simp: post_def typed_result_def split: option.splits)
  note events = connected_typed shutdown_complete_typed dgram_typed ticket_typed certificate_typed
    peer_stream_typed
  show "post (client_conn_switch E M X c e a b) typed_result"
    by (cases e) (simp_all add: events key_log conn_ok_typed,
        (unfold conn_handler_defs, intro wp; simp)+)
  show "post (server_conn_switch E M X c e a b) typed_result"
    by (cases e) (simp_all add: events conn_ok_typed, (unfold conn_handler_defs, intro wp; simp)+)
qed

lemma conn_frame_typed:
  assumes "post r typed_result"
  shows "post (conn_callback_frame E hConn c e r) typed_result"
  using assms
  by (auto simp: conn_callback_frame_def Let_def post_def typed_result_def conn_ok_def ctx_destroy_defs
      split: option.splits if_splits)

lemma new_connection_typed:
  "post (listener_new_connection E M l h info addr) (\<lambda>(st, l', c, es). typed es)"
proof -
  have init: "typed es" if "init_c_ctx E a = (c, es)" for c es a
    using that by (auto simp: ctx_init_defs split: if_splits)
  have message: "message_ok (new_conn_message c info)" for c
    unfolding new_conn_message_def by (rule message_with_props) simp_all
  show ?thesis
    unfolding listener_new_connection_def reject_connection_def
    by (intro wp) (auto dest!: init dequeue_owner simp: message split: option.split)
qed
subsection \<open>The property\<close>

text \<open>
  C10: Every message a callback sends is well formed: four elements, \<open>quic\<close>, an atom or the
  data, a handle (\<open>undefined\<close> for a process whose wait is over), and properties without
  unassigned parts; for every event of streams, connections and listeners, on both sides, and
  whatever the status codes of the stack are. The one exception is the end of a listener:
  \<open>listener_stopped\<close> has three elements, and its documented fourth is missing.
\<close>

theorem messages_typed:
  assumes "eHandle s = ERes (s_res s)"
  shows "post (ServerStreamCallback E M h s e) (\<lambda>(st, s', es). typed es) \<and>
    post (ClientStreamCallback E M h s e) (\<lambda>(st, s', es). typed es) \<and>
    post (ServerConnectionCallback E M X h' c ce a b) (\<lambda>(st, c', s', es). typed es) \<and>
    post (ClientConnectionCallback E M X h' c ce a b) (\<lambda>(st, c', s', es). typed es) \<and>
    post (ServerListenerCallback E M l (NEW_CONNECTION h'' info) addr) (\<lambda>(st, l', c, es). typed es) \<and>
    post (ServerListenerCallback E M l STOP_COMPLETE addr) (\<lambda>(st, l', c, es).
      msgs es = [(listenerPid l, ETuple [ATOM_QUIC, ATOM_LISTENER_STOPPED, ERes (l_res l)])] \<and> \<not> typed es)"
proof (intro conjI)
  show "post (ServerStreamCallback E M h s e) (\<lambda>(st, s', es). typed es)"
    unfolding ServerStreamCallback_def by (intro stream_frame_typed stream_switch_typed [OF assms])
  show "post (ClientStreamCallback E M h s e) (\<lambda>(st, s', es). typed es)"
    unfolding ClientStreamCallback_def by (intro stream_frame_typed stream_switch_typed [OF assms])
  show "post (ServerConnectionCallback E M X h' c ce a b) (\<lambda>(st, c', s', es). typed es)"
    unfolding ServerConnectionCallback_def
    by (rule conn_frame_typed [OF conn_switch_typed(2), unfolded typed_result_def])
  show "post (ClientConnectionCallback E M X h' c ce a b) (\<lambda>(st, c', s', es). typed es)"
    unfolding ClientConnectionCallback_def
    by (rule conn_frame_typed [OF conn_switch_typed(1), unfolded typed_result_def])
  show "post (ServerListenerCallback E M l (NEW_CONNECTION h'' info) addr) (\<lambda>(st, l', c, es). typed es)"
    by (simp add: new_connection_typed)
  show "post (ServerListenerCallback E M l STOP_COMPLETE addr) (\<lambda>(st, l', c, es).
      msgs es = [(listenerPid l, ETuple [ATOM_QUIC, ATOM_LISTENER_STOPPED, ERes (l_res l)])] \<and> \<not> typed es)"
    by (auto simp: listener_stop_complete_def listener_stopped_message_def destroy_l_ctx_def destroy_config_ctx_def
        post_def Let_def split: if_splits option.splits)
qed

theorem messages_typed_witness:
  "\<exists>st s' es. ServerStreamCallback beam msquic0 (Some 5) (stream0 ACCEPTOR_RECV_MODE_ACTIVE 0) (PEER_SEND_ABORTED 9) =
     Some (st, s', es) \<and> length (msgs es) = 1 \<and> typed es"
proof -
  have s: "eHandle (stream0 ACCEPTOR_RECV_MODE_ACTIVE 0) = ERes (s_res (stream0 ACCEPTOR_RECV_MODE_ACTIVE 0))"
    by (simp add: stream0_def)
  obtain st s' es where run: "ServerStreamCallback beam msquic0 (Some 5) (stream0 ACCEPTOR_RECV_MODE_ACTIVE 0)
      (PEER_SEND_ABORTED 9) = Some (st, s', es)" and "length (msgs es) = 1"
    by (simp add: ServerStreamCallback_def stream_callback_frame_def stream_event_defs stream0_def Let_def)
  then show ?thesis
    using messages_typed [OF s, of beam msquic0 "Some 5" "PEER_SEND_ABORTED 9"] by (auto simp: post_def)
qed

end
