(* ===== verification/Quicer_Callbacks.thy ===== *)
theory Quicer_Callbacks
  imports Quicer_Nif
begin

section \<open>The contract of the callbacks with the stack\<close>

text \<open>
  What the stack may rely on when it calls back for a connection or a stream, as an interface:
  the mutexes are free afterwards, the context stays well formed and the same, and its
  reference is given up on the final event and only then. What follows for a whole run of
  events is proved once, and holds for both sides of connections and streams.
\<close>

subsection \<open>The interface\<close>

locale event_callback =
  fixes cb :: "'c \<Rightarrow> 'e \<Rightarrow> ('c \<times> eff list) option"
    and res :: "'c \<Rightarrow> rsrc"
    and final :: "'e \<Rightarrow> bool"
    and wf :: "'c \<Rightarrow> bool"
  assumes callback: "wf c \<Longrightarrow> cb c e = Some (c', es) \<Longrightarrow>
    balanced es \<and> wf c' \<and> res c' = res c \<and> releases es = (if final e then [res c] else [])"
begin

text \<open>The events of one context, one after the other.\<close>

fun run :: "'c \<Rightarrow> 'e list \<Rightarrow> ('c \<times> eff list) option" where
  "run c [] = Some (c, [])"
| "run c (e # evs) =
     (case cb c e of
        None \<Rightarrow> None
      | Some (c', es) \<Rightarrow> map_option (\<lambda>(c'', es'). (c'', es @ es')) (run c' evs))"

lemma run_Cons:
  "run c (e # evs) = Some (c'', es) \<longleftrightarrow>
     (\<exists>c' es1 es2. cb c e = Some (c', es1) \<and> run c' evs = Some (c'', es2) \<and> es = es1 @ es2)"
  by (auto split: option.splits)

lemma run_discipline:
  assumes "wf c" "run c evs = Some (c', es)"
  shows "balanced es \<and> wf c' \<and> res c' = res c \<and>
    releases es = replicate (length (filter final evs)) (res c)"
  using assms
proof (induction evs arbitrary: c es)
  case Nil
  then show ?case by (simp add: balanced_def)
next
  case (Cons e evs)
  then obtain c1 es1 es2 where one: "cb c e = Some (c1, es1)" and rest: "run c1 evs = Some (c', es2)"
    and es: "es = es1 @ es2"
    by (auto simp del: run.simps simp: run_Cons)
  show ?case
    using callback [OF Cons.prems(1) one] Cons.IH [OF _ rest] by (auto simp: es balanced_append)
qed

lemma run_append:
  "run c (evs @ evs') = Some (c'', es) \<longleftrightarrow>
     (\<exists>c' es1 es2. run c evs = Some (c', es1) \<and> run c' evs' = Some (c'', es2) \<and> es = es1 @ es2)"
proof (induction evs arbitrary: c es)
  case (Cons e evs)
  show ?case
    unfolding append_Cons run_Cons Cons.IH by fastforce
qed auto

text \<open>
  With the final event last the reference is given up once, in that event: the run up to it
  gives up nothing.
\<close>

lemma run_final:
  assumes "wf c" "run c (evs @ [e]) = Some (c', es)" "final e" "\<forall>e' \<in> set evs. \<not> final e'"
  shows "\<exists>c1 pre last. run c evs = Some (c1, pre) \<and> cb c1 e = Some (c', last) \<and> es = pre @ last \<and>
    balanced pre \<and> releases pre = [] \<and> balanced last \<and> releases last = [res c]"
proof -
  obtain c1 pre last where split: "run c evs = Some (c1, pre)" "run c1 [e] = Some (c', last)" "es = pre @ last"
    using assms(2) unfolding run_append by blast
  then have "cb c1 e = Some (c', last)"
    by (auto split: option.splits)
  with split run_discipline [OF assms(1)] run_discipline [of c1 "[e]"] assms(3,4) show ?thesis
    by (intro exI [of _ c1] exI [of _ pre] exI [of _ last]) (simp del: run.simps)
qed

end

subsection \<open>Its implementations\<close>

text \<open>
  The callbacks of streams and of connections, of the server or of the client. An event comes
  with the runtime, the stack and the libraries as they answer while it is handled, which may
  change from one event to the next.
\<close>

type_synonym stream_input = "enif \<times> msquic \<times> QUIC_STREAM_EVENT"
type_synonym conn_input = "enif \<times> msquic \<times> openssl \<times> QUIC_CONNECTION_EVENT \<times> nat \<times> nat"

definition stream_side ::
    "bool \<Rightarrow> hquic option \<Rightarrow> QuicerStreamCTX \<Rightarrow> stream_input \<Rightarrow> (QuicerStreamCTX \<times> eff list) option" where
  "stream_side server h s = (\<lambda>(E, M, e).
     map_option snd (if server then ServerStreamCallback E M h s e else ClientStreamCallback E M h s e))"

definition conn_side ::
    "bool \<Rightarrow> hquic \<Rightarrow> QuicerConnCTX \<Rightarrow> conn_input \<Rightarrow> (QuicerConnCTX \<times> eff list) option" where
  "conn_side server h c = (\<lambda>(E, M, X, e, a, b).
     map_option (\<lambda>(st, c', s, es). (c', es))
        (if server then ServerConnectionCallback E M X (Some h) c e a b
         else ClientConnectionCallback E M X (Some h) c e a b))"

fun stream_over :: "stream_input \<Rightarrow> bool" where
  "stream_over (E, M, e) = is_shutdown_event e"

fun conn_over :: "conn_input \<Rightarrow> bool" where
  "conn_over (E, M, X, e, a, b) = is_conn_shutdown e"

interpretation stream_cb: event_callback "stream_side server h" s_res stream_over "\<lambda>_. True"
  for server h
proof
  fix s ev s' es
  assume run: "stream_side server h s ev = Some (s', es)"
  obtain E M e where ev: "ev = (E, M, e)" by (cases ev) auto
  have "callback_contract s (is_shutdown_event e) s' es"
    using run by (auto simp: ev stream_side_def split: if_splits dest: server_callback_contract client_callback_contract)
  then show "balanced es \<and> True \<and> s_res s' = s_res s \<and>
      releases es = (if stream_over ev then [s_res s] else [])"
    by (simp add: ev callback_contract_def)
qed

lemma conn_frame_addr:
  assumes "conn_callback_frame E hConn c e r = Some (st, c', s, es)" "post r (conn_frame c)"
  shows "c_addr c' = c_addr c"
  using assms
  by (auto simp: conn_callback_frame_def conn_ok_def post_def conn_frame_def destroy_c_ctx_def Let_def
      split: option.splits if_splits prod.splits)

interpretation conn_cb: event_callback "conn_side server h" c_res conn_over conn_wf
  for server h
proof
  fix c ev c' es
  assume wf: "conn_wf c" and "conn_side server h c ev = Some (c', es)"
  then obtain E M X e a b st s where ev: "ev = (E, M, X, e, a, b)"
    and "(if server then ServerConnectionCallback E M X (Some h) c e a b
          else ClientConnectionCallback E M X (Some h) c e a b) = Some (st, c', s, es)"
    by (cases ev) (auto simp: conn_side_def)
  then obtain r where "conn_callback_frame E (Some h) c e r = Some (st, c', s, es)" "post r (conn_frame c)"
    using client_conn_frame [OF wf] server_conn_frame [OF wf]
    by (auto simp: ClientConnectionCallback_def ServerConnectionCallback_def split: if_splits)
  from conn_callback_contract [OF this] conn_frame_addr [OF this] wf
  show "balanced es \<and> conn_wf c' \<and> c_res c' = c_res c \<and>
      releases es = (if conn_over ev then [c_res c] else [])"
    by (simp add: ev)
qed

subsection \<open>Property\<close>

text \<open>
  C12: Whatever the stack indicates over the whole life of a connection and of a stream, on
  either side, in any order and with any answers to the calls in between, the callbacks leave
  every mutex free; and when the final event comes last, as the stack promises, the library
  gives up its reference exactly once, in the callback of that event: all the events before it,
  handled one after the other, give up nothing.
\<close>

theorem callback_lives:
  assumes "conn_wf c"
    and "conn_cb.run server h c (evs @ [(E, M, X, CONN_SHUTDOWN_COMPLETE x y z, a, b)]) = Some (c', es)"
    and "\<forall>(E, M, X, e, a, b) \<in> set evs. \<not> is_conn_shutdown e"
    and "stream_cb.run server' h' s (sevs @ [(E', M', STREAM_SHUTDOWN_COMPLETE i j k l code st)]) = Some (s', ses)"
    and "\<forall>(E, M, e) \<in> set sevs. \<not> is_shutdown_event e"
  shows "(\<exists>c1 pre last. conn_cb.run server h c evs = Some (c1, pre) \<and> balanced pre \<and> releases pre = [] \<and>
       conn_side server h c1 (E, M, X, CONN_SHUTDOWN_COMPLETE x y z, a, b) = Some (c', last) \<and>
       es = pre @ last \<and> balanced last \<and> releases last = [c_res c]) \<and>
    (\<exists>s1 pre last. stream_cb.run server' h' s sevs = Some (s1, pre) \<and> balanced pre \<and> releases pre = [] \<and>
       stream_side server' h' s1 (E', M', STREAM_SHUTDOWN_COMPLETE i j k l code st) = Some (s', last) \<and>
       ses = pre @ last \<and> balanced last \<and> releases last = [s_res s])"
proof -
  have early: "\<forall>ev \<in> set evs. \<not> conn_over ev" "\<forall>ev \<in> set sevs. \<not> stream_over ev"
    using assms(3,5) by auto
  show ?thesis
    using conn_cb.run_final [OF assms(1,2) _ early(1)] stream_cb.run_final [OF TrueI assms(4) _ early(2)]
    by (simp, blast)
qed

theorem callback_lives_witness:
  "\<exists>c1 pre c' last s1 spre s' slast.
     conn_cb.run False 4 conn0 [(beam, msquic0, openssl0, PEER_NEEDS_STREAMS, 41, 61)] = Some (c1, pre) \<and>
     conn_side False 4 c1 (beam, msquic0, openssl0, CONN_SHUTDOWN_COMPLETE True True False, 41, 61) = Some (c', last) \<and>
     releases pre = [] \<and> releases last = [RConn 3] \<and>
     stream_cb.run True (Some 5) (stream0 ACCEPTOR_RECV_MODE_ACTIVE 0) [(beam, msquic0, PEER_SEND_SHUTDOWN)] =
       Some (s1, spre) \<and>
     stream_side True (Some 5) s1
       (beam, msquic0, STREAM_SHUTDOWN_COMPLETE False False True False 0 QUIC_STATUS_SUCCESS) = Some (s', slast) \<and>
     releases spre = [] \<and> releases slast = [RStream 1]"
proof -
  let ?s = "stream0 ACCEPTOR_RECV_MODE_ACTIVE 0"
  let ?es = "[(beam, msquic0, openssl0, PEER_NEEDS_STREAMS, 41, 61)]"
  let ?ses = "[(beam, msquic0, PEER_SEND_SHUTDOWN)]"
  have c: "conn_wf conn0" "c_res conn0 = RConn 3" "s_res ?s = RStream 1"
    by (simp_all add: conn_wf_def conn0_def stream0_def)
  obtain c' es where conn: "conn_cb.run False 4 conn0
      (?es @ [(beam, msquic0, openssl0, CONN_SHUTDOWN_COMPLETE True True False, 41, 61)]) = Some (c', es)"
    by (simp add: conn_side_def ClientConnectionCallback_def conn_callback_frame_def conn0_def conn_ok_def
        handle_connection_event_peer_needs_streams_def handle_connection_event_shutdown_complete_def drain_Nil
        report_conn_def destroy_c_ctx_def Let_def)
  obtain s' ses where stream: "stream_cb.run True (Some 5) ?s
      (?ses @ [(beam, msquic0, STREAM_SHUTDOWN_COMPLETE False False True False 0 QUIC_STATUS_SUCCESS)]) = Some (s', ses)"
    by (simp add: stream_side_def ServerStreamCallback_def stream_callback_frame_def stream_event_defs stream0_def Let_def)
  have early: "\<forall>(E, M, X, e, a, b) \<in> set ?es. \<not> is_conn_shutdown e" "\<forall>(E, M, e) \<in> set ?ses. \<not> is_shutdown_event e"
    by simp_all
  from callback_lives [OF c(1) conn early(1) stream early(2)] show ?thesis
    unfolding c by blast
qed

end
