(* ===== verification/Quicer_Refs.thy ===== *)
theory Quicer_Refs
  imports Quicer_Callbacks "HOL-Library.Multiset"
begin

section \<open>A connection and its streams\<close>

text \<open>
  How the resources of one connection and of its streams are counted, over every order of NIFs,
  callbacks and ends of resources: the connection handle is closed last, and once, after the
  handles of all streams.
\<close>

subsection \<open>The steps\<close>

text \<open>
  The references to the connection that the library holds and those that Erlang terms hold, the
  streams whose resource has not ended, whether the final event of the connection was there,
  whether its resource has ended, the stream handles that were obtained, and all calls into the
  stack.
\<close>

record conn_sys =
  conn :: QuicerConnCTX
  lib_refs :: nat
  term_refs :: nat
  streams :: "QuicerStreamCTX list"
  conn_done :: bool
  conn_ended :: bool
  handles :: "hquic list"
  calls :: "qcall list"

definition conn_after :: "conn_sys \<Rightarrow> QuicerConnCTX \<Rightarrow> QuicerStreamCTX option \<Rightarrow> eff list \<Rightarrow> conn_sys" where
  "conn_after s c' new es =
     s\<lparr>conn := c',
       lib_refs := lib_refs s + count_list (keeps es) (c_res (conn s)) - count_list (releases es) (c_res (conn s)),
       streams := (case new of None \<Rightarrow> streams s | Some n \<Rightarrow> n # streams s),
       handles := (case new of None \<Rightarrow> handles s
                   | Some n \<Rightarrow> (case Stream n of None \<Rightarrow> handles s | Some h \<Rightarrow> h # handles s)),
       calls := calls s @ quic_calls es\<rparr>"

text \<open>
  A NIF needs a term that names the connection. The runtime ends a resource when no reference is
  left. The stack calls back until the final event of the connection. A stream may end at any
  time.
\<close>

inductive conn_step :: "conn_sys \<Rightarrow> conn_sys \<Rightarrow> bool" where
  StartStream: "0 < term_refs s \<Longrightarrow>
     async_start_stream2 E M (Some (conn s)) opts addr acc = Some (res, new, es) \<Longrightarrow>
     conn_step s (conn_after s (conn s) new es)"
| Csend: "0 < term_refs s \<Longrightarrow>
     csend4 E M argc (Some (conn s)) bin opts flags addr send_a acc = Some (res, new, given, es) \<Longrightarrow>
     conn_step s (conn_after s (conn s) new es)"
| Accept: "0 < term_refs s \<Longrightarrow>
     async_accept_stream2 E (Some (conn s)) opts acc = Some (res, Some c', es) \<Longrightarrow>
     conn_step s (conn_after s c' None es)"
| ServerEvent: "\<not> conn_done s \<Longrightarrow>
     ServerConnectionCallback E M X (Some h) (conn s) e a b = Some (st, c', new, es) \<Longrightarrow>
     conn_step s ((conn_after s c' new es)\<lparr>conn_done := is_conn_shutdown e\<rparr>)"
| ClientEvent: "\<not> conn_done s \<Longrightarrow>
     ClientConnectionCallback E M X (Some h) (conn s) e a b = Some (st, c', new, es) \<Longrightarrow>
     conn_step s ((conn_after s c' new es)\<lparr>conn_done := is_conn_shutdown e\<rparr>)"
| StreamEvent: "streams s = xs @ n # ys \<Longrightarrow> stream_side server h n (E, M, se) = Some (n', es) \<Longrightarrow>
     conn_step s (s\<lparr>streams := xs @ n' # ys, calls := calls s @ quic_calls es\<rparr>)"
| StreamEnd: "streams s = xs @ n # ys \<Longrightarrow> resource_stream_dealloc_callback E n = Some es \<Longrightarrow>
     conn_step s ((conn_after s (conn s) None es)\<lparr>streams := xs @ ys\<rparr>)"
| MakeTerm: "0 < lib_refs s + term_refs s \<Longrightarrow> conn_step s (s\<lparr>term_refs := Suc (term_refs s)\<rparr>)"
| DropTerm: "term_refs s = Suc k \<Longrightarrow> conn_step s (s\<lparr>term_refs := k\<rparr>)"
| ConnEnd: "\<not> conn_ended s \<Longrightarrow> lib_refs s = 0 \<Longrightarrow> term_refs s = 0 \<Longrightarrow>
     resource_conn_dealloc_callback E (conn s) = Some es \<Longrightarrow>
     conn_step s (s\<lparr>conn_ended := True, calls := calls s @ quic_calls es\<rparr>)"

text \<open>A connection that the stack has accepted or started: the library holds one reference.\<close>

definition conn_sys0 :: "QuicerConnCTX \<Rightarrow> nat \<Rightarrow> conn_sys" where
  "conn_sys0 c k = \<lparr>conn = c, lib_refs = 1, term_refs = k, streams = [], conn_done = False,
     conn_ended = False, handles = [], calls = []\<rparr>"

subsection \<open>What the operations do to the references\<close>

definition of_conn :: "QuicerConnCTX \<Rightarrow> QuicerStreamCTX \<Rightarrow> bool" where
  "of_conn c n \<longleftrightarrow> map_option c_addr (s_c_ctx n) = Some (c_addr c)"

text \<open>Effects that close no handle, of a connection or of a stream.\<close>

fun closes :: "qcall \<Rightarrow> bool" where
  "closes (ConnectionClose _) = True"
| "closes (StreamClose _) = True"
| "closes _ = False"

definition no_close :: "eff list \<Rightarrow> bool" where
  "no_close es \<longleftrightarrow> (\<forall>q \<in> set (quic_calls es). \<not> closes q)"

lemma no_close_simps [simp]:
  "no_close []" "no_close (xs @ ys) \<longleftrightarrow> no_close xs \<and> no_close ys"
  "no_close (Quic q # es) \<longleftrightarrow> \<not> closes q \<and> no_close es"
  "no_close (Lock m # es) \<longleftrightarrow> no_close es" "no_close (Unlock m # es) \<longleftrightarrow> no_close es"
  "no_close (Send p t # es) \<longleftrightarrow> no_close es" "no_close (Keep r # es) \<longleftrightarrow> no_close es"
  "no_close (Release r # es) \<longleftrightarrow> no_close es" "no_close (Monitor r p # es) \<longleftrightarrow> no_close es"
  "no_close (Demonitor r # es) \<longleftrightarrow> no_close es" "no_close (ClearEnv v # es) \<longleftrightarrow> no_close es"
  "no_close (FreeEnv v # es) \<longleftrightarrow> no_close es" "no_close (Free b # es) \<longleftrightarrow> no_close es"
  "no_close (MutexDestroy m # es) \<longleftrightarrow> no_close es" "no_close (UpRef b # es) \<longleftrightarrow> no_close es"
  "no_close (AppendFile f x # es) \<longleftrightarrow> no_close es"
  by (auto simp: no_close_def)

text \<open>A new stream comes with one reference to its connection, and names it.\<close>

definition new_stream :: "QuicerConnCTX \<Rightarrow> QuicerStreamCTX option \<Rightarrow> eff list \<Rightarrow> bool" where
  "new_stream c new es \<longleftrightarrow>
     keeps es = (case new of None \<Rightarrow> [] | Some n \<Rightarrow> [c_res c]) \<and>
     (case new of None \<Rightarrow> True | Some n \<Rightarrow> of_conn c n) \<and> no_close es"

definition stream_nif_ok :: "QuicerConnCTX \<Rightarrow> QuicerStreamCTX option \<Rightarrow> eff list \<Rightarrow> bool" where
  "stream_nif_ok c new es \<longleftrightarrow> new_stream c new es \<and> c_res c \<notin> set (releases es)"

lemma keeps_frees [simp]:
  "keeps (destroy_s_ctx s) = []" "keeps (destroy_send_ctx sc) = []" "keeps (AcceptorDestroy a) = []"
  "c_res c \<notin> set (releases (destroy_s_ctx s))" "releases (destroy_send_ctx sc) = []"
  "releases (AcceptorDestroy a) = []"
  "no_close (destroy_s_ctx s)" "no_close (destroy_send_ctx sc)" "no_close (AcceptorDestroy a)"
  by (simp_all add: ctx_destroy_defs AcceptorDestroy_def split: option.split)

lemma event_mask_conn [simp]: "s_c_ctx (set_event_mask E o' n) = s_c_ctx n"
  by (simp add: set_event_mask_def split: option.split)

lemmas stream_nif_defs = stream_nif_ok_def new_stream_def of_conn_def

lemma start_stream_refs:
  "post (async_start_stream2 E M (Some c) opts addr acc) (\<lambda>(res, new, es). stream_nif_ok c new es)"
  unfolding async_start_stream2_def option.case start_stream_open_def start_stream_exit_def
  by (intro wp) (auto simp: stream_nif_defs)

lemma csend_refs:
  "post (csend4 E M argc (Some c) bin opts flags addr send_a acc) (\<lambda>(res, new, given, es). stream_nif_ok c new es)"
  unfolding csend4_def option.case csend_open_def csend_exit_def
  by (intro wp) (auto simp: stream_nif_defs)

lemma accept_stream_refs:
  assumes "conn_wf c"
  shows "post (async_accept_stream2 E (Some c) opts acc) (\<lambda>(res, c', es). \<forall>c1. c' = Some c1 \<longrightarrow>
     conn_wf c1 \<and> c_addr c1 = c_addr c \<and> c_is_closed c1 = c_is_closed c \<and> Connection c1 = Connection c \<and>
     stream_nif_ok c None es)"
  using assms unfolding async_accept_stream2_def option.case
  by (intro wp) (auto simp: stream_nif_defs conn_wf_def AcceptorEnqueue_def)
subsection \<open>Connection events\<close>

definition new_result :: "QuicerConnCTX \<Rightarrow> quic_status \<times> QuicerConnCTX \<times> QuicerStreamCTX option \<times> eff list \<Rightarrow> bool" where
  "new_result c = (\<lambda>(st, c', new, es). new_stream c new es)"

lemma conn_ok_new [wp]: "keeps es = [] \<Longrightarrow> no_close es \<Longrightarrow> post (conn_ok c' es) (new_result c)"
  by (simp add: conn_ok_def post_def new_result_def new_stream_def)

lemma report_conn_new [wp]: "post (report_conn c' t) (new_result c)"
  unfolding report_conn_def by (intro wp) simp_all

lemma keeps_dump [simp]: "keeps (dump_sslkeylogfile X f secrets) = []" "no_close (dump_sslkeylogfile X f secrets)"
  by (simp_all add: dump_sslkeylogfile_def Let_def split: option.split)

lemma connected_new: "post (handle_connection_event_connected E c alpn n r) (new_result c)"
  unfolding handle_connection_event_connected_def
  by (intro wp) (auto simp: new_result_def new_stream_def)

lemma shutdown_complete_new: "post (handle_connection_event_shutdown_complete E c x y z) (new_result c)"
proof -
  have "keeps es = [] \<and> no_close es" if "drain_acceptors q = (q', es)" for q q' es
    using drain_all [of q] that by (simp add: no_close_def)
  then show ?thesis
    unfolding handle_connection_event_shutdown_complete_def
    by (intro wp) (auto split: option.split)
qed

lemma dgram_new:
  "post (handle_connection_event_datagram_send_state_changed c dst cc) (new_result c)"
  "post (handle_connection_event_datagram_state_changed c mx en) (new_result c)"
  "post (handle_connection_event_datagram_received E c buf fl) (new_result c)"
  by (auto simp: conn_handler_defs handle_dgram_send_state_event_def handle_dgram_state_changed_event_def
      handle_dgram_recv_event_def destroy_dgram_send_ctx_def post_def new_result_def new_stream_def conn_ok_def
      split: if_splits)

lemma ticket_new: "post (handle_connection_event_resumption_ticket_received E c ticket) (new_result c)"
  unfolding handle_connection_event_resumption_ticket_received_def
  by (intro wp) (auto split: option.split)

lemma certificate_new: "post (handle_connection_event_peer_certificate_received X c cert chain) (new_result c)"
  unfolding handle_connection_event_peer_certificate_received_def
  by (intro wp) (auto simp: new_result_def new_stream_def split: option.split)

lemma peer_stream_new: "post (handle_connection_event_peer_stream_started E c h fl cb a b) (new_result c)"
  unfolding handle_connection_event_peer_stream_started_def
  by (intro wp) (auto simp: new_result_def new_stream_def of_conn_def dest!: dequeue_owner)

lemma conn_switch_new:
  "post (client_conn_switch E M X c e a b) (new_result c)"
  "post (server_conn_switch E M X c e a b) (new_result c)"
proof -
  have key_log: "post (case r of None \<Rightarrow> None
      | Some (st, c', s, es) \<Rightarrow> Some (st, c', s, es @
          (case (TlsSecrets c', ssl_keylogfile c') of
             (Some _, Some f) \<Rightarrow> dump_sslkeylogfile X f (tls_secrets_of X (c_res c'))
           | _ \<Rightarrow> []))) (new_result c)" if "post r (new_result c)" for r
    using that by (auto simp: post_def new_result_def new_stream_def split: option.splits)
  note events = connected_new shutdown_complete_new dgram_new ticket_new certificate_new peer_stream_new
  show "post (client_conn_switch E M X c e a b) (new_result c)"
    by (cases e) (simp_all add: events key_log conn_ok_new, (unfold conn_handler_defs, intro wp; simp)+)
  show "post (server_conn_switch E M X c e a b) (new_result c)"
    by (cases e) (simp_all add: events conn_ok_new, (unfold conn_handler_defs, intro wp; simp)+)
qed

lemma keeps_destroy_c [simp]: "keeps (snd (destroy_c_ctx c)) = []" "no_close (snd (destroy_c_ctx c))"
  by (simp_all add: destroy_c_ctx_def split: option.split)

text \<open>All that an event does to the references, on either side.\<close>

definition conn_event_ok :: "QuicerConnCTX \<Rightarrow> QUIC_CONNECTION_EVENT \<Rightarrow>
    quic_status \<times> QuicerConnCTX \<times> QuicerStreamCTX option \<times> eff list \<Rightarrow> bool" where
  "conn_event_ok c e = (\<lambda>(st, c', new, es). new_stream c new es \<and> conn_wf c' \<and> c_addr c' = c_addr c \<and>
     Connection c' = Connection c \<and> releases es = (if is_conn_shutdown e then [c_res c] else []) \<and>
     (is_conn_shutdown e \<longrightarrow> c_is_closed c'))"

lemma conn_frame_event:
  assumes "conn_callback_frame E (Some h) c e r = Some (st, c', new, es)"
    and "post r (conn_frame c)" "post r (new_result c)" "conn_wf c"
  shows "conn_event_ok c e (st, c', new, es)"
proof -
  obtain c0 es0 where r: "r = Some (st, c0, new, es0)"
    and c': "c' = (if is_conn_shutdown e then c0\<lparr>c_is_closed := True, trusted := None\<rparr> else c0)"
    and es: "es = ([Lock (LockOf (c_res c))] @ es0 @ [ClearEnv (EnvOf (c_res c)), Unlock (LockOf (c_res c))]) @
       (if is_conn_shutdown e then snd (destroy_c_ctx c0) else [])"
    using assms(1)
    by (auto simp: conn_callback_frame_def Let_def destroy_c_ctx_def split: option.splits if_splits prod.splits)
  have "keeps es = keeps es0" "no_close es0 \<longrightarrow> no_close es" by (simp_all add: es)
  moreover have "new_stream c new es0" "Connection c0 = Connection c"
    using postD [OF assms(2) r] postD [OF assms(3) r] by (simp_all add: conn_frame_def new_result_def)
  ultimately have "new_stream c new es" "Connection c' = Connection c"
    by (simp_all add: new_stream_def c')
  then show ?thesis
    using conn_callback_contract [OF assms(1,2)] conn_frame_addr [OF assms(1,2)] assms(4)
    by (simp add: conn_event_ok_def)
qed

lemma conn_event_refs:
  assumes "conn_wf c"
  shows "ServerConnectionCallback E M X (Some h) c e a b = Some r \<Longrightarrow> conn_event_ok c e r"
    and "ClientConnectionCallback E M X (Some h) c e a b = Some r \<Longrightarrow> conn_event_ok c e r"
  using conn_frame_event [OF _ server_conn_frame [OF assms] conn_switch_new(2) assms]
    conn_frame_event [OF _ client_conn_frame [OF assms] conn_switch_new(1) assms]
  by (cases r; simp add: ServerConnectionCallback_def ClientConnectionCallback_def)+
subsection \<open>The invariant\<close>

text \<open>
  The library holds one reference for every stream that has not ended, and one until the final
  event. The stream handles that were obtained are those that were closed and those of the
  streams that have not ended, each as often. The handle of the connection is closed when the
  connection ends, in the last call, and at no other time.
\<close>

fun stream_closes :: "qcall list \<Rightarrow> hquic option list" where
  "stream_closes [] = []"
| "stream_closes (StreamClose h # qs) = h # stream_closes qs"
| "stream_closes (_ # qs) = stream_closes qs"

fun conn_closes :: "qcall list \<Rightarrow> hquic option list" where
  "conn_closes [] = []"
| "conn_closes (ConnectionClose h # qs) = h # conn_closes qs"
| "conn_closes (_ # qs) = conn_closes qs"

lemma closes_append [simp]:
  "stream_closes (xs @ ys) = stream_closes xs @ stream_closes ys"
  "conn_closes (xs @ ys) = conn_closes xs @ conn_closes ys"
  by (induction xs rule: stream_closes.induct) auto

lemma closes_inert:
  "\<forall>q \<in> set qs. \<not> closes q \<Longrightarrow> stream_closes qs = [] \<and> conn_closes qs = []"
  by (induction qs rule: stream_closes.induct) auto

lemma no_close_inert: "no_close es \<Longrightarrow> stream_closes (quic_calls es) = [] \<and> conn_closes (quic_calls es) = []"
  by (simp add: no_close_def closes_inert)

text \<open>The handles of a list of streams that have one.\<close>

definition stream_handles :: "QuicerStreamCTX list \<Rightarrow> hquic option list" where
  "stream_handles ss = filter (\<lambda>h. h \<noteq> None) (map Stream ss)"

lemma stream_handles_simps [simp]:
  "stream_handles [] = []" "stream_handles (xs @ ys) = stream_handles xs @ stream_handles ys"
  "stream_handles (n # ns) = (if Stream n = None then stream_handles ns else Stream n # stream_handles ns)"
  by (simp_all add: stream_handles_def)

definition conn_inv :: "conn_sys \<Rightarrow> bool" where
  "conn_inv s \<longleftrightarrow>
     conn_wf (conn s) \<and> (\<forall>n \<in> set (streams s). of_conn (conn s) n) \<and>
     lib_refs s = length (streams s) + (if conn_done s then 0 else 1) \<and>
     (conn_done s \<longrightarrow> c_is_closed (conn s)) \<and>
     mset (map Some (handles s)) = mset (stream_closes (calls s)) + mset (stream_handles (streams s)) \<and>
     (if conn_ended s
      then lib_refs s = 0 \<and> term_refs s = 0 \<and>
        (case Connection (conn s) of None \<Rightarrow> conn_closes (calls s) = []
         | Some h \<Rightarrow> \<exists>pre. calls s = pre @ [ConnectionClose (Some h)] \<and> conn_closes pre = [])
      else conn_closes (calls s) = [])"

lemma sys0_inv: "conn_wf c \<Longrightarrow> conn_inv (conn_sys0 c k)"
  by (simp add: conn_inv_def conn_sys0_def)

lemma of_conn_cong: "c_addr c' = c_addr c \<Longrightarrow> of_conn c' n = of_conn c n"
  by (simp add: of_conn_def)

lemma nif_inv:
  assumes "conn_inv s" "0 < term_refs s" "stream_nif_ok (conn s) new es"
    and "conn_wf c'" "c_addr c' = c_addr (conn s)" "c_is_closed c' = c_is_closed (conn s)"
  shows "conn_inv (conn_after s c' new es)"
proof -
  have refs: "count_list (releases es) (c_res (conn s)) = 0"
    "count_list (keeps es) (c_res (conn s)) = (case new of None \<Rightarrow> 0 | Some n \<Rightarrow> 1)"
    "\<And>n. new = Some n \<Longrightarrow> of_conn (conn s) n"
    "stream_closes (quic_calls es) = []" "conn_closes (quic_calls es) = []"
    using assms(3) by (auto simp: stream_nif_ok_def new_stream_def count_list_0_iff no_close_inert split: option.splits)
  have open_: "\<not> conn_ended s" using assms(1,2) by (auto simp: conn_inv_def)
  show ?thesis
    using assms(1,4-6) refs open_
    by (cases new) (auto simp: conn_inv_def conn_after_def of_conn_cong [OF assms(5)] split: option.splits)
qed

lemma event_inv:
  assumes "conn_inv s" "\<not> conn_done s" "conn_event_ok (conn s) e (st, c', new, es)"
  shows "conn_inv ((conn_after s c' new es)\<lparr>conn_done := is_conn_shutdown e\<rparr>)"
proof -
  have refs: "count_list (releases es) (c_res (conn s)) = (if is_conn_shutdown e then 1 else 0)"
    "count_list (keeps es) (c_res (conn s)) = (case new of None \<Rightarrow> 0 | Some n \<Rightarrow> 1)"
    "\<And>n. new = Some n \<Longrightarrow> of_conn (conn s) n" "conn_wf c'" "c_addr c' = c_addr (conn s)"
    "is_conn_shutdown e \<longrightarrow> c_is_closed c'"
    "stream_closes (quic_calls es) = []" "conn_closes (quic_calls es) = []"
    using assms(3) by (auto simp: conn_event_ok_def new_stream_def no_close_inert split: option.splits)
  have open_: "\<not> conn_ended s" using assms(1,2) by (auto simp: conn_inv_def)
  show ?thesis
    using assms(1,2) refs open_
    by (cases new) (auto simp: conn_inv_def conn_after_def of_conn_cong [OF refs(5)] split: option.splits)
qed

lemma recv_no_close: "post (take_back (handle_stream_event_recv E M h s ev)) (\<lambda>(st, s', es). no_close es)"
  unfolding handle_stream_event_recv_def by (intro post_take_back wp) simp_all

lemma report_no_close: "post (report_owner s t) (\<lambda>(st, s', es). no_close es)"
  unfolding report_owner_def by (intro wp) simp

lemma stream_switch_no_close:
  "post (fst (server_stream_switch E M h s e)) (\<lambda>(st, s', es). no_close es)"
  "post (fst (client_stream_switch E M h s e)) (\<lambda>(st, s', es). no_close es)"
  by (cases e; simp add: recv_no_close; (unfold stream_event_defs Let_def)?; (intro wp)?; simp)+

lemma stream_frame_no_close:
  assumes "post (fst r) (\<lambda>(st, s', es). no_close es)" "stream_callback_frame s r = Some (st, s', es)"
  shows "no_close es"
  using assms by (auto simp: post_def frame_Some)

lemma stream_side_keeps:
  assumes "stream_side server h n (E, M, e) = Some (n', es)"
  shows "s_c_ctx n' = s_c_ctx n \<and> Stream n' = Stream n \<and> no_close es"
proof -
  have "no_close es"
    using assms stream_frame_no_close [OF stream_switch_no_close(1)] stream_frame_no_close [OF stream_switch_no_close(2)]
    by (auto simp: stream_side_def ServerStreamCallback_def ClientStreamCallback_def split: if_splits)
  with assms show ?thesis
    by (auto simp: stream_side_def ServerStreamCallback_def ClientStreamCallback_def frame_Some handler_frame_def
        dest!: server_switch_frame client_switch_frame split: if_splits)
qed

lemma stream_event_inv:
  assumes "conn_inv s" "streams s = xs @ n # ys" "stream_side server h n (E, M, e) = Some (n', es)"
  shows "conn_inv (s\<lparr>streams := xs @ n' # ys, calls := calls s @ quic_calls es\<rparr>)"
proof -
  have same: "s_c_ctx n' = s_c_ctx n" "Stream n' = Stream n"
    "stream_closes (quic_calls es) = []" "conn_closes (quic_calls es) = []"
    using stream_side_keeps [OF assms(3)] by (simp_all add: no_close_inert)
  have open_: "\<not> conn_ended s" using assms(1,2) by (auto simp: conn_inv_def)
  show ?thesis
    using assms(1,2) same open_ by (auto simp: conn_inv_def of_conn_def)
qed

lemma stream_end_inv:
  assumes "conn_inv s" "streams s = xs @ n # ys" "resource_stream_dealloc_callback E n = Some es"
  shows "conn_inv ((conn_after s (conn s) None es)\<lparr>streams := xs @ ys\<rparr>)"
proof -
  have "of_conn (conn s) n" using assms(1,2) by (simp add: conn_inv_def)
  then have es: "keeps es = []" "releases es = [c_res (conn s)]"
    "quic_calls es = (case Stream n of None \<Rightarrow> [] | Some h \<Rightarrow> [StreamClose (Some h)])"
    using assms(3)
    by (auto simp: resource_stream_dealloc_callback_def of_conn_def deinit_s_ctx_def AcceptorDestroy_def
        split: option.splits)
  have open_: "\<not> conn_ended s" using assms(1,2) by (auto simp: conn_inv_def)
  show ?thesis
    using assms(1,2) es open_
    by (auto simp: conn_inv_def conn_after_def split: option.splits)
qed

lemma conn_end_calls:
  assumes "resource_conn_dealloc_callback E c = Some es"
  shows "quic_calls es = (case Connection c of None \<Rightarrow> [] | Some h \<Rightarrow> [ConnectionClose (Some h)])"
proof -
  have "quic_calls (free_all as) = []" for as by (induction as) auto
  with assms show ?thesis
    by (auto simp: resource_conn_dealloc_callback_def deinit_c_ctx_def AcceptorQueueDestroy_def AcceptorDestroy_def
        split: option.splits)
qed

lemma conn_end_inv:
  assumes "conn_inv s" "\<not> conn_ended s" "lib_refs s = 0" "term_refs s = 0"
    "resource_conn_dealloc_callback E (conn s) = Some es"
  shows "conn_inv (s\<lparr>conn_ended := True, calls := calls s @ quic_calls es\<rparr>)"
  using assms conn_end_calls [OF assms(5)] by (auto simp: conn_inv_def split: option.splits)
lemma conn_step_inv: "conn_step s s' \<Longrightarrow> conn_inv s \<Longrightarrow> conn_inv s'"
proof (induction rule: conn_step.induct)
  case (StartStream s E M opts addr acc res new es)
  then show ?case
    using postD [OF start_stream_refs StartStream(2)]
    by (intro nif_inv) (auto simp: conn_inv_def)
next
  case (Csend s E M argc bin opts flags addr send_a acc res new given es)
  then show ?case
    using postD [OF csend_refs Csend(2)]
    by (intro nif_inv) (auto simp: conn_inv_def)
next
  case (Accept s E opts acc res c' es)
  have wf: "conn_wf (conn s)" using Accept.prems by (simp add: conn_inv_def)
  show ?case
    using postD [OF accept_stream_refs [OF wf] Accept(2)] Accept
    by (intro nif_inv) auto
next
  case (ServerEvent s E M X h e a b st c' new es)
  have wf: "conn_wf (conn s)" using ServerEvent.prems by (simp add: conn_inv_def)
  show ?case
    using conn_event_refs(1) [OF wf ServerEvent(2)] ServerEvent by (intro event_inv)
next
  case (ClientEvent s E M X h e a b st c' new es)
  have wf: "conn_wf (conn s)" using ClientEvent.prems by (simp add: conn_inv_def)
  show ?case
    using conn_event_refs(2) [OF wf ClientEvent(2)] ClientEvent by (intro event_inv)
next
  case (StreamEvent s xs n ys server E M h se n' es)
  then show ?case by (intro stream_event_inv)
next
  case (StreamEnd s xs n ys E es)
  then show ?case by (intro stream_end_inv)
next
  case (MakeTerm s)
  then show ?case by (auto simp: conn_inv_def)
next
  case (DropTerm s k)
  then show ?case by (auto simp: conn_inv_def)
next
  case (ConnEnd s E es)
  then show ?case by (intro conn_end_inv)
qed

lemma conn_steps_inv: "conn_step\<^sup>*\<^sup>* s s' \<Longrightarrow> conn_inv s \<Longrightarrow> conn_inv s'"
  by (induction rule: rtranclp_induct) (auto dest: conn_step_inv)

inductive_cases conn_stepE: "conn_step s s'"

lemma ended_is_final:
  assumes "conn_inv s" "conn_ended s"
  shows "\<not> conn_step s s'"
proof
  assume "conn_step s s'"
  then show False
    by (rule conn_stepE) (use assms in \<open>auto simp: conn_inv_def\<close>)
qed

lemma conn_dealloc_defined:
  "conn_wf c \<Longrightarrow> c_is_closed c \<Longrightarrow> resource_conn_dealloc_callback E c \<noteq> None"
  by (auto simp: resource_conn_dealloc_callback_def deinit_c_ctx_def conn_wf_def)

subsection \<open>Property\<close>

text \<open>
  C9: A connection handle is closed last, and once. Whatever processes and the stack do with a
  connection and its streams, in any order, nothing closes its handle before its resource
  ends. The resource ends only after the final event of the connection and after all its
  streams have ended; by then every stream handle that was obtained has been closed, as often
  as it was obtained and no other; closing the connection is the last call into the stack and
  the only one that closes it, and nothing happens to any of them any more. When no reference
  is left the destructor does run, without tripping over its own assertion.
\<close>

theorem connection_closed_last:
  assumes "conn_wf c" "conn_step\<^sup>*\<^sup>* (conn_sys0 c k) s"
  shows "(lib_refs s = 0 \<and> term_refs s = 0 \<longrightarrow> resource_conn_dealloc_callback E (conn s) \<noteq> None) \<and>
    (\<not> conn_ended s \<longrightarrow> conn_closes (calls s) = []) \<and>
    (conn_ended s \<longrightarrow> conn_done s \<and> streams s = [] \<and> (\<forall>s'. \<not> conn_step s s') \<and>
       (\<exists>pre. calls s = pre @ (case Connection (conn s) of None \<Rightarrow> [] | Some h \<Rightarrow> [ConnectionClose (Some h)]) \<and>
          conn_closes pre = [] \<and> mset (stream_closes pre) = mset (map Some (handles s))))"
proof -
  have inv: "conn_inv s" by (rule conn_steps_inv [OF assms(2) sys0_inv [OF assms(1)]])
  have "resource_conn_dealloc_callback E (conn s) \<noteq> None" if "lib_refs s = 0"
    using inv that by (intro conn_dealloc_defined) (auto simp: conn_inv_def split: if_splits)
  moreover have "conn_closes (calls s) = []" if "\<not> conn_ended s"
    using inv that by (simp add: conn_inv_def)
  moreover have "conn_done s" "streams s = []" if "conn_ended s"
    using inv that by (auto simp: conn_inv_def split: if_splits)
  moreover have "\<exists>pre. calls s = pre @ (case Connection (conn s) of None \<Rightarrow> [] | Some h \<Rightarrow> [ConnectionClose (Some h)]) \<and>
      conn_closes pre = [] \<and> mset (stream_closes pre) = mset (map Some (handles s))"
    if "conn_ended s"
    using inv that by (cases "Connection (conn s)") (auto simp: conn_inv_def split: if_splits)
  ultimately show ?thesis
    using ended_is_final [OF inv] by blast
qed

theorem connection_closed_last_witness:
  "\<exists>s pre. conn_step\<^sup>*\<^sup>* (conn_sys0 conn0 1) s \<and> conn_ended s \<and>
     calls s = pre @ [ConnectionClose (Some 4)] \<and> conn_closes pre = [] \<and> stream_closes pre = [Some 42]"
proof -
  let ?opts = "EMap [(ATOM_QUIC_STREAM_OPTS_ACTIVE, ATOM_FALSE)]"
  let ?over = "CONN_SHUTDOWN_COMPLETE True True False"
  have wf: "conn_wf conn0" by (simp add: conn_wf_def conn0_def)
  have rt: "alloc_ok beam n" "enif_self beam = Some 7"
    "enif_get_map_value beam ?opts ATOM_QUIC_STREAM_OPTS_ACTIVE = Some ATOM_FALSE"
    "enif_get_map_value beam ?opts ATOM_QUIC_STREAM_OPTS_OPEN_FLAG = None"
    "enif_get_map_value beam ?opts ATOM_QUIC_STREAM_OPTS_START_FLAG = None"
    "enif_get_map_value beam ?opts ATOM_QUIC_EVENT_MASK = None" for n
    by (simp_all add: beam_def)
  have stack: "\<not> quic_failed msquic0 (quic_status_of msquic0 q)" "quic_handle_of msquic0 q = 42" for q
    by (simp_all add: msquic0_def)
  obtain n es where start: "async_start_stream2 beam msquic0 (Some conn0) ?opts 90 91 =
      Some (SUCCESS (ERes (RStream 90)), Some n, es)"
    and n: "s_c_ctx n = Some conn0" "Stream n = Some 42" "s_is_closed n" "keeps es = [c_res conn0]" "releases es = []"
    by (simp add: async_start_stream2_def start_stream_open_def rt stack opt_uint_def init_s_ctx_def
        AcceptorAlloc_def set_event_mask_def get_uint32_from_map_def set_owner_recv_mode_def Let_def)
  obtain des where des: "resource_stream_dealloc_callback beam n = Some des"
    using n by (simp add: resource_stream_dealloc_callback_def)
  obtain c' ces where over: "ClientConnectionCallback beam msquic0 openssl0 (Some 4) conn0 ?over 41 61 =
      Some (QUIC_STATUS_SUCCESS, c', None, ces)"
    by (simp add: ClientConnectionCallback_def conn_callback_frame_def conn0_def conn_ok_def
        handle_connection_event_shutdown_complete_def drain_Nil destroy_c_ctx_def Let_def)
  note event = conn_event_refs(2) [OF wf over]
  have c': "c_res c' = c_res conn0" "c_is_closed c'" "conn_wf c'" "Connection c' = Some 4"
    and ces: "keeps ces = []" "releases ces = [c_res conn0]"
    using event by (simp_all add: conn_event_ok_def new_stream_def conn0_def)
  obtain fes where fes: "resource_conn_dealloc_callback beam c' = Some fes"
    using conn_dealloc_defined [OF c'(3,2)] by blast
  define s0 where "s0 = conn_sys0 conn0 1"
  define s1 where "s1 = conn_after s0 conn0 (Some n) es"
  define s2 where "s2 = (conn_after s1 conn0 None des)\<lparr>streams := []\<rparr>"
  define s3 where "s3 = (conn_after s2 c' None ces)\<lparr>conn_done := True\<rparr>"
  define s4 where "s4 = s3\<lparr>term_refs := 0\<rparr>"
  define s5 where "s5 = s4\<lparr>conn_ended := True, calls := calls s4 @ quic_calls fes\<rparr>"
  have st: "conn s0 = conn0" "term_refs s0 = 1" "conn s1 = conn0" "streams s1 = [n]" "conn s2 = conn0"
    "\<not> conn_done s2" "term_refs s3 = Suc 0" "conn s4 = c'" "term_refs s4 = 0" "\<not> conn_ended s4" "handles s5 = [42]"
    "conn s5 = c'" "conn_ended s5"
    by (simp_all add: s5_def s4_def s3_def s2_def s1_def s0_def conn_after_def conn_sys0_def n)
  have des_refs: "releases des = [c_res conn0]" "keeps des = []"
    using des n by (auto simp: resource_stream_dealloc_callback_def deinit_s_ctx_def)
  have zero: "lib_refs s4 = 0"
    by (simp add: s4_def s3_def s2_def s1_def s0_def conn_after_def conn_sys0_def n ces des_refs)
  have "conn_step s0 s1" using conn_step.StartStream [of s0] start st by (simp add: s1_def)
  moreover have "conn_step s1 s2"
    using conn_step.StreamEnd [of s1 "[]" n "[]" beam des] st des by (simp add: s2_def)
  moreover have "conn_step s2 s3"
    using conn_step.ClientEvent [of s2] st over by (fastforce simp: s3_def)
  moreover have "conn_step s3 s4" using conn_step.DropTerm [of s3 0] st by (simp add: s4_def)
  moreover have "conn_step s4 s5" using conn_step.ConnEnd [of s4] st zero fes by (simp add: s5_def)
  ultimately have "conn_step\<^sup>*\<^sup>* s0 s5" by (meson converse_rtranclp_into_rtranclp rtranclp.rtrancl_refl)
  then show ?thesis
    using connection_closed_last [OF wf, of 1 s5] st c'(4) unfolding s0_def by (fastforce simp: mset_single_iff_right)
qed

end
