(* ===== verification/Spec2Isabelle.thy ===== *)
theory Spec2Isabelle
  imports Quicer_Messages Quicer_Refs
begin

text \<open>
  A verification library for the NIF library of quicer, the Erlang binding of MsQuic
  (\<open>src/c_src\<close>).

  \<^bold>\<open>The program.\<close> The library keeps five kinds of contexts (registration, configuration,
  listener, connection, stream) as resources of the Erlang runtime. Erlang processes call its
  functions (the NIFs of \<open>nif_funcs\<close> in \<open>quicer_nif.c\<close>), which read terms, change a context
  under its mutex and call the QUIC stack; the stack calls back on its worker threads, and the
  callbacks turn its events into messages to Erlang processes. A process that waits for a
  connection or a stream stands in an acceptor queue (\<open>quicer_queue.c\<close>) of the listener or the
  connection. Contexts are counted: a stream keeps its connection, a connection its
  configuration, and the end of a resource (\<open>resource_*_dealloc_callback\<close>) closes its handle.

  \<^bold>\<open>The model.\<close> A C function is a HOL function from its arguments and the context it works on to
  its return value, the updated context, and the list of its effects in the order the C code has
  them: locking and unlocking, messages sent, calls into the stack, references taken and given
  up, blocks and environments freed, monitors. \<open>None\<close> is a run that stops in undefined behaviour:
  a NULL pointer read through, an assertion that fails in a debug build, an index past the end of
  an array, a read of memory whose lifetime has ended. The last happens in two places, the buffer
  of \<open>load_alpn\<close> and the receive buffers of a stream after the stack took them back; there
  \<open>stale_reads\<close> of the runtime says whether the old contents can still be read, so that theorems
  cover both what C promises (nothing) and what the program relies on. Whether the stack still
  lends the receive buffers is a field \<open>rcv_lent\<close> of the stream record, the only one that is no
  field of the C struct. Errors are the terms the code returns. Machine integers are words of their width. The
  Erlang runtime, the stack, OpenSSL and the platform are records of functions
  (\<open>enif\<close>, \<open>msquic\<close>, \<open>openssl\<close>) that every operation takes as arguments, so each theorem holds
  whatever they answer; \<open>Quicer_Runtime\<close> has one instance of each to evaluate with. Within one
  operation the answer of the stack is a function of the call. From one operation to the next it
  may change: the steps of \<open>Quicer_Lifecycle\<close> and \<open>Quicer_Refs\<close>, the callbacks in the runs of
  \<open>Quicer_Callbacks\<close> and the NIFs in \<open>lib_run\<close> each have a runtime and a stack of their own.

  \<^bold>\<open>Theories and sources.\<close>
  \<^item> \<open>Quicer_Prelude\<close>: terms, calls, effects, lock discipline (\<open>balanced\<close>), undefined behaviour,
    and the rules \<open>wp\<close> (postconditions) and \<open>dwp\<close> (definedness) that take a body apart.
  \<^item> \<open>Quicer_Atoms\<close>, \<open>Quicer_Terms\<close>: the atoms of \<open>INIT_ATOMS\<close>, the macros of \<open>quicer_eterms.h\<close>,
    \<open>make_event\<close>, \<open>atom_status\<close>.
  \<^item> \<open>Quicer_Settings\<close>: \<open>create_settings\<close> and the readers of option maps (\<open>quicer_config.c\<close>).
  \<^item> \<open>Quicer_Queue\<close>: acceptors, receive modes, the queue (\<open>quicer_queue.c\<close>), behind the locale
    \<open>acceptor_fifo\<close>.
  \<^item> \<open>Quicer_Ctx\<close>: the contexts, their init, deinit and destroy functions (\<open>quicer_ctx.c\<close>).
  \<^item> \<open>Quicer_Stream\<close>, \<open>Quicer_Dgram\<close>, \<open>Quicer_Conn\<close>: callbacks, event handlers and NIFs of streams,
    datagrams and connections (\<open>quicer_stream.c\<close>, \<open>quicer_dgram.c\<close>, \<open>quicer_connection.c\<close>).
  \<^item> \<open>Quicer_Tls\<close>: parsers of options and credentials, loading of configurations (\<open>quicer_tls.c\<close>,
    \<open>quicer_config.c\<close>). \<open>Quicer_Opts\<close>: getopt and setopt (\<open>quicer_config.c\<close>).
  \<^item> \<open>Quicer_Connect\<close>: opening of client connections (\<open>quicer_connection.c\<close>).
  \<^item> \<open>Quicer_Listener\<close>: the listener callback and NIFs (\<open>quicer_listener.c\<close>).
  \<^item> \<open>Quicer_Reg\<close>: registrations (\<open>quicer_reg.c\<close>).
  \<^item> \<open>Quicer_Nif\<close>: opening and closing of the library, ends of resources, deaths of owners,
    hand-over of handles, the tables (\<open>quicer_nif.c\<close>).
  \<^item> \<open>Quicer_Callbacks\<close>: the contract of connection and stream callbacks as the locale
    \<open>event_callback\<close>, interpreted on both sides of both.
  \<^item> \<open>Quicer_Refs\<close>: the references of a connection and its streams as an inductive step relation.
  \<^item> \<open>Quicer_Lifecycle\<close>: the life of a listener as an inductive step relation.
  \<^item> \<open>Quicer_Messages\<close>: the shape of all messages.

  A large C function is split where its control flow has a waist (\<open>listen2\<close>, \<open>listen_config\<close>,
  \<open>listen_open\<close>, \<open>listen_exit\<close>; \<open>async_connect3\<close> likewise); a label is a definition of its own.

  \<^bold>\<open>What is shown.\<close> Delivery: acceptors are served in order, an \<open>{active, N}\<close> owner gets exactly
  \<open>N\<close> data messages and then \<open>passive\<close>, passive data is returned by \<open>recv\<close> byte for byte, waiting
  processes are told of the end, every message has its documented shape. Ownership: send contexts,
  acceptors and references are given up exactly once, on every path of \<open>send\<close>, \<open>csend\<close>, \<open>listen\<close>,
  \<open>async_connect\<close> and over the lives of listeners, connections and streams, and connections that
  a failed attempt opened are closed, unless it was their start that failed; a stream holds its
  connection until its handle is closed, so that the connection handle is closed last and once; a
  hand-over moves owner and monitor together. Discipline:
  callbacks and NIFs leave the mutexes as they were. Order: the calls that open and close the
  library refine the contract of the stack. Options: round trips of settings, modes, ports and
  names. Errors: properties of kind \<open>error\<close> state where the code does something other than it
  means to; they are listed as findings.

  \<^bold>\<open>Bounds.\<close> No fuel: all recursion is structural but for \<open>drain_acceptors\<close> (measure: the length
  of the queue). \<open>MAX_ALPN\<close> (16), \<open>PATH_MAX\<close> (4096) and the buffer lengths are those of the code;
  \<open>INT16_MAX\<close> bounds the credit of an owner.

  \<^bold>\<open>Not modelled.\<close> Threads: each NIF or callback is one atomic step, which the mutexes justify
  where the lock discipline holds; races on fields that are written without the mutex are not
  covered, nor is the memory model. A pointer to another context is a copy of its record; fields
  that change after the context is shared are only read through the context itself. Trace points
  (\<open>quicer_tp.c\<close>), header files of includes, the commented-out functions of \<open>quicer_config.c\<close>, and the
  Erlang modules are left out. The stack itself is a parameter; what it promises is a hypothesis
  where it is used, or a condition of the steps: that the final event of a connection or a stream
  is the last, and that \<open>STOP_COMPLETE\<close> comes before the call returns that stops or closes a
  listener, as comments in \<open>quicer_listener.c\<close> and \<open>quicer_nif.c\<close> say.
\<close>

end
